(* ===== verification/Prelude.thy ===== *)
theory Prelude
  imports Main "HOL-Library.Word" "HOL-Library.State_Monad" "HOL-Library.Sublist"
begin

text \<open>
  Prelude of the development: the names of the machine types the code uses, the collections
  of rewrite rules, and the generic lemmas on words, byte strings, subsequences and the state monad
  that the component theories share.

  The code is compiled for 64-bit POSIX systems (LP64): \<open>int\<close> and \<open>unsigned\<close> are 32 bits,
  \<open>long\<close>, \<open>size_t\<close>, \<open>ssize_t\<close>, \<open>off_t\<close>, \<open>time_t\<close> and pointers are 64 bits.  A signed type
  and the unsigned type of its width share a word type; \<open>sint\<close> reads it as signed.
\<close>

unbundle bit_operations_syntax

type_synonym c_int = "32 word"
type_synonym c_uint = "32 word"
type_synonym c_long = "64 word"
type_synonym size_t = "64 word"
type_synonym ssize_t = "64 word"
type_synonym off_t = "64 word"
type_synonym socklen_t = "32 word"
type_synonym byte = "8 word"

text \<open>Addresses; \<open>nullptr\<close> is the address 0.\<close>

type_synonym addr = "64 word"

abbreviation (input) nullptr :: addr where
  "nullptr \<equiv> 0"

named_theorems run_simps \<open>effect of an operation as one equation on \<open>run_state\<close>\<close>
named_theorems model_defs \<open>definitions that are unfolded when an operation is evaluated\<close>

declare case_prod_beta [run_simps] Let_def [run_simps]

section \<open>Words\<close>

lemma unat_ucast_32_64 [simp]: "unat (ucast (x :: 32 word) :: 64 word) = unat x"
  by (simp add: unsigned_ucast_eq take_bit_nat_eq_self order_less_le_trans [OF unsigned_less])

lemma ucast_scast_32_64 [simp]: "ucast (scast (x :: 32 word) :: 64 word) = x"
  by (rule bit_word_eqI) (auto simp: bit_simps)

lemma unat_lt_64: "unat (x :: 64 word) < 2 ^ 64"
  by (rule order_less_le_trans [OF unsigned_less]) simp

lemma word_sub_less_iff:
  fixes l :: "'w::len word"
  assumes "off < l"
  shows "l - off < cnt \<longleftrightarrow> unat l < unat off + unat cnt"
proof -
  have "unat (l - off) = unat l - unat off"
    using assms by (simp add: unat_sub order_less_imp_le)
  with assms show ?thesis
    by (auto simp: word_less_nat_alt)
qed

lemma and_neq_0_iff_bit:
  fixes a b :: "'w::len word"
  shows "a AND b \<noteq> 0 \<longleftrightarrow> (\<exists>n. bit a n \<and> bit b n)"
proof -
  have "a AND b = 0 \<longleftrightarrow> (\<forall>n. \<not> (bit a n \<and> bit b n))"
    by (simp add: bit_eq_iff bit_and_iff) (meson bit_imp_le_length not_le)
  then show ?thesis by blast
qed

section \<open>Folding OR over a list\<close>

definition or_all :: "'w::len word list \<Rightarrow> 'w word" where
  "or_all ws = foldr (OR) ws 0"

lemma or_all_simps [simp]:
  "or_all [] = 0"
  "or_all (w # ws) = w OR or_all ws"
  by (simp_all add: or_all_def)

lemma bit_or_all [simp]: "bit (or_all ws) n \<longleftrightarrow> (\<exists>w \<in> set ws. bit w n)"
  by (induction ws) (auto simp: bit_simps)

lemma or_all_set_cong: "set ws = set vs \<Longrightarrow> or_all ws = or_all vs"
  by (rule bit_word_eqI) simp

lemma and_or_all_neq_0_iff: "or_all ws AND v \<noteq> 0 \<longleftrightarrow> (\<exists>w \<in> set ws. w AND v \<noteq> 0)"
  for v :: "'w::len word"
  by (auto simp: and_neq_0_iff_bit bit_simps)

lemma foldl_or_eq: "foldl (OR) a ws = a OR or_all ws"
  for a :: "'w::len word"
  by (induction ws arbitrary: a) (simp_all add: or.assoc)

section \<open>The state monad\<close>

lemma run_state_update [simp]: "run_state (State_Monad.update f) s = ((), f s)"
  by (simp add: State_Monad.update_def)

lemma run_state_if [simp]:
  "run_state (if b then m else n) s = (if b then run_state m s else run_state n s)"
  by simp

section \<open>Subsequences\<close>

lemma subseq_distinct: "subseq xs ys \<Longrightarrow> distinct ys \<Longrightarrow> distinct xs"
  by (induction rule: list_emb.induct) (auto dest: list_emb_set)

lemma subseq_if: "subseq (if c then xs else []) xs"
  by simp

end
