(* ===== verification/World.thy ===== *)
theory World
  imports Prelude
begin

text \<open>
  The world the library runs in.  The library's own code is thin: every operation calls the C
  library or the kernel and interprets the outcome.  Neither is part of the repository, so
  both are parameters of the model: the record \<open>'k posix\<close> has one field for every external
  function the code calls, a state transformer on the \<open>world\<close>, and the map \<open>headers\<close> gives the
  values of the macros of the system headers.  The \<open>world\<close> holds what the library itself can
  observe: \<open>errno\<close> of the running thread, the memory that pointers refer to, and the
  rest of the system as a value of an arbitrary type \<open>'k\<close>.
\<close>

record 'k world =
  errno_of :: c_int
  mem_of :: "addr \<Rightarrow> byte"
  kernel_of :: 'k

type_synonym ('k, 'a) io = "('k world, 'a) state"

text \<open>Values of the system headers' integer macros, by the macro's name.\<close>

type_synonym headers = "string \<Rightarrow> 32 word"

section \<open>Structures of the system headers\<close>

text \<open>Only the members the code reads or writes, in the headers' order.\<close>

record c_linger =
  l_onoff :: c_int
  l_linger :: c_int

record c_timeval =
  tv_sec :: c_long
  tv_usec :: c_long

record c_timespec =
  ts_sec :: c_long
  ts_nsec :: c_long

record c_mq_attr =
  mq_flags :: c_long
  mq_maxmsg :: c_long
  mq_msgsize :: c_long
  mq_curmsgs :: c_long

text \<open>
  \<open>epoll_event\<close> holds a union of a pointer, a descriptor and two integers, here the 64 bits
  they share (the narrow members are its low half, on a little-endian machine).
\<close>

record c_epoll_event =
  ev_events :: "32 word"
  ev_data :: "64 word"

text \<open>The union \<open>sigval\<close> is the 64 bits of its pointer; a callback is its address.\<close>

record c_sigevent =
  sigev_notify :: c_int
  sigev_signo :: c_int
  sigev_value :: "64 word"
  sigev_notify_function :: addr
  sigev_notify_attributes :: addr

text \<open>
  The optional arguments of the variadic functions: \<open>fcntl\<close> and \<open>ioctl\<close> take one, \<open>mq_open\<close> a
  list.
\<close>

datatype vararg = No_arg | Int_arg c_int | Ptr_arg addr

datatype mq_open_arg = Mode_arg c_uint | Attr_arg c_mq_attr

section \<open>The external functions\<close>

text \<open>
  One record, \<open>'k posix\<close>, built up by extension in five groups of headers.
  A pointer to a buffer of the program is an address.  A pointer to a local structure is the
  structure itself (an option where it may be null); a pointer to a local variable that the call
  writes is an extra component of the call's result.
\<close>

record 'k posix_file =
  sys_close :: "c_int \<Rightarrow> ('k, c_int) io"
  sys_open :: "string \<Rightarrow> c_int \<Rightarrow> c_uint option \<Rightarrow> ('k, c_int) io"
  sys_fcntl :: "c_int \<Rightarrow> c_int \<Rightarrow> vararg \<Rightarrow> ('k, c_int) io"
  sys_lseek :: "c_int \<Rightarrow> off_t \<Rightarrow> c_int \<Rightarrow> ('k, off_t) io"
  sys_read :: "c_int \<Rightarrow> addr \<Rightarrow> size_t \<Rightarrow> ('k, ssize_t) io"
  sys_write :: "c_int \<Rightarrow> addr \<Rightarrow> size_t \<Rightarrow> ('k, ssize_t) io"
  sys_sysconf :: "c_int \<Rightarrow> ('k, c_long) io"
  sys_confstr :: "c_int \<Rightarrow> addr \<Rightarrow> size_t \<Rightarrow> ('k, size_t) io"

record 'k posix_mem = "'k posix_file" +
  sys_ioctl :: "c_int \<Rightarrow> c_int \<Rightarrow> vararg \<Rightarrow> ('k, c_int) io"
  sys_opendir :: "string \<Rightarrow> ('k, addr) io"
  sys_fdopendir :: "c_int \<Rightarrow> ('k, addr) io"
  sys_closedir :: "addr \<Rightarrow> ('k, c_int) io"
  sys_mmap :: "addr \<Rightarrow> size_t \<Rightarrow> c_int \<Rightarrow> c_int \<Rightarrow> c_int \<Rightarrow> off_t \<Rightarrow> ('k, addr) io"
  sys_munmap :: "addr \<Rightarrow> size_t \<Rightarrow> ('k, c_int) io"
  sys_mprotect :: "addr \<Rightarrow> size_t \<Rightarrow> c_int \<Rightarrow> ('k, c_int) io"

record 'k posix_net = "'k posix_mem" +
  sys_socket :: "c_int \<Rightarrow> c_int \<Rightarrow> c_int \<Rightarrow> ('k, c_int) io"
  sys_setsockopt :: "c_int \<Rightarrow> c_int \<Rightarrow> c_int \<Rightarrow> addr \<Rightarrow> socklen_t \<Rightarrow> ('k, c_int) io"
  sys_getsockopt ::
    "c_int \<Rightarrow> c_int \<Rightarrow> c_int \<Rightarrow> addr \<Rightarrow> socklen_t \<Rightarrow> ('k, c_int \<times> socklen_t) io"
  sys_openlog :: "string \<Rightarrow> c_int \<Rightarrow> c_int \<Rightarrow> ('k, unit) io"
  sys_setlogmask :: "c_int \<Rightarrow> ('k, c_int) io"
  sys_closelog :: "('k, unit) io"
  sys_syslog :: "c_int \<Rightarrow> string \<Rightarrow> vararg list \<Rightarrow> ('k, unit) io"

record 'k posix_epoll = "'k posix_net" +
  sys_epoll_create :: "c_int \<Rightarrow> ('k, c_int) io"
  sys_epoll_create1 :: "c_int \<Rightarrow> ('k, c_int) io"
  sys_epoll_ctl :: "c_int \<Rightarrow> c_int \<Rightarrow> c_int \<Rightarrow> c_epoll_event option \<Rightarrow> ('k, c_int) io"
  sys_epoll_wait :: "c_int \<Rightarrow> addr \<Rightarrow> c_int \<Rightarrow> c_int \<Rightarrow> ('k, c_int) io"
  sys_epoll_pwait :: "c_int \<Rightarrow> addr \<Rightarrow> c_int \<Rightarrow> c_int \<Rightarrow> nat set \<Rightarrow> ('k, c_int) io"

record 'k posix = "'k posix_epoll" +
  sys_mq_open :: "string \<Rightarrow> c_int \<Rightarrow> mq_open_arg list \<Rightarrow> ('k, c_int) io"
  sys_mq_close :: "c_int \<Rightarrow> ('k, c_int) io"
  sys_mq_unlink :: "string \<Rightarrow> ('k, c_int) io"
  sys_mq_getattr :: "c_int \<Rightarrow> ('k, c_int \<times> c_mq_attr) io"
  sys_mq_setattr :: "c_int \<Rightarrow> c_mq_attr \<Rightarrow> ('k, c_int \<times> c_mq_attr) io"
  sys_mq_send :: "c_int \<Rightarrow> addr \<Rightarrow> size_t \<Rightarrow> c_uint \<Rightarrow> ('k, c_int) io"
  sys_mq_timedsend ::
    "c_int \<Rightarrow> addr \<Rightarrow> size_t \<Rightarrow> c_uint \<Rightarrow> c_timespec \<Rightarrow> ('k, c_int) io"
  sys_mq_receive :: "c_int \<Rightarrow> addr \<Rightarrow> size_t \<Rightarrow> ('k, ssize_t \<times> c_uint) io"
  sys_mq_timedreceive ::
    "c_int \<Rightarrow> addr \<Rightarrow> size_t \<Rightarrow> c_timespec \<Rightarrow> ('k, ssize_t \<times> c_uint) io"
  sys_mq_notify :: "c_int \<Rightarrow> c_sigevent option \<Rightarrow> ('k, c_int) io"

section \<open>Documented behaviour of the external functions\<close>

text \<open>
  POSIX: a call that reports failure by returning \<open>-1\<close> has set \<open>errno\<close> to a
  nonzero value.
\<close>

definition sets_errno :: "('k, 'w::len word) io \<Rightarrow> bool" where
  "sets_errno m \<longleftrightarrow>
     (\<forall>w. fst (run_state m w) = -1 \<longrightarrow> errno_of (snd (run_state m w)) \<noteq> 0)"

lemma sets_errnoD:
  "sets_errno m \<Longrightarrow> fst (run_state m w) = -1 \<Longrightarrow> errno_of (snd (run_state m w)) \<noteq> 0"
  by (simp add: sets_errno_def)

section \<open>A system on which every call fails\<close>

text \<open>
  Used in concrete instances: every function fails with error 38 (\<open>ENOSYS\<close> on Linux); an
  instance replaces the calls it is about.
\<close>

definition fail_with :: "c_int \<Rightarrow> 'r \<Rightarrow> ('k, 'r) io" where
  "fail_with e r = do {
     State_Monad.update (\<lambda>w. w\<lparr>errno_of := e\<rparr>);
     State_Monad.return r
   }"

definition zero_mq_attr :: c_mq_attr where
  "zero_mq_attr = \<lparr>mq_flags = 0, mq_maxmsg = 0, mq_msgsize = 0, mq_curmsgs = 0\<rparr>"

definition stub_posix :: "'k posix" where
  "stub_posix = \<lparr>
     sys_close = (\<lambda>_. fail_with 38 (-1)),
     sys_open = (\<lambda>_ _ _. fail_with 38 (-1)),
     sys_fcntl = (\<lambda>_ _ _. fail_with 38 (-1)),
     sys_lseek = (\<lambda>_ _ _. fail_with 38 (-1)),
     sys_read = (\<lambda>_ _ _. fail_with 38 (-1)),
     sys_write = (\<lambda>_ _ _. fail_with 38 (-1)),
     sys_sysconf = (\<lambda>_. fail_with 38 (-1)),
     sys_confstr = (\<lambda>_ _ _. fail_with 38 0),
     sys_ioctl = (\<lambda>_ _ _. fail_with 38 (-1)),
     sys_opendir = (\<lambda>_. fail_with 38 nullptr),
     sys_fdopendir = (\<lambda>_. fail_with 38 nullptr),
     sys_closedir = (\<lambda>_. fail_with 38 (-1)),
     sys_mmap = (\<lambda>_ _ _ _ _ _. fail_with 38 (-1)),
     sys_munmap = (\<lambda>_ _. fail_with 38 (-1)),
     sys_mprotect = (\<lambda>_ _ _. fail_with 38 (-1)),
     sys_socket = (\<lambda>_ _ _. fail_with 38 (-1)),
     sys_setsockopt = (\<lambda>_ _ _ _ _. fail_with 38 (-1)),
     sys_getsockopt = (\<lambda>_ _ _ _ len. fail_with 38 (-1, len)),
     sys_openlog = (\<lambda>_ _ _. fail_with 38 ()),
     sys_setlogmask = (\<lambda>_. fail_with 38 0),
     sys_closelog = fail_with 38 (),
     sys_syslog = (\<lambda>_ _ _. fail_with 38 ()),
     sys_epoll_create = (\<lambda>_. fail_with 38 (-1)),
     sys_epoll_create1 = (\<lambda>_. fail_with 38 (-1)),
     sys_epoll_ctl = (\<lambda>_ _ _ _. fail_with 38 (-1)),
     sys_epoll_wait = (\<lambda>_ _ _ _. fail_with 38 (-1)),
     sys_epoll_pwait = (\<lambda>_ _ _ _ _. fail_with 38 (-1)),
     sys_mq_open = (\<lambda>_ _ _. fail_with 38 (-1)),
     sys_mq_close = (\<lambda>_. fail_with 38 (-1)),
     sys_mq_unlink = (\<lambda>_. fail_with 38 (-1)),
     sys_mq_getattr = (\<lambda>_. fail_with 38 (-1, zero_mq_attr)),
     sys_mq_setattr = (\<lambda>_ _. fail_with 38 (-1, zero_mq_attr)),
     sys_mq_send = (\<lambda>_ _ _ _. fail_with 38 (-1)),
     sys_mq_timedsend = (\<lambda>_ _ _ _ _. fail_with 38 (-1)),
     sys_mq_receive = (\<lambda>_ _ _. fail_with 38 (-1, 0)),
     sys_mq_timedreceive = (\<lambda>_ _ _ _. fail_with 38 (-1, 0)),
     sys_mq_notify = (\<lambda>_ _. fail_with 38 (-1)) \<rparr>"

lemma run_fail_with [simp]: "run_state (fail_with e r) w = (r, w\<lparr>errno_of := e\<rparr>)"
  by (simp add: fail_with_def)

end
