(* ===== verification/Errno.thy ===== *)
theory Errno
  imports World
begin

text \<open>
  \<^verbatim>\<open>errno.hpp\<close> and \<^verbatim>\<open>errno.cpp\<close>: access to the thread's \<open>errno\<close>, its packaging as a
  \<open>std::error_code\<close>, and \<open>errno_context\<close>, the scoped object that saves \<open>errno\<close>, clears it and
  restores it when it is destroyed.
\<close>

section \<open>Error codes\<close>

text \<open>
  \<open>std::error_code\<close> is a value and a category; default construction gives value 0 in the
  system category, and conversion to \<open>bool\<close> tests the value.  \<open>std::errc\<close> is an
  enumeration over \<open>int\<close>, so \<open>std::errc{n}\<close> and \<open>underlying_v\<close> are the identity on words.
\<close>

type_synonym errc = c_int

datatype error_category = System_category | Generic_category

record error_code =
  ec_value :: c_int
  ec_category :: error_category

definition no_error :: error_code where
  "no_error = \<lparr>ec_value = 0, ec_category = System_category\<rparr>"

definition is_error :: "error_code \<Rightarrow> bool" where
  "is_error ec \<longleftrightarrow> ec_value ec \<noteq> 0"

definition get_errno :: "('k, errc) io" where
  "get_errno = do { w \<leftarrow> State_Monad.get; State_Monad.return (errno_of w) }"

definition set_errno :: "errc \<Rightarrow> ('k, unit) io" where
  "set_errno err = State_Monad.update (\<lambda>w. w\<lparr>errno_of := err\<rparr>)"

definition make_errno_code :: "errc \<Rightarrow> error_code" where
  "make_errno_code err = \<lparr>ec_value = err, ec_category = System_category\<rparr>"

definition current_errno_code :: "('k, error_code) io" where
  "current_errno_code = do { err \<leftarrow> get_errno; State_Monad.return (make_errno_code err) }"

section \<open>The scoped context\<close>

record errno_context =
  ctx_saved_errno :: errc

definition errno_context_make :: "('k, errno_context) io" where
  "errno_context_make = do {
     err \<leftarrow> get_errno;
     set_errno 0;
     State_Monad.return \<lparr>ctx_saved_errno = err\<rparr>
   }"

definition errno_context_restore :: "errno_context \<Rightarrow> ('k, unit) io" where
  "errno_context_restore ctx = set_errno (ctx_saved_errno ctx)"

definition errno_context_saved_errno :: "errno_context \<Rightarrow> errc" where
  "errno_context_saved_errno ctx = ctx_saved_errno ctx"

definition errno_context_destroy :: "errno_context \<Rightarrow> ('k, unit) io" where
  "errno_context_destroy ctx = errno_context_restore ctx"

text \<open>
  A block whose first statement declares an \<open>errno_context\<close>: the object is built, the rest of
  the block computes its value, and the destructor runs last.
\<close>

definition with_errno_context :: "(errno_context \<Rightarrow> ('k, 'a) io) \<Rightarrow> ('k, 'a) io" where
  "with_errno_context body = do {
     ctx \<leftarrow> errno_context_make;
     r \<leftarrow> body ctx;
     errno_context_destroy ctx;
     State_Monad.return r
   }"

section \<open>Effects\<close>

lemma is_error_no_error [simp]: "\<not> is_error no_error"
  by (simp add: is_error_def no_error_def)

lemma is_error_make_errno_code [simp]: "is_error (make_errno_code e) \<longleftrightarrow> e \<noteq> 0"
  by (simp add: is_error_def make_errno_code_def)

lemma ec_value_make_errno_code [simp]: "ec_value (make_errno_code e) = e"
  by (simp add: make_errno_code_def)

lemma make_errno_code_0 [simp]: "make_errno_code 0 = no_error"
  by (simp add: make_errno_code_def no_error_def)

lemma make_errno_code_inject [simp]: "make_errno_code a = make_errno_code b \<longleftrightarrow> a = b"
  by (simp add: make_errno_code_def)

lemma make_errno_code_no_error [simp]: "make_errno_code e = no_error \<longleftrightarrow> e = 0"
  by (simp add: make_errno_code_def no_error_def)

lemma run_get_errno [simp]: "run_state get_errno w = (errno_of w, w)"
  by (simp add: get_errno_def)

lemma run_set_errno [simp]: "run_state (set_errno e) w = ((), w\<lparr>errno_of := e\<rparr>)"
  by (simp add: set_errno_def)

lemma run_current_errno_code [simp]:
  "run_state current_errno_code w = (make_errno_code (errno_of w), w)"
  by (simp add: current_errno_code_def)

lemma run_errno_context_make [simp]:
  "run_state errno_context_make w = (\<lparr>ctx_saved_errno = errno_of w\<rparr>, w\<lparr>errno_of := 0\<rparr>)"
  by (simp add: errno_context_make_def)

lemma run_errno_context_destroy [simp]:
  "run_state (errno_context_destroy ctx) w = ((), w\<lparr>errno_of := ctx_saved_errno ctx\<rparr>)"
  by (simp add: errno_context_destroy_def errno_context_restore_def)

lemma run_with_errno_context [run_simps]:
  "run_state (with_errno_context body) w =
     (let (r, w') = run_state (body \<lparr>ctx_saved_errno = errno_of w\<rparr>) (w\<lparr>errno_of := 0\<rparr>)
      in (r, w'\<lparr>errno_of := errno_of w\<rparr>))"
  by (simp add: with_errno_context_def case_prod_beta Let_def)

text \<open>Whatever the block does, \<open>errno\<close> has its old value afterwards.\<close>

lemma with_errno_context_errno [simp]:
  "errno_of (snd (run_state (with_errno_context body) w)) = errno_of w"
  by (simp add: run_simps)

end
