(* ===== verification/Result.thy ===== *)
theory Result
  imports Errno
begin

text \<open>
  \<^verbatim>\<open>result.hpp\<close>: \<open>result<T>\<close>, a \<open>std::variant<T, std::error_code>\<close> with throwing and
  non-throwing access, and \<open>result_map\<close>.
\<close>

section \<open>The variant and its access functions\<close>

datatype 'a result = Value 'a | Error error_code

text \<open>The exception \<open>bad_result_access\<close> carries its message.\<close>

datatype bad_result_access = Bad_result_access string

text \<open>
  The visitors, one case for each alternative; a throw is \<open>Inl\<close>.  The mutable and the immutable
  visitor of the value differ only in the type of the reference.
\<close>

fun get_error_visitor :: "'a result \<Rightarrow> bad_result_access + error_code" where
  "get_error_visitor (Error ec) = Inr ec"
| "get_error_visitor (Value _) =
     Inl (Bad_result_access ''pposix::result error was accessed when it contained a value.'')"

fun get_value_visitor :: "'a result \<Rightarrow> bad_result_access + 'a" where
  "get_value_visitor (Error _) =
     Inl (Bad_result_access ''pposix::result value was accessed when it contained an error.'')"
| "get_value_visitor (Value v) = Inr v"

fun is_error_visitor :: "'a result \<Rightarrow> bool" where
  "is_error_visitor (Error _) = True"
| "is_error_visitor (Value _) = False"

text \<open>The access functions are a \<open>std::visit\<close> each.\<close>

definition result_error :: "'a result \<Rightarrow> bad_result_access + error_code" where
  "result_error r = get_error_visitor r"

definition result_value :: "'a result \<Rightarrow> bad_result_access + 'a" where
  "result_value r = get_value_visitor r"

definition result_has_error :: "'a result \<Rightarrow> bool" where
  "result_has_error r \<longleftrightarrow> is_error_visitor r"

definition result_has_value :: "'a result \<Rightarrow> bool" where
  "result_has_value r \<longleftrightarrow> \<not> result_has_error r"

definition result_bool :: "'a result \<Rightarrow> bool" where
  "result_bool r \<longleftrightarrow> result_has_value r"

text \<open>\<open>std::get_if\<close>: a pointer to the alternative, or the null pointer (\<open>None\<close>).\<close>

fun result_get_error_unsafe :: "'a result \<Rightarrow> error_code option" where
  "result_get_error_unsafe (Error ec) = Some ec"
| "result_get_error_unsafe (Value _) = None"

fun result_get_value_unsafe :: "'a result \<Rightarrow> 'a option" where
  "result_get_value_unsafe (Value v) = Some v"
| "result_get_value_unsafe (Error _) = None"

text \<open>
  \<open>operator*\<close> dereferences the pointer without a test: on an error it dereferences the null
  pointer, which is undefined behaviour (\<open>None\<close>).
\<close>

definition result_deref :: "'a result \<Rightarrow> 'a option" where
  "result_deref r = result_get_value_unsafe r"

section \<open>Mapping\<close>

text \<open>
  \<open>result_map\<close>: the null test on the value pointer decides; the else branch dereferences the
  error pointer.  Before that it asserts, at compile time, that its function is declared
  \<open>noexcept\<close>; none of the functions is that its callers in \<^verbatim>\<open>file.hpp\<close>, \<^verbatim>\<open>mman.hpp\<close> and
  \<^verbatim>\<open>socket.hpp\<close> pass, whose bodies are modelled all the same.
\<close>

definition result_map_accepts :: "bool \<Rightarrow> bool" where
  "result_map_accepts func_noexcept \<longleftrightarrow> func_noexcept"

definition result_map :: "'a result \<Rightarrow> ('a \<Rightarrow> 'b) \<Rightarrow> 'b result" where
  "result_map res func =
     (case result_get_value_unsafe res of
        Some v \<Rightarrow> Value (func v)
      | None \<Rightarrow> Error (the (result_get_error_unsafe res)))"

section \<open>Lemmas\<close>

lemma result_error_simps [simp]:
  "result_error (Error ec) = Inr ec"
  "result_error (Value v) =
     Inl (Bad_result_access ''pposix::result error was accessed when it contained a value.'')"
  by (simp_all add: result_error_def)

lemma result_value_simps [simp]:
  "result_value (Value v) = Inr v"
  "result_value (Error ec) =
     Inl (Bad_result_access ''pposix::result value was accessed when it contained an error.'')"
  by (simp_all add: result_value_def)

lemma result_has_error_simps [simp]: "result_has_error (Error ec)" "\<not> result_has_error (Value v)"
  by (simp_all add: result_has_error_def)

lemma result_has_value_simps [simp]:
  "result_has_value (Value v)" "\<not> result_has_value (Error ec)"
  by (simp_all add: result_has_value_def)

lemma result_map_simps [simp]:
  "result_map (Value v) f = Value (f v)"
  "result_map (Error ec) f = Error ec"
  by (simp_all add: result_map_def)

lemma result_has_value_map [simp]: "result_has_value (result_map r f) = result_has_value r"
  by (cases r) simp_all

lemma result_map_id [simp]: "result_map r (\<lambda>x. x) = r"
  by (cases r) simp_all

lemma result_map_comp [simp]: "result_map (result_map r f) g = result_map r (\<lambda>x. g (f x))"
  by (cases r) simp_all

lemma result_value_Inr_iff: "result_value r = Inr v \<longleftrightarrow> r = Value v"
  by (cases r) simp_all

lemma result_error_Inr_iff: "result_error r = Inr ec \<longleftrightarrow> r = Error ec"
  by (cases r) simp_all

lemma result_get_value_unsafe_Some_iff: "result_get_value_unsafe r = Some v \<longleftrightarrow> r = Value v"
  by (cases r) simp_all

lemma result_get_error_unsafe_Some_iff: "result_get_error_unsafe r = Some ec \<longleftrightarrow> r = Error ec"
  by (cases r) simp_all

end
