(* ===== verification/Util.thy ===== *)
theory Util
  imports Result
begin

text \<open>
  \<^verbatim>\<open>util.hpp\<close>: the compile-time flag types and the three call macros through which almost every
  operation reaches the C library.
\<close>

section \<open>The call macros\<close>

text \<open>
  \<open>PPOSIX_COMMON_CALL\<close>: run the call, and make an \<open>error_code\<close> of its outcome; the success
  value is lost.
\<close>

definition common_call :: "('k, 'w::len word) io \<Rightarrow> ('k, error_code) io" where
  "common_call fn = do {
     r \<leftarrow> fn;
     if r = -1 then current_errno_code else State_Monad.return no_error
   }"

text \<open>\<open>PPOSIX_COMMON_RESULT_CALL_IMPL\<close>: the same, but the success value is the result.\<close>

definition common_result_call :: "('k, 'w::len word) io \<Rightarrow> ('k, 'w word result) io" where
  "common_result_call fn = do {
     r \<leftarrow> fn;
     if r = -1
     then do { ec \<leftarrow> current_errno_code; State_Monad.return (Error ec) }
     else State_Monad.return (Value r)
   }"

text \<open>\<open>PPOSIX_COMMON_RESULT_MAP_IMPL\<close>: the success value is wrapped in the type \<open>T\<close>.\<close>

definition common_result_map ::
  "('w word \<Rightarrow> 'a) \<Rightarrow> ('k, 'w::len word) io \<Rightarrow> ('k, 'a result) io" where
  "common_result_map T fn = do {
     r \<leftarrow> fn;
     if r = -1
     then do { ec \<leftarrow> current_errno_code; State_Monad.return (Error ec) }
     else State_Monad.return (Value (T r))
   }"

lemma run_common_call [run_simps]:
  "run_state (common_call fn) w =
     (let (r, w') = run_state fn w
      in (if r = -1 then make_errno_code (errno_of w') else no_error, w'))"
  by (simp add: common_call_def case_prod_beta Let_def)

lemma run_common_result_call [run_simps]:
  "run_state (common_result_call fn) w =
     (let (r, w') = run_state fn w
      in (if r = -1 then Error (make_errno_code (errno_of w')) else Value r, w'))"
  by (simp add: common_result_call_def case_prod_beta Let_def)

lemma run_common_result_map [run_simps]:
  "run_state (common_result_map T fn) w =
     (let (r, w') = run_state fn w
      in (if r = -1 then Error (make_errno_code (errno_of w')) else Value (T r), w'))"
  by (simp add: common_result_map_def case_prod_beta Let_def)

text \<open>The call behind an observed outcome.\<close>

lemma common_callE:
  assumes "run_state (common_call fn) w = (ec, w')"
  obtains r where "run_state fn w = (r, w')"
    and "ec = (if r = -1 then make_errno_code (errno_of w') else no_error)"
  using assms by (cases "run_state fn w") (auto simp: run_simps)

lemma common_result_callE:
  assumes "run_state (common_result_call fn) w = (res, w')"
  obtains r where "run_state fn w = (r, w')"
    and "res = (if r = -1 then Error (make_errno_code (errno_of w')) else Value r)"
  using assms by (cases "run_state fn w") (auto simp: run_simps)

text \<open>The macros change the world only through the call they make, and make it once.\<close>

lemma common_call_world [simp]:
  "snd (run_state (common_call fn) w) = snd (run_state fn w)"
  by (simp add: run_simps)

lemma common_result_call_world [simp]:
  "snd (run_state (common_result_call fn) w) = snd (run_state fn w)"
  by (simp add: run_simps)

lemma common_result_map_world [simp]:
  "snd (run_state (common_result_map T fn) w) = snd (run_state fn w)"
  by (simp add: run_simps)

text \<open>
  With the documented behaviour of the call (a failure sets \<open>errno\<close>), the error code is an
  error exactly when the call failed, and then it carries the call's \<open>errno\<close>.
\<close>

lemma common_call_error_iff:
  assumes "sets_errno fn"
  shows "is_error (fst (run_state (common_call fn) w)) \<longleftrightarrow> fst (run_state fn w) = -1"
  using sets_errnoD [OF assms, of w] by (simp add: run_simps)

lemma common_call_error_value:
  assumes "sets_errno fn" and "is_error (fst (run_state (common_call fn) w))"
  shows "ec_value (fst (run_state (common_call fn) w)) = errno_of (snd (run_state fn w))"
  using assms by (simp add: run_simps split: if_splits)

lemma common_result_map_eq:
  "common_result_map T fn =
     State_Monad.bind (common_result_call fn) (\<lambda>r. State_Monad.return (result_map r T))"
  by (rule state_ext) (simp add: run_simps)

section \<open>Enumerations\<close>

text \<open>
  A scoped enumeration with an underlying type has every value of that type, named or not.  It is
  modelled as a datatype with one constructor around the word; the selector is
  \<open>underlying_v\<close>.  The enumerators are a table from their names to their initialisers, which
  are macros of the system headers or literals.
\<close>

datatype enum_init = Macro string | Literal "32 word"

type_synonym enum_table = "(string \<times> enum_init) list"

fun init_value :: "headers \<Rightarrow> enum_init \<Rightarrow> 32 word" where
  "init_value hdr (Macro m) = hdr m"
| "init_value hdr (Literal v) = v"

definition enumerator :: "headers \<Rightarrow> enum_table \<Rightarrow> string \<Rightarrow> 32 word option" where
  "enumerator hdr tab name = map_option (init_value hdr) (map_of tab name)"

text \<open>A declaration of an enumeration is accepted if no name is declared twice.\<close>

definition enum_table_ok :: "enum_table \<Rightarrow> bool" where
  "enum_table_ok tab \<longleftrightarrow> distinct (map fst tab)"

text \<open>Different enumerators come from different macros.\<close>

definition enum_table_faithful :: "enum_table \<Rightarrow> bool" where
  "enum_table_faithful tab \<longleftrightarrow> distinct (map snd tab)"

lemma enumerator_member:
  assumes "enum_table_ok tab" and "(name, i) \<in> set tab"
  shows "enumerator hdr tab name = Some (init_value hdr i)"
  using assms by (simp add: enumerator_def enum_table_ok_def)

text \<open>
  In a faithful table, enumerators have different values whenever the headers give the macros
  different values.
\<close>

lemma enumerator_inject:
  assumes "enum_table_ok tab" and "enum_table_faithful tab"
    and "inj_on (init_value hdr) (snd ` set tab)"
    and "enumerator hdr tab a = Some v" and "enumerator hdr tab b = Some v"
  shows "a = b"
proof -
  obtain i j where i: "(a, i) \<in> set tab" "init_value hdr i = v"
    and j: "(b, j) \<in> set tab" "init_value hdr j = v"
    using assms(4,5) by (auto simp: enumerator_def dest: map_of_SomeD)
  have "i = j"
    using i j assms(3) by (metis image_eqI inj_onD snd_conv)
  have "inj_on snd (set tab)"
    using assms(2) by (simp add: enum_table_faithful_def distinct_map)
  then have "(a, i) = (b, j)"
    by (rule inj_onD) (use i(1) j(1) \<open>i = j\<close> in simp_all)
  then show ?thesis by simp
qed

text \<open>A part of a table inherits both properties of its enumerators.\<close>

lemma enum_table_subseq:
  assumes "subseq tab full" and "enum_table_ok full \<and> enum_table_faithful full"
  shows "enum_table_ok tab \<and> enum_table_faithful tab"
  using assms(2) subseq_distinct [OF subseq_map [OF assms(1), of fst]]
    subseq_distinct [OF subseq_map [OF assms(1), of snd]]
  by (simp add: enum_table_ok_def enum_table_faithful_def)

section \<open>Flag types\<close>

text \<open>
  \<open>enum_flag<Enum, Flags>\<close> carries the value \<open>Flags\<close> of the enumeration \<open>Enum\<close> in its type; the
  model carries it as a value.  \<open>underlying\<close> is the selector of the enumeration (\<open>underlying_v\<close>)
  and \<open>mk\<close> its constructor.
\<close>

datatype 'e enum_flag = Enum_flag (enum_flag_value: 'e)
datatype 'e exclusive_enum_flag = Exclusive_enum_flag (exclusive_enum_flag_value: 'e)

definition enum_flag_has :: "('e \<Rightarrow> 'w::len word) \<Rightarrow> 'e enum_flag \<Rightarrow> 'e \<Rightarrow> bool" where
  "enum_flag_has underlying f v \<longleftrightarrow> underlying (enum_flag_value f) AND underlying v \<noteq> 0"

definition enum_flag_has_flag ::
  "('e \<Rightarrow> 'w::len word) \<Rightarrow> 'e enum_flag \<Rightarrow> 'e enum_flag \<Rightarrow> bool" where
  "enum_flag_has_flag underlying f g \<longleftrightarrow>
     underlying (enum_flag_value f) AND underlying (enum_flag_value g) \<noteq> 0"

definition enum_flag_or ::
  "('e \<Rightarrow> 'w::len word) \<Rightarrow> ('w word \<Rightarrow> 'e) \<Rightarrow> 'e enum_flag \<Rightarrow> 'e enum_flag \<Rightarrow> 'e enum_flag" where
  "enum_flag_or underlying mk f g =
     Enum_flag (mk (underlying (enum_flag_value f) OR underlying (enum_flag_value g)))"

text \<open>
  \<^verbatim>\<open>enum_flag.hpp\<close> declares a second template of that name, which no other file includes.  It
  combines flags by the \<open>operator|\<close> of the enumeration itself.
\<close>

datatype 'e header_enum_flag = Header_enum_flag (header_enum_flag_value: 'e)

definition header_enum_flag_eq_value :: "'e header_enum_flag \<Rightarrow> 'e \<Rightarrow> bool" where
  "header_enum_flag_eq_value f e \<longleftrightarrow> e = header_enum_flag_value f"

definition header_enum_flag_eq :: "'e header_enum_flag \<Rightarrow> 'e header_enum_flag \<Rightarrow> bool" where
  "header_enum_flag_eq f g \<longleftrightarrow> header_enum_flag_value f = header_enum_flag_value g"

definition header_enum_flag_or ::
  "('e \<Rightarrow> 'e \<Rightarrow> 'e) \<Rightarrow> 'e header_enum_flag \<Rightarrow> 'e header_enum_flag \<Rightarrow> 'e header_enum_flag" where
  "header_enum_flag_or enum_or f g =
     Header_enum_flag (enum_or (header_enum_flag_value f) (header_enum_flag_value g))"

text \<open>
  The contract of a flag enumeration: the conversions are inverse to each other and
  \<open>operator|\<close> is the OR of the underlying integers.
\<close>

locale flag_enum =
  fixes underlying :: "'e \<Rightarrow> 'w::len word"
    and mk :: "'w word \<Rightarrow> 'e"
    and enum_or :: "'e \<Rightarrow> 'e \<Rightarrow> 'e"
  assumes underlying_mk: "underlying (mk bits) = bits"
    and mk_underlying: "mk (underlying e) = e"
    and enum_or_eq: "enum_or a b = mk (underlying a OR underlying b)"
begin

lemma underlying_inject: "underlying a = underlying b \<longleftrightarrow> a = b"
  by (metis mk_underlying)

lemma underlying_or: "underlying (enum_or a b) = underlying a OR underlying b"
  by (simp add: enum_or_eq underlying_mk)

lemma or_commute: "enum_or a b = enum_or b a"
  by (simp add: enum_or_eq or.commute)

lemma or_assoc: "enum_or (enum_or a b) c = enum_or a (enum_or b c)"
  by (simp add: enum_or_eq underlying_mk or.assoc)

lemma or_idem: "enum_or a a = a"
  by (simp add: enum_or_eq mk_underlying)

lemma or_none: "enum_or a (mk 0) = a"
  by (simp add: enum_or_eq underlying_mk mk_underlying)

lemma has_flag_or:
  "enum_flag_has_flag underlying (enum_flag_or underlying mk f g) h \<longleftrightarrow>
     enum_flag_has_flag underlying f h \<or> enum_flag_has_flag underlying g h"
  by (auto simp: enum_flag_has_flag_def enum_flag_or_def underlying_mk and_neq_0_iff_bit bit_simps)

lemma has_or:
  "enum_flag_has underlying (enum_flag_or underlying mk f g) v \<longleftrightarrow>
     enum_flag_has underlying f v \<or> enum_flag_has underlying g v"
  by (auto simp: enum_flag_has_def enum_flag_or_def underlying_mk and_neq_0_iff_bit bit_simps)

lemma has_none: "\<not> enum_flag_has underlying f (mk 0)"
  by (simp add: enum_flag_has_def underlying_mk)

lemma flag_or_value:
  "enum_flag_value (enum_flag_or underlying mk f g) = enum_or (enum_flag_value f) (enum_flag_value g)"
  by (simp add: enum_flag_or_def enum_or_eq)

text \<open>The two templates agree where the enumeration has an \<open>operator|\<close> of its own.\<close>

lemma header_or_value:
  "header_enum_flag_value (header_enum_flag_or enum_or f g) =
     enum_flag_value (enum_flag_or underlying mk (Enum_flag (header_enum_flag_value f))
       (Enum_flag (header_enum_flag_value g)))"
  by (simp add: header_enum_flag_or_def enum_flag_or_def enum_or_eq)

lemma header_eq_iff:
  "header_enum_flag_eq (header_enum_flag_or enum_or f g) f \<longleftrightarrow>
     underlying (header_enum_flag_value f) OR underlying (header_enum_flag_value g) =
     underlying (header_enum_flag_value f)"
  by (simp add: header_enum_flag_eq_def header_enum_flag_or_def underlying_or flip: underlying_inject)

text \<open>A combination built from the left holds the OR of its parts, in any order.\<close>

lemma underlying_foldl_or: "underlying (foldl enum_or a es) = underlying a OR or_all (map underlying es)"
  by (induction es arbitrary: a) (simp_all add: underlying_or or.assoc)

lemma foldl_or_set_cong:
  assumes "set es = set fs"
  shows "foldl enum_or a es = foldl enum_or a fs"
proof -
  have "or_all (map underlying es) = or_all (map underlying fs)"
    using assms by (auto intro: or_all_set_cong)
  then show ?thesis
    by (simp add: underlying_foldl_or flip: underlying_inject)
qed

end

end
