(* ===== verification/Memory.thy ===== *)
theory Memory
  imports World
begin

text \<open>
  Objects in memory: the representation of \<open>int\<close> and \<open>long\<close> as bytes (little-endian), storing and
  reading byte strings, and local variables whose address is passed to the system.
\<close>

definition int_bytes :: "c_int \<Rightarrow> byte list" where
  "int_bytes i = map (\<lambda>k. ucast (drop_bit (8 * k) i)) [0..<4]"

definition long_bytes :: "c_long \<Rightarrow> byte list" where
  "long_bytes i = map (\<lambda>k. ucast (drop_bit (8 * k) i)) [0..<8]"

definition bytes_value :: "byte list \<Rightarrow> 'w::len word" where
  "bytes_value bs = foldr (\<lambda>b acc. ucast b OR push_bit 8 acc) bs 0"

fun store_bytes :: "addr \<Rightarrow> byte list \<Rightarrow> (addr \<Rightarrow> byte) \<Rightarrow> (addr \<Rightarrow> byte)" where
  "store_bytes p [] m = m"
| "store_bytes p (b # bs) m = (store_bytes (p + 1) bs m)(p := b)"

definition load_bytes :: "addr \<Rightarrow> nat \<Rightarrow> (addr \<Rightarrow> byte) \<Rightarrow> byte list" where
  "load_bytes p n m = map (\<lambda>i. m (p + of_nat i)) [0..<n]"

text \<open>A local variable at address \<open>slot\<close> is given a value.\<close>

definition store_local :: "addr \<Rightarrow> byte list \<Rightarrow> ('k, unit) io" where
  "store_local slot bs = State_Monad.update (\<lambda>w. w\<lparr>mem_of := store_bytes slot bs (mem_of w)\<rparr>)"

lemma run_store_local [simp]:
  "run_state (store_local slot bs) w = ((), w\<lparr>mem_of := store_bytes slot bs (mem_of w)\<rparr>)"
  by (simp add: store_local_def)

lemma length_int_bytes [simp]: "length (int_bytes i) = 4"
  by (simp add: int_bytes_def)

lemma length_long_bytes [simp]: "length (long_bytes i) = 8"
  by (simp add: long_bytes_def)

text \<open>Reading back the bytes gives the value.\<close>

lemma bytes_value_Cons:
  "bytes_value (b # bs) = ucast b OR push_bit 8 (bytes_value bs)"
  by (simp add: bytes_value_def)

lemma bytes_value_pieces:
  fixes i :: "'w::len word"
  shows "bytes_value (map (\<lambda>k. ucast (drop_bit (8 * (j + k)) i) :: byte) [0..<m]) =
    take_bit (8 * m) (drop_bit (8 * j) i)"
proof (induction m arbitrary: j)
  case 0
  show ?case by (simp add: bytes_value_def)
next
  case (Suc m)
  have "map (\<lambda>k. ucast (drop_bit (8 * (j + k)) i) :: byte) [0..<Suc m] =
      ucast (drop_bit (8 * j) i) # map (\<lambda>k. ucast (drop_bit (8 * (Suc j + k)) i)) [0..<m]"
    by (simp add: upt_conv_Cons map_Suc_upt [symmetric] algebra_simps del: upt_Suc)
  then have "bytes_value (map (\<lambda>k. ucast (drop_bit (8 * (j + k)) i) :: byte) [0..<Suc m]) =
      ucast (ucast (drop_bit (8 * j) i) :: byte) OR
      push_bit 8 (take_bit (8 * m) (drop_bit (8 * Suc j) i))"
    by (simp only: bytes_value_Cons Suc.IH)
  also have "\<dots> = take_bit (8 * Suc m) (drop_bit (8 * j) i)"
  proof (rule bit_word_eqI)
    fix n
    assume "n < LENGTH('w)"
    then show "bit (ucast (ucast (drop_bit (8 * j) i) :: byte) OR
        push_bit 8 (take_bit (8 * m) (drop_bit (8 * Suc j) i))) n =
      bit (take_bit (8 * Suc m) (drop_bit (8 * j) i)) n"
      by (cases "n < 8") (auto simp: bit_simps algebra_simps)
  qed
  finally show ?case .
qed

lemma bytes_value_int [simp]: "bytes_value (int_bytes i) = i"
  using bytes_value_pieces [of 0 i 4] by (simp add: int_bytes_def take_bit_word_eq_self)

lemma bytes_value_long [simp]: "bytes_value (long_bytes i) = i"
  using bytes_value_pieces [of 0 i 8] by (simp add: long_bytes_def take_bit_word_eq_self)

lemma store_bytes_other:
  assumes "\<And>i. i < length bs \<Longrightarrow> a \<noteq> p + of_nat i"
  shows "store_bytes p bs m a = m a"
  using assms
proof (induction bs arbitrary: p)
  case Nil
  show ?case by simp
next
  case (Cons b bs)
  have "a \<noteq> p"
    using Cons.prems [of 0] by simp
  moreover have "a \<noteq> p + 1 + of_nat i" if "i < length bs" for i
    using Cons.prems [of "Suc i"] that by (simp add: algebra_simps)
  ultimately show ?case
    by (simp add: Cons.IH)
qed

lemma load_store_bytes:
  assumes "length bs < 2 ^ 64"
  shows "load_bytes p (length bs) (store_bytes p bs m) = bs"
  using assms
proof (induction bs arbitrary: p)
  case Nil
  show ?case by (simp add: load_bytes_def)
next
  case (Cons b bs)
  have "(of_nat (Suc i) :: addr) \<noteq> 0" if "i < length bs" for i
  proof -
    have "unat (of_nat (Suc i) :: addr) = Suc i"
      using that Cons.prems by (simp only: unat_of_nat) simp
    then show ?thesis by (metis nat.distinct(1) unat_0)
  qed
  then have "load_bytes p (length (b # bs)) (store_bytes p (b # bs) m) =
      b # load_bytes (p + 1) (length bs) (store_bytes (p + 1) bs m)"
    unfolding load_bytes_def
    by (auto simp: upt_conv_Cons map_Suc_upt [symmetric] algebra_simps simp del: upt_Suc)
  also have "\<dots> = b # bs"
    using Cons by simp
  finally show ?case .
qed

text \<open>A part of what was stored.\<close>

lemma take_load_bytes: "n \<le> m \<Longrightarrow> take n (load_bytes p m mem) = load_bytes p n mem"
  by (simp add: load_bytes_def take_map)

lemma load_store_prefix:
  assumes "length bs < 2 ^ 64" and "n \<le> length bs"
  shows "load_bytes p n (store_bytes p bs m) = take n bs"
  using load_store_bytes [OF assms(1), of p m] take_load_bytes [OF assms(2), of p "store_bytes p bs m"]
  by simp

lemma length_load_bytes [simp]: "length (load_bytes p n mem) = n"
  by (simp add: load_bytes_def)

end
