(* ===== verification/Range_For.thy ===== *)
theory Range_For
  imports Memory "HOL-Library.While_Combinator"
begin

text \<open>
  The range-based \<open>for\<close> over a range of pointers, as the language defines it: the iterator starts
  at the first element and the loop runs while it differs from the end (a test for inequality
  and not for order), with \<open>stride\<close> the size of an element.  \<open>None\<close> is a loop that never ends.
  The code has two such loops, over \<open>std::string_view{c_str, len}\<close> in \<^verbatim>\<open>stat.hpp\<close> and over a
  \<open>std::initializer_list\<close> in \<^verbatim>\<open>syslog.hpp\<close>.
\<close>

definition range_for :: "addr \<Rightarrow> addr \<Rightarrow> addr \<Rightarrow> ('s \<Rightarrow> addr \<Rightarrow> 's) \<Rightarrow> 's \<Rightarrow> 's option" where
  "range_for stride first stop body s =
     map_option snd
       (while_option (\<lambda>(it, s). it \<noteq> stop) (\<lambda>(it, s). (it + stride, body s it)) (first, s))"

text \<open>A loop whose guard first fails after \<open>n\<close> rounds ends, in the state of that round.\<close>

lemma while_option_rounds:
  assumes "\<And>k. k < n \<Longrightarrow> b ((c ^^ k) s)" and "\<not> b ((c ^^ n) s)"
  shows "while_option b c s = Some ((c ^^ n) s)"
  using assms
proof (induction n arbitrary: s)
  case 0
  then show ?case by (simp add: while_option_unfold)
next
  case (Suc n)
  have "b s"
    using Suc.prems(1) [of 0] by simp
  moreover have "while_option b c (c s) = Some ((c ^^ n) (c s))"
    using Suc.prems(1) [of "Suc k" for k] Suc.prems(2)
    by (intro Suc.IH) (simp_all add: funpow_swap1)
  ultimately show ?case
    by (simp add: while_option_unfold [of b c s] funpow_swap1)
qed

text \<open>The state of the loop after \<open>k\<close> rounds.\<close>

lemma range_for_rounds:
  "((\<lambda>(it, s). (it + stride, body s it)) ^^ k) (first, s) =
     (first + of_nat k * stride, foldl body s (map (\<lambda>i. first + of_nat i * stride) [0..<k]))"
  for first :: addr
  by (induction k) (simp_all add: algebra_simps)

lemma range_for_ends:
  assumes "\<And>k. k < n \<Longrightarrow> (of_nat k * stride :: addr) \<noteq> of_nat n * stride"
  shows "range_for stride first (first + of_nat n * stride) body s =
    Some (foldl body s (map (\<lambda>i. first + of_nat i * stride) [0..<n]))"
  using assms unfolding range_for_def
  by (subst while_option_rounds [of n]) (simp_all add: range_for_rounds)

text \<open>
  A range of bytes ends for every start and every length, also where it wraps around the end of
  the address space; a range of words ends when its bytes fit the address space.
\<close>

lemma of_nat_addr_inj:
  assumes "i < 2 ^ 64" and "j < 2 ^ 64"
  shows "(of_nat i :: addr) = of_nat j \<longleftrightarrow> i = j"
proof
  assume "(of_nat i :: addr) = of_nat j"
  then have "unat (of_nat i :: addr) = unat (of_nat j :: addr)"
    by simp
  with assms show "i = j"
    by (simp add: unat_of_nat)
qed simp

lemma range_for_bytes:
  "range_for 1 first (first + len) body s =
    Some (foldl body s (map (\<lambda>i. first + of_nat i) [0..<unat len]))"
proof -
  have "(of_nat k * 1 :: addr) \<noteq> of_nat (unat len) * 1" if "k < unat len" for k
    using of_nat_addr_inj [of k "unat len"] that unat_lt_64 [of len] by simp
  from range_for_ends [OF this] show ?thesis
    by simp
qed

lemma range_for_words:
  assumes "unat n < 2 ^ 62"
  shows "range_for 4 first (first + n * 4) body s =
    Some (foldl body s (map (\<lambda>i. first + of_nat i * 4) [0..<unat n]))"
proof -
  have "(of_nat k * 4 :: addr) \<noteq> of_nat (unat n) * 4" if "k < unat n" for k
    using of_nat_addr_inj [of "k * 4" "unat n * 4"] that assms by simp
  from range_for_ends [OF this] show ?thesis
    by simp
qed

end
