(* ===== verification/Stat.thy ===== *)
theory Stat
  imports Util Range_For
begin

text \<open>
  \<^verbatim>\<open>stat.hpp\<close>: file types, permission flags, and the user-defined literals that read a
  permission set from a string such as \<open>"rw"_user\<close>.
\<close>

section \<open>Enumerations\<close>

datatype file_type = File_type (file_type_bits: "32 word")

definition file_type_table :: enum_table where
  "file_type_table =
     [(''blk'', Macro ''S_IFBLK''), (''chr'', Macro ''S_IFCHR''), (''fifo'', Macro ''S_IFIFO''),
      (''ifreg'', Macro ''S_IFREG''), (''iflnk'', Macro ''S_IFLNK''),
      (''ifsock'', Macro ''S_IFSOCK'')]"

datatype permission = Permission (permission_bits: "32 word")

definition permission_table :: enum_table where
  "permission_table =
     [(''none'', Literal 0), (''user_read'', Macro ''S_IRUSR''),
      (''user_write'', Macro ''S_IWUSR''), (''user_execute'', Macro ''S_IXUSR''),
      (''user_all'', Macro ''S_IRWXU''), (''group_read'', Macro ''S_IRGRP''),
      (''group_write'', Macro ''S_IWGRP''), (''group_execute'', Macro ''S_IXGRP''),
      (''group_all'', Macro ''S_IRWXG''), (''other_read'', Macro ''S_IROTH''),
      (''other_write'', Macro ''S_IWOTH''), (''other_execute'', Macro ''S_IXOTH''),
      (''other_all'', Macro ''S_IRWXO'')]"

text \<open>The enumerator of a name, as a value of the enumeration.\<close>

definition permission_value :: "headers \<Rightarrow> string \<Rightarrow> permission" where
  "permission_value hdr name = Permission (the (enumerator hdr permission_table name))"

definition permission_or :: "permission \<Rightarrow> permission \<Rightarrow> permission" where
  "permission_or lhs rhs = Permission (permission_bits lhs OR permission_bits rhs)"

text \<open>\<open>lhs |= rhs\<close> assigns to \<open>lhs\<close> and returns it.\<close>

definition permission_or_assign :: "permission \<Rightarrow> permission \<Rightarrow> permission" where
  "permission_or_assign lhs rhs = permission_or lhs rhs"

interpretation permission: flag_enum permission_bits Permission permission_or
  by unfold_locales (simp_all add: permission_or_def)

text \<open>
  The constants \<open>blk\<close>, ..., \<open>ifsock\<close> carry the file type of their name; so do the constants
  \<open>user_read\<close>, ..., \<open>other_all\<close> for permissions, where \<open>no_permissions\<close> carries \<open>none\<close>.
\<close>

definition file_type_constant :: "headers \<Rightarrow> string \<Rightarrow> file_type enum_flag option" where
  "file_type_constant hdr name =
     map_option (\<lambda>v. Enum_flag (File_type v)) (enumerator hdr file_type_table name)"

definition permission_constant :: "headers \<Rightarrow> string \<Rightarrow> permission enum_flag option" where
  "permission_constant hdr name =
     map_option (\<lambda>v. Enum_flag (Permission v))
       (if name = ''no_permissions'' then enumerator hdr permission_table ''none''
        else if name = ''none'' then None
        else enumerator hdr permission_table name)"

section \<open>The permission literals\<close>

text \<open>
  The loop over the characters of \<open>std::string_view{c_str, len}\<close>; \<open>p\<close> starts as the
  zero of the enumeration.  A view of \<open>len\<close> characters is a string of that length.
\<close>

definition str_to_permission :: "string \<Rightarrow> (char \<Rightarrow> permission) \<Rightarrow> permission" where
  "str_to_permission view char_to_permission =
     foldl (\<lambda>p c. permission_or_assign p (char_to_permission c)) (Permission 0) view"

text \<open>
  The same function as a loop over memory: \<open>c_str\<close> points to the first of \<open>len\<close> characters and
  the loop advances an iterator up to \<open>c_str + len\<close>.  \<open>None\<close> is a loop without end.
\<close>

definition str_to_permission_loop ::
  "(addr \<Rightarrow> byte) \<Rightarrow> addr \<Rightarrow> size_t \<Rightarrow> (char \<Rightarrow> permission) \<Rightarrow> permission option" where
  "str_to_permission_loop mem c_str len char_to_permission =
     range_for 1 c_str (c_str + len)
       (\<lambda>p it. permission_or_assign p (char_to_permission (char_of (unat (mem it)))))
       (Permission 0)"

definition char_to_permission ::
  "permission \<Rightarrow> permission \<Rightarrow> permission \<Rightarrow> char \<Rightarrow> permission" where
  "char_to_permission Read Write Execute c =
     (if c = CHR ''R'' \<or> c = CHR ''r'' then Read
      else if c = CHR ''W'' \<or> c = CHR ''w'' then Write
      else if c = CHR ''X'' \<or> c = CHR ''x'' then Execute
      else Permission 0)"

definition user_literal :: "headers \<Rightarrow> string \<Rightarrow> permission" where
  "user_literal hdr view =
     str_to_permission view
       (char_to_permission (permission_value hdr ''user_read'')
         (permission_value hdr ''user_write'') (permission_value hdr ''user_execute''))"

definition group_literal :: "headers \<Rightarrow> string \<Rightarrow> permission" where
  "group_literal hdr view =
     str_to_permission view
       (char_to_permission (permission_value hdr ''group_read'')
         (permission_value hdr ''group_write'') (permission_value hdr ''group_execute''))"

definition other_literal :: "headers \<Rightarrow> string \<Rightarrow> permission" where
  "other_literal hdr view =
     str_to_permission view
       (char_to_permission (permission_value hdr ''other_read'')
         (permission_value hdr ''other_write'') (permission_value hdr ''other_execute''))"

section \<open>Lemmas\<close>

lemma permission_or_assign_eq [simp]: "permission_or_assign = permission_or"
  by (intro ext) (simp add: permission_or_assign_def)

lemma str_to_permission_foldl:
  "str_to_permission view f = foldl permission_or (Permission 0) (map f view)"
  by (simp add: str_to_permission_def foldl_map)

lemma permission_bits_str:
  "permission_bits (str_to_permission view f) = or_all (map (permission_bits \<circ> f) view)"
  by (simp add: str_to_permission_foldl permission.underlying_foldl_or)

text \<open>The loop over memory computes what the fold over the string in memory computes.\<close>

definition memory_string :: "(addr \<Rightarrow> byte) \<Rightarrow> addr \<Rightarrow> size_t \<Rightarrow> string" where
  "memory_string mem c_str len = map (\<lambda>b. char_of (unat b)) (load_bytes c_str (unat len) mem)"

lemma str_to_permission_loop_eq:
  "str_to_permission_loop mem c_str len f = Some (str_to_permission (memory_string mem c_str len) f)"
  by (simp add: str_to_permission_loop_def range_for_bytes str_to_permission_def foldl_map
      memory_string_def load_bytes_def comp_def)

text \<open>
  Only the set of characters counts: their order and repetitions do not, and a character that
  is none of the six adds nothing.
\<close>

lemma str_to_permission_cong:
  "set v = set w \<Longrightarrow> str_to_permission v f = str_to_permission w f"
  by (simp add: str_to_permission_foldl permission.foldl_or_set_cong)

text \<open>The bits of a literal: one group for each class of characters that occurs in it.\<close>

definition literal_bits :: "string \<Rightarrow> permission \<Rightarrow> permission \<Rightarrow> permission \<Rightarrow> 32 word" where
  "literal_bits view Read Write Execute =
     (if CHR ''R'' \<in> set view \<or> CHR ''r'' \<in> set view then permission_bits Read else 0) OR
     (if CHR ''W'' \<in> set view \<or> CHR ''w'' \<in> set view then permission_bits Write else 0) OR
     (if CHR ''X'' \<in> set view \<or> CHR ''x'' \<in> set view then permission_bits Execute else 0)"

lemma literal_bits_spec:
  "permission_bits (str_to_permission view (char_to_permission Read Write Execute)) =
     literal_bits view Read Write Execute"
proof (induction view)
  case Nil
  show ?case by (simp add: permission_bits_str literal_bits_def)
next
  case (Cons c view)
  have "permission_bits (str_to_permission (c # view) (char_to_permission Read Write Execute)) =
      permission_bits (char_to_permission Read Write Execute c) OR literal_bits view Read Write Execute"
    using Cons.IH by (simp add: permission_bits_str)
  also have "\<dots> = literal_bits (c # view) Read Write Execute"
    by (rule bit_word_eqI) (auto simp: literal_bits_def char_to_permission_def bit_simps)
  finally show ?case .
qed

text \<open>
  The literal of a concatenation is the OR of the literals, and neither the order nor the
  repetition of the letters matters.
\<close>

lemma permission_literal_append:
  "\<forall>lit \<in> {user_literal hdr, group_literal hdr, other_literal hdr}.
     lit (v @ w) = permission_or (lit v) (lit w) \<and> lit (w @ v) = lit (v @ w) \<and>
     lit (remdups v) = lit v"
proof -
  have append: "str_to_permission (v @ w) f =
      permission_or (str_to_permission v f) (str_to_permission w f)" for f
  proof -
    have "permission_bits (str_to_permission (v @ w) f) =
        permission_bits (permission_or (str_to_permission v f) (str_to_permission w f))"
      by (rule bit_word_eqI) (auto simp: permission_bits_str permission_or_def bit_simps)
    then show ?thesis
      by (simp only: permission.underlying_inject)
  qed
  have "str_to_permission (w @ v) f = str_to_permission (v @ w) f"
    and "str_to_permission (remdups v) f = str_to_permission v f" for f
    by (rule str_to_permission_cong; auto)+
  with append show ?thesis
    by (simp add: user_literal_def group_literal_def other_literal_def)
qed

section \<open>Properties\<close>

text \<open>
  C26.  The permission literals mean what they say: \<open>_user\<close>, \<open>_group\<close> and \<open>_other\<close> give the OR of the
  read, write and execute bits of their class for the letters (in either case) that occur in the
  string, and no other bit.
\<close>

theorem permission_literals:
  "permission_bits (user_literal hdr view) =
     literal_bits view (Permission (hdr ''S_IRUSR'')) (Permission (hdr ''S_IWUSR''))
       (Permission (hdr ''S_IXUSR'')) \<and>
   permission_bits (group_literal hdr view) =
     literal_bits view (Permission (hdr ''S_IRGRP'')) (Permission (hdr ''S_IWGRP''))
       (Permission (hdr ''S_IXGRP'')) \<and>
   permission_bits (other_literal hdr view) =
     literal_bits view (Permission (hdr ''S_IROTH'')) (Permission (hdr ''S_IWOTH''))
       (Permission (hdr ''S_IXOTH''))"
  by (simp add: user_literal_def group_literal_def other_literal_def literal_bits_spec
      permission_value_def permission_table_def enumerator_def)

text \<open>
  C27.  The loop of the permission literals ends for every pointer and every length, the empty
  string and a range that wraps around the end of the address space included, and its result is
  the OR of the permissions of the characters in that range of memory and of no others.
\<close>

theorem str_to_permission_terminates:
  "str_to_permission_loop mem c_str len f =
     Some (Permission (or_all
       (map (\<lambda>i. permission_bits (f (char_of (unat (mem (c_str + of_nat i)))))) [0..<unat len])))"
proof -
  have "str_to_permission_loop mem c_str len f = Some (str_to_permission (memory_string mem c_str len) f)"
    by (rule str_to_permission_loop_eq)
  also have "str_to_permission (memory_string mem c_str len) f =
      Permission (permission_bits (str_to_permission (memory_string mem c_str len) f))"
    by simp
  finally show ?thesis
    by (simp add: permission_bits_str memory_string_def load_bytes_def comp_def)
qed

end
