(* ===== verification/Descriptor.thy ===== *)
theory Descriptor
  imports Util
begin

text \<open>
  \<^verbatim>\<open>descriptor.hpp\<close>, \<^verbatim>\<open>file_descriptor.hpp\<close> and \<^verbatim>\<open>file_descriptor.cpp\<close>: the template
  \<open>descriptor<Descriptor, GetNull, ClosePolicy>\<close> that owns a handle, and its instance for file
  descriptors.  The template's arguments are arguments of the definitions: \<open>null\<close> is the value
  \<open>GetNull{}()\<close> and \<open>policy\<close> the function \<open>ClosePolicy\<close>.  An operation that changes the
  object returns the changed object.
\<close>

section \<open>The template\<close>

record 'd descriptor =
  raw_descriptor :: 'd

type_synonym ('k, 'd) close_policy = "'d \<Rightarrow> ('k, error_code) io"

definition descriptor_default :: "'d \<Rightarrow> 'd descriptor" where
  "descriptor_default null = \<lparr>raw_descriptor = null\<rparr>"

definition descriptor_of_null_d :: "'d \<Rightarrow> 'd descriptor" where
  "descriptor_of_null_d null = \<lparr>raw_descriptor = null\<rparr>"

definition descriptor_of :: "'d \<Rightarrow> 'd descriptor" where
  "descriptor_of d = \<lparr>raw_descriptor = d\<rparr>"

definition descriptor_empty :: "'d \<Rightarrow> 'd descriptor \<Rightarrow> bool" where
  "descriptor_empty null this \<longleftrightarrow> raw_descriptor this = null"

definition descriptor_eq_null_d :: "'d \<Rightarrow> 'd descriptor \<Rightarrow> bool" where
  "descriptor_eq_null_d null this \<longleftrightarrow> descriptor_empty null this"

definition descriptor_bool :: "'d \<Rightarrow> 'd descriptor \<Rightarrow> bool" where
  "descriptor_bool null this \<longleftrightarrow> \<not> descriptor_empty null this"

definition descriptor_raw :: "'d descriptor \<Rightarrow> 'd" where
  "descriptor_raw this = raw_descriptor this"

definition descriptor_deref :: "'d descriptor \<Rightarrow> 'd" where
  "descriptor_deref this = descriptor_raw this"

definition descriptor_release :: "'d \<Rightarrow> 'd descriptor \<Rightarrow> 'd \<times> 'd descriptor" where
  "descriptor_release null this =
     (let tmp_fd = raw_descriptor this in (tmp_fd, this\<lparr>raw_descriptor := null\<rparr>))"

definition descriptor_close ::
  "('k, 'd) close_policy \<Rightarrow> 'd \<Rightarrow> 'd descriptor \<Rightarrow> ('k, error_code \<times> 'd descriptor) io" where
  "descriptor_close policy null this = do {
     error \<leftarrow> policy (descriptor_raw this);
     let this' = (if \<not> is_error error then this\<lparr>raw_descriptor := null\<rparr> else this);
     State_Monad.return (error, this')
   }"

text \<open>The destructor closes and drops the error (its branch is empty but for a comment).\<close>

definition descriptor_destroy ::
  "('k, 'd) close_policy \<Rightarrow> 'd \<Rightarrow> 'd descriptor \<Rightarrow> ('k, unit) io" where
  "descriptor_destroy policy null this = do {
     (error, this') \<leftarrow> descriptor_close policy null this;
     State_Monad.return ()
   }"

text \<open>
  The move constructor: the new object starts with the null handle of the member's default
  initialiser and swaps it with the other's.  The result is the new object and the one moved
  from.
\<close>

definition descriptor_move :: "'d \<Rightarrow> 'd descriptor \<Rightarrow> 'd descriptor \<times> 'd descriptor" where
  "descriptor_move null other =
     (let this = \<lparr>raw_descriptor = null\<rparr>
      in (this\<lparr>raw_descriptor := raw_descriptor other\<rparr>,
          other\<lparr>raw_descriptor := raw_descriptor this\<rparr>))"

text \<open>
  Move assignment swaps the handles and then flows off the end of a function that promises a
  reference, which is undefined behaviour: there is no returned object (\<open>None\<close>).
\<close>

definition descriptor_move_assign ::
  "'d descriptor \<Rightarrow> 'd descriptor \<Rightarrow> ('d descriptor \<times> 'd descriptor) \<times> 'd descriptor option" where
  "descriptor_move_assign this other =
     ((this\<lparr>raw_descriptor := raw_descriptor other\<rparr>,
       other\<lparr>raw_descriptor := raw_descriptor this\<rparr>), None)"

text \<open>
  Returning an owner by value through \<open>result<T>\<close>, as in \<open>return T{handle};\<close>: the constructor
  \<open>result(T &&)\<close> moves the temporary into the variant, and the temporary, now empty, is
  destroyed.
\<close>

definition descriptor_into_result ::
  "('k, 'd) close_policy \<Rightarrow> 'd \<Rightarrow> 'd descriptor \<Rightarrow> ('k, 'd descriptor) io" where
  "descriptor_into_result policy null tmp = do {
     let (stored, tmp') = descriptor_move null tmp;
     descriptor_destroy policy null tmp';
     State_Monad.return stored
   }"

text \<open>
  \<open>result_map<U>\<close> with a function that builds an owner from the value: the function's result is
  the temporary that \<open>result(U &&)\<close> moves from.  \<open>wrap\<close> makes the object of class \<open>U\<close>, whose only
  member is the descriptor.
\<close>

definition result_map_owner ::
  "('k, 'd) close_policy \<Rightarrow> 'd \<Rightarrow> ('d descriptor \<Rightarrow> 'u) \<Rightarrow> 'd result \<Rightarrow> ('k, 'u result) io" where
  "result_map_owner policy null wrap res =
     (case result_get_value_unsafe res of
        Some d \<Rightarrow> do {
          stored \<leftarrow> descriptor_into_result policy null (descriptor_of d);
          State_Monad.return (Value (wrap stored))
        }
      | None \<Rightarrow> State_Monad.return (Error (the (result_get_error_unsafe res))))"

lemma raw_descriptor_default [simp]: "raw_descriptor (descriptor_default null) = null"
  by (simp add: descriptor_default_def)

lemma raw_descriptor_of [simp]: "raw_descriptor (descriptor_of d) = d"
  by (simp add: descriptor_of_def)

lemma descriptor_of_raw [simp]: "descriptor_of (raw_descriptor a) = a"
  by (simp add: descriptor_of_def)

lemma descriptor_raw_eq [simp]: "descriptor_raw a = raw_descriptor a"
  by (simp add: descriptor_raw_def)

lemma descriptor_deref_eq [simp]: "descriptor_deref a = raw_descriptor a"
  by (simp add: descriptor_deref_def)

lemma descriptor_release_eq [simp]:
  "descriptor_release null a = (raw_descriptor a, descriptor_default null)"
  by (cases a) (simp add: descriptor_release_def descriptor_default_def)

lemma descriptor_move_eq [simp]: "descriptor_move null a = (a, descriptor_default null)"
  by (cases a) (simp add: descriptor_move_def descriptor_default_def)

lemma descriptor_move_assign_eq: "descriptor_move_assign a b = ((b, a), None)"
  by (cases a; cases b) (simp add: descriptor_move_assign_def)

lemma run_descriptor_close [run_simps]:
  "run_state (descriptor_close policy null a) w =
     (let (ec, w') = run_state (policy (raw_descriptor a)) w
      in ((ec, if is_error ec then a else descriptor_default null), w'))"
  by (cases a) (simp add: descriptor_close_def descriptor_default_def case_prod_beta Let_def)

lemma run_descriptor_destroy [run_simps]:
  "run_state (descriptor_destroy policy null a) w = ((), snd (run_state (policy (raw_descriptor a)) w))"
  by (simp add: descriptor_destroy_def run_simps)

lemma run_descriptor_into_result [run_simps]:
  "run_state (descriptor_into_result policy null a) w = (a, snd (run_state (policy null) w))"
  by (simp add: descriptor_into_result_def run_simps)

lemma run_result_map_owner [run_simps]:
  "run_state (result_map_owner policy null wrap (Value d)) w =
     (Value (wrap (descriptor_of d)), snd (run_state (policy null) w))"
  "run_state (result_map_owner policy null wrap (Error ec)) w = (Error ec, w)"
  by (simp_all add: result_map_owner_def run_simps)

section \<open>The contract of a close policy\<close>

text \<open>
  What the documentation of a closing function says of the handles: \<open>opened\<close> gives the handles
  that are open in a state of the system; the null handle never is.  A close affects no handle
  but its own.  If it succeeds, its handle is not open any more.  If it fails, it sets \<open>errno\<close>, and
  whether its handle is still open is unspecified: POSIX leaves that open for \<open>EINTR\<close> and \<open>EIO\<close>,
  and Linux always releases the descriptor.
\<close>

definition handle_table ::
  "('d \<Rightarrow> ('k, 'w::len word) io) \<Rightarrow> ('k \<Rightarrow> 'd set) \<Rightarrow> 'd \<Rightarrow> bool" where
  "handle_table call opened null \<longleftrightarrow>
     (\<forall>k. null \<notin> opened k) \<and>
     (\<forall>d w r w'. run_state (call d) w = (r, w') \<longrightarrow>
        (r = -1 \<longrightarrow> errno_of w' \<noteq> 0 \<and>
           opened (kernel_of w') \<in> {opened (kernel_of w), opened (kernel_of w) - {d}}) \<and>
        (r \<noteq> -1 \<longrightarrow> opened (kernel_of w') = opened (kernel_of w) - {d}))"

text \<open>
  Every close policy of the code is \<open>PPOSIX_COMMON_CALL\<close> of one closing function.  From that
  and the documented behaviour the locale derives how the owner and the table of open handles
  move together.
\<close>

locale close_policy =
  fixes null :: 'd
    and policy :: "('k, 'd) close_policy"
    and call :: "'d \<Rightarrow> ('k, 'w::len word) io"
  assumes policy_eq: "policy d = common_call (call d)"
begin

lemma policy_cases:
  assumes "handle_table call opened null" and "run_state (policy d) w = (ec, w')"
  obtains (closed) "\<not> is_error ec"
      "opened (kernel_of w') = opened (kernel_of w) - {d}"
    | (failed) "is_error ec" "ec_value ec = errno_of w'"
      "opened (kernel_of w') \<in> {opened (kernel_of w), opened (kernel_of w) - {d}}"
proof -
  obtain r where r: "run_state (call d) w = (r, w')"
    and ec: "ec = (if r = -1 then make_errno_code (errno_of w') else no_error)"
    using assms(2) unfolding policy_eq by (rule common_callE)
  show thesis
  proof (cases "r = -1")
    case True
    with assms(1) r ec show ?thesis
      by (intro failed) (auto simp: handle_table_def)
  next
    case False
    with assms(1) r ec show ?thesis
      by (intro closed) (auto simp: handle_table_def)
  qed
qed

lemma null_not_open: "handle_table call opened null \<Longrightarrow> null \<notin> opened k"
  by (simp add: handle_table_def)

lemma policy_null:
  assumes "handle_table call opened null" and "run_state (policy null) w = (ec, w')"
  shows "opened (kernel_of w') = opened (kernel_of w)"
  using assms null_not_open [OF assms(1)] by (cases rule: policy_cases) auto

text \<open>
  \<open>close()\<close> empties the owner exactly when the system reports success; after a failure it keeps the
  handle, whether or not the system has released it.
\<close>

lemma close_spec:
  assumes "handle_table call opened null"
    and "run_state (descriptor_close policy null a) w = ((ec, a'), w')"
  shows "(\<not> is_error ec \<longrightarrow> a' = descriptor_default null \<and>
            opened (kernel_of w') = opened (kernel_of w) - {raw_descriptor a})
       \<and> (is_error ec \<longrightarrow> a' = a \<and> ec_value ec = errno_of w' \<and>
            opened (kernel_of w') \<in> {opened (kernel_of w), opened (kernel_of w) - {raw_descriptor a}})"
proof -
  have r: "run_state (policy (raw_descriptor a)) w = (ec, w')"
    and a': "a' = (if is_error ec then a else descriptor_default null)"
    using assms(2) by (auto simp: run_simps)
  from assms(1) r show ?thesis
    by (cases rule: policy_cases) (simp_all add: a')
qed

text \<open>A second \<open>close()\<close> after a successful one cannot reach the handle.\<close>

lemma close_twice:
  assumes "handle_table call opened null"
    and "run_state (descriptor_close policy null a) w = ((ec, a'), w')" and "\<not> is_error ec"
    and "run_state (descriptor_close policy null a') w' = ((ec2, a''), w'')"
  shows "a'' = descriptor_default null \<and>
     opened (kernel_of w'') = opened (kernel_of w')"
  using close_spec [OF assms(1,2)] close_spec [OF assms(1,4)] null_not_open [OF assms(1)] assms(3)
  by auto

lemma destroy_spec:
  assumes "handle_table call opened null"
    and "run_state (descriptor_destroy policy null a) w = (u, w')"
  shows "opened (kernel_of w') = opened (kernel_of w) \<or>
     opened (kernel_of w') = opened (kernel_of w) - {raw_descriptor a}"
proof -
  obtain ec where "run_state (policy (raw_descriptor a)) w = (ec, w')"
    using assms(2) by (auto simp: run_simps prod_eq_iff)
  with assms(1) show ?thesis
    by (cases rule: policy_cases) auto
qed

text \<open>Moving an owner into a \<open>result\<close> keeps its handle and every other handle open.\<close>

lemma into_result_spec:
  assumes "handle_table call opened null"
    and "run_state (descriptor_into_result policy null a) w = (b, w')"
  shows "b = a \<and> opened (kernel_of w') = opened (kernel_of w)"
  using policy_null [OF assms(1), of w "fst (run_state (policy null) w)" w'] assms(2)
  by (auto simp: run_simps)

end

section \<open>File descriptors\<close>

type_synonym raw_fd_t = c_int

datatype raw_fd = Raw_fd (raw_fd_value: raw_fd_t)

definition descriptor_constant :: "(raw_fd_t \<Rightarrow> 'd) \<Rightarrow> raw_fd_t \<Rightarrow> 'd" where
  "descriptor_constant FdWrapper Fd = FdWrapper Fd"

definition close_fd :: "'k posix \<Rightarrow> ('k, raw_fd) close_policy" where
  "close_fd sys fd = common_call (sys_close sys (raw_fd_value fd))"

definition file_descriptor_null :: raw_fd where
  "file_descriptor_null = descriptor_constant Raw_fd (-1)"

type_synonym file_descriptor = "raw_fd descriptor"

interpretation fd_policy: close_policy file_descriptor_null "close_fd sys"
    "\<lambda>fd. sys_close sys (raw_fd_value fd)" for sys
  by unfold_locales (rule close_fd_def)

end
