(* ===== verification/Platform.thy ===== *)
theory Platform
  imports Prelude
begin

text \<open>
  \<^verbatim>\<open>platform.hpp\<close> and \<^verbatim>\<open>extension.hpp\<close>: the platform is detected from the compiler's predefined macros,
  and the extensions default to off.  A set of macro definitions is a partial map from names to
  values; the preprocessor runs over it from top to bottom.
\<close>

type_synonym macros = "string \<rightharpoonup> int"

datatype platform = Macos | Freebsd | Openbsd | Solaris | Linux

text \<open>\<open>defined(M) && M\<close>\<close>

definition defined_true :: "macros \<Rightarrow> string \<Rightarrow> bool" where
  "defined_true env m \<longleftrightarrow> (case env m of None \<Rightarrow> False | Some v \<Rightarrow> v \<noteq> 0)"

text \<open>The five macros are first defined as 0.\<close>

definition platform_base :: "macros \<Rightarrow> macros" where
  "platform_base env = env
     (''PPOSIX_PLATFORM_MACOS'' \<mapsto> 0, ''PPOSIX_PLATFORM_FREEBSD'' \<mapsto> 0,
      ''PPOSIX_PLATFORM_OPENBSD'' \<mapsto> 0, ''PPOSIX_PLATFORM_SOLARIS'' \<mapsto> 0,
      ''PPOSIX_PLATFORM_LINUX'' \<mapsto> 0)"

text \<open>
  The branches of the header, in its order: the one that is taken defines the constant
  \<open>compilation_platform\<close>, undefines one macro and defines it again.  The result is the macros at the
  end of the header and the constant; \<open>None\<close> is the branch with \<open>#error\<close>.
\<close>

definition platform_header :: "macros \<Rightarrow> (macros \<times> platform) option" where
  "platform_header env =
     (let env = platform_base env
      in if defined_true env ''__APPLE__'' \<and> defined_true env ''__MACH__''
         then let compilation_platform = Macos;
                  env = env(''PPOSIX_PLATFORM_MACOS'' := None);
                  env = env(''PPOSIX_PLATFORM_MACOS'' \<mapsto> 1)
              in Some (env, compilation_platform)
         else if defined_true env ''__FreeBSD__''
         then let compilation_platform = Freebsd;
                  env = env(''PPOSIX_PLATFORM_FREEBSD'' := None);
                  env = env(''PPOSIX_PLATFORM_FREEBSD'' \<mapsto> 1)
              in Some (env, compilation_platform)
         else if defined_true env ''__OpenBSD__''
         then let compilation_platform = Openbsd;
                  env = env(''PPOSIX_PLATFORM_OPENBSD'' := None);
                  env = env(''PPOSIX_PLATFORM_OPENBSD'' \<mapsto> 1)
              in Some (env, compilation_platform)
         else if defined_true env ''__sun''
         then let compilation_platform = Solaris;
                  env = env(''PPOSIX_PLATFORM_SOLARIS'' := None);
                  env = env(''PPOSIX_PLATFORM_SOLARIS'' \<mapsto> 1)
              in Some (env, compilation_platform)
         else if defined_true env ''__linux__''
         then let compilation_platform = Linux;
                  env = env(''PPOSIX_PLATFORM_LINUX'' := None);
                  env = env(''PPOSIX_PLATFORM_LINUX'' \<mapsto> 1)
              in Some (env, compilation_platform)
         else None)"

text \<open>\<open>#ifndef M / #define M 0 / #endif\<close>\<close>

definition default_off :: "macros \<Rightarrow> string \<Rightarrow> macros" where
  "default_off env m = (case env m of None \<Rightarrow> env(m \<mapsto> 0) | Some _ \<Rightarrow> env)"

definition extension_macros :: "string list" where
  "extension_macros =
     [''PPOSIX_MACOS_EXTENSION_ENABLED'', ''PPOSIX_FREEBSD_EXTENSION_ENABLED'',
      ''PPOSIX_OPENBSD_EXTENSION_ENABLED'', ''PPOSIX_SOLARIS_EXTENSION_ENABLED'',
      ''PPOSIX_LINUX_EXTENSION_ENABLED'', ''PPOSIX_REALTIME_EXTENSION_ENABLED'']"

definition extension_header :: "macros \<Rightarrow> macros" where
  "extension_header env = foldl default_off env extension_macros"

section \<open>Lemmas\<close>

lemma default_off_lookup:
  "default_off env m n = (if n = m \<and> env m = None then Some 0 else env n)"
  by (auto simp: default_off_def split: option.splits)

lemma foldl_default_off:
  "foldl default_off env ms n = (if n \<in> set ms \<and> env n = None then Some 0 else env n)"
  by (induction ms arbitrary: env) (auto simp: default_off_lookup)

text \<open>
  \<^verbatim>\<open>extension.hpp\<close> leaves all six extension macros defined: one that the user set keeps its
  value, the others are 0; no other macro changes, and including it again changes nothing.
\<close>

lemma extension_header_defaults:
  "extension_header env m =
     (case env m of Some v \<Rightarrow> Some v | None \<Rightarrow> if m \<in> set extension_macros then Some 0 else None) \<and>
   extension_header (extension_header env) = extension_header env"
  by (auto simp: extension_header_def foldl_default_off split: option.splits)

section \<open>Properties\<close>

text \<open>
  What the header is for: the macros by which the compilers of each platform announce it, the
  platforms in the order in which they are tried, and the macro that stands for each in the
  library.
\<close>

fun vendor_macros :: "platform \<Rightarrow> string list" where
  "vendor_macros Macos = [''__APPLE__'', ''__MACH__'']"
| "vendor_macros Freebsd = [''__FreeBSD__'']"
| "vendor_macros Openbsd = [''__OpenBSD__'']"
| "vendor_macros Solaris = [''__sun'']"
| "vendor_macros Linux = [''__linux__'']"

fun platform_macro :: "platform \<Rightarrow> string" where
  "platform_macro Macos = ''PPOSIX_PLATFORM_MACOS''"
| "platform_macro Freebsd = ''PPOSIX_PLATFORM_FREEBSD''"
| "platform_macro Openbsd = ''PPOSIX_PLATFORM_OPENBSD''"
| "platform_macro Solaris = ''PPOSIX_PLATFORM_SOLARIS''"
| "platform_macro Linux = ''PPOSIX_PLATFORM_LINUX''"

definition announced :: "macros \<Rightarrow> platform \<Rightarrow> bool" where
  "announced env p \<longleftrightarrow> list_all (\<lambda>m. \<exists>v. env m = Some v \<and> v \<noteq> 0) (vendor_macros p)"

definition detected :: "macros \<Rightarrow> platform option" where
  "detected env = List.find (announced env) [Macos, Freebsd, Openbsd, Solaris, Linux]"

lemma all_platforms: "(\<forall>q. P q) \<longleftrightarrow> P Macos \<and> P Freebsd \<and> P Openbsd \<and> P Solaris \<and> P Linux"
  by (metis platform.exhaust)

lemma defined_true_iff: "defined_true env m \<longleftrightarrow> (\<exists>v. env m = Some v \<and> v \<noteq> 0)"
  by (simp add: defined_true_def split: option.split)

lemma announced_simps:
  "announced env Macos \<longleftrightarrow>
     defined_true (platform_base env) ''__APPLE__'' \<and> defined_true (platform_base env) ''__MACH__''"
  "announced env Freebsd \<longleftrightarrow> defined_true (platform_base env) ''__FreeBSD__''"
  "announced env Openbsd \<longleftrightarrow> defined_true (platform_base env) ''__OpenBSD__''"
  "announced env Solaris \<longleftrightarrow> defined_true (platform_base env) ''__sun''"
  "announced env Linux \<longleftrightarrow> defined_true (platform_base env) ''__linux__''"
  by (simp_all add: announced_def defined_true_iff platform_base_def)

lemma platform_header_cases:
  "platform_header env =
     map_option (\<lambda>p. ((platform_base env)(platform_macro p \<mapsto> 1), p)) (detected env)"
  by (simp add: platform_header_def detected_def announced_simps Let_def)

text \<open>
  C36.  \<^verbatim>\<open>platform.hpp\<close> stops the compilation when the compiler announces none of the five platforms.
  Otherwise \<open>compilation_platform\<close> is the first platform that it announces, the library's macro of that
  platform is 1, the other four are 0, and every other macro is as it was.
\<close>

theorem platform_header_exactly_one:
  "case detected env of
     None \<Rightarrow> platform_header env = None
   | Some p \<Rightarrow> \<exists>env'. platform_header env = Some (env', p) \<and>
       (\<forall>q. env' (platform_macro q) = Some (if q = p then 1 else 0)) \<and>
       (\<forall>m. m \<notin> range platform_macro \<longrightarrow> env' m = env m)"
proof (cases "detected env")
  case (Some p)
  have "((platform_base env)(platform_macro p \<mapsto> 1)) (platform_macro q) =
      Some (if q = p then 1 else 0)" for q
    by (cases p; cases q) (simp_all add: platform_base_def)
  moreover have "((platform_base env)(platform_macro p \<mapsto> 1)) m = env m" if "m \<notin> range platform_macro" for m
  proof -
    have "\<forall>q. m \<noteq> platform_macro q"
      using that by blast
    then show ?thesis
      by (simp add: all_platforms platform_base_def) (cases p; simp)
  qed
  ultimately show ?thesis
    by (simp add: platform_header_cases Some)
qed (simp add: platform_header_cases)

theorem platform_header_exactly_one_witness:
  "\<exists>env'. platform_header [''__linux__'' \<mapsto> 1] = Some (env', Linux) \<and>
     env' ''PPOSIX_PLATFORM_LINUX'' = Some 1 \<and> env' ''PPOSIX_PLATFORM_MACOS'' = Some 0"
proof -
  have "detected [''__linux__'' \<mapsto> 1] = Some Linux"
    by (simp add: detected_def announced_def)
  with platform_header_exactly_one [of "[''__linux__'' \<mapsto> 1]"] show ?thesis
    by (auto simp: all_platforms)
qed

end
