(* ===== verification/Fcntl.thy ===== *)
theory Fcntl
  imports Stat Descriptor Platform
begin

text \<open>
  \<^verbatim>\<open>fcntl.hpp\<close> and \<^verbatim>\<open>fcntl.cpp\<close>: the commands of \<open>fcntl\<close>, the flags and access modes of
  \<open>open\<close>, and the low-level calls of the namespace \<open>capi\<close>.
\<close>

section \<open>Enumerations\<close>

text \<open>The enumerators inside \<open>#if\<close> depend on the platform.\<close>

datatype fcntl_cmd = Fcntl_cmd (fcntl_cmd_bits: "32 word")

definition fcntl_cmd_table :: "platform \<Rightarrow> enum_table" where
  "fcntl_cmd_table p =
     [(''dupfd'', Macro ''F_DUPFD''), (''dupfd_cloexec'', Macro ''F_DUPFD_CLOEXEC''),
      (''getfd'', Macro ''F_GETFD''), (''setfd'', Macro ''F_SETFD''),
      (''getfl'', Macro ''F_GETFL''), (''setfl'', Macro ''F_SETFL''),
      (''getlk'', Macro ''F_GETLK''), (''setlk'', Macro ''F_SETLK''),
      (''setlkw'', Macro ''F_SETLKW''), (''getown'', Macro ''F_GETOWN''),
      (''setown'', Macro ''F_SETOWN''), (''rdlck'', Macro ''F_RDLCK''),
      (''unlck'', Macro ''F_UNLCK''), (''wrlck'', Macro ''F_WRLCK'')] @
     (if p = Linux then
     [(''ofd_setlk'', Macro ''F_OFD_SETLK''), (''ofd_setlkw'', Macro ''F_OFD_SETLKW''),
      (''ofd_getlk'', Macro ''F_OFD_GETLK''), (''getown_ex'', Macro ''F_GETOWN_EX''),
      (''setown_ex'', Macro ''F_SETOWN_EX''), (''getsig'', Macro ''F_GETSIG''),
      (''setsig'', Macro ''F_SETSIG''), (''setlease'', Macro ''F_SETLEASE''),
      (''getlease'', Macro ''F_GETLEASE''), (''notify'', Macro ''F_NOTIFY''),
      (''setpipe_sz'', Macro ''F_SETPIPE_SZ''), (''getpipe_sz'', Macro ''F_GETPIPE_SZ''),
      (''add_seals'', Macro ''F_ADD_SEALS''), (''get_seals'', Macro ''F_GET_SEALS''),
      (''seal_seal'', Macro ''F_SEAL_SEAL''), (''seal_shrink'', Macro ''F_SEAL_SHRINK''),
      (''seal_grow'', Macro ''F_SEAL_GROW''), (''seal_write'', Macro ''F_SEAL_WRITE''),
      (''get_rw_hint'', Macro ''F_GET_RW_HINT''), (''set_rw_hint'', Macro ''F_SET_RW_HINT''),
      (''get_file_rw_hint'', Macro ''F_GET_FILE_RW_HINT''),
      (''set_file_rw_hint'', Macro ''F_GET_FILE_RW_HINT'')]
      else [])"

definition fcntl_cmd_or :: "fcntl_cmd \<Rightarrow> fcntl_cmd \<Rightarrow> fcntl_cmd" where
  "fcntl_cmd_or lhs rhs = Fcntl_cmd (fcntl_cmd_bits lhs OR fcntl_cmd_bits rhs)"

datatype open_flag = Open_flag (open_flag_bits: "32 word")

text \<open>
  On the platforms where \<open>tty_init\<close> is declared its line lacks the comma, so the
  declaration does not compile there (\<open>None\<close>).
\<close>

definition open_flag_table :: "platform \<Rightarrow> enum_table option" where
  "open_flag_table p =
     (if p \<noteq> Linux \<and> p \<noteq> Openbsd \<and> p \<noteq> Macos then None
      else Some
     ([(''cloexec'', Macro ''O_CLOEXEC''), (''creat'', Macro ''O_CREAT''),
       (''directory'', Macro ''O_DIRECTORY''), (''excl'', Macro ''O_EXCL''),
       (''noctty'', Macro ''O_NOCTTY''), (''nofollow'', Macro ''O_NOFOLLOW''),
       (''truncate'', Macro ''O_TRUNC'')] @
      [(''append'', Macro ''O_APPEND'')] @
      (if p \<noteq> Freebsd then [(''dsync'', Macro ''O_DSYNC'')] else []) @
      [(''nonblock'', Macro ''O_NONBLOCK'')] @
      (if p \<noteq> Macos \<and> p \<noteq> Freebsd then [(''rsync'', Macro ''O_RSYNC'')] else []) @
      [(''sync'', Macro ''O_SYNC''), (''rdonly'', Macro ''O_RDONLY'')]))"

definition open_flag_or :: "open_flag \<Rightarrow> open_flag \<Rightarrow> open_flag" where
  "open_flag_or lhs rhs = Open_flag (open_flag_bits lhs OR open_flag_bits rhs)"

datatype access_mode = Access_mode (access_mode_bits: "32 word")

definition access_mode_table :: "platform \<Rightarrow> enum_table" where
  "access_mode_table p =
     (if p = Linux then [(''exec'', Macro ''O_PATH'')]
      else if p \<noteq> Macos \<and> p \<noteq> Openbsd then [(''exec'', Macro ''O_EXEC'')] else []) @
     [(''read'', Macro ''O_RDONLY''), (''read_write'', Macro ''O_RDWR'')] @
     (if p \<noteq> Linux \<and> p \<noteq> Freebsd \<and> p \<noteq> Openbsd \<and> p \<noteq> Macos
      then [(''search'', Macro ''O_SEARCH'')] else []) @
     [(''write'', Macro ''O_WRONLY''), (''accmode'', Macro ''O_ACCMODE'')]"

definition access_mode_or :: "access_mode \<Rightarrow> access_mode \<Rightarrow> access_mode" where
  "access_mode_or lhs rhs = Access_mode (access_mode_bits lhs OR access_mode_bits rhs)"

text \<open>\<open>lhs |= rhs\<close> assigns to \<open>lhs\<close> and returns it.\<close>

definition fcntl_cmd_or_assign :: "fcntl_cmd \<Rightarrow> fcntl_cmd \<Rightarrow> fcntl_cmd" where
  "fcntl_cmd_or_assign lhs rhs = fcntl_cmd_or lhs rhs"

definition open_flag_or_assign :: "open_flag \<Rightarrow> open_flag \<Rightarrow> open_flag" where
  "open_flag_or_assign lhs rhs = open_flag_or lhs rhs"

definition access_mode_or_assign :: "access_mode \<Rightarrow> access_mode \<Rightarrow> access_mode" where
  "access_mode_or_assign lhs rhs = access_mode_or lhs rhs"

interpretation fcntl_cmd: flag_enum fcntl_cmd_bits Fcntl_cmd fcntl_cmd_or
  by unfold_locales (simp_all add: fcntl_cmd_or_def)

interpretation open_flag: flag_enum open_flag_bits Open_flag open_flag_or
  by unfold_locales (simp_all add: open_flag_or_def)

interpretation access_mode: flag_enum access_mode_bits Access_mode access_mode_or
  by unfold_locales (simp_all add: access_mode_or_def)

text \<open>
  The flag constants \<open>creat\<close>, \<open>excl\<close> and their like: the enumerator of that name, carried by an
  \<open>enum_flag\<close>.
\<close>

definition open_flag_constant :: "headers \<Rightarrow> platform \<Rightarrow> string \<Rightarrow> open_flag enum_flag option" where
  "open_flag_constant hdr p name =
     (case open_flag_table p of
        None \<Rightarrow> None
      | Some tab \<Rightarrow> map_option (\<lambda>v. Enum_flag (Open_flag v)) (enumerator hdr tab name))"

text \<open>
  Likewise the constants of the commands, and of the access modes, where \<open>accmode\<close> has none.
\<close>

definition fcntl_cmd_constant :: "headers \<Rightarrow> platform \<Rightarrow> string \<Rightarrow> fcntl_cmd enum_flag option" where
  "fcntl_cmd_constant hdr p name =
     map_option (\<lambda>v. Enum_flag (Fcntl_cmd v)) (enumerator hdr (fcntl_cmd_table p) name)"

definition access_mode_constant :: "headers \<Rightarrow> platform \<Rightarrow> string \<Rightarrow> access_mode enum_flag option" where
  "access_mode_constant hdr p name =
     (if name = ''accmode'' then None
      else map_option (\<lambda>v. Enum_flag (Access_mode v)) (enumerator hdr (access_mode_table p) name))"

lemma open_flag_constant_simps [simp]:
  "p \<in> {Linux, Openbsd, Macos} \<Longrightarrow>
     open_flag_constant hdr p ''creat'' = Some (Enum_flag (Open_flag (hdr ''O_CREAT'')))"
  "p \<in> {Linux, Openbsd, Macos} \<Longrightarrow>
     open_flag_constant hdr p ''excl'' = Some (Enum_flag (Open_flag (hdr ''O_EXCL'')))"
  by (auto simp: open_flag_constant_def open_flag_table_def enumerator_def)

section \<open>The low-level calls\<close>

definition capi_fcntl :: "'k posix \<Rightarrow> raw_fd \<Rightarrow> fcntl_cmd \<Rightarrow> ('k, error_code) io" where
  "capi_fcntl sys fd cmd =
     common_call (sys_fcntl sys (raw_fd_value fd) (fcntl_cmd_bits cmd) No_arg)"

definition capi_fcntl_int :: "'k posix \<Rightarrow> raw_fd \<Rightarrow> fcntl_cmd \<Rightarrow> c_int \<Rightarrow> ('k, error_code) io" where
  "capi_fcntl_int sys fd cmd arg =
     common_call (sys_fcntl sys (raw_fd_value fd) (fcntl_cmd_bits cmd) (Int_arg arg))"

definition capi_fcntl_ptr :: "'k posix \<Rightarrow> raw_fd \<Rightarrow> fcntl_cmd \<Rightarrow> addr \<Rightarrow> ('k, error_code) io" where
  "capi_fcntl_ptr sys fd cmd arg =
     common_call (sys_fcntl sys (raw_fd_value fd) (fcntl_cmd_bits cmd) (Ptr_arg arg))"

definition capi_open ::
  "'k posix \<Rightarrow> string \<Rightarrow> access_mode \<Rightarrow> open_flag \<Rightarrow> ('k, raw_fd result) io" where
  "capi_open sys path mode flags =
     common_result_map Raw_fd
       (sys_open sys path (access_mode_bits mode OR open_flag_bits flags) None)"

definition capi_open_permission ::
  "'k posix \<Rightarrow> string \<Rightarrow> access_mode \<Rightarrow> open_flag \<Rightarrow> permission \<Rightarrow> ('k, raw_fd result) io" where
  "capi_open_permission sys path mode flags perm =
     common_result_map Raw_fd
       (sys_open sys path (access_mode_bits mode OR open_flag_bits flags)
         (Some (permission_bits perm)))"

section \<open>Effects\<close>

lemma run_capi_open [run_simps]:
  "run_state (capi_open sys path mode flags) w =
     (let (r, w') = run_state
        (sys_open sys path (access_mode_bits mode OR open_flag_bits flags) None) w
      in (if r = -1 then Error (make_errno_code (errno_of w')) else Value (Raw_fd r), w'))"
  by (simp add: capi_open_def run_simps)

lemma run_capi_open_permission [run_simps]:
  "run_state (capi_open_permission sys path mode flags perm) w =
     (let (r, w') = run_state
        (sys_open sys path (access_mode_bits mode OR open_flag_bits flags)
           (Some (permission_bits perm))) w
      in (if r = -1 then Error (make_errno_code (errno_of w')) else Value (Raw_fd r), w'))"
  by (simp add: capi_open_permission_def run_simps)

section \<open>Properties\<close>

text \<open>
  On Linux, and only there, two commands of \<open>fcntl\<close> are the same: \<open>set_file_rw_hint\<close> has the
  value of \<open>get_file_rw_hint\<close>, so a request to set the hint reads it.
\<close>

lemma fcntl_set_file_rw_hint:
  "(enum_table_faithful (fcntl_cmd_table p) \<longleftrightarrow> p \<noteq> Linux) \<and>
   enumerator hdr (fcntl_cmd_table Linux) ''set_file_rw_hint'' =
     enumerator hdr (fcntl_cmd_table Linux) ''get_file_rw_hint''"
  by (simp add: enum_table_faithful_def fcntl_cmd_table_def enumerator_def)

end
