(* ===== verification/Ownership.thy ===== *)
theory Ownership
  imports Descriptor
begin

text \<open>
  A program that uses owning descriptors, as a state machine: any number of \<open>descriptor\<close> objects,
  numbered by \<open>nat\<close>, over one system.  Each rule of \<open>own_step\<close> is one operation of the class on
  one object (built from the definitions of the theory \<open>Descriptor\<close>), or a step of the rest of
  the program that the class does not see.  Move assignment is not among the operations: its
  behaviour is undefined (\<open>descriptor_move_assign\<close>).

  Four fields record what the operations themselves do not: the open handles that the client
  holds raw; the open handles whose owner was destroyed by a failed close; the stale handles,
  those that a failed \<open>close()\<close> released although its object keeps them; and a log of the close
  calls with the fact whether the handle was open.
\<close>

record ('k, 'd) program =
  objects :: "nat \<rightharpoonup> 'd descriptor"
  machine :: "'k world"
  client :: "'d set"
  leaked :: "'d set"
  stale :: "'d set"
  close_log :: "('d \<times> bool) list"

definition open_handles :: "('k \<Rightarrow> 'd set) \<Rightarrow> ('k, 'd) program \<Rightarrow> 'd set" where
  "open_handles opened s = opened (kernel_of (machine s))"

text \<open>The handles that the objects own, up to a set of handles that do not count.\<close>

definition owned :: "'d set \<Rightarrow> ('k, 'd) program \<Rightarrow> 'd set" where
  "owned X s = {raw_descriptor a | a i. objects s i = Some a \<and> raw_descriptor a \<notin> X}"

inductive own_step ::
  "('k, 'd) close_policy \<Rightarrow> 'd \<Rightarrow> ('k \<Rightarrow> 'd set) \<Rightarrow>
   ('k, 'd) program \<Rightarrow> ('k, 'd) program \<Rightarrow> bool"
  for policy :: "('k, 'd) close_policy" and null :: 'd and opened :: "'k \<Rightarrow> 'd set" where
  make: "objects s i = None \<Longrightarrow>
     own_step policy null opened s
       (s\<lparr>objects := (objects s)(i \<mapsto> descriptor_default null)\<rparr>)"
| adopt: "objects s i = None \<Longrightarrow> d \<in> client s \<Longrightarrow>
     own_step policy null opened s
       (s\<lparr>objects := (objects s)(i \<mapsto> descriptor_of d), client := client s - {d}\<rparr>)"
| move: "objects s i = None \<Longrightarrow> objects s j = Some a \<Longrightarrow>
     descriptor_move null a = (b, a') \<Longrightarrow>
     own_step policy null opened s (s\<lparr>objects := (objects s)(i \<mapsto> b, j \<mapsto> a')\<rparr>)"
| release: "objects s i = Some a \<Longrightarrow> descriptor_release null a = (d, a') \<Longrightarrow>
     own_step policy null opened s
       (s\<lparr>objects := (objects s)(i \<mapsto> a'),
          client := (if d = null then client s else insert d (client s))\<rparr>)"
| close: "objects s i = Some a \<Longrightarrow>
     run_state (descriptor_close policy null a) (machine s) = ((ec, a'), w') \<Longrightarrow>
     own_step policy null opened s
       (s\<lparr>objects := (objects s)(i \<mapsto> a'), machine := w',
          stale := stale s \<union> (if is_error ec
            then {raw_descriptor a} \<inter> open_handles opened s - opened (kernel_of w') else {}),
          close_log := (raw_descriptor a, raw_descriptor a \<in> open_handles opened s) # close_log s\<rparr>)"
| destroy: "objects s i = Some a \<Longrightarrow>
     run_state (descriptor_destroy policy null a) (machine s) = ((), w') \<Longrightarrow>
     own_step policy null opened s
       (s\<lparr>objects := (objects s)(i := None), machine := w',
          leaked := leaked s \<union> ({raw_descriptor a} \<inter> opened (kernel_of w')),
          close_log := (raw_descriptor a, raw_descriptor a \<in> open_handles opened s) # close_log s\<rparr>)"
| client_open: "d \<notin> open_handles opened s \<Longrightarrow> d \<noteq> null \<Longrightarrow>
     opened (kernel_of w') = insert d (open_handles opened s) \<Longrightarrow>
     own_step policy null opened s (s\<lparr>machine := w', client := insert d (client s)\<rparr>)"
| client_close: "d \<in> client s \<Longrightarrow>
     opened (kernel_of w') = open_handles opened s - {d} \<Longrightarrow>
     own_step policy null opened s (s\<lparr>machine := w', client := client s - {d}\<rparr>)"
| other_call: "opened (kernel_of w') = open_handles opened s \<Longrightarrow>
     own_step policy null opened s (s\<lparr>machine := w'\<rparr>)"

definition own_start :: "'k world \<Rightarrow> ('k \<Rightarrow> 'd set) \<Rightarrow> ('k, 'd) program" where
  "own_start w opened =
     \<lparr>objects = Map.empty, machine = w, client = opened (kernel_of w), leaked = {}, stale = {},
      close_log = []\<rparr>"

inductive own_reachable ::
  "('k, 'd) close_policy \<Rightarrow> 'd \<Rightarrow> ('k \<Rightarrow> 'd set) \<Rightarrow> ('k, 'd) program \<Rightarrow> bool"
  for policy :: "('k, 'd) close_policy" and null :: 'd and opened :: "'k \<Rightarrow> 'd set" where
  start: "own_reachable policy null opened (own_start w opened)"
| step: "own_reachable policy null opened s \<Longrightarrow> own_step policy null opened s t \<Longrightarrow>
     own_reachable policy null opened t"

text \<open>
  The invariant, up to a set of handles \<open>X\<close>: the open handles are exactly those owned by an object,
  held by the client or leaked, and the three are disjoint; two objects never own one handle;
  every logged close was of an open handle.  It holds up to the null handle, which no object owns,
  and the stale handles, whose number the system may give away while an object still holds it.
\<close>

definition unique_owner :: "'d set \<Rightarrow> ('k, 'd) program \<Rightarrow> bool" where
  "unique_owner X s \<longleftrightarrow>
     (\<forall>i j a b. objects s i = Some a \<longrightarrow> objects s j = Some b \<longrightarrow>
        raw_descriptor a = raw_descriptor b \<longrightarrow> raw_descriptor a \<notin> X \<longrightarrow> i = j)"

definition own_inv_upto :: "'d set \<Rightarrow> ('k \<Rightarrow> 'd set) \<Rightarrow> ('k, 'd) program \<Rightarrow> bool" where
  "own_inv_upto X opened s \<longleftrightarrow>
     open_handles opened s - X = owned X s \<union> (client s \<union> leaked s - X) \<and>
     owned X s \<inter> (client s \<union> leaked s) = {} \<and> client s \<inter> leaked s \<subseteq> X \<and>
     unique_owner X s \<and>
     (\<forall>(d, was_open) \<in> set (close_log s). d \<in> X \<or> was_open)"

definition own_inv :: "'d \<Rightarrow> ('k \<Rightarrow> 'd set) \<Rightarrow> ('k, 'd) program \<Rightarrow> bool" where
  "own_inv null opened s \<longleftrightarrow> own_inv_upto (insert null (stale s)) opened s \<and> null \<notin> client s"

text \<open>A closing function that never fails on an open handle.\<close>

definition reliable_close ::
  "('d \<Rightarrow> ('k, 'w::len word) io) \<Rightarrow> ('k \<Rightarrow> 'd set) \<Rightarrow> bool" where
  "reliable_close call opened \<longleftrightarrow>
     (\<forall>d w. d \<in> opened (kernel_of w) \<longrightarrow> fst (run_state (call d) w) \<noteq> -1)"

section \<open>How updates of the object table change the set of owned handles\<close>

lemma in_owned:
  "x \<in> owned X s \<longleftrightarrow> x \<notin> X \<and> (\<exists>i a. objects s i = Some a \<and> raw_descriptor a = x)"
  by (auto simp: owned_def)

lemma owned_memI:
  "objects s i = Some a \<Longrightarrow> raw_descriptor a \<notin> X \<Longrightarrow> raw_descriptor a \<in> owned X s"
  unfolding owned_def by blast

lemma excluded_not_owned: "x \<in> X \<Longrightarrow> x \<notin> owned X s"
  unfolding owned_def by blast

lemma owned_empty [simp]: "objects s = Map.empty \<Longrightarrow> owned X s = {}"
  by (simp add: owned_def)

lemma owned_cong: "objects s = objects t \<Longrightarrow> owned X s = owned X t"
  by (simp add: owned_def)

lemma unique_owner_cong: "objects s = objects t \<Longrightarrow> unique_owner X s = unique_owner X t"
  by (simp add: unique_owner_def)

text \<open>An object that owns nothing does not count.\<close>

lemma unique_ownerD:
  "unique_owner X s \<Longrightarrow> objects s i = Some a \<Longrightarrow> objects s j = Some b \<Longrightarrow>
     raw_descriptor a = raw_descriptor b \<Longrightarrow> raw_descriptor b \<notin> X \<Longrightarrow> i = j"
  unfolding unique_owner_def by simp

lemma unique_ownerI:
  "(\<And>i j a b. objects s i = Some a \<Longrightarrow> objects s j = Some b \<Longrightarrow>
     raw_descriptor a = raw_descriptor b \<Longrightarrow> raw_descriptor b \<notin> X \<Longrightarrow> i = j) \<Longrightarrow>
   unique_owner X s"
  unfolding unique_owner_def by simp

lemma owned_upd_null:
  assumes uni: "unique_owner X s" and i: "objects s i = Some a"
    and t: "objects t = (objects s)(i := None) \<or> objects t = (objects s)(i \<mapsto> descriptor_default null)"
    and null: "null \<in> X"
  shows "owned X t = owned X s - {raw_descriptor a}" and "unique_owner X t"
proof -
  have other: "objects t j = Some b \<Longrightarrow> raw_descriptor b \<notin> X \<Longrightarrow> j \<noteq> i \<and> objects s j = Some b"
    for j b using t null by (auto split: if_splits)
  have kept: "j \<noteq> i \<Longrightarrow> objects t j = objects s j" for j
    using t by auto
  show "owned X t = owned X s - {raw_descriptor a}"
  proof (rule set_eqI)
    fix x
    show "x \<in> owned X t \<longleftrightarrow> x \<in> owned X s - {raw_descriptor a}"
    proof
      assume "x \<in> owned X t"
      then obtain j b where "objects t j = Some b" "raw_descriptor b = x" "x \<notin> X"
        by (auto simp: in_owned)
      with other [of j b] unique_ownerD [OF uni i, of j b] show "x \<in> owned X s - {raw_descriptor a}"
        by (auto simp: in_owned)
    next
      assume "x \<in> owned X s - {raw_descriptor a}"
      then obtain j b where "objects s j = Some b" "raw_descriptor b = x" "x \<notin> X" "x \<noteq> raw_descriptor a"
        by (auto simp: in_owned)
      moreover from this i have "j \<noteq> i"
        by auto
      ultimately show "x \<in> owned X t"
        using kept [of j] owned_memI [of t j b X] by simp
    qed
  qed
  show "unique_owner X t"
    by (rule unique_ownerI) (metis other unique_ownerD [OF uni])
qed

lemma owned_add:
  assumes uni: "unique_owner X s" and i: "objects s i = None"
    and new: "raw_descriptor b \<notin> owned X s"
    and t: "objects t = (objects s)(i \<mapsto> b)"
  shows "owned X t = (if raw_descriptor b \<in> X then owned X s
           else insert (raw_descriptor b) (owned X s))"
    and "unique_owner X t"
proof -
  have old: "objects s j = Some c \<Longrightarrow> objects t j = Some c" for j c
    using i t by auto
  have keep: "x \<in> owned X t" if "x \<in> owned X s" for x
  proof -
    from that obtain j c where "objects s j = Some c" "raw_descriptor c = x" "x \<notin> X"
      by (auto simp: in_owned)
    with old owned_memI [of t j c X] show ?thesis by simp
  qed
  have add: "raw_descriptor b \<in> owned X t" if "raw_descriptor b \<notin> X"
    using owned_memI [of t i b X] that by (simp add: t)
  have only: "x \<in> owned X s \<or> x = raw_descriptor b" if x: "x \<in> owned X t" for x
  proof -
    from x obtain j c where j: "objects t j = Some c" "raw_descriptor c = x" "x \<notin> X"
      by (auto simp: in_owned)
    show ?thesis
    proof (cases "j = i")
      case True
      with j t show ?thesis by simp
    next
      case False
      with j t owned_memI [of s j c X] show ?thesis by simp
    qed
  qed
  show "owned X t = (if raw_descriptor b \<in> X then owned X s
      else insert (raw_descriptor b) (owned X s))"
  proof (cases "raw_descriptor b \<in> X")
    case True
    have "x \<in> owned X s" if "x \<in> owned X t" for x
      using only [OF that] that True excluded_not_owned [of x X t] by auto
    with keep True show ?thesis by auto
  next
    case False
    with keep add only show ?thesis by auto
  qed
  show "unique_owner X t"
  proof (rule unique_ownerI)
    fix j k c d
    assume *: "objects t j = Some c" "objects t k = Some d"
      "raw_descriptor c = raw_descriptor d" "raw_descriptor d \<notin> X"
    have fresh: "raw_descriptor e \<noteq> raw_descriptor b"
      if "objects s l = Some e" "raw_descriptor e \<notin> X" for l e
      using new owned_memI [OF that] by metis
    consider "j = i" "k = i" | "j = i" "k \<noteq> i" | "j \<noteq> i" "k = i" | "j \<noteq> i" "k \<noteq> i"
      by blast
    then show "j = k"
    proof cases
      case 2
      with * fresh [of k d] t show ?thesis by simp
    next
      case 3
      with * fresh [of j c] t show ?thesis by simp
    next
      case 4
      with * unique_ownerD [OF uni, of j c k d] t show ?thesis by simp
    qed simp
  qed
qed

lemma owned_move:
  assumes "unique_owner X s" and "objects s i = None" and "objects s j = Some a"
    and "objects t = (objects s)(i \<mapsto> a, j \<mapsto> descriptor_default null)" and "null \<in> X"
  shows "owned X t = owned X s" and "unique_owner X t"
proof -
  have ij: "i \<noteq> j"
    using assms(2,3) by auto
  let ?m = "s\<lparr>objects := (objects s)(j \<mapsto> descriptor_default null)\<rparr>"
  have m: "owned X ?m = owned X s - {raw_descriptor a}" "unique_owner X ?m"
    using owned_upd_null [OF assms(1,3), of ?m null] assms(5) by auto
  have t: "objects t = (objects ?m)(i \<mapsto> a)"
    using assms(4) ij by (auto simp: fun_upd_twist)
  have "owned X t = (if raw_descriptor a \<in> X then owned X ?m
      else insert (raw_descriptor a) (owned X ?m))" "unique_owner X t"
    using owned_add [OF m(2) _ _ t] m(1) assms(2) ij by auto
  moreover have "raw_descriptor a \<in> owned X s" if "raw_descriptor a \<notin> X"
    using owned_memI [OF assms(3) that] .
  ultimately show "owned X t = owned X s" "unique_owner X t"
    using m(1) excluded_not_owned [of "raw_descriptor a" X s] by (auto split: if_splits)
qed

text \<open>What does not count can be extended.\<close>

lemma own_inv_upto_mono:
  assumes "own_inv_upto X opened s" and "X \<subseteq> Y"
  shows "own_inv_upto Y opened s"
proof -
  have "owned Y s = owned X s - Y"
    using assms(2) by (auto simp: in_owned)
  moreover have "open_handles opened s - Y = (open_handles opened s - X) - Y"
    using assms(2) by blast
  moreover have "unique_owner Y s"
    using assms unfolding own_inv_upto_def unique_owner_def by blast
  ultimately show ?thesis
    using assms unfolding own_inv_upto_def by auto
qed

section \<open>Every operation keeps the invariant\<close>

text \<open>What the invariant says of an object's own handle.\<close>

lemma own_inv_upto_object:
  assumes "own_inv_upto X opened s" and "objects s i = Some a" and "raw_descriptor a \<notin> X"
  shows "raw_descriptor a \<in> open_handles opened s"
    and "raw_descriptor a \<notin> client s" and "raw_descriptor a \<notin> leaked s"
  using owned_memI [of s i a X] assms unfolding own_inv_upto_def by blast+

lemma own_inv_object:
  assumes "own_inv null opened s" and "objects s i = Some a" and "raw_descriptor a \<noteq> null"
    and "raw_descriptor a \<notin> stale s"
  shows "raw_descriptor a \<in> open_handles opened s"
    and "raw_descriptor a \<notin> client s" and "raw_descriptor a \<notin> leaked s"
  using own_inv_upto_object [of "insert null (stale s)" opened s i a] assms
  unfolding own_inv_def by blast+

text \<open>A step that keeps the objects, and one that empties or drops one.\<close>

lemma own_inv_upto_same:
  assumes "own_inv_upto X opened s" and "objects t = objects s" and "leaked t = leaked s"
    and "open_handles opened t - X = open_handles opened s - X" and "client t - X = client s - X"
    and "\<forall>(d, was_open) \<in> set (close_log t). d \<in> X \<or> was_open"
  shows "own_inv_upto X opened t"
proof -
  have "owned X t = owned X s" "unique_owner X t = unique_owner X s"
    using owned_cong [OF assms(2)] unique_owner_cong [OF assms(2)] by blast+
  moreover have "owned X s \<inter> client t = owned X s \<inter> client s"
    "client t \<inter> leaked s \<subseteq> X \<longleftrightarrow> client s \<inter> leaked s \<subseteq> X"
    "client t \<union> leaked s - X = client s \<union> leaked s - X"
    using assms(5) excluded_not_owned [of _ X s] by blast+
  ultimately show ?thesis
    using assms unfolding own_inv_upto_def by (simp add: Int_Un_distrib)
qed

lemma own_inv_upto_drop:
  assumes inv: "own_inv_upto X opened s" and i: "objects s i = Some a" and "null \<in> X"
    and t: "objects t = (objects s)(i := None) \<or> objects t = (objects s)(i \<mapsto> descriptor_default null)"
    and L: "L \<subseteq> {raw_descriptor a}" "client t = client s" "leaked t = leaked s \<union> L"
    and opn: "open_handles opened t - X = open_handles opened s - ({raw_descriptor a} - L) - X"
    and log: "\<forall>(d, was_open) \<in> set (close_log t). d \<in> X \<or> was_open"
  shows "own_inv_upto X opened t"
proof -
  have upd: "owned X t = owned X s - {raw_descriptor a}" "unique_owner X t"
    using owned_upd_null [OF _ i t \<open>null \<in> X\<close>] inv by (auto simp: own_inv_upto_def)
  have own: "raw_descriptor a \<in> X \<or> raw_descriptor a \<in> owned X s"
    using owned_memI [OF i, of X] by blast
  have "open_handles opened t - X = owned X t \<union> (client t \<union> leaked t - X)"
    unfolding opn upd(1) L(2,3)
    using inv own L(1) unfolding own_inv_upto_def by blast
  moreover have "owned X t \<inter> (client t \<union> leaked t) = {}" "client t \<inter> leaked t \<subseteq> X"
    unfolding upd(1) L(2,3) using inv own L(1) unfolding own_inv_upto_def by blast+
  ultimately show ?thesis
    using upd(2) log unfolding own_inv_upto_def by blast
qed

context close_policy
begin

text \<open>
  Up to any set of handles that contains the null handle and the stale ones, every step keeps the
  invariant.
\<close>

lemma step_inv_upto:
  assumes table: "handle_table call opened null"
    and step: "own_step policy null opened s t" and inv: "own_inv_upto X opened s"
    and X: "null \<in> X" "stale t \<subseteq> X"
  shows "own_inv_upto X opened t"
  using step
proof cases
  case (make i)
  have "owned X t = owned X s" "unique_owner X t"
    using owned_add [of X s i "descriptor_default null" t] inv make X
      excluded_not_owned [of null X s] by (auto simp: own_inv_upto_def)
  with inv make show ?thesis
    by (simp add: own_inv_upto_def open_handles_def)
next
  case (adopt i d)
  have d: "d \<notin> owned X s"
    using inv adopt unfolding own_inv_upto_def by blast
  then have "owned X t = (if d \<in> X then owned X s else insert d (owned X s))" "unique_owner X t"
    using owned_add [of X s i "descriptor_of d" t] inv adopt by (auto simp: own_inv_upto_def)
  moreover have "d \<in> X \<or> d \<notin> leaked s"
    using inv adopt unfolding own_inv_upto_def by blast
  ultimately show ?thesis
    using inv adopt d by (auto simp: own_inv_upto_def open_handles_def)
next
  case (move i j a b a')
  have "owned X t = owned X s" "unique_owner X t"
    using owned_move [of X s i j a t null] inv move X by (auto simp: own_inv_upto_def)
  with inv move show ?thesis
    by (simp add: own_inv_upto_def open_handles_def)
next
  case (release i a d a')
  have upd: "owned X t = owned X s - {d}" "unique_owner X t"
    using owned_upd_null [of X s i a t null] inv release X by (auto simp: own_inv_upto_def)
  have "d \<in> X \<or> d \<in> owned X s"
    using release owned_memI [of s i a X] by auto
  with inv release upd X(1) excluded_not_owned [of d X s] show ?thesis
    by (auto simp: own_inv_upto_def open_handles_def)
next
  case (close i a ec a' w')
  let ?d = "raw_descriptor a"
  have log: "?d \<in> X \<or> ?d \<in> open_handles opened s"
    using own_inv_upto_object [OF inv close(2)] by blast
  have c: "is_error ec \<Longrightarrow> a' = a \<and> opened (kernel_of w') \<in>
       {open_handles opened s, open_handles opened s - {?d}}"
    "\<not> is_error ec \<Longrightarrow> a' = descriptor_default null \<and>
       opened (kernel_of w') = open_handles opened s - {?d}"
    using close_spec [OF table close(3)] by (simp_all add: open_handles_def)
  have log_t: "\<forall>(d, was_open) \<in> set (close_log t). d \<in> X \<or> was_open"
    using inv log close(1) by (auto simp: own_inv_upto_def)
  show ?thesis
  proof (cases "is_error ec")
    case True
    then have "objects t = objects s"
      using c close by (simp add: fun_upd_idem)
    moreover have "opened (kernel_of w') - X = open_handles opened s - X"
      using c(1) [OF True] X(2) close(1) True by auto
    ultimately show ?thesis
      using close(1) log_t by (intro own_inv_upto_same [OF inv]) (simp_all add: open_handles_def)
  next
    case False
    with c close log_t X(1) show ?thesis
      by (intro own_inv_upto_drop [OF inv close(2), where L = "{}"]) (auto simp: open_handles_def)
  qed
next
  case (destroy i a w')
  let ?d = "raw_descriptor a"
  have w': "opened (kernel_of w') = open_handles opened s \<or>
      opened (kernel_of w') = open_handles opened s - {?d}"
    using destroy_spec [OF table destroy(3)] by (simp add: open_handles_def)
  have log: "?d \<in> X \<or> ?d \<in> open_handles opened s"
    using own_inv_upto_object [OF inv destroy(2)] by blast
  show ?thesis
  proof (rule own_inv_upto_drop [OF inv destroy(2) X(1), where L = "{?d} \<inter> opened (kernel_of w')"])
    show "open_handles opened t - X =
        open_handles opened s - ({?d} - {?d} \<inter> opened (kernel_of w')) - X"
      using w' destroy(1) by (auto simp: open_handles_def)
    show "\<forall>(d, was_open) \<in> set (close_log t). d \<in> X \<or> was_open"
      using inv log destroy(1) by (auto simp: own_inv_upto_def)
  qed (simp_all add: destroy(1))
next
  case (client_open d w')
  have "owned X t = owned X s" "unique_owner X t = unique_owner X s"
    using client_open owned_cong [of t s X] unique_owner_cong [of t s X] by simp_all
  with inv client_open show ?thesis
    by (auto simp: own_inv_upto_def open_handles_def)
next
  case (client_close d w')
  have "owned X t = owned X s" "unique_owner X t = unique_owner X s"
    using client_close owned_cong [of t s X] unique_owner_cong [of t s X] by simp_all
  moreover have "d \<in> X \<or> d \<notin> leaked s"
    using inv client_close unfolding own_inv_upto_def by blast
  ultimately show ?thesis
    using inv client_close by (auto simp: own_inv_upto_def open_handles_def)
next
  case (other_call w')
  then show ?thesis
    using inv by (intro own_inv_upto_same [OF inv]) (simp_all add: open_handles_def own_inv_upto_def)
qed

lemma step_inv:
  assumes table: "handle_table call opened null"
    and step: "own_step policy null opened s t" and inv: "own_inv null opened s"
  shows "own_inv null opened t"
proof -
  have "stale s \<subseteq> stale t"
    using step by cases auto
  then have more: "insert null (stale s) \<subseteq> insert null (stale t)"
    by blast
  have "own_inv_upto (insert null (stale t)) opened s"
    by (rule own_inv_upto_mono [OF _ more]) (use inv in \<open>simp add: own_inv_def\<close>)
  then have "own_inv_upto (insert null (stale t)) opened t"
    by (rule step_inv_upto [OF table step]) auto
  moreover have "null \<notin> client t"
    using step inv unfolding own_inv_def by cases (auto split: if_splits)
  ultimately show ?thesis
    by (simp add: own_inv_def)
qed

lemma reachable_inv:
  assumes table: "handle_table call opened null"
    and reach: "own_reachable policy null opened s"
  shows "own_inv null opened s"
  using reach
proof (induction rule: own_reachable.induct)
  case (start w)
  show ?case
    using null_not_open [OF table]
    by (auto simp: own_inv_def own_inv_upto_def own_start_def open_handles_def unique_owner_def)
next
  case (step s t)
  then show ?case
    using step_inv [OF table] by blast
qed

text \<open>
  No handle is closed twice, nor after it was handed on, as long as it is not stale: every close
  reaches an open handle.
\<close>

lemma no_double_close:
  assumes "handle_table call opened null" and "own_reachable policy null opened s"
    and "(d, was_open) \<in> set (close_log s)" and "d \<noteq> null" and "d \<notin> stale s"
  shows "was_open"
  using reachable_inv [OF assms(1,2)] assms(3-5) unfolding own_inv_def own_inv_upto_def by blast

lemma owner_unique:
  assumes "handle_table call opened null" and "own_reachable policy null opened s"
    and "objects s i = Some a" and "objects s j = Some b"
    and "raw_descriptor a = raw_descriptor b" and "raw_descriptor b \<noteq> null"
    and "raw_descriptor b \<notin> stale s"
  shows "i = j"
  using unique_ownerD [OF _ assms(3-5)] reachable_inv [OF assms(1,2)] assms(6,7)
  by (auto simp: own_inv_def own_inv_upto_def)

text \<open>
  Opening a handle into a new object is two steps: the system opens the handle for the client, the
  object adopts it.
\<close>

lemma acquire_reachable:
  assumes table: "handle_table call opened null"
    and reach: "own_reachable policy null opened s" and i: "objects s i = None"
    and new: "h \<notin> open_handles opened s" and fresh: "h \<notin> client s"
    and more: "opened (kernel_of w') = insert h (open_handles opened s)"
  shows "own_reachable policy null opened
    (s\<lparr>objects := (objects s)(i \<mapsto> descriptor_of h), machine := w'\<rparr>)"
proof -
  have "h \<noteq> null"
    using more null_not_open [OF table, of "kernel_of w'"] by auto
  let ?s1 = "s\<lparr>machine := w', client := insert h (client s)\<rparr>"
  have "own_reachable policy null opened ?s1"
    by (rule own_reachable.step [OF reach own_step.client_open [OF new \<open>h \<noteq> null\<close> more]])
  then have "own_reachable policy null opened
      (?s1\<lparr>objects := (objects ?s1)(i \<mapsto> descriptor_of h), client := client ?s1 - {h}\<rparr>)"
    by (rule own_reachable.step [OF _ own_step.adopt]) (simp_all add: i)
  with fresh show ?thesis
    by (cases s) simp
qed

text \<open>If closing an open handle never fails, no destructor leaks and no handle goes stale.\<close>

lemma reliable_closes:
  assumes table: "handle_table call opened null" and rel: "reliable_close call opened"
    and run: "run_state (policy d) w = (ec, w')"
  shows "d \<notin> opened (kernel_of w')" and "d \<in> opened (kernel_of w) \<Longrightarrow> \<not> is_error ec"
proof -
  show ok: "\<not> is_error ec" if "d \<in> opened (kernel_of w)"
    using that rel run unfolding reliable_close_def policy_eq
    by (metis common_callE fst_conv is_error_no_error)
  show "d \<notin> opened (kernel_of w')"
    using table run by (cases rule: policy_cases) (use ok in auto)
qed

lemma reliable_leaked_stale:
  assumes table: "handle_table call opened null" and rel: "reliable_close call opened"
    and reach: "own_reachable policy null opened s"
  shows "leaked s = {} \<and> stale s = {}"
  using reach
proof (induction rule: own_reachable.induct)
  case (start w)
  show ?case by (simp add: own_start_def)
next
  case (step s t)
  from \<open>own_step policy null opened s t\<close> \<open>leaked s = {} \<and> stale s = {}\<close> show ?case
  proof cases
    case (close i a ec a' w')
    then have "run_state (policy (raw_descriptor a)) (machine s) = (ec, w')"
      by (auto simp: run_simps)
    from reliable_closes(2) [OF table rel this] close(1) \<open>leaked s = {} \<and> stale s = {}\<close>
    show ?thesis
      by (auto simp: open_handles_def)
  next
    case (destroy i a w')
    obtain ec where run: "run_state (policy (raw_descriptor a)) (machine s) = (ec, w')"
      using destroy(3) by (auto simp: run_simps prod_eq_iff)
    from reliable_closes(1) [OF table rel this] destroy(1) \<open>leaked s = {} \<and> stale s = {}\<close>
    show ?thesis
      by simp
  qed simp_all
qed

text \<open>Then no handle is lost: one that no object owns is the client's.\<close>

lemma no_leak:
  assumes "handle_table call opened null" and "reliable_close call opened"
    and "own_reachable policy null opened s" and "objects s = Map.empty"
  shows "open_handles opened s = client s"
proof -
  have "open_handles opened s - {null} = client s - {null}" "null \<notin> client s"
    using reachable_inv [OF assms(1,3)] reliable_leaked_stale [OF assms(1-3)] assms(4)
    by (simp_all add: own_inv_def own_inv_upto_def)
  with null_not_open [OF assms(1)] show ?thesis
    by (auto simp: open_handles_def)
qed

end

end
