(* ===== verification/Opening.thy ===== *)
theory Opening
  imports Ownership
begin

text \<open>
  The contract of the operations that open a handle and return its owner: a call of the system that
  yields a handle or fails, followed by the construction of an object that owns the handle inside
  a \<open>result\<close>.  The temporaries of that construction are destroyed while they hold the null handle,
  so on success the close policy also runs on the null handle, \<open>temps\<close> times.
\<close>

text \<open>
  The documentation of an opening call: it fails with \<open>errno\<close> set and no change to the open
  handles (\<open>handle_of\<close> gives \<open>None\<close> on the value that reports failure), or it opens a handle that
  was not open.
\<close>

definition documented_open :: "('k, 'r) io \<Rightarrow> ('r \<Rightarrow> 'd option) \<Rightarrow> ('k \<Rightarrow> 'd set) \<Rightarrow> bool" where
  "documented_open m handle_of opened \<longleftrightarrow>
     (\<forall>w r w'. run_state m w = (r, w') \<longrightarrow>
        (case handle_of r of
           None \<Rightarrow> errno_of w' \<noteq> 0 \<and> opened (kernel_of w') = opened (kernel_of w)
         | Some d \<Rightarrow> d \<notin> opened (kernel_of w) \<and>
             opened (kernel_of w') = insert d (opened (kernel_of w))))"

lemma documented_openD:
  assumes "documented_open m handle_of opened" and "run_state m w = (r, w')"
  shows "handle_of r = None \<Longrightarrow> errno_of w' \<noteq> 0 \<and> opened (kernel_of w') = opened (kernel_of w)"
    and "handle_of r = Some d \<Longrightarrow>
      d \<notin> opened (kernel_of w) \<and> opened (kernel_of w') = insert d (opened (kernel_of w))"
  using assms(1) [unfolded documented_open_def, rule_format, OF assms(2)] by auto

text \<open>The value that reports failure, for calls that return a number.\<close>

definition handle_unless :: "'r \<Rightarrow> ('r \<Rightarrow> 'd) \<Rightarrow> 'r \<Rightarrow> 'd option" where
  "handle_unless bad mk r = (if r = bad then None else Some (mk r))"

text \<open>What an opening operation promises its caller.\<close>

definition opens_owner ::
  "('k \<Rightarrow> 'd set) \<Rightarrow> ('d descriptor \<Rightarrow> 'o) \<Rightarrow> 'k world \<Rightarrow> 'o result \<Rightarrow> 'k world \<Rightarrow> bool" where
  "opens_owner opened wrap w res w' \<longleftrightarrow>
     (case res of
        Value x \<Rightarrow> \<exists>d. x = wrap (descriptor_of d) \<and> d \<notin> opened (kernel_of w) \<and>
          opened (kernel_of w') = insert d (opened (kernel_of w))
      | Error ec \<Rightarrow> is_error ec \<and> ec_value ec = errno_of w' \<and>
          opened (kernel_of w') = opened (kernel_of w))"

text \<open>
  What the owner promises in turn: the object that an opening operation returned gives back, when
  it is destroyed, exactly what the operation took.
\<close>

definition documented_owner ::
  "('d \<Rightarrow> ('k, 'w::len word) io) \<Rightarrow> ('k \<Rightarrow> 'd set) \<Rightarrow> 'd \<Rightarrow> ('k, 'r) io \<Rightarrow> ('r \<Rightarrow> 'd option) \<Rightarrow> bool" where
  "documented_owner call opened null m handle_of \<longleftrightarrow>
     handle_table call opened null \<and> reliable_close call opened \<and> documented_open m handle_of opened"

definition destroy_restores ::
  "('k \<Rightarrow> 'd set) \<Rightarrow> ('k, 'o result) io \<Rightarrow> ('o \<Rightarrow> ('k, unit) io) \<Rightarrow> bool" where
  "destroy_restores opened op destroy \<longleftrightarrow>
     (\<forall>w x w1. run_state op w = (Value x, w1) \<longrightarrow>
        opened (kernel_of (snd (run_state (destroy x) w1))) = opened (kernel_of w))"

locale owner_open = close_policy null policy call
  for null :: 'd and policy :: "('k, 'd) close_policy" and call :: "'d \<Rightarrow> ('k, 'w::len word) io" +
  fixes temps :: nat
    and handle_of :: "'r \<Rightarrow> 'd option"
    and wrap :: "'d descriptor \<Rightarrow> 'o"
    and m :: "'a \<Rightarrow> ('k, 'r) io"
    and op :: "'a \<Rightarrow> ('k, 'o result) io"
  assumes run_op: "run_state (op a) w =
    (let (r, w1) = run_state (m a) w
     in case handle_of r of
          None \<Rightarrow> (Error (make_errno_code (errno_of w1)), w1)
        | Some d \<Rightarrow> (Value (wrap (descriptor_of d)),
            ((\<lambda>w. snd (run_state (policy null) w)) ^^ temps) w1))"
begin

lemma temps_opened:
  assumes "handle_table call opened null"
  shows "opened (kernel_of (((\<lambda>w. snd (run_state (policy null) w)) ^^ n) w)) =
    opened (kernel_of w)"
proof (induction n)
  case (Suc n)
  then show ?case
    using policy_null [OF assms, of "((\<lambda>w. snd (run_state (policy null) w)) ^^ n) w"]
    by (metis comp_apply funpow.simps(2) prod.collapse)
qed simp

lemma open_spec:
  assumes table: "handle_table call opened null"
    and doc: "documented_open (m a) handle_of opened"
    and run: "run_state (op a) w = (res, w')"
  shows "opens_owner opened wrap w res w'"
proof -
  obtain r w1 where m: "run_state (m a) w = (r, w1)"
    by (cases "run_state (m a) w")
  show ?thesis
  proof (cases "handle_of r")
    case None
    with run m documented_openD(1) [OF doc m] show ?thesis
      by (auto simp: run_op opens_owner_def)
  next
    case (Some d)
    with run m documented_openD(2) [OF doc m, of d] temps_opened [OF table, of temps w1] show ?thesis
      by (auto simp: run_op opens_owner_def)
  qed
qed

text \<open>On success the system also sees a close of the null handle, and its \<open>errno\<close> is what is left.\<close>

lemma open_temps:
  assumes "run_state (m a) w = (r, w1)" and "handle_of r = Some d"
  shows "run_state (op a) w =
    (Value (wrap (descriptor_of d)), ((\<lambda>w. snd (run_state (policy null) w)) ^^ temps) w1)"
  using assms by (simp add: run_op)

lemma open_then_destroy:
  assumes doc: "documented_owner call opened null (m a) handle_of"
    and destroy: "\<And>d. destroy (wrap d) = descriptor_destroy policy null d"
  shows "destroy_restores opened (op a) destroy"
  unfolding destroy_restores_def
proof (intro allI impI)
  fix w x w1
  assume run: "run_state (op a) w = (Value x, w1)"
  have table: "handle_table call opened null" and rel: "reliable_close call opened"
    and opn: "documented_open (m a) handle_of opened"
    using doc by (simp_all add: documented_owner_def)
  obtain h where x: "x = wrap (descriptor_of h)" and new: "h \<notin> opened (kernel_of w)"
    and w1: "opened (kernel_of w1) = insert h (opened (kernel_of w))"
    using open_spec [OF table opn run] by (auto simp: opens_owner_def)
  obtain ec w2 where w2: "run_state (policy h) w1 = (ec, w2)"
    by (cases "run_state (policy h) w1")
  have "\<not> is_error ec"
    using reliable_closes(2) [OF table rel w2] w1 by simp
  with table w2 have "opened (kernel_of w2) = opened (kernel_of w1) - {h}"
    by (cases rule: policy_cases) auto
  with new w1 w2 show "opened (kernel_of (snd (run_state (destroy x) w1))) = opened (kernel_of w)"
    by (simp add: x destroy run_simps)
qed

end

lemma handle_unless_None [simp]: "handle_unless bad mk r = None \<longleftrightarrow> r = bad"
  by (simp add: handle_unless_def)

lemma handle_unless_bad [simp]: "handle_unless bad mk bad = None"
  by (simp add: handle_unless_def)

lemma handle_unless_Some [simp]: "r \<noteq> bad \<Longrightarrow> handle_unless bad mk r = Some (mk r)"
  by (simp add: handle_unless_def)

section \<open>A small system with a table of handles\<close>

text \<open>
  Concrete closing and opening calls over a kernel that is the set of open handles, for instances
  of the theorems: closing a handle that is not open fails with error 9 (\<open>EBADF\<close>), opening one
  that is already open fails with error 24 (\<open>EMFILE\<close>).
\<close>

definition table_close :: "'d \<Rightarrow> ('d set, c_int) io" where
  "table_close d = do {
     w \<leftarrow> State_Monad.get;
     if d \<in> kernel_of w
     then do { State_Monad.set (w\<lparr>kernel_of := kernel_of w - {d}\<rparr>); State_Monad.return 0 }
     else do { State_Monad.set (w\<lparr>errno_of := 9\<rparr>); State_Monad.return (-1) }
   }"

definition table_open :: "'d \<Rightarrow> 'r \<Rightarrow> 'r \<Rightarrow> ('d set, 'r) io" where
  "table_open d good bad = do {
     w \<leftarrow> State_Monad.get;
     if d \<in> kernel_of w
     then do { State_Monad.set (w\<lparr>errno_of := 24\<rparr>); State_Monad.return bad }
     else do { State_Monad.set (w\<lparr>kernel_of := insert d (kernel_of w)\<rparr>); State_Monad.return good }
   }"

definition table_world :: "'d set \<Rightarrow> 'd set world" where
  "table_world ds = \<lparr>errno_of = 0, mem_of = (\<lambda>_. 0), kernel_of = ds\<rparr>"

lemma run_table_close [simp]:
  "run_state (table_close d) w =
     (if d \<in> kernel_of w then (0, w\<lparr>kernel_of := kernel_of w - {d}\<rparr>)
      else (-1, w\<lparr>errno_of := 9\<rparr>))"
  by (simp add: table_close_def)

lemma run_table_open [simp]:
  "run_state (table_open d good bad) w =
     (if d \<in> kernel_of w then (bad, w\<lparr>errno_of := 24\<rparr>)
      else (good, w\<lparr>kernel_of := insert d (kernel_of w)\<rparr>))"
  by (simp add: table_open_def)

lemma handle_table_close: "handle_table table_close (\<lambda>k. k - {null}) null"
  by (auto simp: handle_table_def split: if_splits)

lemma documented_table_open:
  "good \<noteq> bad \<Longrightarrow> mk good = d \<Longrightarrow> d \<noteq> null \<Longrightarrow>
     documented_open (table_open d good bad) (handle_unless bad mk) (\<lambda>k. k - {null})"
  by (auto simp: documented_open_def split: if_splits)

lemma reliable_table_close: "reliable_close table_close (\<lambda>k. k - {null})"
  by (simp add: reliable_close_def)

lemma table_world_sel [simp]:
  "errno_of (table_world ds) = 0" "kernel_of (table_world ds) = ds"
  by (simp_all add: table_world_def)

text \<open>
  Three states of a program over this system: one object owns the handle \<open>d\<close>; it has closed it; it
  was destroyed.
\<close>

definition demo_owner :: "'d \<Rightarrow> ('d set, 'd) program" where
  "demo_owner d =
     \<lparr>objects = [0 \<mapsto> descriptor_of d], machine = table_world {d}, client = {}, leaked = {},
      stale = {}, close_log = []\<rparr>"

definition demo_closed :: "'d \<Rightarrow> 'd \<Rightarrow> ('d set, 'd) program" where
  "demo_closed d null =
     \<lparr>objects = [0 \<mapsto> descriptor_default null], machine = table_world {}, client = {}, leaked = {},
      stale = {}, close_log = [(d, True)]\<rparr>"

definition demo_destroyed :: "'d \<Rightarrow> ('d set, 'd) program" where
  "demo_destroyed d =
     \<lparr>objects = Map.empty, machine = table_world {}, client = {}, leaked = {},
      stale = {}, close_log = [(d, True)]\<rparr>"

lemma demo_reachable:
  assumes pol: "\<And>e. policy e = common_call (table_close e)" and "d \<noteq> null"
  shows "own_reachable policy null (\<lambda>k. k - {null}) (demo_owner d)"
    and "own_reachable policy null (\<lambda>k. k - {null}) (demo_closed d null)"
    and "own_reachable policy null (\<lambda>k. k - {null}) (demo_destroyed d)"
proof -
  let ?opened = "\<lambda>k. k - {null}"
  let ?start = "own_start (table_world {d}) ?opened"
  have "own_step policy null ?opened ?start (demo_owner d)"
    using own_step.adopt [of ?start 0 d policy null ?opened] assms(2)
    by (simp add: own_start_def demo_owner_def)
  then show owner: "own_reachable policy null ?opened (demo_owner d)"
    by (rule own_reachable.step [OF own_reachable.start])
  have "own_step policy null ?opened (demo_owner d) (demo_closed d null)"
    using own_step.close [of "demo_owner d" 0 "descriptor_of d" policy null no_error
        "descriptor_default null" "table_world {}" ?opened] assms(2)
    by (simp add: demo_owner_def demo_closed_def run_simps pol open_handles_def table_world_def)
  then show "own_reachable policy null ?opened (demo_closed d null)"
    by (rule own_reachable.step [OF owner])
  have "own_step policy null ?opened (demo_owner d) (demo_destroyed d)"
    using own_step.destroy [of "demo_owner d" 0 "descriptor_of d" policy null "table_world {}" ?opened]
      assms(2)
    by (simp add: demo_owner_def demo_destroyed_def run_simps pol open_handles_def table_world_def)
  then show "own_reachable policy null ?opened (demo_destroyed d)"
    by (rule own_reachable.step [OF owner])
qed

end
