(* ===== verification/Object_Program.thy ===== *)
theory Object_Program
  imports Opening
begin

text \<open>
  Programs over a class whose objects wrap an owner (\<open>file\<close>, \<open>socket\<close>, \<open>epoll\<close>, \<open>mq\<close>), for any such
  class.  A class is described by its operations; a program holds
  objects of the class over one system and runs the operations in any order.  The locale
  \<open>owner_class\<close> is what a class must satisfy to be simulated by the state machine of the theory
  \<open>Ownership\<close>; under it, programs leak nothing, close nothing that is not theirs, and can be wound
  down at any time.
\<close>

record ('k, 'o) object_class =
  class_empty :: "'o \<Rightarrow> bool"
  class_opens :: "('k, 'o result) io \<Rightarrow> bool"
  class_uses :: "'o \<Rightarrow> ('k, unit) io \<Rightarrow> bool"
  class_move :: "'o \<Rightarrow> 'o \<times> 'o"
  class_destroy :: "'o \<Rightarrow> ('k, unit) io"

record ('k, 'o) object_program =
  instances :: "nat \<rightharpoonup> 'o"
  system :: "'k world"

inductive object_step ::
  "('k, 'o) object_class \<Rightarrow> ('k, 'o) object_program \<Rightarrow> ('k, 'o) object_program \<Rightarrow> bool"
  for C :: "('k, 'o) object_class" where
  empty: "instances s i = None \<Longrightarrow> class_empty C x \<Longrightarrow>
     object_step C s (s\<lparr>instances := (instances s)(i \<mapsto> x)\<rparr>)"
| opens: "instances s i = None \<Longrightarrow> class_opens C m \<Longrightarrow> run_state m (system s) = (Value x, w') \<Longrightarrow>
     object_step C s (s\<lparr>instances := (instances s)(i \<mapsto> x), system := w'\<rparr>)"
| open_fails: "class_opens C m \<Longrightarrow> run_state m (system s) = (Error ec, w') \<Longrightarrow>
     object_step C s (s\<lparr>system := w'\<rparr>)"
| uses: "instances s i = Some x \<Longrightarrow> class_uses C x m \<Longrightarrow> run_state m (system s) = ((), w') \<Longrightarrow>
     object_step C s (s\<lparr>system := w'\<rparr>)"
| move: "instances s i = None \<Longrightarrow> instances s j = Some x \<Longrightarrow> class_move C x = (y, x') \<Longrightarrow>
     object_step C s (s\<lparr>instances := (instances s)(i \<mapsto> y, j \<mapsto> x')\<rparr>)"
| destroy: "instances s i = Some x \<Longrightarrow> run_state (class_destroy C x) (system s) = ((), w') \<Longrightarrow>
     object_step C s (s\<lparr>instances := (instances s)(i := None), system := w'\<rparr>)"

definition object_start :: "'k world \<Rightarrow> ('k, 'o) object_program" where
  "object_start w = \<lparr>instances = Map.empty, system = w\<rparr>"

inductive object_reachable ::
  "('k, 'o) object_class \<Rightarrow> 'k world \<Rightarrow> ('k, 'o) object_program \<Rightarrow> bool"
  for C :: "('k, 'o) object_class" and w :: "'k world" where
  start: "object_reachable C w (object_start w)"
| step: "object_reachable C w s \<Longrightarrow> object_step C s t \<Longrightarrow> object_reachable C w t"

text \<open>The end of a scope: the objects of a list are destroyed in its order.\<close>

fun destroy_objects ::
  "('k, 'o) object_class \<Rightarrow> nat list \<Rightarrow> ('k, 'o) object_program \<Rightarrow> ('k, 'o) object_program" where
  "destroy_objects C [] s = s"
| "destroy_objects C (i # is) s =
     (case instances s i of
        None \<Rightarrow> destroy_objects C is s
      | Some x \<Rightarrow> destroy_objects C is
          (s\<lparr>instances := (instances s)(i := None),
             system := snd (run_state (class_destroy C x) (system s))\<rparr>))"

text \<open>A call whose outcome the program does not look at.\<close>

definition discard :: "('k, 'r) io \<Rightarrow> ('k, unit) io" where
  "discard m = do { m; State_Monad.return () }"

lemma run_discard [run_simps]: "run_state (discard m) w = ((), snd (run_state m w))"
  by (simp add: discard_def case_prod_beta)

text \<open>Two outcomes of a call on the open handles.\<close>

definition keeps_handles :: "('k, 'r) io \<Rightarrow> ('k \<Rightarrow> 'd set) \<Rightarrow> bool" where
  "keeps_handles m opened \<longleftrightarrow>
     (\<forall>w. opened (kernel_of (snd (run_state m w))) = opened (kernel_of w))"

definition opens_handle ::
  "('k \<Rightarrow> 'd set) \<Rightarrow> ('o \<Rightarrow> 'd descriptor) \<Rightarrow> ('k, 'o result) io \<Rightarrow> bool" where
  "opens_handle opened owner m \<longleftrightarrow>
     (\<forall>w res w'. run_state m w = (res, w') \<longrightarrow>
        (case res of
           Value x \<Rightarrow> \<exists>d. owner x = descriptor_of d \<and> d \<notin> opened (kernel_of w) \<and>
             opened (kernel_of w') = insert d (opened (kernel_of w))
         | Error ec \<Rightarrow> opened (kernel_of w') = opened (kernel_of w)))"

lemma keeps_handlesD:
  "keeps_handles m opened \<Longrightarrow> run_state m w = (r, w') \<Longrightarrow>
     opened (kernel_of w') = opened (kernel_of w)"
  unfolding keeps_handles_def by (metis snd_conv)

lemma keeps_handles_discard [simp]: "keeps_handles (discard m) opened = keeps_handles m opened"
  by (simp add: keeps_handles_def run_simps)

text \<open>The call macros keep the handles that their call keeps.\<close>

lemma keeps_handles_common [simp]:
  "keeps_handles (common_call m) opened = keeps_handles m opened"
  "keeps_handles (common_result_call m') opened = keeps_handles m' opened"
  by (simp_all add: keeps_handles_def)

lemma opens_handleD:
  assumes "opens_handle opened owner m"
  shows "run_state m w = (Value x, w') \<Longrightarrow> \<exists>d. owner x = descriptor_of d \<and>
      d \<notin> opened (kernel_of w) \<and> opened (kernel_of w') = insert d (opened (kernel_of w))"
    and "run_state m w = (Error ec, w') \<Longrightarrow> opened (kernel_of w') = opened (kernel_of w)"
  using assms unfolding opens_handle_def by fastforce+

lemma opens_handleI:
  assumes "\<And>w x w'. run_state m w = (Value x, w') \<Longrightarrow> \<exists>d. owner x = descriptor_of d \<and>
      d \<notin> opened (kernel_of w) \<and> opened (kernel_of w') = insert d (opened (kernel_of w))"
    and "\<And>w ec w'. run_state m w = (Error ec, w') \<Longrightarrow> opened (kernel_of w') = opened (kernel_of w)"
  shows "opens_handle opened owner m"
  unfolding opens_handle_def using assms by (auto split: result.splits)

context owner_open
begin

lemma open_handle:
  assumes "handle_table call opened null" and "documented_open (m a) handle_of opened"
    and "\<And>d. owner (wrap d) = d"
  shows "opens_handle opened owner (op a)"
  by (rule opens_handleI; drule open_spec [OF assms(1,2)]) (auto simp: opens_owner_def assms(3))

end

section \<open>Termination of a scope\<close>

lemma destroy_objects_dom [simp]:
  "dom (instances (destroy_objects C is s)) = dom (instances s) - set is"
  by (induction C "is" s rule: destroy_objects.induct) (auto split: option.splits if_splits)

lemma destroy_objects_reachable:
  "object_reachable C w s \<Longrightarrow> object_reachable C w (destroy_objects C is s)"
proof (induction C "is" s rule: destroy_objects.induct)
  case (2 C i "is" s)
  show ?case
  proof (cases "instances s i")
    case (Some x)
    then have "object_step C s (s\<lparr>instances := (instances s)(i := None),
        system := snd (run_state (class_destroy C x) (system s))\<rparr>)"
      by (rule object_step.destroy) (simp add: prod_eq_iff)
    with 2 Some show ?thesis
      by (auto intro: object_reachable.step)
  qed (use 2 in simp)
qed simp

lemma object_step_finite:
  "object_step C s t \<Longrightarrow> finite (dom (instances s)) \<Longrightarrow> finite (dom (instances t))"
  by (induction rule: object_step.induct) simp_all

lemma object_reachable_finite: "object_reachable C w s \<Longrightarrow> finite (dom (instances s))"
  by (induction rule: object_reachable.induct) (simp_all add: object_start_def object_step_finite)

text \<open>
  What it means that a program can be wound down: it holds finitely many objects, and destroying
  them in any order leaves none, and the handles open that were open at the start.
\<close>

definition winds_down ::
  "('k, 'o) object_class \<Rightarrow> ('k \<Rightarrow> 'd set) \<Rightarrow> 'k world \<Rightarrow> ('k, 'o) object_program \<Rightarrow> bool" where
  "winds_down C opened w s \<longleftrightarrow>
     finite (dom (instances s)) \<and>
     (\<forall>is. dom (instances s) \<subseteq> set is \<longrightarrow>
        instances (destroy_objects C is s) = Map.empty \<and>
        opened (kernel_of (system (destroy_objects C is s))) = opened (kernel_of w))"

section \<open>Classes that own\<close>

locale owner_class = close_policy null policy call
  for null :: 'd and policy :: "('k, 'd) close_policy" and call :: "'d \<Rightarrow> ('k, 'w::len word) io" +
  fixes documented :: "('k \<Rightarrow> 'd set) \<Rightarrow> bool"
    and C :: "('k, 'o) object_class"
    and owner :: "'o \<Rightarrow> 'd descriptor"
  assumes documented_table: "documented opened \<Longrightarrow> handle_table call opened null"
    and opens_spec: "documented opened \<Longrightarrow> class_opens C m \<Longrightarrow> opens_handle opened owner m"
    and uses_spec: "documented opened \<Longrightarrow> class_uses C x u \<Longrightarrow> keeps_handles u opened"
    and empty_spec: "class_empty C x \<Longrightarrow> owner x = descriptor_default null"
    and move_spec: "class_move C x = (y, x') \<Longrightarrow> owner y = owner x \<and> owner x' = descriptor_default null"
    and destroy_spec': "class_destroy C x = descriptor_destroy policy null (owner x)"
begin

text \<open>
  A state of the program corresponds to a reachable state of the owners' machine with the same
  handles and the same system, in which the client holds what was open at the start.  The classes
  here have no \<open>close()\<close> that keeps its handle after a failure, so no handle is stale.
\<close>

definition represents :: "('k \<Rightarrow> 'd set) \<Rightarrow> 'd set \<Rightarrow> ('k, 'o) object_program \<Rightarrow> ('k, 'd) program \<Rightarrow> bool" where
  "represents opened start s t \<longleftrightarrow>
     own_reachable policy null opened t \<and> objects t = map_option owner \<circ> instances s \<and>
     machine t = system s \<and> client t = start \<and> stale t = {}"

lemma representsI:
  "own_reachable policy null opened t \<Longrightarrow> objects t = map_option owner \<circ> instances s \<Longrightarrow>
     machine t = system s \<Longrightarrow> client t = start \<Longrightarrow> stale t = {} \<Longrightarrow>
     \<exists>t. represents opened start s t"
  unfolding represents_def by blast

text \<open>As no handle is stale, what the client holds is open.\<close>

lemma represents_inv:
  assumes "documented opened" and "represents opened start s t"
  shows "own_inv_upto {null} opened t" and "start \<subseteq> opened (kernel_of (system s))"
proof -
  have "own_inv null opened t"
    using reachable_inv [OF documented_table [OF assms(1)]] assms(2) by (simp add: represents_def)
  then show inv: "own_inv_upto {null} opened t"
    using assms(2) by (simp add: own_inv_def represents_def)
  have "null \<notin> client t"
    using \<open>own_inv null opened t\<close> by (simp add: own_inv_def)
  with inv have "client t \<subseteq> open_handles opened t"
    unfolding own_inv_upto_def by blast
  then show "start \<subseteq> opened (kernel_of (system s))"
    using assms(2) by (simp add: represents_def open_handles_def)
qed

lemma represents_call:
  assumes t: "represents opened start s t"
    and same: "opened (kernel_of w') = opened (kernel_of (system s))"
  shows "\<exists>t. represents opened start (s\<lparr>system := w'\<rparr>) t"
proof -
  have "own_reachable policy null opened (t\<lparr>machine := w'\<rparr>)"
    using t same by (intro own_reachable.step [OF _ own_step.other_call])
      (simp_all add: represents_def open_handles_def)
  then show ?thesis
    by (rule representsI) (use t in \<open>simp_all add: represents_def\<close>)
qed

lemma represents_step:
  assumes doc: "documented opened"
    and step: "object_step C s s'" and t: "represents opened start s t"
  shows "\<exists>t'. represents opened start s' t'"
  using step
proof cases
  case (empty i x)
  have "own_reachable policy null opened (t\<lparr>objects := (objects t)(i \<mapsto> descriptor_default null)\<rparr>)"
    using t empty by (intro own_reachable.step [OF _ own_step.make]) (simp_all add: represents_def)
  then show ?thesis
    by (rule representsI) (use t empty empty_spec in \<open>simp_all add: represents_def fun_upd_comp\<close>)
next
  case (opens i m x w')
  then obtain h where x: "owner x = descriptor_of h" and new: "h \<notin> opened (kernel_of (system s))"
    and more: "opened (kernel_of w') = insert h (opened (kernel_of (system s)))"
    using opens_handleD(1) [OF opens_spec [OF doc]] by blast
  have "own_reachable policy null opened
      (t\<lparr>objects := (objects t)(i \<mapsto> descriptor_of h), machine := w'\<rparr>)"
    using t opens new more represents_inv(2) [OF doc t]
    by (intro acquire_reachable [OF documented_table [OF doc]])
      (auto simp: represents_def open_handles_def)
  then show ?thesis
    by (rule representsI) (use t opens x in \<open>simp_all add: represents_def fun_upd_comp\<close>)
next
  case (open_fails m ec w')
  then have "opened (kernel_of w') = opened (kernel_of (system s))"
    using opens_handleD(2) [OF opens_spec [OF doc]] by blast
  with t open_fails show ?thesis
    using represents_call by blast
next
  case (uses i x m w')
  with represents_call [OF t keeps_handlesD [OF uses_spec [OF doc]]] show ?thesis
    by blast
next
  case (move i j x y x')
  have "own_reachable policy null opened
      (t\<lparr>objects := (objects t)(i \<mapsto> owner x, j \<mapsto> descriptor_default null)\<rparr>)"
    using t move by (intro own_reachable.step [OF _ own_step.move]) (simp_all add: represents_def)
  then show ?thesis
    by (rule representsI)
      (use t move move_spec [OF move(4)] in \<open>simp_all add: represents_def fun_upd_comp\<close>)
next
  case (destroy i x w')
  let ?h = "raw_descriptor (owner x)"
  have "own_reachable policy null opened
      (t\<lparr>objects := (objects t)(i := None), machine := w',
        leaked := leaked t \<union> ({?h} \<inter> opened (kernel_of w')),
        close_log := (?h, ?h \<in> open_handles opened t) # close_log t\<rparr>)"
    using t destroy by (intro own_reachable.step [OF _ own_step.destroy])
      (simp_all add: represents_def destroy_spec')
  then show ?thesis
    by (rule representsI) (use t destroy in \<open>simp_all add: represents_def fun_upd_comp\<close>)
qed

lemma represents_reachable:
  assumes "documented opened" and "object_reachable C w s"
  shows "\<exists>t. represents opened (opened (kernel_of w)) s t"
  using assms(2)
proof induction
  case start
  show ?case
    by (rule representsI [OF own_reachable.start [where w = w]])
      (simp_all add: own_start_def object_start_def)
next
  case (step s s')
  then show ?case
    using represents_step [OF assms(1)] by blast
qed

text \<open>What the invariant of the owners says of the program.\<close>

lemma object_program_owners:
  assumes doc: "documented opened" and reach: "object_reachable C w s"
  shows "opened (kernel_of w) \<subseteq> opened (kernel_of (system s))"
    and "instances s i = Some x \<Longrightarrow> raw_descriptor (owner x) \<noteq> null \<Longrightarrow>
      raw_descriptor (owner x) \<in> opened (kernel_of (system s)) - opened (kernel_of w)"
    and "instances s i = Some x \<Longrightarrow> raw_descriptor (owner x) \<noteq> null \<Longrightarrow>
      instances s j = Some y \<Longrightarrow> raw_descriptor (owner y) = raw_descriptor (owner x) \<Longrightarrow> j = i"
proof -
  obtain t where t: "represents opened (opened (kernel_of w)) s t"
    using represents_reachable [OF doc reach] by blast
  note inv = represents_inv(1) [OF doc t]
  show "opened (kernel_of w) \<subseteq> opened (kernel_of (system s))"
    by (rule represents_inv(2) [OF doc t])
  show "raw_descriptor (owner x) \<in> opened (kernel_of (system s)) - opened (kernel_of w)"
    if "instances s i = Some x" "raw_descriptor (owner x) \<noteq> null"
    using own_inv_upto_object [OF inv, of i "owner x"] that t
    by (simp add: represents_def open_handles_def)
  show "j = i"
    if "instances s i = Some x" "raw_descriptor (owner x) \<noteq> null"
      "instances s j = Some y" "raw_descriptor (owner y) = raw_descriptor (owner x)"
    using unique_ownerD [of "{null}" t j "owner y" i "owner x"] inv that t
    by (simp add: own_inv_upto_def represents_def)
qed

lemma object_program_no_leak:
  assumes doc: "documented opened" and rel: "reliable_close call opened"
    and reach: "object_reachable C w s" and none: "instances s = Map.empty"
  shows "opened (kernel_of (system s)) = opened (kernel_of w)"
proof -
  obtain t where t: "own_reachable policy null opened t" "objects t = Map.empty"
    "machine t = system s" "client t = opened (kernel_of w)"
    using represents_reachable [OF doc reach] none by (auto simp: represents_def comp_def)
  then show ?thesis
    using no_leak [OF documented_table [OF doc] rel t(1)] by (simp add: open_handles_def)
qed

text \<open>Every reachable state can be wound down, in any order.\<close>

lemma object_program_unwind:
  assumes "documented opened" and "reliable_close call opened"
    and "object_reachable C w s" and "dom (instances s) \<subseteq> set is"
  shows "instances (destroy_objects C is s) = Map.empty"
    and "opened (kernel_of (system (destroy_objects C is s))) = opened (kernel_of w)"
proof -
  have "dom (instances (destroy_objects C is s)) = {}"
    using assms(4) by auto
  then show "instances (destroy_objects C is s) = Map.empty"
    by (simp only: dom_eq_empty_conv)
  then show "opened (kernel_of (system (destroy_objects C is s))) = opened (kernel_of w)"
    by (rule object_program_no_leak [OF assms(1,2) destroy_objects_reachable [OF assms(3)]])
qed

lemma object_program_winds_down:
  assumes "documented opened" and "reliable_close call opened" and "object_reachable C w s"
  shows "winds_down C opened w s"
  using object_program_unwind [OF assms] object_reachable_finite [OF assms(3)]
  unfolding winds_down_def by blast

end

end
