(* ===== verification/Span.thy ===== *)
theory Span
  imports World
begin

text \<open>
  \<^verbatim>\<open>byte_span.hpp\<close>, \<^verbatim>\<open>char_span.hpp\<close>, \<^verbatim>\<open>span.hpp\<close> and \<^verbatim>\<open>any_view.hpp\<close>: six classes that pair a pointer with a
  length, and two views of untyped memory.  A span is a record of the two members.  Pointer
  arithmetic advances by the size of the element: 1 for bytes and characters, and the
  parameter \<open>sz\<close> (the \<open>sizeof\<close> of the template argument) for \<open>span<T>\<close> and \<open>cspan<T>\<close>.

  The contract that all six satisfy is the locale \<open>span_class\<close>; its lemmas give each class the
  bounds of \<open>subspan\<close> and the reading of a span as the list of its elements' addresses.
\<close>

section \<open>The region a pointer and a length denote\<close>

definition region :: "size_t \<Rightarrow> addr \<Rightarrow> size_t \<Rightarrow> addr list" where
  "region sz p n = map (\<lambda>i. p + of_nat i * sz) [0..<unat n]"

text \<open>
  A region that can be an object of the program: not null unless empty, and not reaching the end
  of the address space.
\<close>

definition region_ok :: "size_t \<Rightarrow> addr \<Rightarrow> size_t \<Rightarrow> bool" where
  "region_ok sz p n \<longleftrightarrow>
     unat p + unat n * unat sz < 2 ^ 64 \<and> (n \<noteq> 0 \<longrightarrow> p \<noteq> nullptr \<and> sz \<noteq> 0)"

lemma length_region [simp]: "length (region sz p n) = unat n"
  by (simp add: region_def)

lemma region_0 [simp]: "region sz p 0 = []"
  by (simp add: region_def)

lemma region_nth: "i < unat n \<Longrightarrow> region sz p n ! i = p + of_nat i * sz"
  by (simp add: region_def)

lemma region_ok_0 [simp]: "region_ok sz 0 0"
  by (simp add: region_ok_def)

lemma len64: "LENGTH(64) = 64"
  by simp

lemma unat_offset:
  assumes "region_ok sz p n" and "i \<le> unat n"
  shows "unat (p + of_nat i * sz) = unat p + i * unat sz"
proof -
  have "unat p + i * unat sz \<le> unat p + unat n * unat sz"
    using assms(2) by simp
  also have "\<dots> < 2 ^ 64"
    using assms(1) by (simp add: region_ok_def)
  finally have lt: "unat p + i * unat sz < 2 ^ 64" .
  have "unat (of_nat (unat p + i * unat sz) :: addr) = unat p + i * unat sz"
    using lt by (simp only: unat_of_nat len64 mod_less)
  then show ?thesis
    by simp
qed

lemma region_mono: "m \<le> n \<Longrightarrow> set (region sz p m) \<subseteq> set (region sz p n)"
  by (auto simp: region_def word_le_nat_alt)

lemma distinct_region:
  assumes ok: "region_ok sz p n"
  shows "distinct (region sz p n)"
proof -
  have "i = j" if "i < unat n" "j < unat n" "p + of_nat i * sz = p + of_nat j * sz" for i j
  proof -
    have "unat p + i * unat sz = unat p + j * unat sz"
      using unat_offset [OF ok, of i] unat_offset [OF ok, of j] that by (metis less_imp_le)
    moreover have "unat sz \<noteq> 0"
      using ok that by (auto simp: region_ok_def unat_eq_0)
    ultimately show ?thesis by simp
  qed
  then show ?thesis
    by (auto simp: distinct_conv_nth region_nth)
qed

lemma region_subset_iff:
  assumes "region_ok sz p m" and "region_ok sz p n"
  shows "set (region sz p m) \<subseteq> set (region sz p n) \<longleftrightarrow> m \<le> n"
proof
  assume "set (region sz p m) \<subseteq> set (region sz p n)"
  then have "card (set (region sz p m)) \<le> card (set (region sz p n))"
    by (simp add: card_mono)
  then show "m \<le> n"
    using assms by (simp add: distinct_card distinct_region word_le_nat_alt)
qed (rule region_mono)

section \<open>\<open>byte_cspan\<close>\<close>

record byte_cspan =
  byte_cspan_buffer :: addr
  byte_cspan_len :: size_t

definition byte_cspan_default :: byte_cspan where
  "byte_cspan_default = \<lparr>byte_cspan_buffer = nullptr, byte_cspan_len = 0\<rparr>"

definition byte_cspan_make :: "addr \<Rightarrow> size_t \<Rightarrow> byte_cspan" where
  "byte_cspan_make buffer n =
     \<lparr>byte_cspan_buffer = buffer, byte_cspan_len = (if buffer \<noteq> nullptr then n else 0)\<rparr>"

text \<open>A C array or \<open>std::array\<close> of \<open>Length\<close> elements is never tested for null.\<close>

definition byte_cspan_of_array :: "addr \<Rightarrow> size_t \<Rightarrow> byte_cspan" where
  "byte_cspan_of_array buffer Length = \<lparr>byte_cspan_buffer = buffer, byte_cspan_len = Length\<rparr>"

definition byte_cspan_empty :: "byte_cspan \<Rightarrow> bool" where
  "byte_cspan_empty s \<longleftrightarrow> byte_cspan_len s = 0"

definition byte_cspan_data :: "byte_cspan \<Rightarrow> addr" where
  "byte_cspan_data s = byte_cspan_buffer s"

definition byte_cspan_length :: "byte_cspan \<Rightarrow> size_t" where
  "byte_cspan_length s = byte_cspan_len s"

definition byte_cspan_begin :: "byte_cspan \<Rightarrow> addr" where
  "byte_cspan_begin s = byte_cspan_buffer s"

definition byte_cspan_end :: "byte_cspan \<Rightarrow> addr" where
  "byte_cspan_end s = byte_cspan_buffer s + byte_cspan_len s"

definition byte_cspan_subspan :: "byte_cspan \<Rightarrow> size_t \<Rightarrow> size_t \<Rightarrow> byte_cspan" where
  "byte_cspan_subspan s offset count =
     (if offset \<ge> byte_cspan_len s \<or> byte_cspan_len s - offset < count
      then byte_cspan_default
      else byte_cspan_make (byte_cspan_buffer s + offset) count)"

lemmas byte_cspan_defs =
  byte_cspan_default_def byte_cspan_make_def byte_cspan_of_array_def byte_cspan_empty_def byte_cspan_data_def
  byte_cspan_length_def byte_cspan_begin_def byte_cspan_end_def byte_cspan_subspan_def

section \<open>\<open>byte_span\<close>\<close>

record byte_span =
  byte_span_buffer :: addr
  byte_span_len :: size_t

definition byte_span_default :: byte_span where
  "byte_span_default = \<lparr>byte_span_buffer = nullptr, byte_span_len = 0\<rparr>"

definition byte_span_make :: "addr \<Rightarrow> size_t \<Rightarrow> byte_span" where
  "byte_span_make buffer n =
     \<lparr>byte_span_buffer = buffer, byte_span_len = (if buffer \<noteq> nullptr then n else 0)\<rparr>"

text \<open>A C array or \<open>std::array\<close> of \<open>Length\<close> elements is never tested for null.\<close>

definition byte_span_of_array :: "addr \<Rightarrow> size_t \<Rightarrow> byte_span" where
  "byte_span_of_array buffer Length = \<lparr>byte_span_buffer = buffer, byte_span_len = Length\<rparr>"

definition byte_span_empty :: "byte_span \<Rightarrow> bool" where
  "byte_span_empty s \<longleftrightarrow> byte_span_len s = 0"

definition byte_span_data :: "byte_span \<Rightarrow> addr" where
  "byte_span_data s = byte_span_buffer s"

definition byte_span_length :: "byte_span \<Rightarrow> size_t" where
  "byte_span_length s = byte_span_len s"

definition byte_span_begin :: "byte_span \<Rightarrow> addr" where
  "byte_span_begin s = byte_span_buffer s"

definition byte_span_end :: "byte_span \<Rightarrow> addr" where
  "byte_span_end s = byte_span_buffer s + byte_span_len s"

definition byte_span_subspan :: "byte_span \<Rightarrow> size_t \<Rightarrow> size_t \<Rightarrow> byte_span" where
  "byte_span_subspan s offset count =
     (if offset \<ge> byte_span_len s \<or> byte_span_len s - offset < count
      then byte_span_default
      else byte_span_make (byte_span_buffer s + offset) count)"

definition byte_span_to_byte_cspan :: "byte_span \<Rightarrow> byte_cspan" where
  "byte_span_to_byte_cspan s = byte_cspan_make (byte_span_data s) (byte_span_length s)"

lemmas byte_span_defs =
  byte_span_default_def byte_span_make_def byte_span_of_array_def byte_span_empty_def byte_span_data_def
  byte_span_length_def byte_span_begin_def byte_span_end_def byte_span_subspan_def

section \<open>\<open>char_cspan\<close>\<close>

record char_cspan =
  char_cspan_buffer :: addr
  char_cspan_len :: size_t

definition char_cspan_default :: char_cspan where
  "char_cspan_default = \<lparr>char_cspan_buffer = nullptr, char_cspan_len = 0\<rparr>"

definition char_cspan_make :: "addr \<Rightarrow> size_t \<Rightarrow> char_cspan" where
  "char_cspan_make buffer n =
     \<lparr>char_cspan_buffer = buffer, char_cspan_len = (if buffer \<noteq> nullptr then n else 0)\<rparr>"

text \<open>A C array or \<open>std::array\<close> of \<open>Length\<close> elements is never tested for null.\<close>

definition char_cspan_of_array :: "addr \<Rightarrow> size_t \<Rightarrow> char_cspan" where
  "char_cspan_of_array buffer Length = \<lparr>char_cspan_buffer = buffer, char_cspan_len = Length\<rparr>"

definition char_cspan_empty :: "char_cspan \<Rightarrow> bool" where
  "char_cspan_empty s \<longleftrightarrow> char_cspan_len s = 0"

definition char_cspan_data :: "char_cspan \<Rightarrow> addr" where
  "char_cspan_data s = char_cspan_buffer s"

definition char_cspan_length :: "char_cspan \<Rightarrow> size_t" where
  "char_cspan_length s = char_cspan_len s"

definition char_cspan_begin :: "char_cspan \<Rightarrow> addr" where
  "char_cspan_begin s = char_cspan_buffer s"

definition char_cspan_end :: "char_cspan \<Rightarrow> addr" where
  "char_cspan_end s = char_cspan_buffer s + char_cspan_len s"

definition char_cspan_subspan :: "char_cspan \<Rightarrow> size_t \<Rightarrow> size_t \<Rightarrow> char_cspan" where
  "char_cspan_subspan s offset count =
     (if offset \<ge> char_cspan_len s \<or> char_cspan_len s - offset < count
      then char_cspan_default
      else char_cspan_make (char_cspan_buffer s + offset) count)"

lemmas char_cspan_defs =
  char_cspan_default_def char_cspan_make_def char_cspan_of_array_def char_cspan_empty_def char_cspan_data_def
  char_cspan_length_def char_cspan_begin_def char_cspan_end_def char_cspan_subspan_def

section \<open>\<open>char_span\<close>\<close>

record char_span =
  char_span_buffer :: addr
  char_span_len :: size_t

definition char_span_default :: char_span where
  "char_span_default = \<lparr>char_span_buffer = nullptr, char_span_len = 0\<rparr>"

definition char_span_make :: "addr \<Rightarrow> size_t \<Rightarrow> char_span" where
  "char_span_make buffer n =
     \<lparr>char_span_buffer = buffer, char_span_len = (if buffer \<noteq> nullptr then n else 0)\<rparr>"

text \<open>A C array or \<open>std::array\<close> of \<open>Length\<close> elements is never tested for null.\<close>

definition char_span_of_array :: "addr \<Rightarrow> size_t \<Rightarrow> char_span" where
  "char_span_of_array buffer Length = \<lparr>char_span_buffer = buffer, char_span_len = Length\<rparr>"

definition char_span_empty :: "char_span \<Rightarrow> bool" where
  "char_span_empty s \<longleftrightarrow> char_span_len s = 0"

definition char_span_data :: "char_span \<Rightarrow> addr" where
  "char_span_data s = char_span_buffer s"

definition char_span_length :: "char_span \<Rightarrow> size_t" where
  "char_span_length s = char_span_len s"

definition char_span_begin :: "char_span \<Rightarrow> addr" where
  "char_span_begin s = char_span_buffer s"

definition char_span_end :: "char_span \<Rightarrow> addr" where
  "char_span_end s = char_span_buffer s + char_span_len s"

definition char_span_subspan :: "char_span \<Rightarrow> size_t \<Rightarrow> size_t \<Rightarrow> char_span" where
  "char_span_subspan s offset count =
     (if offset \<ge> char_span_len s \<or> char_span_len s - offset < count
      then char_span_default
      else char_span_make (char_span_buffer s + offset) count)"

definition char_span_to_char_cspan :: "char_span \<Rightarrow> char_cspan" where
  "char_span_to_char_cspan s = char_cspan_make (char_span_data s) (char_span_length s)"

lemmas char_span_defs =
  char_span_default_def char_span_make_def char_span_of_array_def char_span_empty_def char_span_data_def
  char_span_length_def char_span_begin_def char_span_end_def char_span_subspan_def

section \<open>\<open>cspan\<close>\<close>

record cspan =
  cspan_buffer :: addr
  cspan_len :: size_t

definition cspan_default :: cspan where
  "cspan_default = \<lparr>cspan_buffer = nullptr, cspan_len = 0\<rparr>"

definition cspan_make :: "addr \<Rightarrow> size_t \<Rightarrow> cspan" where
  "cspan_make buffer n =
     \<lparr>cspan_buffer = buffer, cspan_len = (if buffer \<noteq> nullptr then n else 0)\<rparr>"

text \<open>A C array, a \<open>std::array\<close> or a \<open>std::vector\<close> of \<open>Length\<close> elements; there is no test for null.\<close>

definition cspan_of_array :: "addr \<Rightarrow> size_t \<Rightarrow> cspan" where
  "cspan_of_array buffer Length = \<lparr>cspan_buffer = buffer, cspan_len = Length\<rparr>"

definition cspan_empty :: "cspan \<Rightarrow> bool" where
  "cspan_empty s \<longleftrightarrow> cspan_len s = 0"

definition cspan_data :: "cspan \<Rightarrow> addr" where
  "cspan_data s = cspan_buffer s"

definition cspan_length :: "cspan \<Rightarrow> size_t" where
  "cspan_length s = cspan_len s"

definition cspan_begin :: "cspan \<Rightarrow> addr" where
  "cspan_begin s = cspan_buffer s"

definition cspan_end :: "size_t \<Rightarrow> cspan \<Rightarrow> addr" where
  "cspan_end sz s = cspan_buffer s + cspan_len s * sz"

definition cspan_subspan :: "size_t \<Rightarrow> cspan \<Rightarrow> size_t \<Rightarrow> size_t \<Rightarrow> cspan" where
  "cspan_subspan sz s offset count =
     (if offset \<ge> cspan_len s \<or> cspan_len s - offset < count
      then cspan_default
      else cspan_make (cspan_buffer s + offset * sz) count)"

lemmas cspan_defs =
  cspan_default_def cspan_make_def cspan_of_array_def cspan_empty_def cspan_data_def
  cspan_length_def cspan_begin_def cspan_end_def cspan_subspan_def

section \<open>\<open>span\<close>\<close>

record span =
  span_buffer :: addr
  span_len :: size_t

definition span_default :: span where
  "span_default = \<lparr>span_buffer = nullptr, span_len = 0\<rparr>"

definition span_make :: "addr \<Rightarrow> size_t \<Rightarrow> span" where
  "span_make buffer n =
     \<lparr>span_buffer = buffer, span_len = (if buffer \<noteq> nullptr then n else 0)\<rparr>"

text \<open>A C array, a \<open>std::array\<close> or a \<open>std::vector\<close> of \<open>Length\<close> elements; there is no test for null.\<close>

definition span_of_array :: "addr \<Rightarrow> size_t \<Rightarrow> span" where
  "span_of_array buffer Length = \<lparr>span_buffer = buffer, span_len = Length\<rparr>"

definition span_empty :: "span \<Rightarrow> bool" where
  "span_empty s \<longleftrightarrow> span_len s = 0"

definition span_data :: "span \<Rightarrow> addr" where
  "span_data s = span_buffer s"

definition span_length :: "span \<Rightarrow> size_t" where
  "span_length s = span_len s"

definition span_begin :: "span \<Rightarrow> addr" where
  "span_begin s = span_buffer s"

definition span_end :: "size_t \<Rightarrow> span \<Rightarrow> addr" where
  "span_end sz s = span_buffer s + span_len s * sz"

definition span_subspan :: "size_t \<Rightarrow> span \<Rightarrow> size_t \<Rightarrow> size_t \<Rightarrow> span" where
  "span_subspan sz s offset count =
     (if offset \<ge> span_len s \<or> span_len s - offset < count
      then span_default
      else span_make (span_buffer s + offset * sz) count)"

definition span_to_cspan :: "span \<Rightarrow> cspan" where
  "span_to_cspan s = cspan_make (span_data s) (span_length s)"

lemmas span_defs =
  span_default_def span_make_def span_of_array_def span_empty_def span_data_def
  span_length_def span_begin_def span_end_def span_subspan_def

section \<open>The contract of a span class\<close>

locale span_class =
  fixes sz :: size_t
    and default :: 's
    and make :: "addr \<Rightarrow> size_t \<Rightarrow> 's"
    and of_array :: "addr \<Rightarrow> size_t \<Rightarrow> 's"
    and data :: "'s \<Rightarrow> addr"
    and len :: "'s \<Rightarrow> size_t"
    and is_empty :: "'s \<Rightarrow> bool"
    and begin_ptr :: "'s \<Rightarrow> addr"
    and end_ptr :: "'s \<Rightarrow> addr"
    and subspan :: "'s \<Rightarrow> size_t \<Rightarrow> size_t \<Rightarrow> 's"
  assumes data_default: "data default = nullptr"
    and len_default: "len default = 0"
    and data_make: "data (make p n) = p"
    and len_make: "len (make p n) = (if p = nullptr then 0 else n)"
    and data_of_array: "data (of_array p n) = p"
    and len_of_array: "len (of_array p n) = n"
    and is_empty_iff: "is_empty s \<longleftrightarrow> len s = 0"
    and begin_ptr_eq: "begin_ptr s = data s"
    and end_ptr_eq: "end_ptr s = data s + len s * sz"
    and span_eqI: "data s = data t \<Longrightarrow> len s = len t \<Longrightarrow> s = t"
    and subspan_out: "off \<ge> len s \<or> len s - off < cnt \<Longrightarrow> subspan s off cnt = default"
    and subspan_in: "\<not> (off \<ge> len s \<or> len s - off < cnt) \<Longrightarrow>
      subspan s off cnt = make (data s + off * sz) cnt"
begin

text \<open>The guard does not overflow: it says that the requested range lies inside the span.\<close>

lemma guard_iff:
  "\<not> (off \<ge> len s \<or> len s - off < cnt) \<longleftrightarrow>
     unat off + unat cnt \<le> unat (len s) \<and> off < len s"
proof (cases "off < len s")
  case True
  then show ?thesis by (auto simp: word_sub_less_iff not_le not_less)
next
  case False
  then show ?thesis by (simp add: not_less)
qed

lemma subspan_eq:
  "subspan s off cnt =
     (if unat off + unat cnt \<le> unat (len s) \<and> off < len s
      then make (data s + off * sz) cnt else default)"
proof (cases "off \<ge> len s \<or> len s - off < cnt")
  case True
  then have "\<not> (unat off + unat cnt \<le> unat (len s) \<and> off < len s)"
    using guard_iff [of s off cnt] by blast
  with subspan_out [OF True] show ?thesis by (simp only: if_False)
next
  case False
  then have "unat off + unat cnt \<le> unat (len s) \<and> off < len s"
    using guard_iff [of s off cnt] by blast
  with subspan_in [OF False] show ?thesis by simp
qed

lemma make_region_ok: "region_ok sz p n \<Longrightarrow> data (make p n) = p \<and> len (make p n) = n"
  by (auto simp: data_make len_make region_ok_def)

lemma inner_not_null:
  assumes "region_ok sz (data s) (len s)" and "off < len s"
  shows "data s + off * sz \<noteq> nullptr"
proof -
  have "unat off \<le> unat (len s)"
    using assms(2) by (simp add: word_less_nat_alt)
  then have "unat (data s + of_nat (unat off) * sz) = unat (data s) + unat off * unat sz"
    by (rule unat_offset [OF assms(1)])
  moreover have "data s \<noteq> nullptr"
    using assms by (auto simp: region_ok_def)
  ultimately show ?thesis
    by (auto simp: unat_eq_0)
qed

lemma len_subspan:
  assumes "region_ok sz (data s) (len s)"
  shows "len (subspan s off cnt) = (if unat off + unat cnt \<le> unat (len s) then cnt else 0)"
proof (cases "off < len s")
  case True
  with inner_not_null [OF assms True] show ?thesis
    by (simp add: subspan_eq len_make len_default)
next
  case False
  then have "unat (len s) \<le> unat off"
    by (simp add: word_le_nat_alt not_less)
  then have "cnt = 0" if "unat off + unat cnt \<le> unat (len s)"
    using that by (simp flip: unat_eq_0)
  with False show ?thesis
    by (auto simp: subspan_eq len_default)
qed

text \<open>A subspan of a valid span is valid, and denotes the requested part of its elements.\<close>

lemma subspan_region_ok:
  assumes ok: "region_ok sz (data s) (len s)"
  shows "region_ok sz (data (subspan s off cnt)) (len (subspan s off cnt))"
proof (cases "unat off + unat cnt \<le> unat (len s) \<and> off < len s")
  case True
  have off: "unat (data s + off * sz) = unat (data s) + unat off * unat sz"
    using unat_offset [OF ok, of "unat off"] True by simp
  have "unat off * unat sz + unat cnt * unat sz \<le> unat (len s) * unat sz"
    using True by (metis add_mult_distrib mult_le_mono1)
  moreover have "sz \<noteq> 0"
    using ok True by (auto simp: region_ok_def)
  ultimately show ?thesis
    using True inner_not_null [OF ok] ok off
    by (auto simp: subspan_eq data_make len_make region_ok_def)
next
  case False
  then have "subspan s off cnt = default"
    by (auto simp: subspan_eq)
  then show ?thesis
    by (simp add: data_default len_default)
qed

lemma region_subspan:
  assumes ok: "region_ok sz (data s) (len s)"
  shows "region sz (data (subspan s off cnt)) (len (subspan s off cnt)) =
    (if unat off + unat cnt \<le> unat (len s)
     then take (unat cnt) (drop (unat off) (region sz (data s) (len s))) else [])"
proof (cases "unat off + unat cnt \<le> unat (len s) \<and> off < len s")
  case True
  then have "data (subspan s off cnt) = data s + off * sz" "len (subspan s off cnt) = cnt"
    using inner_not_null [OF ok] by (simp_all add: subspan_eq data_make len_make)
  with True show ?thesis
    by (auto simp: region_nth algebra_simps intro!: nth_equalityI)
next
  case False
  then have d: "subspan s off cnt = default"
    by (auto simp: subspan_eq)
  have "unat (len s) \<le> unat off" if "unat off + unat cnt \<le> unat (len s)"
    using False that by (simp add: word_le_nat_alt not_less)
  then show ?thesis
    by (auto simp: d len_default)
qed

lemma region_subspan_subset:
  assumes "region_ok sz (data s) (len s)"
  shows "set (region sz (data (subspan s off cnt)) (len (subspan s off cnt)))
    \<subseteq> set (region sz (data s) (len s))"
  by (auto simp: region_subspan [OF assms] dest: in_set_takeD in_set_dropD)

text \<open>A part of a part: one part at the sum of the offsets, or the empty span.\<close>

lemma nested_subspan:
  assumes ok: "region_ok sz (data s) (len s)"
  shows "subspan (subspan s a b) c d =
    (if unat a + unat b \<le> unat (len s) \<and> unat c + unat d \<le> unat b \<and> c < b
     then make (data s + (a + c) * sz) d else default)"
proof (cases "unat a + unat b \<le> unat (len s) \<and> a < len s")
  case True
  then have "data s + a * sz \<noteq> nullptr"
    using inner_not_null [OF ok] by blast
  with True have "data (subspan s a b) = data s + a * sz" "len (subspan s a b) = b"
    by (simp_all add: subspan_eq data_make len_make)
  with True show ?thesis
    by (simp add: subspan_eq [of "subspan s a b"] distrib_right add.assoc)
next
  case False
  then have "subspan s a b = default"
    by (auto simp: subspan_eq)
  moreover have "\<not> (unat a + unat b \<le> unat (len s) \<and> c < b)"
    using False by (auto simp: word_less_nat_alt)
  ultimately show ?thesis
    by (auto simp: subspan_eq [of default] len_default)
qed

lemma nested_subspan_data:
  assumes ok: "region_ok sz (data s) (len s)"
  shows "if unat a + unat b \<le> unat (len s) \<and> unat c + unat d \<le> unat b \<and> c < b
    then data (subspan (subspan s a b) c d) = data s + (a + c) * sz \<and>
      len (subspan (subspan s a b) c d) = d
    else data (subspan (subspan s a b) c d) = nullptr \<and> len (subspan (subspan s a b) c d) = 0"
proof (cases "unat a + unat b \<le> unat (len s) \<and> unat c + unat d \<le> unat b \<and> c < b")
  case True
  then have "unat (a + c) = unat a + unat c"
    using unat_lt_64 [of "len s"] by (simp add: unat_word_ariths word_less_nat_alt)
  with True have "a + c < len s"
    by (simp add: word_less_nat_alt)
  with inner_not_null [OF ok this] True nested_subspan [OF ok, of a b c d] show ?thesis
    by (simp add: data_make len_make)
next
  case False
  with nested_subspan [OF ok, of a b c d] show ?thesis
    by (simp only: data_default len_default if_False simp_thms)
qed

end

interpretation byte_cspan: span_class "1" byte_cspan_default byte_cspan_make byte_cspan_of_array byte_cspan_data
  byte_cspan_length byte_cspan_empty byte_cspan_begin "byte_cspan_end" "byte_cspan_subspan"
  by unfold_locales (auto simp: byte_cspan_defs)

interpretation byte_span: span_class "1" byte_span_default byte_span_make byte_span_of_array byte_span_data
  byte_span_length byte_span_empty byte_span_begin "byte_span_end" "byte_span_subspan"
  by unfold_locales (auto simp: byte_span_defs)

interpretation char_cspan: span_class "1" char_cspan_default char_cspan_make char_cspan_of_array char_cspan_data
  char_cspan_length char_cspan_empty char_cspan_begin "char_cspan_end" "char_cspan_subspan"
  by unfold_locales (auto simp: char_cspan_defs)

interpretation char_span: span_class "1" char_span_default char_span_make char_span_of_array char_span_data
  char_span_length char_span_empty char_span_begin "char_span_end" "char_span_subspan"
  by unfold_locales (auto simp: char_span_defs)

interpretation cspan: span_class "sz" cspan_default cspan_make cspan_of_array cspan_data
  cspan_length cspan_empty cspan_begin "(cspan_end sz)" "(cspan_subspan sz)"
  for sz
  by unfold_locales (auto simp: cspan_defs)

interpretation span: span_class "sz" span_default span_make span_of_array span_data
  span_length span_empty span_begin "(span_end sz)" "(span_subspan sz)"
  for sz
  by unfold_locales (auto simp: span_defs)

section \<open>Properties\<close>

text \<open>
  C19.  \<open>byte_span::subspan\<close> selects exactly the bytes from \<open>offset\<close> on, as many as asked for, or
  gives the empty span if they do not all lie in the span; the test cannot be fooled by an
  overflow of \<open>offset + count\<close>, and the result is again the memory of an object.
\<close>

theorem byte_span_subspan_region:
  assumes "region_ok 1 (byte_span_data s) (byte_span_length s)"
  shows "region 1 (byte_span_data (byte_span_subspan s offset count))
      (byte_span_length (byte_span_subspan s offset count)) =
    (if unat offset + unat count \<le> unat (byte_span_length s)
     then take (unat count) (drop (unat offset) (region 1 (byte_span_data s) (byte_span_length s)))
     else []) \<and>
    region_ok 1 (byte_span_data (byte_span_subspan s offset count))
      (byte_span_length (byte_span_subspan s offset count))"
  using byte_span.region_subspan [OF assms] byte_span.subspan_region_ok [OF assms] by simp

theorem byte_span_subspan_region_witness:
  "region 1 (byte_span_data (byte_span_subspan (byte_span_make 100 8) 2 (-1)))
     (byte_span_length (byte_span_subspan (byte_span_make 100 8) 2 (-1))) = []"
proof -
  have "region_ok 1 (byte_span_data (byte_span_make 100 8)) (byte_span_length (byte_span_make 100 8))"
    by (simp add: region_ok_def byte_span_defs)
  from byte_span_subspan_region [OF this, of 2 "-1"] show ?thesis
    by (simp add: byte_span_defs unsigned_minus_1_eq_mask mask_eq_exp_minus_1)
qed

text \<open>
  C20.  Taking a part of a part of a \<open>span<T>\<close> over the memory of an object, for elements of any
  size: if the outer part lies in the span, the inner one in the outer one, and the inner offset
  is less than the outer count, the result has the inner count of elements and starts at the sum
  of the offsets; in every other case it is the empty span with the null pointer.
\<close>

theorem span_subspan_subspan:
  assumes "region_ok sz (span_data s) (span_length s)"
  shows "if unat a + unat b \<le> unat (span_length s) \<and> unat c + unat d \<le> unat b \<and> c < b
    then span_data (span_subspan sz (span_subspan sz s a b) c d) = span_data s + (a + c) * sz \<and>
      span_length (span_subspan sz (span_subspan sz s a b) c d) = d
    else span_data (span_subspan sz (span_subspan sz s a b) c d) = nullptr \<and>
      span_length (span_subspan sz (span_subspan sz s a b) c d) = 0"
  by (rule span.nested_subspan_data [OF assms])

theorem span_subspan_subspan_witness:
  "span_data (span_subspan 4 (span_subspan 4 (span_make 100 8) 2 6) 1 3) = 112 \<and>
   span_length (span_subspan 4 (span_subspan 4 (span_make 100 8) 2 6) 1 3) = 3 \<and>
   span_length (span_subspan 4 (span_subspan 4 (span_make 100 8) 2 6) 4 3) = 0"
proof -
  have ok: "region_ok 4 (span_data (span_make 100 8)) (span_length (span_make 100 8))"
    by (simp add: region_ok_def span_defs)
  from span_subspan_subspan [OF ok, of 2 6 1 3] span_subspan_subspan [OF ok, of 2 6 4 3] show ?thesis
    by (simp add: span_make_def span_length_def span_data_def)
qed

end
