(* ===== verification/File.thy ===== *)
theory File
  imports Fcntl Object_Program Span Memory
begin

text \<open>
  \<^verbatim>\<open>file.hpp\<close> and \<^verbatim>\<open>file.cpp\<close>: the class \<open>file\<close>, an owner of a file descriptor with \<open>open\<close>, \<open>close\<close>,
  \<open>lseek\<close>, \<open>read\<close> and \<open>write\<close>.
\<close>

section \<open>The class\<close>

datatype file_seek = File_seek (file_seek_bits: c_int)

definition file_seek_table :: enum_table where
  "file_seek_table =
     [(''set'', Macro ''SEEK_SET''), (''current'', Macro ''SEEK_CUR''), (''end'', Macro ''SEEK_END'')]"

definition file_seek_value :: "headers \<Rightarrow> string \<Rightarrow> file_seek" where
  "file_seek_value hdr name = File_seek (the (enumerator hdr file_seek_table name))"

record file_object =
  file_fd :: file_descriptor

definition file_default :: file_object where
  "file_default = \<lparr>file_fd = descriptor_default file_descriptor_null\<rparr>"

definition file_of :: "raw_fd \<Rightarrow> file_object" where
  "file_of fd = \<lparr>file_fd = descriptor_of fd\<rparr>"

text \<open>The defaulted move constructor moves the member; the implicit destructor destroys it.\<close>

definition file_move :: "file_object \<Rightarrow> file_object \<times> file_object" where
  "file_move other =
     (let (member, other') = descriptor_move file_descriptor_null (file_fd other)
      in (\<lparr>file_fd = member\<rparr>, \<lparr>file_fd = other'\<rparr>))"

text \<open>
  The defaulted move assignment assigns the member, whose operator swaps the handles and does not
  return: the assignment has no defined outcome either.
\<close>

definition file_move_assign :: "file_object \<Rightarrow> file_object \<Rightarrow> (file_object \<times> file_object) \<times> file_object option" where
  "file_move_assign this other =
     (let ((member, member'), returned) = descriptor_move_assign (file_fd this) (file_fd other);
          this' = this\<lparr>file_fd := member\<rparr>
      in ((this', other\<lparr>file_fd := member'\<rparr>), map_option (\<lambda>_. this') returned))"

lemma file_move_assign_eq: "file_move_assign this other = ((other, this), None)"
  by (cases this; cases other) (simp add: file_move_assign_def descriptor_move_assign_eq)

definition file_destroy :: "'k posix \<Rightarrow> file_object \<Rightarrow> ('k, unit) io" where
  "file_destroy sys this = descriptor_destroy (close_fd sys) file_descriptor_null (file_fd this)"

section \<open>Opening\<close>

text \<open>
  The static assertions of the two overloads of \<open>open\<close>, for the flag constants \<open>creat\<close> and \<open>excl\<close>
  of the platform.
\<close>

definition file_open_accepts ::
  "open_flag enum_flag \<Rightarrow> open_flag enum_flag \<Rightarrow> open_flag enum_flag \<Rightarrow> bool" where
  "file_open_accepts creat excl flags \<longleftrightarrow>
     (if enum_flag_has_flag open_flag_bits flags excl
      then enum_flag_has_flag open_flag_bits flags creat else True) \<and>
     \<not> enum_flag_has_flag open_flag_bits flags creat"

definition file_open_permission_accepts ::
  "open_flag enum_flag \<Rightarrow> open_flag enum_flag \<Rightarrow> open_flag enum_flag \<Rightarrow> bool" where
  "file_open_permission_accepts creat excl flags \<longleftrightarrow>
     (if enum_flag_has_flag open_flag_bits flags excl
      then enum_flag_has_flag open_flag_bits flags creat else True)"

text \<open>The bodies: \<open>result_map<file>\<close> over the low-level call, with a function that builds a \<open>file\<close>.\<close>

definition file_open ::
  "'k posix \<Rightarrow> string \<Rightarrow> access_mode enum_flag \<Rightarrow> open_flag enum_flag \<Rightarrow> ('k, file_object result) io" where
  "file_open sys path access flags = do {
     res \<leftarrow> capi_open sys path (enum_flag_value access) (enum_flag_value flags);
     result_map_owner (close_fd sys) file_descriptor_null (\<lambda>d. \<lparr>file_fd = d\<rparr>) res
   }"

definition file_open_permission ::
  "'k posix \<Rightarrow> string \<Rightarrow> access_mode enum_flag \<Rightarrow> open_flag enum_flag \<Rightarrow> permission enum_flag \<Rightarrow>
   ('k, file_object result) io" where
  "file_open_permission sys path access flags perm = do {
     res \<leftarrow> capi_open_permission sys path (enum_flag_value access) (enum_flag_value flags)
       (enum_flag_value perm);
     result_map_owner (close_fd sys) file_descriptor_null (\<lambda>d. \<lparr>file_fd = d\<rparr>) res
   }"

section \<open>Operations on an open file\<close>

text \<open>\<open>close\<close> calls the system directly: the member keeps its handle.\<close>

definition file_close :: "'k posix \<Rightarrow> file_object \<Rightarrow> ('k, error_code) io" where
  "file_close sys this = common_call (sys_close sys (raw_fd_value (descriptor_deref (file_fd this))))"

definition file_lseek :: "'k posix \<Rightarrow> file_object \<Rightarrow> off_t \<Rightarrow> file_seek \<Rightarrow> ('k, off_t result) io" where
  "file_lseek sys this offset wh = do {
     lseek_count \<leftarrow>
       sys_lseek sys (raw_fd_value (descriptor_deref (file_fd this))) offset (file_seek_bits wh);
     if lseek_count = -1
     then do { ec \<leftarrow> current_errno_code; State_Monad.return (Error ec) }
     else State_Monad.return (Value lseek_count)
   }"

definition file_read :: "'k posix \<Rightarrow> file_object \<Rightarrow> byte_span \<Rightarrow> ('k, ssize_t result) io" where
  "file_read sys this buffer =
     common_result_call (sys_read sys (raw_fd_value (descriptor_deref (file_fd this)))
       (byte_span_data buffer) (byte_span_length buffer))"

definition file_write :: "'k posix \<Rightarrow> file_object \<Rightarrow> byte_cspan \<Rightarrow> ('k, ssize_t result) io" where
  "file_write sys this buffer =
     common_result_call (sys_write sys (raw_fd_value (descriptor_deref (file_fd this)))
       (byte_cspan_data buffer) (byte_cspan_length buffer))"

section \<open>Effects\<close>

lemma file_seek_value_simps [simp]:
  "file_seek_value hdr ''set'' = File_seek (hdr ''SEEK_SET'')"
  "file_seek_value hdr ''current'' = File_seek (hdr ''SEEK_CUR'')"
  "file_seek_value hdr ''end'' = File_seek (hdr ''SEEK_END'')"
  by (simp_all add: file_seek_value_def file_seek_table_def enumerator_def)

lemma file_fd_of [simp]: "file_fd (file_of fd) = descriptor_of fd"
  by (simp add: file_of_def)

lemma file_fd_default [simp]: "file_fd file_default = descriptor_default file_descriptor_null"
  by (simp add: file_default_def)

lemma file_move_eq [simp]: "file_move f = (f, file_default)"
  by (cases f) (simp add: file_move_def file_default_def)

lemma inj_file_fd: "inj (\<lambda>d. \<lparr>file_fd = d\<rparr>)"
  by (rule injI) simp

lemma file_object_collapse [simp]: "\<lparr>file_fd = file_fd f\<rparr> = f"
  by (cases f) simp

lemma run_file_close [run_simps]:
  "run_state (file_close sys f) w =
     (let (r, w') = run_state (sys_close sys (raw_fd_value (raw_descriptor (file_fd f)))) w
      in (if r = -1 then make_errno_code (errno_of w') else no_error, w'))"
  by (simp add: file_close_def run_simps)

lemma run_file_destroy [run_simps]:
  "run_state (file_destroy sys f) w =
     ((), snd (run_state (close_fd sys (raw_descriptor (file_fd f))) w))"
  by (simp add: file_destroy_def run_simps)

lemma run_file_lseek [run_simps]:
  "run_state (file_lseek sys f off wh) w =
     (let (r, w') = run_state
        (sys_lseek sys (raw_fd_value (raw_descriptor (file_fd f))) off (file_seek_bits wh)) w
      in (if r = -1 then Error (make_errno_code (errno_of w')) else Value r, w'))"
  by (simp add: file_lseek_def case_prod_beta Let_def)

text \<open>The body of \<open>open\<close> makes one call, and on success one more: the close of the null handle.\<close>

lemma run_file_open [run_simps]:
  "run_state (file_open sys path access flags) w =
     (let (r, w1) = run_state (sys_open sys path
        (access_mode_bits (enum_flag_value access) OR open_flag_bits (enum_flag_value flags)) None) w
      in if r = -1 then (Error (make_errno_code (errno_of w1)), w1)
         else (Value (file_of (Raw_fd r)), snd (run_state (close_fd sys file_descriptor_null) w1)))"
  by (simp add: file_open_def run_simps file_of_def)

section \<open>Documented behaviour of read\<close>

text \<open>
  \<open>read\<close> fails with \<open>errno\<close> set or returns the number of bytes read, at most the number asked
  for; it changes no memory but the buffer.
\<close>

definition documented_read :: "'k posix \<Rightarrow> bool" where
  "documented_read sys \<longleftrightarrow>
     (\<forall>fd p n w r w'. run_state (sys_read sys fd p n) w = (r, w') \<longrightarrow>
        (r = -1 \<longrightarrow> errno_of w' \<noteq> 0) \<and> (r \<noteq> -1 \<longrightarrow> r \<le> n) \<and>
        (\<forall>a. a \<notin> set (region 1 p n) \<longrightarrow> mem_of w' a = mem_of w a))"

lemma file_read_spec:
  assumes "documented_read sys" and "run_state (file_read sys f buf) w = (res, w')"
  shows "(\<forall>n. res = Value n \<longrightarrow> n \<le> byte_span_length buf)"
    and "(\<forall>ec. res = Error ec \<longrightarrow> is_error ec \<and> ec_value ec = errno_of w')"
    and "a \<notin> set (region 1 (byte_span_data buf) (byte_span_length buf)) \<Longrightarrow> mem_of w' a = mem_of w a"
proof -
  obtain r where run: "run_state (sys_read sys (raw_fd_value (raw_descriptor (file_fd f)))
      (byte_span_data buf) (byte_span_length buf)) w = (r, w')"
    and res: "res = (if r = -1 then Error (make_errno_code (errno_of w')) else Value r)"
    using assms(2) unfolding file_read_def descriptor_deref_eq by (rule common_result_callE)
  note doc = assms(1) [unfolded documented_read_def, rule_format, OF run]
  show "\<forall>n. res = Value n \<longrightarrow> n \<le> byte_span_length buf"
    using doc by (simp add: res)
  show "\<forall>ec. res = Error ec \<longrightarrow> is_error ec \<and> ec_value ec = errno_of w'"
    using doc by (simp add: res)
  show "a \<notin> set (region 1 (byte_span_data buf) (byte_span_length buf)) \<Longrightarrow> mem_of w' a = mem_of w a"
    using doc by simp
qed

lemma run_file_open_permission [run_simps]:
  "run_state (file_open_permission sys path access flags perm) w =
     (let (r, w1) = run_state (sys_open sys path
        (access_mode_bits (enum_flag_value access) OR open_flag_bits (enum_flag_value flags))
        (Some (permission_bits (enum_flag_value perm)))) w
      in if r = -1 then (Error (make_errno_code (errno_of w1)), w1)
         else (Value (file_of (Raw_fd r)), snd (run_state (close_fd sys file_descriptor_null) w1)))"
  by (simp add: file_open_permission_def run_simps file_of_def)

section \<open>Opening as the creation of an owner\<close>

interpretation file_opening: owner_open file_descriptor_null "close_fd sys"
    "\<lambda>fd. sys_close sys (raw_fd_value fd)" 1 "handle_unless (-1) Raw_fd" "\<lambda>d. \<lparr>file_fd = d\<rparr>"
    "\<lambda>(path, access, flags). sys_open sys path
       (access_mode_bits (enum_flag_value access) OR open_flag_bits (enum_flag_value flags)) None"
    "\<lambda>(path, access, flags). file_open sys path access flags" for sys
  by unfold_locales (auto simp: run_simps file_of_def handle_unless_def)

interpretation file_creation: owner_open file_descriptor_null "close_fd sys"
    "\<lambda>fd. sys_close sys (raw_fd_value fd)" 1 "handle_unless (-1) Raw_fd" "\<lambda>d. \<lparr>file_fd = d\<rparr>"
    "\<lambda>(path, access, flags, perm). sys_open sys path
       (access_mode_bits (enum_flag_value access) OR open_flag_bits (enum_flag_value flags))
       (Some (permission_bits (enum_flag_value perm)))"
    "\<lambda>(path, access, flags, perm). file_open_permission sys path access flags perm" for sys
  by unfold_locales (auto simp: run_simps file_of_def handle_unless_def)

section \<open>A concrete system\<close>

text \<open>\<open>open\<close> gives descriptor 3; \<open>read\<close> delivers one byte, or none into an empty buffer.\<close>

definition demo_file_posix :: "raw_fd set posix" where
  "demo_file_posix = stub_posix
     \<lparr>sys_close := (\<lambda>fd. table_close (Raw_fd fd)),
      sys_open := (\<lambda>_ _ _. table_open (Raw_fd 3) 3 (-1)),
      sys_read := (\<lambda>_ p n. if n = 0 then State_Monad.return 0
        else do { store_local p [7]; State_Monad.return 1 })\<rparr>"

lemma demo_file_posix_sel [simp]:
  "sys_close demo_file_posix fd = table_close (Raw_fd fd)"
  "sys_open demo_file_posix path bits perm = table_open (Raw_fd 3) 3 (-1)"
  by (simp_all add: demo_file_posix_def)

lemma file_descriptor_null_eq [simp]: "file_descriptor_null = Raw_fd (-1)"
  by (simp add: file_descriptor_null_def descriptor_constant_def)

lemma demo_file_table:
  "handle_table (\<lambda>fd. sys_close demo_file_posix (raw_fd_value fd)) (\<lambda>k. k - {file_descriptor_null})
     file_descriptor_null"
  using handle_table_close [of file_descriptor_null] by simp

lemma demo_file_reliable:
  "reliable_close (\<lambda>fd. sys_close demo_file_posix (raw_fd_value fd)) (\<lambda>k. k - {file_descriptor_null})"
  using reliable_table_close [of file_descriptor_null] by simp

lemma demo_file_open:
  "documented_open (sys_open demo_file_posix path bits perm) (handle_unless (-1) Raw_fd)
     (\<lambda>k. k - {file_descriptor_null})"
  using documented_table_open [of "3 :: c_int" "-1" Raw_fd "Raw_fd 3" file_descriptor_null] by simp

lemma demo_file_read: "documented_read demo_file_posix"
proof -
  have "a \<noteq> p" if "a \<notin> set (region 1 p n)" "n \<noteq> 0" for a p :: addr and n :: size_t
  proof
    assume "a = p"
    moreover have "p \<in> set (region 1 p n)"
      using that(2) by (auto simp: region_def unat_gt_0 intro!: image_eqI [of _ _ 0])
    ultimately show False
      using that(1) by simp
  qed
  then show ?thesis
    by (auto simp: documented_read_def demo_file_posix_def word_le_nat_alt unat_gt_0 Suc_le_eq
        split: if_splits)
qed

section \<open>Properties\<close>

text \<open>
  C5.  If the system's \<open>open\<close> behaves as documented, both overloads of \<open>file::open\<close> either return a
  \<open>file\<close> that owns a descriptor which was not open before and is the only one newly open, or an
  error code with \<open>errno\<close> of the call and no change to the open descriptors.  The close of the
  empty temporary does not disturb this.
\<close>

theorem file_open_opens:
  assumes "handle_table (\<lambda>fd. sys_close sys (raw_fd_value fd)) opened file_descriptor_null"
    and "\<And>bits mode. documented_open (sys_open sys path bits mode) (handle_unless (-1) Raw_fd) opened"
  shows "opens_owner opened (\<lambda>d. \<lparr>file_fd = d\<rparr>) w
       (fst (run_state (file_open sys path access flags) w))
       (snd (run_state (file_open sys path access flags) w)) \<and>
     opens_owner opened (\<lambda>d. \<lparr>file_fd = d\<rparr>) w
       (fst (run_state (file_open_permission sys path access flags perm) w))
       (snd (run_state (file_open_permission sys path access flags perm) w))"
  using file_opening.open_spec [where a = "(path, access, flags)", OF assms(1)]
    file_creation.open_spec [where a = "(path, access, flags, perm)", OF assms(1)] assms(2)
  by simp

theorem file_open_opens_witness:
  "opens_owner (\<lambda>k. k - {file_descriptor_null}) (\<lambda>d. \<lparr>file_fd = d\<rparr>) (table_world {Raw_fd 0})
     (fst (run_state (file_open demo_file_posix ''/etc/passwd'' (Enum_flag (Access_mode 0))
        (Enum_flag (Open_flag 0))) (table_world {Raw_fd 0})))
     (snd (run_state (file_open demo_file_posix ''/etc/passwd'' (Enum_flag (Access_mode 0))
        (Enum_flag (Open_flag 0))) (table_world {Raw_fd 0})))"
  by (rule file_open_opens [THEN conjunct1, OF demo_file_table demo_file_open])

text \<open>
  C13.  \<open>file::close\<close> closes the descriptor but leaves it in the owner.  When the number has been
  given to another open file in the meantime, the destructor closes that file.
\<close>

theorem file_close_closes_twice:
  assumes "handle_table (\<lambda>fd. sys_close sys (raw_fd_value fd)) opened file_descriptor_null"
    and "reliable_close (\<lambda>fd. sys_close sys (raw_fd_value fd)) opened"
    and "run_state (file_close sys f) w = (ec, wa)" and "\<not> is_error ec"
    and "raw_descriptor (file_fd f) \<in> opened (kernel_of wb)"
    and "run_state (file_destroy sys f) wb = ((), wc)"
  shows "raw_descriptor (file_fd f) \<notin> opened (kernel_of wa) \<and>
    opened (kernel_of wc) = opened (kernel_of wb) - {raw_descriptor (file_fd f)}"
proof -
  have "run_state (close_fd sys (raw_descriptor (file_fd f))) w = (ec, wa)"
    using assms(3) by (simp add: file_close_def close_fd_def)
  with assms(1) have "raw_descriptor (file_fd f) \<notin> opened (kernel_of wa)"
    by (cases rule: fd_policy.policy_cases) (use assms(4) in auto)
  moreover obtain ec2 where run: "run_state (close_fd sys (raw_descriptor (file_fd f))) wb = (ec2, wc)"
    using assms(6) by (auto simp: run_simps prod_eq_iff)
  moreover have "\<not> is_error ec2"
    using assms(2,5) run unfolding reliable_close_def close_fd_def
    by (metis common_callE is_error_no_error fst_conv)
  ultimately show ?thesis
    by (cases rule: fd_policy.policy_cases [OF assms(1) run]) auto
qed

theorem file_close_closes_twice_witness:
  "Raw_fd 3 \<notin> kernel_of (table_world {}) - {file_descriptor_null} \<and>
   kernel_of (table_world {}) - {file_descriptor_null} =
     kernel_of (table_world {Raw_fd 3}) - {file_descriptor_null} - {Raw_fd 3}"
  using file_close_closes_twice [OF demo_file_table demo_file_reliable,
      where f = "file_of (Raw_fd 3)" and w = "table_world {Raw_fd 3}" and wa = "table_world {}"
        and wb = "table_world {Raw_fd 3}" and wc = "table_world {}" and ec = no_error]
  by (simp add: run_simps close_fd_def table_world_def)

text \<open>
  C12.  \<open>file::read\<close> makes the system's \<open>read\<close> into its buffer and nothing else.  It returns an error
  exactly when that call fails, with the \<open>errno\<close> of the call, and otherwise the number of bytes that the
  call reported, which is at most the size of the buffer; only the buffer is written.
\<close>

theorem file_read_bounds:
  assumes "documented_read sys"
    and "run_state (sys_read sys (raw_fd_value (raw_descriptor (file_fd f))) (byte_span_data buf)
      (byte_span_length buf)) w = (r, w1)"
    and "run_state (file_read sys f buf) w = (res, w')"
  shows "w' = w1 \<and>
    (case res of
       Value n \<Rightarrow> r \<noteq> -1 \<and> n = r \<and> n \<le> byte_span_length buf
     | Error ec \<Rightarrow> r = -1 \<and> is_error ec \<and> ec_value ec = errno_of w1) \<and>
    (\<forall>a. a \<notin> set (region 1 (byte_span_data buf) (byte_span_length buf)) \<longrightarrow> mem_of w' a = mem_of w a)"
proof -
  have "w' = w1" "res = (if r = -1 then Error (make_errno_code (errno_of w1)) else Value r)"
    using assms(2,3) by (auto simp: file_read_def run_simps)
  with file_read_spec [OF assms(1,3)] show ?thesis
    by (auto split: if_splits)
qed

theorem file_read_bounds_witness:
  "(1 :: ssize_t) \<le> byte_span_length (byte_span_make 100 8) \<and> store_bytes 100 [7] (\<lambda>_. 0) 108 = 0"
proof -
  let ?buf = "byte_span_make 100 8"
  let ?w' = "(table_world {Raw_fd 3})\<lparr>mem_of := store_bytes 100 [7] (\<lambda>_. 0)\<rparr>"
  have run: "run_state (file_read demo_file_posix (file_of (Raw_fd 3)) ?buf) (table_world {Raw_fd 3}) =
      (Value 1, ?w')"
    by (simp add: file_read_def run_simps demo_file_posix_def byte_span_defs table_world_def)
  have "run_state (sys_read demo_file_posix (raw_fd_value (raw_descriptor (file_fd (file_of (Raw_fd 3)))))
      (byte_span_data ?buf) (byte_span_length ?buf)) (table_world {Raw_fd 3}) = (1, ?w')"
    by (simp add: demo_file_posix_def byte_span_defs table_world_def file_of_def)
  note spec = file_read_bounds [OF demo_file_read this run]
  have "108 \<notin> set (region 1 (byte_span_data ?buf) (byte_span_length ?buf))"
    by code_simp
  then show ?thesis
    using spec by (auto simp: table_world_def)
qed

text \<open>
  C14.  An \<open>open\<close> that the static assertions of the overload without permissions accept never
  passes \<open>O_CREAT\<close> or \<open>O_EXCL\<close> to the system, so no file is created without permissions; the
  other overload accepts \<open>excl\<close> only together with \<open>creat\<close>.
\<close>

theorem file_open_without_creation:
  assumes "open_flag_constant hdr p ''creat'' = Some creat"
    and "open_flag_constant hdr p ''excl'' = Some excl"
  shows "(file_open_accepts creat excl flags \<longleftrightarrow>
      open_flag_bits (enum_flag_value flags) AND (hdr ''O_CREAT'' OR hdr ''O_EXCL'') = 0) \<and>
    (file_open_permission_accepts creat excl flags \<longleftrightarrow>
      open_flag_bits (enum_flag_value flags) AND hdr ''O_EXCL'' = 0 \<or>
      open_flag_bits (enum_flag_value flags) AND hdr ''O_CREAT'' \<noteq> 0)"
proof -
  have "p \<in> {Linux, Openbsd, Macos}"
    using assms(1) by (auto simp: open_flag_constant_def open_flag_table_def split: if_splits)
  then have "creat = Enum_flag (Open_flag (hdr ''O_CREAT''))"
    "excl = Enum_flag (Open_flag (hdr ''O_EXCL''))"
    using assms by auto
  then show ?thesis
    by (auto simp: file_open_accepts_def file_open_permission_accepts_def enum_flag_has_flag_def
        bit.conj_disj_distrib or_eq_0_iff)
qed

theorem file_open_without_creation_witness:
  "file_open_accepts (Enum_flag (Open_flag 64)) (Enum_flag (Open_flag 128)) (Enum_flag (Open_flag 1024))"
  using file_open_without_creation [where hdr = "\<lambda>m. if m = ''O_CREAT'' then 64
      else if m = ''O_EXCL'' then 128 else 0" and p = Linux and flags = "Enum_flag (Open_flag 1024)"]
  by simp

end
