(* ===== verification/File_Program.thy ===== *)
theory File_Program
  imports File
begin

text \<open>
  A program whose descriptors are all objects of the class \<open>file\<close>, as a step relation: it opens
  and creates files, reads, writes and seeks, moves and destroys the objects.  It is simulated by
  the state machine of owners of the theory \<open>Ownership\<close>, and so inherits its invariant.  The one
  operation left out is \<open>file::close\<close>, which breaks the invariant (\<open>file_close_closes_twice\<close>).
\<close>

record 'k file_program =
  files :: "nat \<rightharpoonup> file_object"
  file_machine :: "'k world"

inductive file_step :: "'k posix \<Rightarrow> 'k file_program \<Rightarrow> 'k file_program \<Rightarrow> bool"
  for sys :: "'k posix" where
  make: "files s i = None \<Longrightarrow> file_step sys s (s\<lparr>files := (files s)(i \<mapsto> file_default)\<rparr>)"
| opens: "files s i = None \<Longrightarrow>
     run_state (file_open sys path access flags) (file_machine s) = (Value f, w') \<Longrightarrow>
     file_step sys s (s\<lparr>files := (files s)(i \<mapsto> f), file_machine := w'\<rparr>)"
| open_fails:
    "run_state (file_open sys path access flags) (file_machine s) = (Error ec, w') \<Longrightarrow>
     file_step sys s (s\<lparr>file_machine := w'\<rparr>)"
| create: "files s i = None \<Longrightarrow>
     run_state (file_open_permission sys path access flags perm) (file_machine s) = (Value f, w') \<Longrightarrow>
     file_step sys s (s\<lparr>files := (files s)(i \<mapsto> f), file_machine := w'\<rparr>)"
| create_fails:
    "run_state (file_open_permission sys path access flags perm) (file_machine s) = (Error ec, w') \<Longrightarrow>
     file_step sys s (s\<lparr>file_machine := w'\<rparr>)"
| seeks: "files s i = Some f \<Longrightarrow>
     run_state (file_lseek sys f offset wh) (file_machine s) = (off, w') \<Longrightarrow>
     file_step sys s (s\<lparr>file_machine := w'\<rparr>)"
| reads: "files s i = Some f \<Longrightarrow>
     run_state (file_read sys f buffer) (file_machine s) = (n, w') \<Longrightarrow>
     file_step sys s (s\<lparr>file_machine := w'\<rparr>)"
| writes: "files s i = Some f \<Longrightarrow>
     run_state (file_write sys f cbuffer) (file_machine s) = (n, w') \<Longrightarrow>
     file_step sys s (s\<lparr>file_machine := w'\<rparr>)"
| move: "files s i = None \<Longrightarrow> files s j = Some f \<Longrightarrow> file_move f = (g, f') \<Longrightarrow>
     file_step sys s (s\<lparr>files := (files s)(i \<mapsto> g, j \<mapsto> f')\<rparr>)"
| destroy: "files s i = Some f \<Longrightarrow>
     run_state (file_destroy sys f) (file_machine s) = ((), w') \<Longrightarrow>
     file_step sys s (s\<lparr>files := (files s)(i := None), file_machine := w'\<rparr>)"

definition file_start :: "'k world \<Rightarrow> 'k file_program" where
  "file_start w = \<lparr>files = Map.empty, file_machine = w\<rparr>"

inductive file_reachable :: "'k posix \<Rightarrow> 'k world \<Rightarrow> 'k file_program \<Rightarrow> bool"
  for sys :: "'k posix" and w :: "'k world" where
  start: "file_reachable sys w (file_start w)"
| step: "file_reachable sys w s \<Longrightarrow> file_step sys s t \<Longrightarrow> file_reachable sys w t"

section \<open>The class as a class of owners\<close>

inductive file_opens :: "'k posix \<Rightarrow> ('k, file_object result) io \<Rightarrow> bool"
  for sys :: "'k posix" where
  "file_opens sys (file_open sys path access flags)"
| "file_opens sys (file_open_permission sys path access flags perm)"

inductive file_uses :: "'k posix \<Rightarrow> file_object \<Rightarrow> ('k, unit) io \<Rightarrow> bool"
  for sys :: "'k posix" and f :: file_object where
  "file_uses sys f (discard (file_lseek sys f offset wh))"
| "file_uses sys f (discard (file_read sys f buffer))"
| "file_uses sys f (discard (file_write sys f cbuffer))"

definition file_class :: "'k posix \<Rightarrow> ('k, file_object) object_class" where
  "file_class sys =
     \<lparr>class_empty = (\<lambda>f. f = file_default), class_opens = file_opens sys, class_uses = file_uses sys,
      class_move = file_move, class_destroy = file_destroy sys\<rparr>"

text \<open>The documented behaviour of the calls that such a program makes.\<close>

definition documented_file_calls :: "'k posix \<Rightarrow> ('k \<Rightarrow> raw_fd set) \<Rightarrow> bool" where
  "documented_file_calls sys opened \<longleftrightarrow>
     handle_table (\<lambda>fd. sys_close sys (raw_fd_value fd)) opened file_descriptor_null \<and>
     (\<forall>path bits mode. documented_open (sys_open sys path bits mode) (handle_unless (-1) Raw_fd) opened) \<and>
     (\<forall>fd off wh. keeps_handles (sys_lseek sys fd off wh) opened) \<and>
     (\<forall>fd p n. keeps_handles (sys_read sys fd p n) opened) \<and>
     (\<forall>fd p n. keeps_handles (sys_write sys fd p n) opened)"

lemma file_opens_handle:
  assumes "documented_file_calls sys opened" and "file_opens sys m"
  shows "opens_handle opened file_fd m"
  using assms(2)
proof cases
  case (1 path access flags)
  with assms(1) show ?thesis
    using file_opening.open_handle [where a = "(path, access, flags)" and sys = sys and opened = opened
        and owner = file_fd]
    by (simp add: documented_file_calls_def)
next
  case (2 path access flags perm)
  with assms(1) show ?thesis
    using file_creation.open_handle [where a = "(path, access, flags, perm)" and sys = sys and
        opened = opened and owner = file_fd]
    by (simp add: documented_file_calls_def)
qed

lemma keeps_handles_lseek [simp]:
  "keeps_handles (file_lseek sys f offset wh) opened =
     keeps_handles (sys_lseek sys (raw_fd_value (raw_descriptor (file_fd f))) offset (file_seek_bits wh))
       opened"
  by (simp add: keeps_handles_def run_simps case_prod_beta)

lemma file_uses_keep:
  "documented_file_calls sys opened \<Longrightarrow> file_uses sys f u \<Longrightarrow> keeps_handles u opened"
  by (auto elim!: file_uses.cases simp: documented_file_calls_def file_read_def file_write_def)

interpretation file_owner: owner_class file_descriptor_null "close_fd sys"
    "\<lambda>fd. sys_close sys (raw_fd_value fd)" "documented_file_calls sys" "file_class sys" file_fd for sys
  by unfold_locales
    (auto simp: file_class_def file_destroy_def intro: file_opens_handle file_uses_keep
      simp: documented_file_calls_def)

text \<open>Every step of the program is a step of the class.\<close>

definition file_objects :: "'k file_program \<Rightarrow> ('k, file_object) object_program" where
  "file_objects s = \<lparr>instances = files s, system = file_machine s\<rparr>"

lemma file_objects_sel [simp]:
  "instances (file_objects s) = files s" "system (file_objects s) = file_machine s"
  by (simp_all add: file_objects_def)

lemma file_class_step:
  "file_step sys s t \<Longrightarrow> object_step (file_class sys) (file_objects s) (file_objects t)"
proof (induction rule: file_step.induct)
  case (make s i)
  then show ?case
    using object_step.empty [of "file_objects s" i "file_class sys" file_default]
    by (simp add: file_class_def file_objects_def)
next
  case (opens s i path access flags f w')
  then show ?case
    using object_step.opens [of "file_objects s" i "file_class sys" "file_open sys path access flags"]
    by (simp add: file_class_def file_objects_def file_opens.intros)
next
  case (open_fails path access flags s ec w')
  then show ?case
    using object_step.open_fails [of "file_class sys" "file_open sys path access flags" "file_objects s"]
    by (simp add: file_class_def file_objects_def file_opens.intros)
next
  case (create s i path access flags perm f w')
  then show ?case
    using object_step.opens
      [of "file_objects s" i "file_class sys" "file_open_permission sys path access flags perm"]
    by (simp add: file_class_def file_objects_def file_opens.intros)
next
  case (create_fails path access flags perm s ec w')
  then show ?case
    using object_step.open_fails
      [of "file_class sys" "file_open_permission sys path access flags perm" "file_objects s"]
    by (simp add: file_class_def file_objects_def file_opens.intros)
next
  case (seeks s i f offset wh off w')
  then show ?case
    using object_step.uses
      [of "file_objects s" i f "file_class sys" "discard (file_lseek sys f offset wh)" w']
    by (simp add: file_class_def file_objects_def file_uses.intros run_discard)
next
  case (reads s i f buffer n w')
  then show ?case
    using object_step.uses [of "file_objects s" i f "file_class sys" "discard (file_read sys f buffer)" w']
    by (simp add: file_class_def file_objects_def file_uses.intros run_discard)
next
  case (writes s i f cbuffer n w')
  then show ?case
    using object_step.uses
      [of "file_objects s" i f "file_class sys" "discard (file_write sys f cbuffer)" w']
    by (simp add: file_class_def file_objects_def file_uses.intros run_discard)
next
  case (move s i j f g f')
  then show ?case
    using object_step.move [of "file_objects s" i j f "file_class sys" g f']
    by (simp add: file_class_def file_objects_def)
next
  case (destroy s i f w')
  then show ?case
    using object_step.destroy [of "file_objects s" i f "file_class sys" w']
    by (simp add: file_class_def file_objects_def)
qed

lemma file_class_reachable:
  "file_reachable sys w s \<Longrightarrow> object_reachable (file_class sys) w (file_objects s)"
proof (induction rule: file_reachable.induct)
  case start
  have "file_objects (file_start w) = object_start w"
    by (simp add: file_objects_def file_start_def object_start_def)
  then show ?case
    by (simp add: object_reachable.start)
next
  case (step s t)
  then show ?case
    using file_class_step by (blast intro: object_reachable.step)
qed

section \<open>A concrete run\<close>

text \<open>
  Over the system of the theory \<open>File\<close>, with standard input open: the program opens a file as
  object 0 and destroys it.
\<close>

definition demo_file_opened :: "raw_fd set file_program" where
  "demo_file_opened =
     \<lparr>files = [0 \<mapsto> file_of (Raw_fd 3)],
      file_machine = (table_world {Raw_fd 0, Raw_fd 3})\<lparr>errno_of := 9\<rparr>\<rparr>"

definition demo_file_destroyed :: "raw_fd set file_program" where
  "demo_file_destroyed =
     \<lparr>files = Map.empty, file_machine = (table_world {Raw_fd 0})\<lparr>errno_of := 9\<rparr>\<rparr>"

lemma demo_file_calls:
  "documented_file_calls demo_file_posix (\<lambda>k. k - {file_descriptor_null})"
  using demo_file_table demo_file_open
  by (simp add: documented_file_calls_def keeps_handles_def demo_file_posix_def stub_posix_def)

lemma demo_file_run:
  "file_reachable demo_file_posix (table_world {Raw_fd 0}) demo_file_opened"
  "file_reachable demo_file_posix (table_world {Raw_fd 0}) demo_file_destroyed"
proof -
  let ?w = "table_world {Raw_fd 0}"
  have "run_state (file_open demo_file_posix ''/etc/passwd'' (Enum_flag (Access_mode 0))
      (Enum_flag (Open_flag 0))) ?w = (Value (file_of (Raw_fd 3)), file_machine demo_file_opened)"
    by (simp add: run_simps close_fd_def demo_file_opened_def table_world_def insert_commute)
  from file_step.opens [of "file_start ?w" 0, simplified file_start_def, simplified, OF this]
  have "file_step demo_file_posix (file_start ?w) demo_file_opened"
    by (simp add: demo_file_opened_def file_start_def)
  then show opened: "file_reachable demo_file_posix ?w demo_file_opened"
    by (rule file_reachable.step [OF file_reachable.start])
  have "run_state (file_destroy demo_file_posix (file_of (Raw_fd 3))) (file_machine demo_file_opened) =
      ((), file_machine demo_file_destroyed)"
    by (simp add: run_simps close_fd_def demo_file_opened_def demo_file_destroyed_def table_world_def
        insert_Diff_if)
  with file_step.destroy [of demo_file_opened 0 "file_of (Raw_fd 3)" demo_file_posix]
  have "file_step demo_file_posix demo_file_opened demo_file_destroyed"
    by (simp add: demo_file_opened_def demo_file_destroyed_def)
  then show "file_reachable demo_file_posix ?w demo_file_destroyed"
    by (rule file_reachable.step [OF opened])
qed

section \<open>Properties\<close>



text \<open>
  In such a program no operation closes a descriptor that is not its own: what was open at
  the start stays open; every object that holds a descriptor holds an open one, which was not open
  at the start and which no other object holds.
\<close>

lemma file_program_owners:
  assumes "documented_file_calls sys opened" and "file_reachable sys w s"
  shows "opened (kernel_of w) \<subseteq> opened (kernel_of (file_machine s)) \<and>
    (\<forall>i f. files s i = Some f \<longrightarrow> descriptor_bool file_descriptor_null (file_fd f) \<longrightarrow>
       raw_descriptor (file_fd f) \<in> opened (kernel_of (file_machine s)) - opened (kernel_of w) \<and>
       (\<forall>j g. files s j = Some g \<longrightarrow>
          raw_descriptor (file_fd g) = raw_descriptor (file_fd f) \<longrightarrow> j = i))"
  using file_owner.object_program_owners [OF assms(1) file_class_reachable [OF assms(2)]]
  by (auto simp: descriptor_bool_def descriptor_empty_def)

end
