(* ===== verification/Signal.thy ===== *)
theory Signal
  imports Platform Util
begin

text \<open>
  \<^verbatim>\<open>signal.hpp\<close>: signal sets, signal numbers and \<open>sigevent\<close>.
\<close>

text \<open>
  A \<open>sigset\<close> is a set of signal numbers; the class has no operation that adds one, and its
  member is initialised as the empty set.
\<close>

record sigset =
  signals :: "nat set"

definition sigset_default :: sigset where
  "sigset_default = \<lparr>signals = {}\<rparr>"

definition sigset_ptr :: "sigset \<Rightarrow> nat set" where
  "sigset_ptr this = signals this"

section \<open>Enumerations\<close>

text \<open>On OpenBSD there is no \<open>sig_notify\<close> (\<open>None\<close>).\<close>

datatype sig_notify = Sig_notify (sig_notify_bits: c_int)

definition sig_notify_table :: "platform \<Rightarrow> enum_table option" where
  "sig_notify_table p =
     (if p \<noteq> Openbsd
      then Some [(''none'', Macro ''SIGEV_NONE''), (''signal'', Macro ''SIGEV_SIGNAL''),
        (''thread'', Macro ''SIGEV_THREAD'')]
      else None)"

datatype sig_number = Sig_number (sig_number_bits: c_int)

definition sig_number_table :: enum_table where
  "sig_number_table =
     [(''abort'', Macro ''SIGABRT''), (''alarm'', Macro ''SIGALRM''),
      (''undefined_memory_access'', Macro ''SIGBUS''), (''child_terminated'', Macro ''SIGCHLD''),
      (''continue_executing'', Macro ''SIGCONT''), (''arithmetic_error'', Macro ''SIGFPE''),
      (''hangup'', Macro ''SIGHUP''), (''illegal_instruction'', Macro ''SIGILL''),
      (''terminal_interrupt'', Macro ''SIGINT''), (''kill'', Macro ''SIGKILL''),
      (''pipe'', Macro ''SIGPIPE''), (''quit'', Macro ''SIGQUIT''),
      (''invalid_memory_reference'', Macro ''SIGSEGV''), (''stop_executing'', Macro ''SIGSTOP''),
      (''terminate'', Macro ''SIGTERM''), (''terminal_stop'', Macro ''SIGTSTP''),
      (''process_attempting_read'', Macro ''SIGTTIN''),
      (''process_attempting_write'', Macro ''SIGTTOU''),
      (''user_defined_1'', Macro ''SIGUSR1''), (''user_defined_2'', Macro ''SIGUSR2''),
      (''trap'', Macro ''SIGTRAP''), (''high_bandwidth_data_available'', Macro ''SIGURG''),
      (''cpu_time_limit_exceeded'', Macro ''SIGXCPU''),
      (''file_size_limit_exceeded'', Macro ''SIGXFSZ'')]"

definition sig_notify_value :: "headers \<Rightarrow> string \<Rightarrow> sig_notify" where
  "sig_notify_value hdr name =
     Sig_notify (the (enumerator hdr (the (sig_notify_table Linux)) name))"

section \<open>\<open>sigevent\<close>\<close>

text \<open>
  The constructors zero the structure first; \<open>sival_int\<close> is the low half of the union on a
  little-endian machine.
\<close>

definition sigevent_default :: c_sigevent where
  "sigevent_default =
     \<lparr>sigev_notify = 0, sigev_signo = 0, sigev_value = 0, sigev_notify_function = nullptr,
      sigev_notify_attributes = nullptr\<rparr>"

definition sigevent_int :: "sig_notify \<Rightarrow> sig_number \<Rightarrow> addr \<Rightarrow> c_int \<Rightarrow> c_sigevent" where
  "sigevent_int notify number callback value =
     sigevent_default
       \<lparr>sigev_notify := sig_notify_bits notify,
        sigev_signo := sig_number_bits number,
        sigev_value := ucast value,
        sigev_notify_function := callback,
        sigev_notify_attributes := nullptr\<rparr>"

definition sigevent_ptr :: "sig_notify \<Rightarrow> sig_number \<Rightarrow> addr \<Rightarrow> addr \<Rightarrow> c_sigevent" where
  "sigevent_ptr notify number callback value =
     sigevent_default
       \<lparr>sigev_notify := sig_notify_bits notify,
        sigev_signo := sig_number_bits number,
        sigev_value := value,
        sigev_notify_function := callback,
        sigev_notify_attributes := nullptr\<rparr>"

lemma sigevent_int_sel [simp]:
  "sigev_notify (sigevent_int n s f v) = sig_notify_bits n"
  "sigev_signo (sigevent_int n s f v) = sig_number_bits s"
  "ucast (sigev_value (sigevent_int n s f v)) = v"
  "sigev_notify_function (sigevent_int n s f v) = f"
  by (simp_all add: sigevent_int_def) (simp add: ucast_up_ucast_id is_up)

lemma sigevent_ptr_sel [simp]:
  "sigev_notify (sigevent_ptr n s f v) = sig_notify_bits n"
  "sigev_signo (sigevent_ptr n s f v) = sig_number_bits s"
  "sigev_value (sigevent_ptr n s f v) = v"
  "sigev_notify_function (sigevent_ptr n s f v) = f"
  by (simp_all add: sigevent_ptr_def)

lemma sig_notify_value_simps [simp]:
  "sig_notify_value hdr ''none'' = Sig_notify (hdr ''SIGEV_NONE'')"
  "sig_notify_value hdr ''signal'' = Sig_notify (hdr ''SIGEV_SIGNAL'')"
  "sig_notify_value hdr ''thread'' = Sig_notify (hdr ''SIGEV_THREAD'')"
  by (simp_all add: sig_notify_value_def sig_notify_table_def enumerator_def)

end
