(* ===== verification/Time.thy ===== *)
theory Time
  imports World
begin

text \<open>
  \<^verbatim>\<open>duration.hpp\<close> and \<^verbatim>\<open>time.hpp\<close>: durations over \<open>int\<close> (over \<open>long\<close> for nanoseconds), and the
  class \<open>timespec\<close>.  Widening an \<open>int\<close> to a \<open>long\<close> extends its sign; the explicit
  constructor of a duration from a \<open>long\<close> keeps the low half.
\<close>

datatype seconds = Seconds (seconds_count: c_int)
datatype milliseconds = Milliseconds (milliseconds_count: c_int)
datatype microseconds = Microseconds (microseconds_count: c_int)
datatype nanoseconds = Nanoseconds (nanoseconds_count: c_long)

text \<open>The defaulted constructor, in the form \<open>timespec{}\<close> that zeroes the structure.\<close>

definition timespec_default :: c_timespec where
  "timespec_default = \<lparr>ts_sec = 0, ts_nsec = 0\<rparr>"

definition timespec_of_seconds :: "seconds \<Rightarrow> c_timespec" where
  "timespec_of_seconds s = \<lparr>ts_sec = scast (seconds_count s), ts_nsec = 0\<rparr>"

definition timespec_make :: "seconds \<Rightarrow> nanoseconds \<Rightarrow> c_timespec" where
  "timespec_make s ns = \<lparr>ts_sec = scast (seconds_count s), ts_nsec = nanoseconds_count ns\<rparr>"

lemma sint_scast_32_64 [simp]: "sint (scast (x :: c_int) :: c_long) = sint x"
  by (simp add: sint_up_scast is_up)

lemma timespec_make_sel [simp]:
  "sint (ts_sec (timespec_make s ns)) = sint (seconds_count s)"
  "ts_nsec (timespec_make s ns) = nanoseconds_count ns"
  by (simp_all add: timespec_make_def)

lemma timespec_of_seconds_eq: "timespec_of_seconds s = timespec_make s (Nanoseconds 0)"
  by (simp add: timespec_of_seconds_def timespec_make_def)

end
