(* ===== verification/Epoll.thy ===== *)
theory Epoll
  imports Object_Program Span Signal Time
begin

text \<open>
  \<^verbatim>\<open>lnx/epoll.hpp\<close> and \<^verbatim>\<open>lnx/epoll.cpp\<close>: the class \<open>epoll\<close>, its control commands and the events it
  reports.
\<close>

section \<open>Enumerations\<close>

datatype epoll_flag = Epoll_flag (epoll_flag_bits: c_int)

definition epoll_flag_table :: enum_table where
  "epoll_flag_table = [(''cloexec'', Macro ''EPOLL_CLOEXEC'')]"

datatype epoll_event_flag = Epoll_event_flag (epoll_event_flag_bits: "32 word")

definition epoll_event_flag_table :: enum_table where
  "epoll_event_flag_table =
     [(''read_available'', Macro ''EPOLLIN''), (''write_available'', Macro ''EPOLLOUT''),
      (''socket_closed'', Macro ''EPOLLRDHUP''), (''fd_exception'', Macro ''EPOLLPRI''),
      (''fd_error'', Macro ''EPOLLERR''), (''fd_hup'', Macro ''EPOLLHUP''),
      (''edge_triggered'', Macro ''EPOLLET''), (''one_shot'', Macro ''EPOLLONESHOT''),
      (''wakeup'', Macro ''EPOLLWAKEUP''), (''exclusive'', Macro ''EPOLLEXCLUSIVE'')]"

datatype epoll_operation = Epoll_operation (epoll_operation_bits: c_int)

definition epoll_operation_table :: enum_table where
  "epoll_operation_table =
     [(''add'', Macro ''EPOLL_CTL_ADD''), (''remove'', Macro ''EPOLL_CTL_DEL''),
      (''modify'', Macro ''EPOLL_CTL_MOD'')]"

definition epoll_operation_value :: "headers \<Rightarrow> string \<Rightarrow> epoll_operation" where
  "epoll_operation_value hdr name =
     Epoll_operation (the (enumerator hdr epoll_operation_table name))"

definition epoll_cloexec :: "headers \<Rightarrow> epoll_flag enum_flag" where
  "epoll_cloexec hdr = Enum_flag (Epoll_flag (the (enumerator hdr epoll_flag_table ''cloexec'')))"

text \<open>The constants \<open>epoll_read_available\<close>, ..., \<open>epoll_exclusive\<close>.\<close>

definition epoll_constant :: "headers \<Rightarrow> string \<Rightarrow> epoll_event_flag enum_flag" where
  "epoll_constant hdr name =
     Enum_flag (Epoll_event_flag (the (enumerator hdr epoll_event_flag_table name)))"

definition epoll_event_flag_or ::
  "epoll_event_flag enum_flag \<Rightarrow> epoll_event_flag enum_flag \<Rightarrow> epoll_event_flag enum_flag" where
  "epoll_event_flag_or = enum_flag_or epoll_event_flag_bits Epoll_event_flag"

interpretation epoll_event_flag: flag_enum epoll_event_flag_bits Epoll_event_flag
    "\<lambda>a b. enum_flag_value (epoll_event_flag_or (Enum_flag a) (Enum_flag b))"
  by unfold_locales (simp_all add: epoll_event_flag_or_def enum_flag_or_def)

section \<open>Events that are registered\<close>

text \<open>
  The constructors of \<open>capi::epoll_event\<close>: the one from the flags zeroes the structure, the others
  delegate to it and then write one member of the union.
\<close>

definition capi_epoll_event :: "epoll_event_flag \<Rightarrow> c_epoll_event" where
  "capi_epoll_event event_flags = \<lparr>ev_events = epoll_event_flag_bits event_flags, ev_data = 0\<rparr>"

datatype epoll_data =
  Data_none | Data_ptr addr | Data_fd raw_fd | Data_u32 "32 word" | Data_u64 "64 word"

fun capi_epoll_event_data :: "epoll_event_flag \<Rightarrow> epoll_data \<Rightarrow> c_epoll_event" where
  "capi_epoll_event_data event_flags Data_none = capi_epoll_event event_flags"
| "capi_epoll_event_data event_flags (Data_ptr data) =
     (capi_epoll_event event_flags)\<lparr>ev_data := data\<rparr>"
| "capi_epoll_event_data event_flags (Data_fd data) =
     (capi_epoll_event event_flags)\<lparr>ev_data := ucast (raw_fd_value data)\<rparr>"
| "capi_epoll_event_data event_flags (Data_u32 data) =
     (capi_epoll_event event_flags)\<lparr>ev_data := ucast data\<rparr>"
| "capi_epoll_event_data event_flags (Data_u64 data) =
     (capi_epoll_event event_flags)\<lparr>ev_data := data\<rparr>"

section \<open>Control commands\<close>

record epoll_add =
  add_fd :: raw_fd
  add_event :: c_epoll_event

record epoll_remove =
  remove_fd :: raw_fd

record epoll_modify =
  modify_fd :: raw_fd
  modify_event :: c_epoll_event

text \<open>The static assertion of the five constructors of \<open>epoll_modify\<close>, and the constructors.\<close>

definition check_epoll_modify_flags :: "headers \<Rightarrow> epoll_event_flag enum_flag \<Rightarrow> bool" where
  "check_epoll_modify_flags hdr Flags \<longleftrightarrow>
     \<not> enum_flag_has_flag epoll_event_flag_bits Flags (epoll_constant hdr ''exclusive'')"

definition epoll_modify_make ::
  "headers \<Rightarrow> raw_fd \<Rightarrow> epoll_event_flag enum_flag \<Rightarrow> epoll_data \<Rightarrow> epoll_modify option" where
  "epoll_modify_make hdr fd Flags data =
     (if check_epoll_modify_flags hdr Flags
      then Some \<lparr>modify_fd = fd, modify_event = capi_epoll_event_data (enum_flag_value Flags) data\<rparr>
      else None)"

section \<open>Events that are reported\<close>

definition epoll_event_has_flag :: "c_epoll_event \<Rightarrow> epoll_event_flag enum_flag \<Rightarrow> bool" where
  "epoll_event_has_flag this Flag \<longleftrightarrow>
     ev_events this AND epoll_event_flag_bits (enum_flag_value Flag) \<noteq> 0"

definition event_read_available :: "headers \<Rightarrow> c_epoll_event \<Rightarrow> bool" where
  "event_read_available hdr this = epoll_event_has_flag this (epoll_constant hdr ''read_available'')"

definition event_write_available :: "headers \<Rightarrow> c_epoll_event \<Rightarrow> bool" where
  "event_write_available hdr this =
     epoll_event_has_flag this (epoll_constant hdr ''write_available'')"

definition event_socket_closed :: "headers \<Rightarrow> c_epoll_event \<Rightarrow> bool" where
  "event_socket_closed hdr this = epoll_event_has_flag this (epoll_constant hdr ''socket_closed'')"

definition event_fd_exception :: "headers \<Rightarrow> c_epoll_event \<Rightarrow> bool" where
  "event_fd_exception hdr this = epoll_event_has_flag this (epoll_constant hdr ''fd_exception'')"

definition event_fd_error :: "headers \<Rightarrow> c_epoll_event \<Rightarrow> bool" where
  "event_fd_error hdr this = epoll_event_has_flag this (epoll_constant hdr ''fd_error'')"

definition event_fd_hup :: "headers \<Rightarrow> c_epoll_event \<Rightarrow> bool" where
  "event_fd_hup hdr this = epoll_event_has_flag this (epoll_constant hdr ''fd_hup'')"

section \<open>The class\<close>

record epoll =
  epoll_descriptor :: file_descriptor

definition epoll_default :: epoll where
  "epoll_default = \<lparr>epoll_descriptor = descriptor_default file_descriptor_null\<rparr>"

definition epoll_of :: "raw_fd \<Rightarrow> epoll" where
  "epoll_of epoll_fd = \<lparr>epoll_descriptor = descriptor_of epoll_fd\<rparr>"

text \<open>The defaulted move constructor moves the member; the implicit destructor destroys it.\<close>

definition epoll_move :: "epoll \<Rightarrow> epoll \<times> epoll" where
  "epoll_move other =
     (let (member, other') = descriptor_move file_descriptor_null (epoll_descriptor other)
      in (\<lparr>epoll_descriptor = member\<rparr>, \<lparr>epoll_descriptor = other'\<rparr>))"

text \<open>The defaulted move assignment, undefined like \<open>descriptor_move_assign\<close> of the member.\<close>

definition epoll_move_assign :: "epoll \<Rightarrow> epoll \<Rightarrow> (epoll \<times> epoll) \<times> epoll option" where
  "epoll_move_assign this other =
     (let ((member, member'), returned) = descriptor_move_assign (epoll_descriptor this) (epoll_descriptor other);
          this' = this\<lparr>epoll_descriptor := member\<rparr>
      in ((this', other\<lparr>epoll_descriptor := member'\<rparr>), map_option (\<lambda>_. this') returned))"

lemma epoll_move_assign_eq: "epoll_move_assign this other = ((other, this), None)"
  by (cases this; cases other) (simp add: epoll_move_assign_def descriptor_move_assign_eq)

definition epoll_destroy :: "'k posix \<Rightarrow> epoll \<Rightarrow> ('k, unit) io" where
  "epoll_destroy sys this =
     descriptor_destroy (close_fd sys) file_descriptor_null (epoll_descriptor this)"

definition unsafe_make_epoll :: "raw_fd_t \<Rightarrow> epoll" where
  "unsafe_make_epoll fd = epoll_of (Raw_fd fd)"

text \<open>
  \<open>return unsafe_make_epoll(res);\<close> moves the temporary \<open>epoll\<close> into the \<open>result\<close> and
  destroys it.
\<close>

definition epoll_into_result :: "'k posix \<Rightarrow> epoll \<Rightarrow> ('k, epoll result) io" where
  "epoll_into_result sys tmp = do {
     d \<leftarrow> descriptor_into_result (close_fd sys) file_descriptor_null (epoll_descriptor tmp);
     State_Monad.return (Value \<lparr>epoll_descriptor = d\<rparr>)
   }"

definition epoll_unsafe_create :: "'k posix \<Rightarrow> c_int \<Rightarrow> ('k, epoll result) io" where
  "epoll_unsafe_create sys n = do {
     res \<leftarrow> sys_epoll_create sys n;
     if res = -1
     then do { ec \<leftarrow> current_errno_code; State_Monad.return (Error ec) }
     else epoll_into_result sys (unsafe_make_epoll res)
   }"

definition epoll_unsafe_create1 :: "'k posix \<Rightarrow> epoll_flag \<Rightarrow> ('k, epoll result) io" where
  "epoll_unsafe_create1 sys flags = do {
     res \<leftarrow> sys_epoll_create1 sys (epoll_flag_bits flags);
     if res = -1
     then do { ec \<leftarrow> current_errno_code; State_Monad.return (Error ec) }
     else epoll_into_result sys (unsafe_make_epoll res)
   }"

definition epoll_create :: "'k posix \<Rightarrow> ('k, epoll result) io" where
  "epoll_create sys = epoll_unsafe_create sys 1"

definition epoll_create_cloexec :: "headers \<Rightarrow> 'k posix \<Rightarrow> ('k, epoll result) io" where
  "epoll_create_cloexec hdr sys = epoll_unsafe_create1 sys (enum_flag_value (epoll_cloexec hdr))"

definition epoll_unsafe_ctl ::
  "'k posix \<Rightarrow> epoll \<Rightarrow> epoll_operation \<Rightarrow> raw_fd \<Rightarrow> c_epoll_event option \<Rightarrow> ('k, error_code) io" where
  "epoll_unsafe_ctl sys this op fd event =
     common_call (sys_epoll_ctl sys (raw_fd_value (descriptor_deref (epoll_descriptor this)))
       (epoll_operation_bits op) (raw_fd_value fd) event)"

definition epoll_ctl_add ::
  "headers \<Rightarrow> 'k posix \<Rightarrow> epoll \<Rightarrow> epoll_add \<Rightarrow> ('k, error_code) io" where
  "epoll_ctl_add hdr sys this add =
     epoll_unsafe_ctl sys this (epoll_operation_value hdr ''add'') (add_fd add) (Some (add_event add))"

definition epoll_ctl_remove ::
  "headers \<Rightarrow> 'k posix \<Rightarrow> epoll \<Rightarrow> epoll_remove \<Rightarrow> ('k, error_code) io" where
  "epoll_ctl_remove hdr sys this remove =
     epoll_unsafe_ctl sys this (epoll_operation_value hdr ''remove'') (remove_fd remove) None"

definition epoll_ctl_modify ::
  "headers \<Rightarrow> 'k posix \<Rightarrow> epoll \<Rightarrow> epoll_modify \<Rightarrow> ('k, error_code) io" where
  "epoll_ctl_modify hdr sys this md =
     epoll_unsafe_ctl sys this (epoll_operation_value hdr ''modify'') (modify_fd md)
       (Some (modify_event md))"

text \<open>
  \<open>wait\<close> and \<open>pwait\<close> promise a \<open>result<int>\<close> and return the \<open>std::error_code\<close> of
  \<open>PPOSIX_COMMON_CALL\<close>.  The span's length is converted to an \<open>int\<close>.
\<close>

definition epoll_wait :: "'k posix \<Rightarrow> epoll \<Rightarrow> span \<Rightarrow> milliseconds \<Rightarrow> ('k, c_int result) io" where
  "epoll_wait sys this events timeout = do {
     ec \<leftarrow> common_call (sys_epoll_wait sys (raw_fd_value (descriptor_deref (epoll_descriptor this)))
       (span_data events) (ucast (span_length events)) (milliseconds_count timeout));
     State_Monad.return (Error ec)
   }"

definition epoll_pwait ::
  "'k posix \<Rightarrow> epoll \<Rightarrow> span \<Rightarrow> milliseconds \<Rightarrow> sigset \<Rightarrow> ('k, c_int result) io" where
  "epoll_pwait sys this events timeout sigmask = do {
     ec \<leftarrow> common_call (sys_epoll_pwait sys (raw_fd_value (descriptor_deref (epoll_descriptor this)))
       (span_data events) (ucast (span_length events)) (milliseconds_count timeout)
       (sigset_ptr sigmask));
     State_Monad.return (Error ec)
   }"

section \<open>Effects\<close>

lemma epoll_operation_value_simps [simp]:
  "epoll_operation_value hdr ''add'' = Epoll_operation (hdr ''EPOLL_CTL_ADD'')"
  "epoll_operation_value hdr ''remove'' = Epoll_operation (hdr ''EPOLL_CTL_DEL'')"
  "epoll_operation_value hdr ''modify'' = Epoll_operation (hdr ''EPOLL_CTL_MOD'')"
  by (simp_all add: epoll_operation_value_def epoll_operation_table_def enumerator_def)

lemma epoll_cloexec_value [simp]:
  "enum_flag_value (epoll_cloexec hdr) = Epoll_flag (hdr ''EPOLL_CLOEXEC'')"
  by (simp add: epoll_cloexec_def epoll_flag_table_def enumerator_def)

lemma ev_events_data [simp]:
  "ev_events (capi_epoll_event_data fl d) = epoll_event_flag_bits fl"
  by (cases d) (simp_all add: capi_epoll_event_def)

lemma epoll_event_has_flag_data:
  "epoll_event_has_flag (capi_epoll_event_data (enum_flag_value f) d) g \<longleftrightarrow>
     enum_flag_has_flag epoll_event_flag_bits f g"
  by (simp add: epoll_event_has_flag_def enum_flag_has_flag_def)

lemma run_epoll_into_result [run_simps]:
  "run_state (epoll_into_result sys e) w =
     (Value e, snd (run_state (close_fd sys file_descriptor_null) w))"
  by (cases e) (simp add: epoll_into_result_def run_simps)

lemma run_epoll_unsafe_create [run_simps]:
  "run_state (epoll_unsafe_create sys n) w =
     (let (r, w1) = run_state (sys_epoll_create sys n) w
      in if r = -1 then (Error (make_errno_code (errno_of w1)), w1)
         else (Value (epoll_of (Raw_fd r)), snd (run_state (close_fd sys file_descriptor_null) w1)))"
  by (simp add: epoll_unsafe_create_def unsafe_make_epoll_def run_simps)

lemma run_epoll_unsafe_create1 [run_simps]:
  "run_state (epoll_unsafe_create1 sys fl) w =
     (let (r, w1) = run_state (sys_epoll_create1 sys (epoll_flag_bits fl)) w
      in if r = -1 then (Error (make_errno_code (errno_of w1)), w1)
         else (Value (epoll_of (Raw_fd r)), snd (run_state (close_fd sys file_descriptor_null) w1)))"
  by (simp add: epoll_unsafe_create1_def unsafe_make_epoll_def run_simps)

lemma run_epoll_wait [run_simps]:
  "run_state (epoll_wait sys e events timeout) w =
     (let (r, w') = run_state (sys_epoll_wait sys (raw_fd_value (raw_descriptor (epoll_descriptor e)))
            (span_data events) (ucast (span_length events)) (milliseconds_count timeout)) w
      in (Error (if r = -1 then make_errno_code (errno_of w') else no_error), w'))"
  by (simp add: epoll_wait_def run_simps)

lemma run_epoll_pwait [run_simps]:
  "run_state (epoll_pwait sys e events timeout sigs) w =
     (let (r, w') = run_state (sys_epoll_pwait sys (raw_fd_value (raw_descriptor (epoll_descriptor e)))
            (span_data events) (ucast (span_length events)) (milliseconds_count timeout)
            (sigset_ptr sigs)) w
      in (Error (if r = -1 then make_errno_code (errno_of w') else no_error), w'))"
  by (simp add: epoll_pwait_def run_simps)

interpretation epoll_creation: owner_open file_descriptor_null "close_fd sys"
    "\<lambda>fd. sys_close sys (raw_fd_value fd)" 1 "handle_unless (-1) Raw_fd"
    "\<lambda>d. \<lparr>epoll_descriptor = d\<rparr>" "sys_epoll_create sys" "epoll_unsafe_create sys" for sys
  by unfold_locales (auto simp: run_simps epoll_of_def handle_unless_def)

interpretation epoll_creation1: owner_open file_descriptor_null "close_fd sys"
    "\<lambda>fd. sys_close sys (raw_fd_value fd)" 1 "handle_unless (-1) Raw_fd"
    "\<lambda>d. \<lparr>epoll_descriptor = d\<rparr>" "\<lambda>fl. sys_epoll_create1 sys (epoll_flag_bits fl)"
    "epoll_unsafe_create1 sys" for sys
  by unfold_locales (auto simp: run_simps epoll_of_def handle_unless_def)

section \<open>The class as a class of owners\<close>

inductive epoll_opens :: "headers \<Rightarrow> 'k posix \<Rightarrow> ('k, epoll result) io \<Rightarrow> bool"
  for hdr :: headers and sys :: "'k posix" where
  "epoll_opens hdr sys (epoll_create sys)"
| "epoll_opens hdr sys (epoll_create_cloexec hdr sys)"
| "epoll_opens hdr sys (epoll_unsafe_create sys n)"
| "epoll_opens hdr sys (epoll_unsafe_create1 sys fl)"

inductive epoll_uses :: "headers \<Rightarrow> 'k posix \<Rightarrow> epoll \<Rightarrow> ('k, unit) io \<Rightarrow> bool"
  for hdr :: headers and sys :: "'k posix" and e :: epoll where
  "epoll_uses hdr sys e (discard (epoll_unsafe_ctl sys e op fd event))"
| "epoll_uses hdr sys e (discard (epoll_ctl_add hdr sys e add))"
| "epoll_uses hdr sys e (discard (epoll_ctl_remove hdr sys e remove))"
| "epoll_uses hdr sys e (discard (epoll_ctl_modify hdr sys e md))"
| "epoll_uses hdr sys e (discard (epoll_wait sys e events timeout))"
| "epoll_uses hdr sys e (discard (epoll_pwait sys e events timeout sigs))"

definition epoll_class :: "headers \<Rightarrow> 'k posix \<Rightarrow> ('k, epoll) object_class" where
  "epoll_class hdr sys =
     \<lparr>class_empty = (\<lambda>e. e = epoll_default), class_opens = epoll_opens hdr sys,
      class_uses = epoll_uses hdr sys, class_move = epoll_move, class_destroy = epoll_destroy sys\<rparr>"

definition documented_epoll_calls :: "'k posix \<Rightarrow> ('k \<Rightarrow> raw_fd set) \<Rightarrow> bool" where
  "documented_epoll_calls sys opened \<longleftrightarrow>
     handle_table (\<lambda>fd. sys_close sys (raw_fd_value fd)) opened file_descriptor_null \<and>
     (\<forall>n. documented_open (sys_epoll_create sys n) (handle_unless (-1) Raw_fd) opened) \<and>
     (\<forall>n. documented_open (sys_epoll_create1 sys n) (handle_unless (-1) Raw_fd) opened) \<and>
     (\<forall>e op fd event. keeps_handles (sys_epoll_ctl sys e op fd event) opened) \<and>
     (\<forall>e p n t. keeps_handles (sys_epoll_wait sys e p n t) opened) \<and>
     (\<forall>e p n t sigs. keeps_handles (sys_epoll_pwait sys e p n t sigs) opened)"

lemma epoll_opens_handle:
  assumes "documented_epoll_calls sys opened" and "epoll_opens hdr sys m"
  shows "opens_handle opened epoll_descriptor m"
proof -
  have "\<exists>n fl. m = epoll_unsafe_create sys n \<or> m = epoll_unsafe_create1 sys fl"
    using assms(2) by cases (auto simp: epoll_create_def epoll_create_cloexec_def)
  moreover have "opens_handle opened epoll_descriptor (epoll_unsafe_create sys n)"
    "opens_handle opened epoll_descriptor (epoll_unsafe_create1 sys fl)" for n fl
    using assms(1)
    by (auto intro!: epoll_creation.open_handle epoll_creation1.open_handle
        simp: documented_epoll_calls_def)
  ultimately show ?thesis
    by blast
qed

lemma epoll_uses_keep:
  assumes "documented_epoll_calls sys opened" and "epoll_uses hdr sys e u"
  shows "keeps_handles u opened"
  using assms(2,1)
  by (cases rule: epoll_uses.cases)
    (simp_all add: documented_epoll_calls_def keeps_handles_def run_simps epoll_unsafe_ctl_def
      epoll_ctl_add_def epoll_ctl_remove_def epoll_ctl_modify_def case_prod_beta Let_def)

interpretation epoll_owner: owner_class file_descriptor_null "close_fd sys"
    "\<lambda>fd. sys_close sys (raw_fd_value fd)" "documented_epoll_calls sys" "epoll_class hdr sys"
    epoll_descriptor for hdr sys
  by unfold_locales
    (auto simp: epoll_class_def epoll_destroy_def epoll_default_def epoll_move_def
      documented_epoll_calls_def intro: epoll_opens_handle epoll_uses_keep)

section \<open>Properties\<close>

text \<open>
  \<open>epoll_create\<close> gives descriptor 3; \<open>epoll_wait\<close> succeeds and reports two events.
\<close>

definition demo_epoll_posix :: "raw_fd set posix" where
  "demo_epoll_posix = stub_posix
     \<lparr>sys_close := (\<lambda>fd. table_close (Raw_fd fd)),
      sys_epoll_create := (\<lambda>_. table_open (Raw_fd 3) 3 (-1)),
      sys_epoll_create1 := (\<lambda>_. table_open (Raw_fd 3) 3 (-1)),
      sys_epoll_wait := (\<lambda>_ _ _ _. State_Monad.return 2)\<rparr>"

lemma demo_epoll_table:
  "handle_table (\<lambda>fd. sys_close demo_epoll_posix (raw_fd_value fd)) (\<lambda>k. k - {file_descriptor_null})
     file_descriptor_null"
  using handle_table_close [of file_descriptor_null] by (simp add: demo_epoll_posix_def)

lemma demo_epoll_open:
  "documented_open (sys_epoll_create demo_epoll_posix n) (handle_unless (-1) Raw_fd)
     (\<lambda>k. k - {file_descriptor_null})"
  "documented_open (sys_epoll_create1 demo_epoll_posix m) (handle_unless (-1) Raw_fd)
     (\<lambda>k. k - {file_descriptor_null})"
  using documented_table_open [of "3 :: c_int" "-1" Raw_fd "Raw_fd 3" file_descriptor_null]
  by (simp_all add: demo_epoll_posix_def file_descriptor_null_def descriptor_constant_def)

text \<open>
  C9.  Both overloads of \<open>epoll::create\<close> return an \<open>epoll\<close> that owns a new descriptor, or an error
  code with \<open>errno\<close> of the call and no change to the open descriptors; the size passed to
  \<open>epoll_create\<close> is 1, as the call demands, and \<open>epoll_create1\<close> is passed \<open>EPOLL_CLOEXEC\<close>.
\<close>

theorem epoll_create_opens:
  assumes "handle_table (\<lambda>fd. sys_close sys (raw_fd_value fd)) opened file_descriptor_null"
    and "documented_open (sys_epoll_create sys 1) (handle_unless (-1) Raw_fd) opened"
    and "documented_open (sys_epoll_create1 sys (hdr ''EPOLL_CLOEXEC'')) (handle_unless (-1) Raw_fd)
      opened"
  shows "\<forall>m \<in> {epoll_create sys, epoll_create_cloexec hdr sys}.
    opens_owner opened (\<lambda>d. \<lparr>epoll_descriptor = d\<rparr>) w (fst (run_state m w)) (snd (run_state m w))"
  using epoll_creation.open_spec [OF assms(1,2)]
    epoll_creation1.open_spec [where a = "Epoll_flag (hdr ''EPOLL_CLOEXEC'')", OF assms(1)] assms(3)
  by (simp add: epoll_create_def epoll_create_cloexec_def)

theorem epoll_create_opens_witness:
  "opens_owner (\<lambda>k. k - {file_descriptor_null}) (\<lambda>d. \<lparr>epoll_descriptor = d\<rparr>) (table_world {})
    (fst (run_state (epoll_create demo_epoll_posix) (table_world {})))
    (snd (run_state (epoll_create demo_epoll_posix) (table_world {})))"
  by (rule epoll_create_opens [OF demo_epoll_table demo_epoll_open(1) demo_epoll_open(2),
      THEN bspec]) (rule insertI1)

text \<open>
  \<open>epoll::wait\<close> and \<open>epoll::pwait\<close> never return a value: even when the system reports events
  the \<open>result\<close> holds an error code, so the number of events is lost.
\<close>

lemma epoll_wait_never_value:
  "\<not> result_has_value (fst (run_state (epoll_wait sys e events timeout) w)) \<and>
   \<not> result_has_value (fst (run_state (epoll_pwait sys e events timeout sigs) w))"
  by (simp add: run_simps)

text \<open>
  C32.  An accepted \<open>epoll_modify\<close> reaches the system as one \<open>EPOLL_CTL_MOD\<close> for its descriptor.  The
  event has exactly the requested flags and, in the member of the union that was asked for, the
  requested data, with zeros in the rest of it; \<open>EPOLLEXCLUSIVE\<close>, which the kernel rejects there, is
  never among the flags.
\<close>

theorem epoll_modify_never_exclusive:
  assumes "epoll_modify_make hdr fd Flags data = Some md"
  shows "epoll_ctl_modify hdr sys e md =
      common_call (sys_epoll_ctl sys (raw_fd_value (raw_descriptor (epoll_descriptor e)))
        (hdr ''EPOLL_CTL_MOD'') (raw_fd_value fd)
        (Some \<lparr>ev_events = epoll_event_flag_bits (enum_flag_value Flags),
           ev_data = (case data of Data_none \<Rightarrow> 0 | Data_ptr p \<Rightarrow> p
             | Data_fd d \<Rightarrow> ucast (raw_fd_value d) | Data_u32 u \<Rightarrow> ucast u | Data_u64 u \<Rightarrow> u)\<rparr>)) \<and>
    epoll_event_flag_bits (enum_flag_value Flags) AND hdr ''EPOLLEXCLUSIVE'' = 0"
proof -
  have "check_epoll_modify_flags hdr Flags"
    and md: "md = \<lparr>modify_fd = fd, modify_event = capi_epoll_event_data (enum_flag_value Flags) data\<rparr>"
    using assms by (auto simp: epoll_modify_make_def split: if_splits)
  then have "epoll_event_flag_bits (enum_flag_value Flags) AND hdr ''EPOLLEXCLUSIVE'' = 0"
    by (simp add: check_epoll_modify_flags_def enum_flag_has_flag_def epoll_constant_def
        epoll_event_flag_table_def enumerator_def)
  then show ?thesis
    by (cases data) (simp_all add: md epoll_ctl_modify_def epoll_unsafe_ctl_def capi_epoll_event_def)
qed

theorem epoll_modify_never_exclusive_witness:
  "epoll_event_flag_bits (enum_flag_value (Enum_flag (Epoll_event_flag 5))) AND 2 ^ 28 = 0"
proof -
  let ?hdr = "\<lambda>m. if m = ''EPOLLEXCLUSIVE'' then 2 ^ 28 else 1"
  have "epoll_modify_make ?hdr (Raw_fd 7) (Enum_flag (Epoll_event_flag 5)) (Data_fd (Raw_fd 7)) =
      Some \<lparr>modify_fd = Raw_fd 7,
        modify_event = capi_epoll_event_data (Epoll_event_flag 5) (Data_fd (Raw_fd 7))\<rparr>"
    by (simp add: epoll_modify_make_def check_epoll_modify_flags_def enum_flag_has_flag_def
        epoll_constant_def epoll_event_flag_table_def enumerator_def)
  from epoll_modify_never_exclusive [OF this, THEN conjunct2] show ?thesis
    by simp
qed

text \<open>
  The documentation of the event macros: each has a bit of its own.  The system reports the six
  conditions that the accessors test.
\<close>

definition documented_event_bits :: "headers \<Rightarrow> bool" where
  "documented_event_bits hdr \<longleftrightarrow>
     (\<forall>a \<in> fst ` set epoll_event_flag_table. \<forall>b \<in> fst ` set epoll_event_flag_table.
        epoll_event_flag_bits (enum_flag_value (epoll_constant hdr a)) AND
        epoll_event_flag_bits (enum_flag_value (epoll_constant hdr b)) \<noteq> 0 \<longleftrightarrow> a = b)"

definition event_conditions :: "string list" where
  "event_conditions =
     [''read_available'', ''write_available'', ''socket_closed'', ''fd_exception'', ''fd_error'', ''fd_hup'']"

definition event_word :: "headers \<Rightarrow> string list \<Rightarrow> 32 word" where
  "event_word hdr names =
     or_all (map (\<lambda>n. epoll_event_flag_bits (enum_flag_value (epoll_constant hdr n))) names)"

lemma epoll_event_has_flag_word:
  assumes "documented_event_bits hdr" and "set names \<subseteq> fst ` set epoll_event_flag_table"
    and "name \<in> fst ` set epoll_event_flag_table" and "ev_events ev = event_word hdr names"
  shows "epoll_event_has_flag ev (epoll_constant hdr name) \<longleftrightarrow> name \<in> set names"
proof -
  have "epoll_event_flag_bits (enum_flag_value (epoll_constant hdr n)) AND
      epoll_event_flag_bits (enum_flag_value (epoll_constant hdr name)) \<noteq> 0 \<longleftrightarrow> n = name"
    if "n \<in> set names" for n
    using assms(1-3) that unfolding documented_event_bits_def by blast
  then show ?thesis
    by (auto simp: epoll_event_has_flag_def assms(4) event_word_def and_or_all_neq_0_iff)
qed

text \<open>
  C31.  Where each event macro has a bit of its own, the six accessors of \<open>epoll_event\<close> report
  exactly the conditions that are set in the event word: for every choice of conditions, each
  accessor holds for its own condition and for no other.
\<close>

theorem epoll_event_reports:
  assumes "documented_event_bits hdr" and "set names \<subseteq> set event_conditions"
    and "ev_events ev = event_word hdr names"
  shows "(event_read_available hdr ev \<longleftrightarrow> ''read_available'' \<in> set names) \<and>
    (event_write_available hdr ev \<longleftrightarrow> ''write_available'' \<in> set names) \<and>
    (event_socket_closed hdr ev \<longleftrightarrow> ''socket_closed'' \<in> set names) \<and>
    (event_fd_exception hdr ev \<longleftrightarrow> ''fd_exception'' \<in> set names) \<and>
    (event_fd_error hdr ev \<longleftrightarrow> ''fd_error'' \<in> set names) \<and>
    (event_fd_hup hdr ev \<longleftrightarrow> ''fd_hup'' \<in> set names)"
proof -
  have "set event_conditions \<subseteq> fst ` set epoll_event_flag_table"
    by (simp add: event_conditions_def epoll_event_flag_table_def)
  then have "epoll_event_has_flag ev (epoll_constant hdr name) \<longleftrightarrow> name \<in> set names"
    if "name \<in> set event_conditions" for name
    using epoll_event_has_flag_word [OF assms(1) _ _ assms(3)] assms(2) that by blast
  then show ?thesis
    by (simp add: event_conditions_def event_read_available_def event_write_available_def
        event_socket_closed_def event_fd_exception_def event_fd_error_def event_fd_hup_def)
qed

definition demo_epoll_headers :: headers where
  "demo_epoll_headers m =
     (case map_of [(''EPOLLIN'', 0), (''EPOLLPRI'', 1), (''EPOLLOUT'', 2), (''EPOLLERR'', 3),
        (''EPOLLHUP'', 4), (''EPOLLRDHUP'', 13), (''EPOLLEXCLUSIVE'', 28), (''EPOLLWAKEUP'', 29),
        (''EPOLLONESHOT'', 30), (''EPOLLET'', 31)] m of
        Some n \<Rightarrow> 2 ^ n
      | None \<Rightarrow> 0)"

lemma demo_epoll_headers_bits: "documented_event_bits demo_epoll_headers"
  by code_simp

theorem epoll_event_reports_witness:
  "\<not> event_write_available demo_epoll_headers \<lparr>ev_events = 17, ev_data = 0\<rparr> \<and>
    event_fd_hup demo_epoll_headers \<lparr>ev_events = 17, ev_data = 0\<rparr>"
proof -
  have "event_word demo_epoll_headers [''read_available'', ''fd_hup''] = 17"
    by code_simp
  then show ?thesis
    using epoll_event_reports [OF demo_epoll_headers_bits, where names = "[''read_available'', ''fd_hup'']"
        and ev = "\<lparr>ev_events = 17, ev_data = 0\<rparr>"]
    by (simp add: event_conditions_def)
qed

end
