(* ===== verification/View.thy ===== *)
theory View
  imports Span
begin

text \<open>
  \<^verbatim>\<open>any_view.hpp\<close>: \<open>any_cview\<close> and \<open>any_view\<close>, a pointer to any object with its size in
  bytes.  The constructors compute the size from the static type: \<open>sizeof(T)\<close> for an object,
  \<open>sizeof(T) * Count\<close> for an array; the size of the type is a parameter.
\<close>

section \<open>\<open>any_cview\<close>\<close>

record any_cview =
  any_cview_ptr :: addr
  any_cview_len :: size_t

definition any_cview_default :: any_cview where
  "any_cview_default = \<lparr>any_cview_ptr = nullptr, any_cview_len = 0\<rparr>"

definition any_cview_make :: "addr \<Rightarrow> size_t \<Rightarrow> any_cview" where
  "any_cview_make data len = \<lparr>any_cview_ptr = data, any_cview_len = len\<rparr>"

definition any_cview_of_array :: "size_t \<Rightarrow> addr \<Rightarrow> size_t \<Rightarrow> any_cview" where
  "any_cview_of_array sizeof_T array Count = \<lparr>any_cview_ptr = array, any_cview_len = sizeof_T * Count\<rparr>"

definition any_cview_of_object :: "size_t \<Rightarrow> addr \<Rightarrow> any_cview" where
  "any_cview_of_object sizeof_T ptr = \<lparr>any_cview_ptr = ptr, any_cview_len = sizeof_T\<rparr>"

definition any_cview_data :: "any_cview \<Rightarrow> addr" where
  "any_cview_data v = any_cview_ptr v"

definition any_cview_length :: "any_cview \<Rightarrow> size_t" where
  "any_cview_length v = any_cview_len v"

definition any_cview_empty :: "any_cview \<Rightarrow> bool" where
  "any_cview_empty v \<longleftrightarrow> any_cview_length v = 0"

definition any_cview_as_bytes :: "any_cview \<Rightarrow> byte_cspan" where
  "any_cview_as_bytes v = byte_cspan_make (any_cview_ptr v) (any_cview_len v)"

lemmas any_cview_defs =
  any_cview_default_def any_cview_make_def any_cview_of_array_def any_cview_of_object_def any_cview_data_def any_cview_length_def
  any_cview_empty_def any_cview_as_bytes_def

section \<open>\<open>any_view\<close>\<close>

record any_view =
  any_view_ptr :: addr
  any_view_len :: size_t

definition any_view_default :: any_view where
  "any_view_default = \<lparr>any_view_ptr = nullptr, any_view_len = 0\<rparr>"

definition any_view_make :: "addr \<Rightarrow> size_t \<Rightarrow> any_view" where
  "any_view_make data len = \<lparr>any_view_ptr = data, any_view_len = len\<rparr>"

definition any_view_of_array :: "size_t \<Rightarrow> addr \<Rightarrow> size_t \<Rightarrow> any_view" where
  "any_view_of_array sizeof_T array Count = \<lparr>any_view_ptr = array, any_view_len = sizeof_T * Count\<rparr>"

definition any_view_of_object :: "size_t \<Rightarrow> addr \<Rightarrow> any_view" where
  "any_view_of_object sizeof_T ptr = \<lparr>any_view_ptr = ptr, any_view_len = sizeof_T\<rparr>"

definition any_view_data :: "any_view \<Rightarrow> addr" where
  "any_view_data v = any_view_ptr v"

definition any_view_length :: "any_view \<Rightarrow> size_t" where
  "any_view_length v = any_view_len v"

definition any_view_empty :: "any_view \<Rightarrow> bool" where
  "any_view_empty v \<longleftrightarrow> any_view_length v = 0"

definition any_view_as_bytes :: "any_view \<Rightarrow> byte_cspan" where
  "any_view_as_bytes v = byte_cspan_make (any_view_ptr v) (any_view_len v)"

definition any_view_as_writeable_bytes :: "any_view \<Rightarrow> byte_span" where
  "any_view_as_writeable_bytes v = byte_span_make (any_view_ptr v) (any_view_len v)"

definition any_view_to_any_cview :: "any_view \<Rightarrow> any_cview" where
  "any_view_to_any_cview v = any_cview_make (any_view_data v) (any_view_length v)"

lemmas any_view_defs =
  any_view_default_def any_view_make_def any_view_of_array_def any_view_of_object_def any_view_data_def any_view_length_def
  any_view_empty_def any_view_as_bytes_def

lemma any_cview_of_object_sel [simp]:
  "any_cview_data (any_cview_of_object n p) = p" "any_cview_length (any_cview_of_object n p) = n"
  by (simp_all add: any_cview_defs)

lemma any_view_of_object_sel [simp]:
  "any_view_data (any_view_of_object n p) = p" "any_view_length (any_view_of_object n p) = n"
  by (simp_all add: any_view_defs)

text \<open>The bytes of a view are the bytes of its object, unless its pointer is null.\<close>

lemma any_cview_as_bytes_sel:
  "byte_cspan_data (any_cview_as_bytes v) = any_cview_data v"
  "byte_cspan_length (any_cview_as_bytes v) =
     (if any_cview_data v = nullptr then 0 else any_cview_length v)"
  by (simp_all add: any_cview_defs byte_cspan_defs)

lemma any_view_as_writeable_bytes_sel:
  "byte_span_data (any_view_as_writeable_bytes v) = any_view_data v"
  "byte_span_length (any_view_as_writeable_bytes v) =
     (if any_view_data v = nullptr then 0 else any_view_length v)"
  by (simp_all add: any_view_defs any_view_as_writeable_bytes_def byte_span_defs)

text \<open>
  Going through the read-only view, or through the writeable bytes and the conversion of
  spans, gives the same read-only bytes.
\<close>

lemma any_view_bytes_commute:
  "any_cview_as_bytes (any_view_to_any_cview v) = any_view_as_bytes v"
  "byte_span_to_byte_cspan (any_view_as_writeable_bytes v) = any_view_as_bytes v"
  by (simp_all add: any_cview_defs any_view_defs any_view_to_any_cview_def
      any_view_as_writeable_bytes_def byte_span_to_byte_cspan_def byte_span_defs byte_cspan_defs)

text \<open>A view of an array of \<open>Count\<close> objects that fits in memory covers all their bytes.\<close>

lemma any_view_of_array_length:
  assumes "unat sizeof_T * unat Count < 2 ^ 64"
  shows "unat (any_view_length (any_view_of_array sizeof_T array Count)) = unat sizeof_T * unat Count"
  using assms by (simp add: any_view_defs unat_word_ariths)

end
