(* ===== verification/Socket.thy ===== *)
theory Socket
  imports Object_Program View Memory Time
begin

text \<open>
  \<^verbatim>\<open>socket.hpp\<close> and \<^verbatim>\<open>socket.cpp\<close>: socket descriptors, the class \<open>socket\<close>, the typed values of the
  socket options and \<open>setsockopt\<close>, and the untyped \<open>unsafe_getsockopt\<close>.
\<close>

section \<open>Enumerations\<close>

text \<open>The argument says whether \<open>PPOSIX_LINUX_EXTENSION_ENABLED\<close> is on.\<close>

datatype socket_domain = Socket_domain (socket_domain_bits: c_int)

definition socket_domain_table :: "bool \<Rightarrow> enum_table" where
  "socket_domain_table linux_ext =
     [(''inet'', Macro ''AF_INET''), (''inet6'', Macro ''AF_INET6''),
      (''unix_'', Macro ''AF_UNIX''), (''unspecified'', Macro ''AF_UNSPEC'')] @
     (if linux_ext then
     [(''local'', Macro ''AF_LOCAL''), (''file'', Macro ''AF_FILE''),
      (''ax25'', Macro ''AF_AX25''), (''ipx'', Macro ''AF_IPX''),
      (''appletalk'', Macro ''AF_APPLETALK''), (''x25'', Macro ''AF_X25''),
      (''decnet'', Macro ''AF_DECnet''), (''key'', Macro ''AF_KEY''),
      (''netlink'', Macro ''AF_NETLINK''), (''packet'', Macro ''AF_PACKET''),
      (''rds'', Macro ''AF_RDS''), (''pppox'', Macro ''AF_PPPOX''), (''llc'', Macro ''AF_LLC''),
      (''ib'', Macro ''AF_IB''), (''mpls'', Macro ''AF_MPLS''), (''can'', Macro ''AF_CAN''),
      (''tipc'', Macro ''AF_TIPC''), (''bluetooth'', Macro ''AF_BLUETOOTH''),
      (''alg'', Macro ''AF_ALG''), (''vsock'', Macro ''AF_VSOCK''), (''kcm'', Macro ''AF_KCM''),
      (''xdp'', Macro ''AF_XDP'')]
      else [])"

datatype socket_type = Socket_type (socket_type_bits: c_int)

definition socket_type_table :: enum_table where
  "socket_type_table =
     [(''stream'', Macro ''SOCK_STREAM''), (''dgram'', Macro ''SOCK_DGRAM''),
      (''seqpacket'', Macro ''SOCK_SEQPACKET''), (''raw'', Macro ''SOCK_RAW'')]"

datatype socket_protocol = Socket_protocol (socket_protocol_bits: c_int)

definition socket_protocol_table :: enum_table where
  "socket_protocol_table =
     [(''ip'', Macro ''IPPROTO_IP''), (''icmp'', Macro ''IPPROTO_ICMP''),
      (''igmp'', Macro ''IPPROTO_IGMP''), (''tcp'', Macro ''IPPROTO_TCP''),
      (''pup'', Macro ''IPPROTO_PUP''), (''udp'', Macro ''IPPROTO_UDP''),
      (''idp'', Macro ''IPPROTO_IDP''), (''raw'', Macro ''IPPROTO_RAW'')]"

datatype socket_option = Socket_option (socket_option_bits: c_int)

definition socket_option_table :: "bool \<Rightarrow> enum_table" where
  "socket_option_table linux_ext =
     [(''acceptconn'', Macro ''SO_ACCEPTCONN''), (''broadcast'', Macro ''SO_BROADCAST''),
      (''debug'', Macro ''SO_DEBUG''), (''dontroute'', Macro ''SO_DONTROUTE''),
      (''error'', Macro ''SO_ERROR''), (''keepalive'', Macro ''SO_KEEPALIVE''),
      (''linger'', Macro ''SO_LINGER''), (''oobinline'', Macro ''SO_OOBINLINE''),
      (''rcvbuf'', Macro ''SO_RCVBUF''), (''rcvlowat'', Macro ''SO_RCVLOWAT''),
      (''rcvtimeo'', Macro ''SO_RCVTIMEO''), (''reuseaddr'', Macro ''SO_REUSEADDR''),
      (''sndbuf'', Macro ''SO_SNDBUF''), (''sndlowat'', Macro ''SO_SNDLOWAT''),
      (''sndtimeo'', Macro ''SO_SNDTIMEO''), (''type'', Macro ''SO_TYPE'')] @
     (if linux_ext then [(''zerocpy'', Macro ''SO_ZEROCOPY'')] else [])"

datatype socket_flag = Socket_flag (socket_flag_bits: c_uint)

definition socket_flag_table :: "bool \<Rightarrow> enum_table" where
  "socket_flag_table linux_ext =
     [(''none'', Literal 0)] @
     (if linux_ext then [(''closexec'', Macro ''SOCK_CLOEXEC''), (''nonblock'', Macro ''SOCK_NONBLOCK'')] else [])"

definition socket_flag_or :: "socket_flag \<Rightarrow> socket_flag \<Rightarrow> socket_flag" where
  "socket_flag_or lhs rhs = Socket_flag (socket_flag_bits lhs OR socket_flag_bits rhs)"

interpretation socket_flag: flag_enum socket_flag_bits Socket_flag socket_flag_or
  by unfold_locales (simp_all add: socket_flag_or_def)

datatype socket_level = Socket_level (socket_level_bits: c_int)

definition socket_level_table :: enum_table where
  "socket_level_table =
     [(''socket'', Macro ''SOL_SOCKET''), (''ip'', Macro ''IPPROTO_IP''),
      (''ipv6'', Macro ''IPPROTO_IPV6''), (''icmp'', Macro ''IPPROTO_ICMP''),
      (''raw'', Macro ''IPPROTO_RAW''), (''tcp'', Macro ''IPPROTO_TCP''),
      (''udp'', Macro ''IPPROTO_UDP'')]"

text \<open>The enumerator \<open>socket_option::name\<close>; the names used in \<^verbatim>\<open>socket.cpp\<close> need no extension.\<close>

definition socket_option_value :: "headers \<Rightarrow> string \<Rightarrow> socket_option" where
  "socket_option_value hdr name = Socket_option (the (enumerator hdr (socket_option_table False) name))"

section \<open>Socket descriptors\<close>

datatype socket_fd = Socket_fd (socket_fd_value: c_int)

definition close_socket :: "'k posix \<Rightarrow> ('k, socket_fd) close_policy" where
  "close_socket sys fd = common_call (sys_close sys (socket_fd_value fd))"

definition unique_socket_fd_null :: socket_fd where
  "unique_socket_fd_null = Socket_fd (-1)"

interpretation socket_policy: close_policy unique_socket_fd_null "close_socket sys"
    "\<lambda>fd. sys_close sys (socket_fd_value fd)" for sys
  by unfold_locales (rule close_socket_def)

section \<open>Typed option values\<close>

text \<open>\<open>socket_linger\<close> wraps a \<open>struct linger\<close>.\<close>

record socket_linger =
  linger_struct :: c_linger

definition socket_linger_default :: socket_linger where
  "socket_linger_default = \<lparr>linger_struct = \<lparr>l_onoff = 0, l_linger = 0\<rparr>\<rparr>"

definition socket_linger_of :: "c_linger \<Rightarrow> socket_linger" where
  "socket_linger_of l = \<lparr>linger_struct = l\<rparr>"

definition socket_linger_of_seconds :: "seconds \<Rightarrow> socket_linger" where
  "socket_linger_of_seconds duration =
     \<lparr>linger_struct = \<lparr>l_onoff = 1, l_linger = seconds_count duration\<rparr>\<rparr>"

definition socket_linger_make :: "bool \<Rightarrow> seconds \<Rightarrow> socket_linger" where
  "socket_linger_make enabled duration =
     \<lparr>linger_struct = \<lparr>l_onoff = (if enabled then 1 else 0), l_linger = seconds_count duration\<rparr>\<rparr>"

definition socket_linger_get :: "socket_linger \<Rightarrow> c_linger" where
  "socket_linger_get this = linger_struct this"

definition socket_linger_enabled :: "socket_linger \<Rightarrow> bool" where
  "socket_linger_enabled this \<longleftrightarrow> l_onoff (linger_struct this) = 1"

definition socket_linger_duration :: "socket_linger \<Rightarrow> seconds" where
  "socket_linger_duration this = Seconds (l_linger (linger_struct this))"

text \<open>\<open>socket_rcvtimeo\<close> and \<open>socket_sndtimeo\<close> wrap a \<open>struct timeval\<close>.\<close>

record socket_rcvtimeo =
  rcv_timeout :: c_timeval

definition socket_rcvtimeo_default :: socket_rcvtimeo where
  "socket_rcvtimeo_default = \<lparr>rcv_timeout = \<lparr>tv_sec = 0, tv_usec = 0\<rparr>\<rparr>"

definition socket_rcvtimeo_of_seconds :: "seconds \<Rightarrow> socket_rcvtimeo" where
  "socket_rcvtimeo_of_seconds s =
     \<lparr>rcv_timeout = \<lparr>tv_sec = scast (seconds_count s), tv_usec = 0\<rparr>\<rparr>"

definition socket_rcvtimeo_make :: "seconds \<Rightarrow> microseconds \<Rightarrow> socket_rcvtimeo" where
  "socket_rcvtimeo_make s us =
     \<lparr>rcv_timeout = \<lparr>tv_sec = scast (seconds_count s), tv_usec = scast (microseconds_count us)\<rparr>\<rparr>"

definition socket_rcvtimeo_get :: "socket_rcvtimeo \<Rightarrow> c_timeval" where
  "socket_rcvtimeo_get this = rcv_timeout this"

definition socket_rcvtimeo_seconds :: "socket_rcvtimeo \<Rightarrow> seconds" where
  "socket_rcvtimeo_seconds this = Seconds (ucast (tv_sec (rcv_timeout this)))"

definition socket_rcvtimeo_microseconds :: "socket_rcvtimeo \<Rightarrow> microseconds" where
  "socket_rcvtimeo_microseconds this = Microseconds (ucast (tv_usec (rcv_timeout this)))"

record socket_sndtimeo =
  snd_timeout :: c_timeval

definition socket_sndtimeo_default :: socket_sndtimeo where
  "socket_sndtimeo_default = \<lparr>snd_timeout = \<lparr>tv_sec = 0, tv_usec = 0\<rparr>\<rparr>"

definition socket_sndtimeo_of_seconds :: "seconds \<Rightarrow> socket_sndtimeo" where
  "socket_sndtimeo_of_seconds s =
     \<lparr>snd_timeout = \<lparr>tv_sec = scast (seconds_count s), tv_usec = 0\<rparr>\<rparr>"

definition socket_sndtimeo_make :: "seconds \<Rightarrow> microseconds \<Rightarrow> socket_sndtimeo" where
  "socket_sndtimeo_make s us =
     \<lparr>snd_timeout = \<lparr>tv_sec = scast (seconds_count s), tv_usec = scast (microseconds_count us)\<rparr>\<rparr>"

definition socket_sndtimeo_get :: "socket_sndtimeo \<Rightarrow> c_timeval" where
  "socket_sndtimeo_get this = snd_timeout this"

definition socket_sndtimeo_seconds :: "socket_sndtimeo \<Rightarrow> seconds" where
  "socket_sndtimeo_seconds this = Seconds (ucast (tv_sec (snd_timeout this)))"

definition socket_sndtimeo_microseconds :: "socket_sndtimeo \<Rightarrow> microseconds" where
  "socket_sndtimeo_microseconds this = Microseconds (ucast (tv_usec (snd_timeout this)))"

text \<open>The contract of the two timeout classes.\<close>

locale timeout_class =
  fixes make :: "seconds \<Rightarrow> microseconds \<Rightarrow> 't"
    and of_seconds :: "seconds \<Rightarrow> 't"
    and get :: "'t \<Rightarrow> c_timeval"
    and secs :: "'t \<Rightarrow> seconds"
    and usecs :: "'t \<Rightarrow> microseconds"
  assumes get_make: "get (make s us) =
      \<lparr>tv_sec = scast (seconds_count s), tv_usec = scast (microseconds_count us)\<rparr>"
    and of_seconds_eq: "of_seconds s = make s (Microseconds 0)"
    and secs_eq: "secs t = Seconds (ucast (tv_sec (get t)))"
    and usecs_eq: "usecs t = Microseconds (ucast (tv_usec (get t)))"
begin

lemma secs_make: "secs (make s us) = s"
  by (cases s) (simp add: secs_eq get_make)

lemma usecs_make: "usecs (make s us) = us"
  by (cases us) (simp add: usecs_eq get_make)

lemma of_seconds_sel: "secs (of_seconds s) = s" "usecs (of_seconds s) = Microseconds 0"
  by (simp_all add: of_seconds_eq secs_make usecs_make)

lemma make_inject: "make s us = make s' us' \<longleftrightarrow> s = s' \<and> us = us'"
  by (metis secs_make usecs_make)

text \<open>The structure handed to the system has the sign of the durations.\<close>

lemma get_make_sint:
  "sint (tv_sec (get (make s us))) = sint (seconds_count s)"
  "sint (tv_usec (get (make s us))) = sint (microseconds_count us)"
  by (simp_all add: get_make)

end

interpretation rcvtimeo: timeout_class socket_rcvtimeo_make socket_rcvtimeo_of_seconds
    socket_rcvtimeo_get socket_rcvtimeo_seconds socket_rcvtimeo_microseconds
  by unfold_locales
    (simp_all add: socket_rcvtimeo_make_def socket_rcvtimeo_of_seconds_def socket_rcvtimeo_get_def
      socket_rcvtimeo_seconds_def socket_rcvtimeo_microseconds_def)

interpretation sndtimeo: timeout_class socket_sndtimeo_make socket_sndtimeo_of_seconds
    socket_sndtimeo_get socket_sndtimeo_seconds socket_sndtimeo_microseconds
  by unfold_locales
    (simp_all add: socket_sndtimeo_make_def socket_sndtimeo_of_seconds_def socket_sndtimeo_get_def
      socket_sndtimeo_seconds_def socket_sndtimeo_microseconds_def)

section \<open>The class\<close>

record socket =
  socket_descriptor :: "socket_fd descriptor"

text \<open>
  The constructor takes its parameter by value and moves it into the member; the parameter, now
  empty, is destroyed.
\<close>

definition socket_of :: "'k posix \<Rightarrow> socket_fd descriptor \<Rightarrow> ('k, socket) io" where
  "socket_of sys fd = do {
     let (member, fd') = descriptor_move unique_socket_fd_null fd;
     descriptor_destroy (close_socket sys) unique_socket_fd_null fd';
     State_Monad.return \<lparr>socket_descriptor = member\<rparr>
   }"

text \<open>
  The default constructor leaves the member empty, the defaulted move constructor moves it; the
  implicit destructor destroys it.
\<close>

definition socket_default :: socket where
  "socket_default = \<lparr>socket_descriptor = descriptor_default unique_socket_fd_null\<rparr>"

definition socket_move :: "socket \<Rightarrow> socket \<times> socket" where
  "socket_move other =
     (let (member, other') = descriptor_move unique_socket_fd_null (socket_descriptor other)
      in (\<lparr>socket_descriptor = member\<rparr>, \<lparr>socket_descriptor = other'\<rparr>))"

text \<open>The defaulted move assignment, undefined like \<open>descriptor_move_assign\<close> of the member.\<close>

definition socket_move_assign :: "socket \<Rightarrow> socket \<Rightarrow> (socket \<times> socket) \<times> socket option" where
  "socket_move_assign this other =
     (let ((member, member'), returned) = descriptor_move_assign (socket_descriptor this) (socket_descriptor other);
          this' = this\<lparr>socket_descriptor := member\<rparr>
      in ((this', other\<lparr>socket_descriptor := member'\<rparr>), map_option (\<lambda>_. this') returned))"

lemma socket_move_assign_eq: "socket_move_assign this other = ((other, this), None)"
  by (cases this; cases other) (simp add: socket_move_assign_def descriptor_move_assign_eq)

definition socket_destroy :: "'k posix \<Rightarrow> socket \<Rightarrow> ('k, unit) io" where
  "socket_destroy sys this =
     descriptor_destroy (close_socket sys) unique_socket_fd_null (socket_descriptor this)"

text \<open>\<open>return socket{...};\<close> then moves the temporary \<open>socket\<close> into the \<open>result\<close>.\<close>

definition socket_unsafe_make ::
  "'k posix \<Rightarrow> socket_domain \<Rightarrow> socket_type \<Rightarrow> socket_flag \<Rightarrow> socket_protocol \<Rightarrow>
   ('k, socket result) io" where
  "socket_unsafe_make sys domn typ flags prot = do {
     sock \<leftarrow> sys_socket sys (socket_domain_bits domn)
       (socket_type_bits typ OR socket_flag_bits flags) (socket_protocol_bits prot);
     if sock = -1
     then do { ec \<leftarrow> current_errno_code; State_Monad.return (Error ec) }
     else do {
       tmp \<leftarrow> socket_of sys (descriptor_of (Socket_fd sock));
       d \<leftarrow> descriptor_into_result (close_socket sys) unique_socket_fd_null (socket_descriptor tmp);
       State_Monad.return (Value \<lparr>socket_descriptor = d\<rparr>)
     }
   }"

section \<open>Setting options\<close>

text \<open>
  \<open>::setsockopt\<close> takes the length as a \<open>socklen_t\<close>, so the \<open>size_t\<close> of the view is converted to 32
  bits.
\<close>

definition socket_unsafe_setsockopt ::
  "'k posix \<Rightarrow> socket \<Rightarrow> socket_level \<Rightarrow> socket_option \<Rightarrow> any_cview \<Rightarrow> ('k, error_code) io" where
  "socket_unsafe_setsockopt sys this l o' val =
     common_call (sys_setsockopt sys
       (socket_fd_value (descriptor_deref (socket_descriptor this)))
       (socket_level_bits l) (socket_option_bits o') (any_cview_data val)
       (ucast (any_cview_length val)))"

text \<open>
  \<open>slot\<close> is the address of the parameter that holds the value while the system reads it.
\<close>

definition socket_setsockopt_int ::
  "'k posix \<Rightarrow> addr \<Rightarrow> socket \<Rightarrow> socket_level \<Rightarrow> socket_option \<Rightarrow> c_int \<Rightarrow> ('k, error_code) io" where
  "socket_setsockopt_int sys slot this l o' i = do {
     store_local slot (int_bytes i);
     socket_unsafe_setsockopt sys this l o' (any_cview_of_object 4 slot)
   }"

definition socket_setsockopt_bool ::
  "'k posix \<Rightarrow> addr \<Rightarrow> socket \<Rightarrow> socket_level \<Rightarrow> socket_option \<Rightarrow> bool \<Rightarrow> ('k, error_code) io" where
  "socket_setsockopt_bool sys slot this l o' b =
     socket_setsockopt_int sys slot this l o' (if b then 1 else 0)"

text \<open>The argument types of the thirteen overloads of \<open>setsockopt\<close>.\<close>

datatype sockopt_value =
    Socket_debug bool
  | Socket_broadcast bool
  | Socket_reuseaddr bool
  | Socket_keepalive bool
  | Socket_linger socket_linger
  | Socket_oobinline bool
  | Socket_sndbuf c_int
  | Socket_rcvbuf c_int
  | Socket_dontroute bool
  | Socket_rcvlowat c_int
  | Socket_rcvtimeo socket_rcvtimeo
  | Socket_sndlowat c_int
  | Socket_sndtimeo socket_sndtimeo

definition linger_bytes :: "c_linger \<Rightarrow> byte list" where
  "linger_bytes l = int_bytes (l_onoff l) @ int_bytes (l_linger l)"

definition timeval_bytes :: "c_timeval \<Rightarrow> byte list" where
  "timeval_bytes t = long_bytes (tv_sec t) @ long_bytes (tv_usec t)"

fun socket_setsockopt ::
  "headers \<Rightarrow> 'k posix \<Rightarrow> addr \<Rightarrow> socket \<Rightarrow> socket_level \<Rightarrow> sockopt_value \<Rightarrow> ('k, error_code) io" where
  "socket_setsockopt hdr sys slot this l (Socket_debug d) =
     socket_setsockopt_bool sys slot this l (socket_option_value hdr ''debug'') d"
| "socket_setsockopt hdr sys slot this l (Socket_broadcast b) =
     socket_setsockopt_bool sys slot this l (socket_option_value hdr ''broadcast'') b"
| "socket_setsockopt hdr sys slot this l (Socket_reuseaddr r) =
     socket_setsockopt_bool sys slot this l (socket_option_value hdr ''reuseaddr'') r"
| "socket_setsockopt hdr sys slot this l (Socket_keepalive k) =
     socket_setsockopt_bool sys slot this l (socket_option_value hdr ''keepalive'') k"
| "socket_setsockopt hdr sys slot this l (Socket_linger lin) = do {
     store_local slot (linger_bytes (socket_linger_get lin));
     socket_unsafe_setsockopt sys this l (socket_option_value hdr ''linger'')
       (any_cview_of_object 8 slot)
   }"
| "socket_setsockopt hdr sys slot this l (Socket_oobinline o') =
     socket_setsockopt_bool sys slot this l (socket_option_value hdr ''oobinline'') o'"
| "socket_setsockopt hdr sys slot this l (Socket_sndbuf s) =
     socket_setsockopt_int sys slot this l (socket_option_value hdr ''sndbuf'') s"
| "socket_setsockopt hdr sys slot this l (Socket_rcvbuf r) =
     socket_setsockopt_int sys slot this l (socket_option_value hdr ''rcvbuf'') r"
| "socket_setsockopt hdr sys slot this l (Socket_dontroute d) =
     socket_setsockopt_bool sys slot this l (socket_option_value hdr ''dontroute'') d"
| "socket_setsockopt hdr sys slot this l (Socket_rcvlowat r) =
     socket_setsockopt_int sys slot this l (socket_option_value hdr ''rcvlowat'') r"
| "socket_setsockopt hdr sys slot this l (Socket_rcvtimeo r) = do {
     store_local slot (timeval_bytes (socket_rcvtimeo_get r));
     socket_unsafe_setsockopt sys this l (socket_option_value hdr ''rcvtimeo'')
       (any_cview_of_object 16 slot)
   }"
| "socket_setsockopt hdr sys slot this l (Socket_sndlowat s) =
     socket_setsockopt_int sys slot this l (socket_option_value hdr ''sndlowat'') s"
| "socket_setsockopt hdr sys slot this l (Socket_sndtimeo r) = do {
     store_local slot (timeval_bytes (socket_sndtimeo_get r));
     socket_unsafe_setsockopt sys this l (socket_option_value hdr ''sndtimeo'')
       (any_cview_of_object 16 slot)
   }"

section \<open>Getting options\<close>

text \<open>
  The view's length is compared with the largest \<open>socklen_t\<close> before it is converted.
  \<open>std::errc::value_too_large\<close> has the value of \<open>EOVERFLOW\<close>.
\<close>

definition socket_unsafe_getsockopt ::
  "headers \<Rightarrow> 'k posix \<Rightarrow> socket \<Rightarrow> socket_level \<Rightarrow> socket_option \<Rightarrow> any_view \<Rightarrow>
   ('k, socklen_t result) io" where
  "socket_unsafe_getsockopt hdr sys this l o' val =
     (if any_view_length val > ucast (-1 :: socklen_t)
      then State_Monad.return (Error (make_errno_code (hdr ''EOVERFLOW'')))
      else do {
        (error, len) \<leftarrow> sys_getsockopt sys
          (socket_fd_value (descriptor_deref (socket_descriptor this)))
          (socket_level_bits l) (socket_option_bits o') (any_view_data val)
          (ucast (any_view_length val));
        if error = -1
        then do { ec \<leftarrow> current_errno_code; State_Monad.return (Error ec) }
        else State_Monad.return (Value len)
      })"

section \<open>What setsockopt hands to the system\<close>

text \<open>The specification: each option's macro, and its value as the system's documentation lays it out.\<close>

fun sockopt_macro :: "sockopt_value \<Rightarrow> string" where
  "sockopt_macro (Socket_debug _) = ''SO_DEBUG''"
| "sockopt_macro (Socket_broadcast _) = ''SO_BROADCAST''"
| "sockopt_macro (Socket_reuseaddr _) = ''SO_REUSEADDR''"
| "sockopt_macro (Socket_keepalive _) = ''SO_KEEPALIVE''"
| "sockopt_macro (Socket_linger _) = ''SO_LINGER''"
| "sockopt_macro (Socket_oobinline _) = ''SO_OOBINLINE''"
| "sockopt_macro (Socket_sndbuf _) = ''SO_SNDBUF''"
| "sockopt_macro (Socket_rcvbuf _) = ''SO_RCVBUF''"
| "sockopt_macro (Socket_dontroute _) = ''SO_DONTROUTE''"
| "sockopt_macro (Socket_rcvlowat _) = ''SO_RCVLOWAT''"
| "sockopt_macro (Socket_rcvtimeo _) = ''SO_RCVTIMEO''"
| "sockopt_macro (Socket_sndlowat _) = ''SO_SNDLOWAT''"
| "sockopt_macro (Socket_sndtimeo _) = ''SO_SNDTIMEO''"

definition bool_bytes :: "bool \<Rightarrow> byte list" where
  "bool_bytes b = [if b then 1 else 0, 0, 0, 0]"

fun sockopt_bytes :: "sockopt_value \<Rightarrow> byte list" where
  "sockopt_bytes (Socket_debug b) = bool_bytes b"
| "sockopt_bytes (Socket_broadcast b) = bool_bytes b"
| "sockopt_bytes (Socket_reuseaddr b) = bool_bytes b"
| "sockopt_bytes (Socket_keepalive b) = bool_bytes b"
| "sockopt_bytes (Socket_linger l) = linger_bytes (linger_struct l)"
| "sockopt_bytes (Socket_oobinline b) = bool_bytes b"
| "sockopt_bytes (Socket_sndbuf i) = int_bytes i"
| "sockopt_bytes (Socket_rcvbuf i) = int_bytes i"
| "sockopt_bytes (Socket_dontroute b) = bool_bytes b"
| "sockopt_bytes (Socket_rcvlowat i) = int_bytes i"
| "sockopt_bytes (Socket_rcvtimeo t) = timeval_bytes (rcv_timeout t)"
| "sockopt_bytes (Socket_sndlowat i) = int_bytes i"
| "sockopt_bytes (Socket_sndtimeo t) = timeval_bytes (snd_timeout t)"

lemma int_bytes_bool: "int_bytes (if b then 1 else 0) = bool_bytes b"
  by (cases b) (simp_all add: int_bytes_def bool_bytes_def upt_rec)

lemma length_sockopt_bytes: "length (sockopt_bytes v) \<le> 16"
  by (cases v) (simp_all add: bool_bytes_def linger_bytes_def timeval_bytes_def)

lemma socket_option_value_simps [simp]:
  "socket_option_value hdr ''debug'' = Socket_option (hdr ''SO_DEBUG'')"
  "socket_option_value hdr ''broadcast'' = Socket_option (hdr ''SO_BROADCAST'')"
  "socket_option_value hdr ''reuseaddr'' = Socket_option (hdr ''SO_REUSEADDR'')"
  "socket_option_value hdr ''keepalive'' = Socket_option (hdr ''SO_KEEPALIVE'')"
  "socket_option_value hdr ''linger'' = Socket_option (hdr ''SO_LINGER'')"
  "socket_option_value hdr ''oobinline'' = Socket_option (hdr ''SO_OOBINLINE'')"
  "socket_option_value hdr ''sndbuf'' = Socket_option (hdr ''SO_SNDBUF'')"
  "socket_option_value hdr ''rcvbuf'' = Socket_option (hdr ''SO_RCVBUF'')"
  "socket_option_value hdr ''dontroute'' = Socket_option (hdr ''SO_DONTROUTE'')"
  "socket_option_value hdr ''rcvlowat'' = Socket_option (hdr ''SO_RCVLOWAT'')"
  "socket_option_value hdr ''rcvtimeo'' = Socket_option (hdr ''SO_RCVTIMEO'')"
  "socket_option_value hdr ''sndlowat'' = Socket_option (hdr ''SO_SNDLOWAT'')"
  "socket_option_value hdr ''sndtimeo'' = Socket_option (hdr ''SO_SNDTIMEO'')"
  by (simp_all add: socket_option_value_def socket_option_table_def enumerator_def)

lemma run_unsafe_setsockopt [run_simps]:
  "run_state (socket_unsafe_setsockopt sys s l o' v) w =
     (let (r, w') = run_state (sys_setsockopt sys
            (socket_fd_value (raw_descriptor (socket_descriptor s))) (socket_level_bits l)
            (socket_option_bits o') (any_cview_data v) (ucast (any_cview_length v))) w
      in (if r = -1 then make_errno_code (errno_of w') else no_error, w'))"
  by (simp add: socket_unsafe_setsockopt_def run_simps)

text \<open>
  Every overload stores the value's bytes in its parameter and makes one system call with the
  option's macro, the parameter's address and the size of the value.
\<close>

definition setsockopt_request ::
  "headers \<Rightarrow> 'k posix \<Rightarrow> addr \<Rightarrow> socket \<Rightarrow> socket_level \<Rightarrow> sockopt_value \<Rightarrow> ('k, c_int) io" where
  "setsockopt_request hdr sys slot s l v =
     sys_setsockopt sys (socket_fd_value (raw_descriptor (socket_descriptor s)))
       (socket_level_bits l) (hdr (sockopt_macro v)) slot (of_nat (length (sockopt_bytes v)))"

lemma run_setsockopt:
  "run_state (socket_setsockopt hdr sys slot s l v) w =
     run_state (common_call (setsockopt_request hdr sys slot s l v))
       (w\<lparr>mem_of := store_bytes slot (sockopt_bytes v) (mem_of w)\<rparr>)"
  by (cases v)
    (simp_all add: setsockopt_request_def socket_setsockopt_bool_def socket_setsockopt_int_def
      run_simps int_bytes_bool socket_linger_get_def socket_rcvtimeo_get_def socket_sndtimeo_get_def
      bool_bytes_def linger_bytes_def timeval_bytes_def)

lemma run_unsafe_getsockopt [run_simps]:
  "run_state (socket_unsafe_getsockopt hdr sys s l o' v) w =
     (if 2 ^ 32 \<le> unat (any_view_length v)
      then (Error (make_errno_code (hdr ''EOVERFLOW'')), w)
      else let ((r, n), w') = run_state (sys_getsockopt sys
             (socket_fd_value (raw_descriptor (socket_descriptor s))) (socket_level_bits l)
             (socket_option_bits o') (any_view_data v) (ucast (any_view_length v))) w
           in (if r = -1 then Error (make_errno_code (errno_of w')) else Value n, w'))"
proof -
  have "any_view_length v > ucast (-1 :: socklen_t) \<longleftrightarrow> 2 ^ 32 \<le> unat (any_view_length v)"
    by (auto simp: word_less_nat_alt unsigned_minus_1_eq_mask mask_eq_exp_minus_1)
  then show ?thesis
    by (simp add: socket_unsafe_getsockopt_def case_prod_beta Let_def)
qed

lemma run_socket_unsafe_make [run_simps]:
  "run_state (socket_unsafe_make sys domn typ flags prot) w =
     (let (r, w1) = run_state (sys_socket sys (socket_domain_bits domn)
            (socket_type_bits typ OR socket_flag_bits flags) (socket_protocol_bits prot)) w
      in if r = -1 then (Error (make_errno_code (errno_of w1)), w1)
         else (Value \<lparr>socket_descriptor = descriptor_of (Socket_fd r)\<rparr>,
           snd (run_state (close_socket sys unique_socket_fd_null)
             (snd (run_state (close_socket sys unique_socket_fd_null) w1)))))"
  by (simp add: socket_unsafe_make_def socket_of_def run_simps)

interpretation socket_opening: owner_open unique_socket_fd_null "close_socket sys"
    "\<lambda>fd. sys_close sys (socket_fd_value fd)" 2 "handle_unless (-1) Socket_fd"
    "\<lambda>d. \<lparr>socket_descriptor = d\<rparr>"
    "\<lambda>(domn, typ, flags, prot). sys_socket sys (socket_domain_bits domn)
       (socket_type_bits typ OR socket_flag_bits flags) (socket_protocol_bits prot)"
    "\<lambda>(domn, typ, flags, prot). socket_unsafe_make sys domn typ flags prot" for sys
  by unfold_locales (auto simp: run_simps handle_unless_def numeral_2_eq_2)

section \<open>Properties\<close>

text \<open>\<open>socket\<close> gives descriptor 3.\<close>

definition demo_socket_posix :: "socket_fd set posix" where
  "demo_socket_posix = stub_posix
     \<lparr>sys_close := (\<lambda>fd. table_close (Socket_fd fd)),
      sys_socket := (\<lambda>_ _ _. table_open (Socket_fd 3) 3 (-1))\<rparr>"

lemma demo_socket_table:
  "handle_table (\<lambda>fd. sys_close demo_socket_posix (socket_fd_value fd))
     (\<lambda>k. k - {unique_socket_fd_null}) unique_socket_fd_null"
  using handle_table_close [of unique_socket_fd_null] by (simp add: demo_socket_posix_def)

lemma demo_socket_open:
  "documented_open (sys_socket demo_socket_posix a b c) (handle_unless (-1) Socket_fd)
     (\<lambda>k. k - {unique_socket_fd_null})"
  using documented_table_open [of "3 :: c_int" "-1" Socket_fd "Socket_fd 3" unique_socket_fd_null]
  by (simp add: demo_socket_posix_def unique_socket_fd_null_def)

text \<open>
  C6.  \<open>socket::unsafe_make\<close> returns a \<open>socket\<close> that owns a new descriptor, or an error code with
  \<open>errno\<close> of the call and no change to the open descriptors; the two closes of null descriptors
  on the way (of the moved-from parameter and of the moved-from temporary) change no descriptor.
\<close>

theorem socket_unsafe_make_opens:
  assumes "handle_table (\<lambda>fd. sys_close sys (socket_fd_value fd)) opened unique_socket_fd_null"
    and "documented_open (sys_socket sys (socket_domain_bits domn)
      (socket_type_bits typ OR socket_flag_bits flags) (socket_protocol_bits prot))
      (handle_unless (-1) Socket_fd) opened"
    and "run_state (socket_unsafe_make sys domn typ flags prot) w = (res, w')"
  shows "opens_owner opened (\<lambda>d. \<lparr>socket_descriptor = d\<rparr>) w res w'"
  using socket_opening.open_spec [where a = "(domn, typ, flags, prot)", OF assms(1)] assms(2,3)
  by simp

theorem socket_unsafe_make_opens_witness:
  "opens_owner (\<lambda>k. k - {unique_socket_fd_null}) (\<lambda>d. \<lparr>socket_descriptor = d\<rparr>) (table_world {})
    (Value \<lparr>socket_descriptor = descriptor_of (Socket_fd 3)\<rparr>)
    ((table_world {Socket_fd 3})\<lparr>errno_of := 9\<rparr>)"
proof -
  have "run_state (socket_unsafe_make demo_socket_posix (Socket_domain 2) (Socket_type 1)
      (Socket_flag 0) (Socket_protocol 0)) (table_world {}) =
    (Value \<lparr>socket_descriptor = descriptor_of (Socket_fd 3)\<rparr>,
     (table_world {Socket_fd 3})\<lparr>errno_of := 9\<rparr>)"
    by (simp add: run_simps demo_socket_posix_def close_socket_def unique_socket_fd_null_def
        table_world_def)
  then show ?thesis
    by (rule socket_unsafe_make_opens [OF demo_socket_table demo_socket_open])
qed

text \<open>
  C24.  \<open>unsafe_getsockopt\<close> never truncates the length of its view: a view of 4 GiB or more is
  rejected with \<open>EOVERFLOW\<close> before the system is called, and for any other view the system is
  given exactly its length; the length that the system reports is the result.
\<close>

theorem socket_unsafe_getsockopt_length:
  "if 2 ^ 32 \<le> unat (any_view_length v)
   then run_state (socket_unsafe_getsockopt hdr sys s l o' v) w =
     (Error (make_errno_code (hdr ''EOVERFLOW'')), w)
   else \<exists>n :: socklen_t. unat n = unat (any_view_length v) \<and>
     run_state (socket_unsafe_getsockopt hdr sys s l o' v) w =
       (let ((r, m), w') = run_state (sys_getsockopt sys
              (socket_fd_value (raw_descriptor (socket_descriptor s))) (socket_level_bits l)
              (socket_option_bits o') (any_view_data v) n) w
        in (if r = -1 then Error (make_errno_code (errno_of w')) else Value m, w'))"
proof (cases "2 ^ 32 \<le> unat (any_view_length v)")
  case False
  then have "unat (ucast (any_view_length v) :: socklen_t) = unat (any_view_length v)"
    by (simp add: unsigned_ucast_eq take_bit_nat_eq_self)
  with False show ?thesis
    by (auto simp: run_unsafe_getsockopt)
qed (simp add: run_unsafe_getsockopt)

text \<open>
  \<open>unsafe_setsockopt\<close> has no such test: the system is given the length of the view modulo
  \<open>2 ^ 32\<close>.
\<close>

lemma socket_unsafe_setsockopt_length:
  "\<exists>n :: socklen_t. unat n = unat (any_cview_length v) mod 2 ^ 32 \<and>
     socket_unsafe_setsockopt sys s l o' v =
       common_call (sys_setsockopt sys (socket_fd_value (raw_descriptor (socket_descriptor s)))
         (socket_level_bits l) (socket_option_bits o') (any_cview_data v) n)"
proof -
  have "unat (ucast (any_cview_length v) :: socklen_t) = unat (any_cview_length v) mod 2 ^ 32"
    by (simp add: unsigned_ucast_eq take_bit_eq_mod)
  then show ?thesis
    by (auto simp: socket_unsafe_setsockopt_def)
qed

end
