(* ===== verification/Sockopt.thy ===== *)
theory Sockopt
  imports Socket
begin

text \<open>
  \<^verbatim>\<open>socket.hpp\<close>: reading socket options, and what setting one means to the system.  Of the member
  templates that read an option, \<open>getsockopt_int\<close> and \<open>getsockopt_struct\<close> are modelled by their bodies
  (as everywhere, apart from the assertion in \<open>result_map\<close>, see \<open>result_map_accepts\<close>).  Not
  modelled are \<open>getsockopt_bool\<close>, which returns a
  \<open>result<Result>\<close> for a declared \<open>result<bool>\<close>, and the dispatch \<open>getsockopt<T>\<close>, whose branches are not
  \<open>constexpr\<close>: no instance of either is well-formed.  What reads options is \<open>unsafe_getsockopt\<close>.
\<close>

section \<open>The templates\<close>

text \<open>The local variable \<open>val\<close> lives at the address \<open>slot\<close> and starts as zero.\<close>

definition socket_getsockopt_int ::
  "headers \<Rightarrow> 'k posix \<Rightarrow> addr \<Rightarrow> socket \<Rightarrow> socket_level \<Rightarrow> socket_option \<Rightarrow> (c_int \<Rightarrow> 'r) \<Rightarrow>
   ('k, 'r result) io" where
  "socket_getsockopt_int hdr sys slot this l o' Result = do {
     store_local slot (int_bytes 0);
     res \<leftarrow> socket_unsafe_getsockopt hdr sys this l o' (any_view_of_object 4 slot);
     w \<leftarrow> State_Monad.get;
     State_Monad.return
       (result_map res (\<lambda>_. Result (bytes_value (load_bytes slot 4 (mem_of w)))))
   }"

text \<open>For a class: the bytes of the default value, and the object that bytes represent.\<close>

definition socket_getsockopt_struct ::
  "headers \<Rightarrow> 'k posix \<Rightarrow> addr \<Rightarrow> socket \<Rightarrow> socket_level \<Rightarrow> socket_option \<Rightarrow> byte list \<Rightarrow>
   (byte list \<Rightarrow> 'r) \<Rightarrow> ('k, 'r result) io" where
  "socket_getsockopt_struct hdr sys slot this l o' init Result = do {
     store_local slot init;
     res \<leftarrow> socket_unsafe_getsockopt hdr sys this l o'
       (any_view_of_object (of_nat (length init)) slot);
     w \<leftarrow> State_Monad.get;
     State_Monad.return (result_map res (\<lambda>_. Result (load_bytes slot (length init) (mem_of w))))
   }"

section \<open>Specification\<close>

lemma bool_bytes_value [simp]: "bytes_value (bool_bytes b) = (if b then 1 else 0 :: c_int)"
  by (metis int_bytes_bool bytes_value_int)

text \<open>An instance zeroes its local and makes one system call.\<close>

definition zero_local :: "addr \<Rightarrow> nat \<Rightarrow> 'k world \<Rightarrow> 'k world" where
  "zero_local slot n w = w\<lparr>mem_of := store_bytes slot (replicate n 0) (mem_of w)\<rparr>"

lemma int_bytes_0: "int_bytes 0 = replicate 4 0"
  by (simp add: int_bytes_def upt_rec numeral_eq_Suc)

lemma run_getsockopt_int:
  "run_state (socket_getsockopt_int hdr sys slot s l o' R) w =
     (let ((r, n), w') = run_state (sys_getsockopt sys
          (socket_fd_value (raw_descriptor (socket_descriptor s))) (socket_level_bits l)
          (socket_option_bits o') slot 4) (zero_local slot 4 w)
      in (if r = -1 then Error (make_errno_code (errno_of w'))
          else Value (R (bytes_value (load_bytes slot 4 (mem_of w')))), w'))"
  by (simp add: socket_getsockopt_int_def run_simps zero_local_def int_bytes_0)

section \<open>A system that stores options\<close>

text \<open>
  The documentation of the two calls: a successful \<open>setsockopt\<close> stores the bytes that it is given
  as the value of the option for that socket and level, and a successful \<open>getsockopt\<close> copies the
  value, cut off to the length of the buffer, and reports its size.
\<close>

type_synonym option_store = "c_int \<times> c_int \<times> c_int \<Rightarrow> byte list"

definition documented_setsockopt :: "'k posix \<Rightarrow> ('k \<Rightarrow> option_store) \<Rightarrow> bool" where
  "documented_setsockopt sys store \<longleftrightarrow>
     (\<forall>fd l o' p n w r w'. run_state (sys_setsockopt sys fd l o' p n) w = (r, w') \<longrightarrow>
        (if r = -1 then errno_of w' \<noteq> 0 \<and> store (kernel_of w') = store (kernel_of w)
         else store (kernel_of w') =
           (store (kernel_of w))((fd, l, o') := load_bytes p (unat n) (mem_of w))))"

text \<open>
  The documentation of a boolean option: a successful \<open>setsockopt\<close> with an \<open>int\<close> enables it for that
  socket if the \<open>int\<close> is not zero, and disables it otherwise; a successful \<open>getsockopt\<close> into a buffer for an
  \<open>int\<close> writes one that is not zero exactly if the option is enabled, and reports its size.
\<close>

definition documented_bool_option ::
  "'k posix \<Rightarrow> c_int \<Rightarrow> c_int \<Rightarrow> ('k \<Rightarrow> c_int \<Rightarrow> bool) \<Rightarrow> bool" where
  "documented_bool_option sys l o' enabled \<longleftrightarrow>
     (\<forall>fd p w r w'. run_state (sys_setsockopt sys fd l o' p 4) w = (r, w') \<longrightarrow>
        (if r = -1 then errno_of w' \<noteq> 0
         else enabled (kernel_of w') fd \<longleftrightarrow> bytes_value (load_bytes p 4 (mem_of w)) \<noteq> (0 :: c_int))) \<and>
     (\<forall>fd p w r m w'. run_state (sys_getsockopt sys fd l o' p 4) w = ((r, m), w') \<longrightarrow> r \<noteq> -1 \<longrightarrow>
        m = 4 \<and> (\<exists>i :: c_int. (i \<noteq> 0 \<longleftrightarrow> enabled (kernel_of w) fd) \<and>
          mem_of w' = store_bytes p (int_bytes i) (mem_of w)))"

text \<open>The value that an overload of \<open>setsockopt\<close> sets, if its option is boolean.\<close>

fun bool_option :: "sockopt_value \<Rightarrow> bool option" where
  "bool_option (Socket_debug b) = Some b"
| "bool_option (Socket_broadcast b) = Some b"
| "bool_option (Socket_reuseaddr b) = Some b"
| "bool_option (Socket_keepalive b) = Some b"
| "bool_option (Socket_oobinline b) = Some b"
| "bool_option (Socket_dontroute b) = Some b"
| "bool_option _ = None"

lemma bool_option_bytes: "bool_option v = Some b \<Longrightarrow> sockopt_bytes v = bool_bytes b"
  by (cases v) simp_all

lemma length_bool_bytes [simp]: "length (bool_bytes b) = 4"
  by (simp add: bool_bytes_def)

lemma load_store_four:
  "length bs = 4 \<Longrightarrow> load_bytes p 4 (store_bytes p bs m) = bs"
  using load_store_bytes [of bs p m] by simp

section \<open>The class as a class of owners\<close>

inductive socket_opens :: "'k posix \<Rightarrow> ('k, socket result) io \<Rightarrow> bool"
  for sys :: "'k posix" where
  "socket_opens sys (socket_unsafe_make sys domn typ flags prot)"

inductive socket_uses :: "headers \<Rightarrow> 'k posix \<Rightarrow> socket \<Rightarrow> ('k, unit) io \<Rightarrow> bool"
  for hdr :: headers and sys :: "'k posix" and s :: socket where
  "socket_uses hdr sys s (discard (socket_unsafe_setsockopt sys s l o' cview))"
| "socket_uses hdr sys s (discard (socket_setsockopt hdr sys slot s l v))"
| "socket_uses hdr sys s (discard (socket_unsafe_getsockopt hdr sys s l o' view))"
| "socket_uses hdr sys s (discard (socket_getsockopt_int hdr sys slot s l o' (\<lambda>i. i)))"
| "socket_uses hdr sys s (discard (socket_getsockopt_struct hdr sys slot s l o' init (\<lambda>bs. bs)))"

definition socket_class :: "headers \<Rightarrow> 'k posix \<Rightarrow> ('k, socket) object_class" where
  "socket_class hdr sys =
     \<lparr>class_empty = (\<lambda>s. s = socket_default), class_opens = socket_opens sys,
      class_uses = socket_uses hdr sys, class_move = socket_move, class_destroy = socket_destroy sys\<rparr>"

definition documented_socket_calls :: "'k posix \<Rightarrow> ('k \<Rightarrow> socket_fd set) \<Rightarrow> bool" where
  "documented_socket_calls sys opened \<longleftrightarrow>
     handle_table (\<lambda>fd. sys_close sys (socket_fd_value fd)) opened unique_socket_fd_null \<and>
     (\<forall>a b c. documented_open (sys_socket sys a b c) (handle_unless (-1) Socket_fd) opened) \<and>
     (\<forall>fd l o' p n. keeps_handles (sys_setsockopt sys fd l o' p n) opened) \<and>
     (\<forall>fd l o' p n. keeps_handles (sys_getsockopt sys fd l o' p n) opened)"

lemma socket_opens_handle:
  assumes "documented_socket_calls sys opened" and "socket_opens sys m"
  shows "opens_handle opened socket_descriptor m"
  using assms(2)
proof cases
  case (1 domn ty flags prot)
  then show ?thesis
    using assms(1) socket_opening.open_handle [where a = "(domn, ty, flags, prot)" and sys = sys
        and opened = opened and owner = socket_descriptor]
    by (simp add: documented_socket_calls_def)
qed

lemma socket_uses_keep:
  assumes "documented_socket_calls sys opened" and "socket_uses hdr sys s u"
  shows "keeps_handles u opened"
  using assms(2,1)
  by (cases rule: socket_uses.cases)
    (simp_all add: documented_socket_calls_def keeps_handles_def run_discard run_unsafe_setsockopt
      run_setsockopt run_unsafe_getsockopt run_getsockopt_int socket_getsockopt_struct_def run_simps
      setsockopt_request_def zero_local_def run_common_call case_prod_beta Let_def)

interpretation socket_owner: owner_class unique_socket_fd_null "close_socket sys"
    "\<lambda>fd. sys_close sys (socket_fd_value fd)" "documented_socket_calls sys" "socket_class hdr sys"
    socket_descriptor for hdr sys
  by unfold_locales
    (auto simp: socket_class_def socket_destroy_def socket_default_def socket_move_def
      documented_socket_calls_def intro: socket_opens_handle socket_uses_keep)

section \<open>Properties\<close>

text \<open>A system whose kernel is the store itself.\<close>

definition demo_option_posix :: "option_store posix" where
  "demo_option_posix = stub_posix
     \<lparr>sys_setsockopt := (\<lambda>fd l o' p n. do {
        w \<leftarrow> State_Monad.get;
        State_Monad.set (w\<lparr>kernel_of :=
          (kernel_of w)((fd, l, o') := load_bytes p (unat n) (mem_of w))\<rparr>);
        State_Monad.return 0 })\<rparr>"

lemma demo_option_documented: "documented_setsockopt demo_option_posix (\<lambda>k. k)"
  by (auto simp: documented_setsockopt_def demo_option_posix_def)

definition demo_option_world :: "option_store world" where
  "demo_option_world = \<lparr>errno_of = 0, mem_of = (\<lambda>_. 0), kernel_of = (\<lambda>_. [])\<rparr>"

text \<open>
  C22.  Each of the thirteen overloads of \<open>setsockopt\<close> stores, on success, exactly the
  representation of its value under the macro of its option, for the given socket and level, and
  touches no other option; on failure it stores nothing.
\<close>

theorem setsockopt_stores_value:
  assumes "documented_setsockopt sys store"
    and "run_state (socket_setsockopt hdr sys slot s l v) w = (ec, w')"
  shows "store (kernel_of w') =
    (if is_error ec then store (kernel_of w)
     else (store (kernel_of w))
       ((socket_fd_value (raw_descriptor (socket_descriptor s)), socket_level_bits l,
         hdr (sockopt_macro v)) := sockopt_bytes v))"
proof -
  let ?w = "w\<lparr>mem_of := store_bytes slot (sockopt_bytes v) (mem_of w)\<rparr>"
  obtain r where run: "run_state (setsockopt_request hdr sys slot s l v) ?w = (r, w')"
    and ec: "ec = (if r = -1 then make_errno_code (errno_of w') else no_error)"
    using assms(2) unfolding run_setsockopt by (rule common_callE)
  note doc = assms(1) [unfolded documented_setsockopt_def, rule_format,
      OF run [unfolded setsockopt_request_def]]
  have "length (sockopt_bytes v) < 2 ^ 32"
    using length_sockopt_bytes [of v] by simp
  then have "unat (of_nat (length (sockopt_bytes v)) :: socklen_t) = length (sockopt_bytes v)"
    by (simp add: unat_of_nat)
  with doc ec load_store_bytes [of "sockopt_bytes v" slot "mem_of w"] length_sockopt_bytes [of v]
  show ?thesis
    by (auto split: if_splits)
qed

lemma demo_setsockopt:
  "run_state (socket_setsockopt hdr demo_option_posix 100 \<lparr>socket_descriptor = descriptor_of (Socket_fd 3)\<rparr>
     (Socket_level 1) (Socket_keepalive True)) w =
   (no_error, w\<lparr>mem_of := store_bytes 100 [1, 0, 0, 0] (mem_of w),
      kernel_of := (kernel_of w)((3, 1, hdr ''SO_KEEPALIVE'') := [1, 0, 0, 0])\<rparr>)"
  using load_store_four [of "[1, 0, 0, 0]" 100 "mem_of w"]
  by (simp only: run_setsockopt)
    (simp add: setsockopt_request_def run_simps demo_option_posix_def bool_bytes_def)

theorem setsockopt_stores_value_witness:
  "kernel_of (snd (run_state (socket_setsockopt (\<lambda>_. 9) demo_option_posix 100
      \<lparr>socket_descriptor = descriptor_of (Socket_fd 3)\<rparr> (Socket_level 1) (Socket_keepalive True))
      demo_option_world)) (3, 1, 9) = [1, 0, 0, 0]"
proof -
  let ?run = "run_state (socket_setsockopt (\<lambda>_. 9) demo_option_posix 100
    \<lparr>socket_descriptor = descriptor_of (Socket_fd 3)\<rparr> (Socket_level 1) (Socket_keepalive True))
    demo_option_world"
  have ok: "\<not> is_error (fst ?run)"
    by (simp only: demo_setsockopt fst_conv is_error_no_error simp_thms)
  have "kernel_of (snd ?run) =
    (if is_error (fst ?run) then kernel_of demo_option_world
     else (kernel_of demo_option_world)((3, 1, 9) := bool_bytes True))"
    using setsockopt_stores_value [OF demo_option_documented, of "\<lambda>_. 9" 100
        "\<lparr>socket_descriptor = descriptor_of (Socket_fd 3)\<rparr>" "Socket_level 1" "Socket_keepalive True"
        demo_option_world "fst ?run" "snd ?run"]
    by (simp only: prod.collapse simp_thms socket.simps raw_descriptor_of socket_fd.sel
        sockopt_bytes.simps socket_level.sel)
  with ok show ?thesis
    by (simp only: if_False fun_upd_same) (simp add: bool_bytes_def)
qed

text \<open>
  C23.  A boolean option that one of the six overloads of \<open>setsockopt\<close> for such options has set
  reads back, through \<open>unsafe_getsockopt\<close> with the same level and the macro of the option, as an \<open>int\<close>
  of four bytes that is not zero exactly if the option was set to true.
\<close>

theorem setsockopt_getsockopt:
  assumes "bool_option v = Some b"
    and "documented_bool_option sys (socket_level_bits l) (hdr (sockopt_macro v)) enabled"
    and "run_state (socket_setsockopt hdr sys slot s l v) w = (ec, wa)" and "\<not> is_error ec"
    and "run_state (socket_unsafe_getsockopt hdr sys s l (Socket_option (hdr (sockopt_macro v)))
      (any_view_of_object 4 slot')) wa = (Value n, wb)"
  shows "n = 4 \<and> (bytes_value (load_bytes slot' 4 (mem_of wb)) \<noteq> (0 :: c_int) \<longleftrightarrow> b)"
proof -
  let ?fd = "socket_fd_value (raw_descriptor (socket_descriptor s))"
  let ?w = "w\<lparr>mem_of := store_bytes slot (bool_bytes b) (mem_of w)\<rparr>"
  note bytes = bool_option_bytes [OF assms(1)]
  note doc = assms(2) [unfolded documented_bool_option_def]
  obtain r where set: "run_state (setsockopt_request hdr sys slot s l v) ?w = (r, wa)"
    and ec: "ec = (if r = -1 then make_errno_code (errno_of wa) else no_error)"
    using assms(3) unfolding run_setsockopt bytes by (rule common_callE)
  have "run_state (sys_setsockopt sys ?fd (socket_level_bits l) (hdr (sockopt_macro v)) slot 4) ?w =
      (r, wa)"
    using set by (simp add: setsockopt_request_def bytes)
  from doc [THEN conjunct1, rule_format, OF this] have enabled: "enabled (kernel_of wa) ?fd \<longleftrightarrow> b"
    using ec assms(4) by (simp add: load_store_four split: if_splits)
  obtain r' where "run_state (sys_getsockopt sys ?fd (socket_level_bits l) (hdr (sockopt_macro v)) slot' 4) wa =
      ((r', n), wb)" and "r' \<noteq> -1"
    using assms(5) by (auto simp: run_unsafe_getsockopt split: prod.splits if_splits)
  then obtain i :: c_int where "n = 4" "i \<noteq> 0 \<longleftrightarrow> enabled (kernel_of wa) ?fd"
    "mem_of wb = store_bytes slot' (int_bytes i) (mem_of wa)"
    using doc by blast
  with enabled show ?thesis
    by (simp add: load_store_four)
qed

text \<open>A system with one boolean option, whose kernel is the sockets that have it enabled.\<close>

definition demo_flag_posix :: "c_int set posix" where
  "demo_flag_posix = stub_posix
     \<lparr>sys_setsockopt := (\<lambda>fd l o' p n. do {
        w \<leftarrow> State_Monad.get;
        State_Monad.set (w\<lparr>kernel_of :=
          (if bytes_value (load_bytes p 4 (mem_of w)) \<noteq> (0 :: c_int) then insert fd (kernel_of w)
           else kernel_of w - {fd})\<rparr>);
        State_Monad.return 0 }),
      sys_getsockopt := (\<lambda>fd l o' p n. do {
        w \<leftarrow> State_Monad.get;
        store_local p (int_bytes (if fd \<in> kernel_of w then 1 else 0));
        State_Monad.return (0, 4) })\<rparr>"

lemma demo_flag_documented: "documented_bool_option demo_flag_posix l o' (\<lambda>k fd. fd \<in> k)"
  by (auto simp: documented_bool_option_def demo_flag_posix_def run_simps split: if_splits)
    (intro exI [of _ 1] conjI; simp)

theorem setsockopt_getsockopt_witness:
  "bytes_value (load_bytes 200 4 (store_bytes 200 (int_bytes 1) (store_bytes 100 (bool_bytes True) (\<lambda>_. 0)))) \<noteq>
     (0 :: c_int)"
proof -
  let ?s = "\<lparr>socket_descriptor = descriptor_of (Socket_fd 3)\<rparr>"
  let ?mem = "store_bytes 100 (bool_bytes True) (\<lambda>_. 0)"
  have set: "run_state (socket_setsockopt (\<lambda>_. 9) demo_flag_posix 100 ?s (Socket_level 1)
      (Socket_keepalive True)) (table_world {}) = (no_error, (table_world {3})\<lparr>mem_of := ?mem\<rparr>)"
    by (simp only: run_setsockopt)
      (simp add: setsockopt_request_def run_simps demo_flag_posix_def load_store_four table_world_def)
  have get: "run_state (socket_unsafe_getsockopt (\<lambda>_. 9) demo_flag_posix ?s (Socket_level 1)
      (Socket_option 9) (any_view_of_object 4 200)) ((table_world {3})\<lparr>mem_of := ?mem\<rparr>) =
    (Value 4, (table_world {3})\<lparr>mem_of := store_bytes 200 (int_bytes 1) ?mem\<rparr>)"
    by (simp add: run_unsafe_getsockopt demo_flag_posix_def run_simps)
  show ?thesis
    using setsockopt_getsockopt [OF _ demo_flag_documented set is_error_no_error, of True 200 4
        "(table_world {3})\<lparr>mem_of := store_bytes 200 (int_bytes 1) ?mem\<rparr>"] get
    by simp
qed

end
