(* ===== verification/Fd_Program.thy ===== *)
theory Fd_Program
  imports File_Program Epoll Sockopt
begin

text \<open>
  Programs that use files, sockets and epoll instances together.  The three classes close their
  descriptors with the same \<open>close\<close> over one table of the system, two of them through
  \<open>file_descriptor\<close> and the third through \<open>unique_socket_fd\<close>, so their interplay is not covered by
  the properties of each class alone.
\<close>

section \<open>The three classes as one\<close>

datatype fd_object = A_file file_object | An_epoll epoll | A_socket socket

text \<open>A socket's descriptor as a descriptor of the common table.\<close>

definition fd_of_socket :: "socket_fd \<Rightarrow> raw_fd" where
  "fd_of_socket fd = Raw_fd (socket_fd_value fd)"

fun fd_owner :: "fd_object \<Rightarrow> raw_fd descriptor" where
  "fd_owner (A_file f) = file_fd f"
| "fd_owner (An_epoll e) = epoll_descriptor e"
| "fd_owner (A_socket s) = descriptor_of (fd_of_socket (raw_descriptor (socket_descriptor s)))"

definition result_as :: "('a \<Rightarrow> 'b) \<Rightarrow> ('k, 'a result) io \<Rightarrow> ('k, 'b result) io" where
  "result_as mk m = do { r \<leftarrow> m; State_Monad.return (result_map r mk) }"

inductive fd_opens :: "headers \<Rightarrow> 'k posix \<Rightarrow> ('k, fd_object result) io \<Rightarrow> bool"
  for hdr :: headers and sys :: "'k posix" where
  opens_file: "file_opens sys m \<Longrightarrow> fd_opens hdr sys (result_as A_file m)"
| opens_epoll: "epoll_opens hdr sys e \<Longrightarrow> fd_opens hdr sys (result_as An_epoll e)"
| opens_socket: "socket_opens sys s \<Longrightarrow> fd_opens hdr sys (result_as A_socket s)"

fun fd_uses :: "headers \<Rightarrow> 'k posix \<Rightarrow> fd_object \<Rightarrow> ('k, unit) io \<Rightarrow> bool" where
  "fd_uses hdr sys (A_file f) u = file_uses sys f u"
| "fd_uses hdr sys (An_epoll e) u = epoll_uses hdr sys e u"
| "fd_uses hdr sys (A_socket s) u = socket_uses hdr sys s u"

fun fd_move :: "fd_object \<Rightarrow> fd_object \<times> fd_object" where
  "fd_move (A_file f) = map_prod A_file A_file (file_move f)"
| "fd_move (An_epoll e) = map_prod An_epoll An_epoll (epoll_move e)"
| "fd_move (A_socket s) = map_prod A_socket A_socket (socket_move s)"

fun fd_destroy :: "'k posix \<Rightarrow> fd_object \<Rightarrow> ('k, unit) io" where
  "fd_destroy sys (A_file f) = file_destroy sys f"
| "fd_destroy sys (An_epoll e) = epoll_destroy sys e"
| "fd_destroy sys (A_socket s) = socket_destroy sys s"

definition fd_class :: "headers \<Rightarrow> 'k posix \<Rightarrow> ('k, fd_object) object_class" where
  "fd_class hdr sys =
     \<lparr>class_empty = (\<lambda>x. x \<in> {A_file file_default, An_epoll epoll_default, A_socket socket_default}),
      class_opens = fd_opens hdr sys, class_uses = fd_uses hdr sys, class_move = fd_move,
      class_destroy = fd_destroy sys\<rparr>"

text \<open>The documentation of the calls of the three classes, over one table.\<close>

definition socket_fd_of :: "raw_fd \<Rightarrow> socket_fd" where
  "socket_fd_of fd = Socket_fd (raw_fd_value fd)"

definition documented_fd_calls :: "'k posix \<Rightarrow> ('k \<Rightarrow> raw_fd set) \<Rightarrow> bool" where
  "documented_fd_calls sys opened \<longleftrightarrow>
     documented_file_calls sys opened \<and> documented_epoll_calls sys opened \<and>
     documented_socket_calls sys (\<lambda>k. socket_fd_of ` opened k)"

section \<open>The laws of an owner\<close>

lemma fd_of_socket_fd_of [simp]: "fd_of_socket (socket_fd_of fd) = fd" "socket_fd_of (fd_of_socket s) = s"
  by (simp_all add: fd_of_socket_def socket_fd_of_def)

lemma inj_socket_fd_of: "inj socket_fd_of"
  by (metis fd_of_socket_fd_of(1) injI)

lemma in_socket_fds [simp]: "Socket_fd n \<in> socket_fd_of ` A \<longleftrightarrow> Raw_fd n \<in> A"
  by (metis fd_of_socket_def fd_of_socket_fd_of inj_image_mem_iff inj_socket_fd_of socket_fd.sel)

lemma run_result_as [run_simps]:
  "run_state (result_as mk m) w = (let (r, w') = run_state m w in (result_map r mk, w'))"
  by (simp add: result_as_def case_prod_beta Let_def)

lemma opens_handle_as:
  assumes "opens_handle opened owner m" and "\<And>x. owner' (mk x) = owner x"
  shows "opens_handle opened owner' (result_as mk m)"
proof (rule opens_handleI)
  fix w x w'
  assume "run_state (result_as mk m) w = (Value x, w')"
  then obtain y where "run_state m w = (Value y, w')" and "x = mk y"
    by (cases "run_state m w"; cases "fst (run_state m w)") (auto simp: run_simps)
  with opens_handleD(1) [OF assms(1)] assms(2) show "\<exists>d. owner' x = descriptor_of d \<and>
      d \<notin> opened (kernel_of w) \<and> opened (kernel_of w') = insert d (opened (kernel_of w))"
    by simp
next
  fix w ec w'
  assume "run_state (result_as mk m) w = (Error ec, w')"
  then have "run_state m w = (Error ec, w')"
    by (cases "run_state m w"; cases "fst (run_state m w)") (auto simp: run_simps)
  with opens_handleD(2) [OF assms(1)] show "opened (kernel_of w') = opened (kernel_of w)"
    by blast
qed

lemma opens_handle_socket:
  assumes "opens_handle (\<lambda>k. socket_fd_of ` opened k) socket_descriptor m"
  shows "opens_handle opened (\<lambda>s. fd_owner (A_socket s)) m"
proof (rule opens_handleI)
  fix w x w'
  assume "run_state m w = (Value x, w')"
  from opens_handleD(1) [OF assms this] obtain d where x: "socket_descriptor x = descriptor_of d"
    and d: "d \<notin> socket_fd_of ` opened (kernel_of w)"
    and more: "socket_fd_of ` opened (kernel_of w') = insert d (socket_fd_of ` opened (kernel_of w))"
    by blast
  have "socket_fd_of ` opened (kernel_of w') =
      socket_fd_of ` insert (fd_of_socket d) (opened (kernel_of w))"
    by (simp add: more)
  then have "opened (kernel_of w') = insert (fd_of_socket d) (opened (kernel_of w))"
    by (simp only: inj_image_eq_iff [OF inj_socket_fd_of])
  moreover have "fd_of_socket d \<notin> opened (kernel_of w)"
    using d by (metis fd_of_socket_fd_of(2) imageI)
  ultimately show "\<exists>d. fd_owner (A_socket x) = descriptor_of d \<and>
      d \<notin> opened (kernel_of w) \<and> opened (kernel_of w') = insert d (opened (kernel_of w))"
    using x by auto
next
  fix w ec w'
  assume "run_state m w = (Error ec, w')"
  from opens_handleD(2) [OF assms this] show "opened (kernel_of w') = opened (kernel_of w)"
    by (simp add: inj_image_eq_iff [OF inj_socket_fd_of])
qed

lemma keeps_handles_socket [simp]:
  "keeps_handles u (\<lambda>k. socket_fd_of ` opened k) = keeps_handles u opened"
  by (simp add: keeps_handles_def inj_image_eq_iff [OF inj_socket_fd_of])

lemma fd_opens_handle:
  assumes "documented_fd_calls sys opened" and "fd_opens hdr sys m"
  shows "opens_handle opened fd_owner m"
  using assms(2)
proof cases
  case (opens_file m)
  with assms(1) show ?thesis
    by (auto intro!: opens_handle_as [where owner = file_fd] file_opens_handle
        simp: documented_fd_calls_def)
next
  case (opens_epoll e)
  with assms(1) show ?thesis
    by (auto intro!: opens_handle_as [where owner = epoll_descriptor] epoll_opens_handle
        simp: documented_fd_calls_def)
next
  case (opens_socket s)
  with assms(1) show ?thesis
    by (auto intro!: opens_handle_as [where owner = "\<lambda>s. fd_owner (A_socket s)"] opens_handle_socket
        socket_opens_handle simp: documented_fd_calls_def simp del: fd_owner.simps)
qed

lemma fd_uses_keep:
  assumes "documented_fd_calls sys opened" and "fd_uses hdr sys x u"
  shows "keeps_handles u opened"
proof (cases x)
  case (A_socket s)
  with assms show ?thesis
    using socket_uses_keep [of sys "\<lambda>k. socket_fd_of ` opened k" hdr s u]
    by (simp add: documented_fd_calls_def)
qed (use assms in \<open>auto simp: documented_fd_calls_def intro: file_uses_keep epoll_uses_keep\<close>)

text \<open>Destroying a socket closes its number in the common table.\<close>

lemma socket_destroy_fd:
  "socket_destroy sys s = descriptor_destroy (close_fd sys) file_descriptor_null (fd_owner (A_socket s))"
  by (rule state_ext)
    (simp add: socket_destroy_def run_simps close_socket_def close_fd_def fd_of_socket_def)

lemma fd_destroy_eq:
  "fd_destroy sys x = descriptor_destroy (close_fd sys) file_descriptor_null (fd_owner x)"
  by (cases x) (simp_all add: file_destroy_def epoll_destroy_def socket_destroy_fd)

lemma fd_move_owner:
  "fd_move x = (y, x') \<Longrightarrow> fd_owner y = fd_owner x \<and> fd_owner x' = descriptor_default file_descriptor_null"
  by (cases x)
    (auto simp: epoll_move_def socket_move_def descriptor_default_def descriptor_of_def
      unique_socket_fd_null_def fd_of_socket_def)

interpretation fd_objects: owner_class file_descriptor_null "close_fd sys"
    "\<lambda>fd. sys_close sys (raw_fd_value fd)" "documented_fd_calls sys" "fd_class hdr sys" fd_owner
    for hdr sys
proof
  show "documented_fd_calls sys opened \<Longrightarrow>
      handle_table (\<lambda>fd. sys_close sys (raw_fd_value fd)) opened file_descriptor_null" for opened
    by (simp add: documented_fd_calls_def documented_file_calls_def)
  show "class_empty (fd_class hdr sys) x \<Longrightarrow> fd_owner x = descriptor_default file_descriptor_null" for x
    by (auto simp: fd_class_def epoll_default_def socket_default_def descriptor_default_def
        descriptor_of_def unique_socket_fd_null_def fd_of_socket_def)
qed (simp_all add: fd_class_def fd_destroy_eq fd_opens_handle fd_uses_keep fd_move_owner
    del: file_descriptor_null_eq)

section \<open>A concrete run\<close>

text \<open>
  Files are opened as 3, sockets as 4 and epoll instances as 5.  With standard input open, the
  program opens a file as object 0 and a socket as object 1.
\<close>

definition demo_fd_posix :: "raw_fd set posix" where
  "demo_fd_posix = stub_posix
     \<lparr>sys_close := (\<lambda>fd. table_close (Raw_fd fd)),
      sys_open := (\<lambda>_ _ _. table_open (Raw_fd 3) 3 (-1)),
      sys_socket := (\<lambda>_ _ _. table_open (Raw_fd 4) 4 (-1)),
      sys_epoll_create := (\<lambda>_. table_open (Raw_fd 5) 5 (-1)),
      sys_epoll_create1 := (\<lambda>_. table_open (Raw_fd 5) 5 (-1))\<rparr>"

definition demo_fd_program :: "(raw_fd set, fd_object) object_program" where
  "demo_fd_program =
     \<lparr>instances = [0 \<mapsto> A_file (file_of (Raw_fd 3)),
        1 \<mapsto> A_socket \<lparr>socket_descriptor = descriptor_of (Socket_fd 4)\<rparr>],
      system = (table_world {Raw_fd 0, Raw_fd 3, Raw_fd 4})\<lparr>errno_of := 9\<rparr>\<rparr>"

lemma demo_fd_socket_calls:
  "documented_socket_calls demo_fd_posix (\<lambda>k. socket_fd_of ` (k - {file_descriptor_null}))"
proof -
  have "handle_table (\<lambda>fd. sys_close demo_fd_posix (socket_fd_value fd))
      (\<lambda>k. socket_fd_of ` (k - {file_descriptor_null})) unique_socket_fd_null"
    by (auto simp: handle_table_def demo_fd_posix_def unique_socket_fd_null_def socket_fd_of_def
        image_iff split: if_splits)
  moreover have "documented_open (sys_socket demo_fd_posix a b c) (handle_unless (-1) Socket_fd)
      (\<lambda>k. socket_fd_of ` (k - {file_descriptor_null}))" for a b c
    by (auto simp: documented_open_def demo_fd_posix_def insert_Diff_if socket_fd_of_def
        simp flip: image_insert split: if_splits) (auto simp: socket_fd_of_def)
  ultimately show ?thesis
    by (simp add: documented_socket_calls_def keeps_handles_def demo_fd_posix_def stub_posix_def
        del: file_descriptor_null_eq)
qed

lemma demo_fd_calls: "documented_fd_calls demo_fd_posix (\<lambda>k. k - {file_descriptor_null})"
  using demo_fd_socket_calls handle_table_close [of file_descriptor_null]
    documented_table_open [of "3 :: c_int" "-1" Raw_fd "Raw_fd 3" file_descriptor_null]
    documented_table_open [of "5 :: c_int" "-1" Raw_fd "Raw_fd 5" file_descriptor_null]
  by (simp add: documented_fd_calls_def documented_file_calls_def documented_epoll_calls_def
      keeps_handles_def demo_fd_posix_def stub_posix_def)

lemma demo_fd_run:
  "object_reachable (fd_class hdr demo_fd_posix) (table_world {Raw_fd 0}) demo_fd_program"
proof -
  let ?C = "fd_class hdr demo_fd_posix"
  let ?open = "file_open demo_fd_posix ''/etc/hosts'' (Enum_flag (Access_mode 0)) (Enum_flag (Open_flag 0))"
  let ?make = "socket_unsafe_make demo_fd_posix (Socket_domain 2) (Socket_type 1) (Socket_flag 0)
    (Socket_protocol 0)"
  let ?s1 = "\<lparr>instances = [0 \<mapsto> A_file (file_of (Raw_fd 3))],
    system = (table_world {Raw_fd 0, Raw_fd 3})\<lparr>errno_of := 9\<rparr>\<rparr>"
  have "class_opens ?C (result_as A_file ?open)"
    by (simp add: fd_class_def fd_opens.intros file_opens.intros)
  moreover have "run_state (result_as A_file ?open) (table_world {Raw_fd 0}) =
      (Value (A_file (file_of (Raw_fd 3))), system ?s1)"
    by (simp add: run_simps close_fd_def demo_fd_posix_def table_world_def insert_commute)
  ultimately have "object_step ?C (object_start (table_world {Raw_fd 0})) ?s1"
    using object_step.opens [of "object_start (table_world {Raw_fd 0})" 0 ?C "result_as A_file ?open"]
    by (simp add: object_start_def)
  then have "object_reachable ?C (table_world {Raw_fd 0}) ?s1"
    by (rule object_reachable.step [OF object_reachable.start])
  moreover have "class_opens ?C (result_as A_socket ?make)"
    by (simp add: fd_class_def fd_opens.intros socket_opens.intros)
  moreover have "run_state (result_as A_socket ?make) (system ?s1) =
      (Value (A_socket \<lparr>socket_descriptor = descriptor_of (Socket_fd 4)\<rparr>), system demo_fd_program)"
    by (simp add: run_simps close_socket_def demo_fd_posix_def demo_fd_program_def table_world_def
        unique_socket_fd_null_def insert_commute)
  ultimately show ?thesis
    using object_step.opens [of ?s1 1 ?C "result_as A_socket ?make"]
    by (auto intro: object_reachable.step simp: demo_fd_program_def)
qed

lemma demo_fd_reliable:
  "reliable_close (\<lambda>fd. sys_close demo_fd_posix (raw_fd_value fd)) (\<lambda>k. k - {file_descriptor_null})"
  using reliable_table_close [of file_descriptor_null] by (simp add: demo_fd_posix_def)

section \<open>Properties\<close>





end
