(* ===== verification/File_Io.thy ===== *)
theory File_Io
  imports File
begin

text \<open>
  The data path of the class \<open>file\<close>: \<open>write\<close>, \<open>lseek\<close> and \<open>read\<close> over a system that keeps, for each
  descriptor of a regular file, its contents and its offset.
\<close>

section \<open>Documented behaviour of regular files\<close>

text \<open>
  Bytes written at a position replace what is there; a gap behind the end is filled with zeros.
\<close>

definition overwrite :: "nat \<Rightarrow> byte list \<Rightarrow> byte list \<Rightarrow> byte list" where
  "overwrite pos bs c = take pos (c @ replicate (pos - length c) 0) @ bs @ drop (pos + length bs) c"

text \<open>
  A write starts at the offset, or at the end of the file if the descriptor was opened with
  \<open>O_APPEND\<close>.
\<close>

definition write_start ::
  "('k \<Rightarrow> c_int \<Rightarrow> bool) \<Rightarrow> ('k \<Rightarrow> c_int \<Rightarrow> byte list) \<Rightarrow> ('k \<Rightarrow> c_int \<Rightarrow> nat) \<Rightarrow> 'k \<Rightarrow> c_int \<Rightarrow> nat" where
  "write_start appends content position k fd =
     (if appends k fd then length (content k fd) else position k fd)"

text \<open>
  The three calls fail, or do what POSIX says of a regular file: \<open>write\<close> stores the bytes it
  reports where it starts, and moves the offset behind them (one that reports none changes
  nothing); \<open>lseek\<close> with \<open>SEEK_SET\<close> sets the offset; \<open>read\<close> copies what is there, as much as fits into the
  buffer, and advances the offset.  What they do to other descriptors is left open, as those may
  refer to the same file.
\<close>

definition documented_write ::
  "'k posix \<Rightarrow> ('k \<Rightarrow> c_int \<Rightarrow> bool) \<Rightarrow> ('k \<Rightarrow> c_int \<Rightarrow> byte list) \<Rightarrow> ('k \<Rightarrow> c_int \<Rightarrow> nat) \<Rightarrow> bool" where
  "documented_write sys appends content position \<longleftrightarrow>
     (\<forall>fd p n w r w'. run_state (sys_write sys fd p n) w = (r, w') \<longrightarrow> r \<noteq> -1 \<longrightarrow>
        (let start = write_start appends content position (kernel_of w) fd
         in r \<le> n \<and> mem_of w' = mem_of w \<and>
            (if r = 0
             then content (kernel_of w') fd = content (kernel_of w) fd \<and>
               position (kernel_of w') fd = position (kernel_of w) fd
             else content (kernel_of w') fd =
                 overwrite start (load_bytes p (unat r) (mem_of w)) (content (kernel_of w) fd) \<and>
               position (kernel_of w') fd = start + unat r)))"

definition documented_lseek ::
  "'k posix \<Rightarrow> c_int \<Rightarrow> ('k \<Rightarrow> c_int \<Rightarrow> byte list) \<Rightarrow> ('k \<Rightarrow> c_int \<Rightarrow> nat) \<Rightarrow> bool" where
  "documented_lseek sys seek_set content position \<longleftrightarrow>
     (\<forall>fd off w r w'. run_state (sys_lseek sys fd off seek_set) w = (r, w') \<longrightarrow> r \<noteq> -1 \<longrightarrow>
        r = off \<and> mem_of w' = mem_of w \<and> content (kernel_of w') fd = content (kernel_of w) fd \<and>
        position (kernel_of w') fd = unat off)"

definition documented_file_read ::
  "'k posix \<Rightarrow> ('k \<Rightarrow> c_int \<Rightarrow> byte list) \<Rightarrow> ('k \<Rightarrow> c_int \<Rightarrow> nat) \<Rightarrow> bool" where
  "documented_file_read sys content position \<longleftrightarrow>
     (\<forall>fd p n w r w'. run_state (sys_read sys fd p n) w = (r, w') \<longrightarrow> r \<noteq> -1 \<longrightarrow>
        (let bs = take (unat n) (drop (position (kernel_of w) fd) (content (kernel_of w) fd))
         in unat r = length bs \<and> mem_of w' = store_bytes p bs (mem_of w) \<and>
            content (kernel_of w') fd = content (kernel_of w) fd \<and>
            position (kernel_of w') fd = position (kernel_of w) fd + unat r))"

section \<open>What the operations of the class do\<close>

lemma drop_overwrite: "drop pos (overwrite pos bs c) = bs @ drop (pos + length bs) c"
  by (simp add: overwrite_def)

lemma file_write_content:
  assumes "documented_write sys appends content position"
    and "run_state (file_write sys f src) w = (Value n, w')"
    and "fd = raw_fd_value (raw_descriptor (file_fd f))"
    and "start = write_start appends content position (kernel_of w) fd"
  shows "n \<le> byte_cspan_length src"
    and "drop start (content (kernel_of w') fd) =
      load_bytes (byte_cspan_data src) (unat n) (mem_of w) @
      drop (start + unat n) (content (kernel_of w) fd)"
proof -
  obtain r where run: "run_state (sys_write sys fd (byte_cspan_data src) (byte_cspan_length src)) w = (r, w')"
    and r: "r \<noteq> -1" "r = n"
    using assms(2) unfolding file_write_def descriptor_deref_eq assms(3)
    by (elim common_result_callE) (auto split: if_splits)
  note doc = assms(1) [unfolded documented_write_def, rule_format, OF run r(1)]
  show "n \<le> byte_cspan_length src"
    using doc r(2) by (simp add: Let_def)
  show "drop start (content (kernel_of w') fd) =
      load_bytes (byte_cspan_data src) (unat n) (mem_of w) @
      drop (start + unat n) (content (kernel_of w) fd)"
    using doc r(2) by (cases "n = 0") (simp_all add: Let_def drop_overwrite assms(4) load_bytes_def)
qed

lemma file_lseek_position:
  assumes "documented_lseek sys (hdr ''SEEK_SET'') content position"
    and "run_state (file_lseek sys f off (file_seek_value hdr ''set'')) w = (Value off', w')"
  shows "off' = off"
    and "content (kernel_of w') (raw_fd_value (raw_descriptor (file_fd f))) =
      content (kernel_of w) (raw_fd_value (raw_descriptor (file_fd f)))"
    and "position (kernel_of w') (raw_fd_value (raw_descriptor (file_fd f))) = unat off"
proof -
  have run: "run_state (sys_lseek sys (raw_fd_value (raw_descriptor (file_fd f))) off (hdr ''SEEK_SET'')) w =
      (off', w')" and "off' \<noteq> -1"
    using assms(2) by (auto simp: run_simps split: prod.splits if_splits)
  from assms(1) [unfolded documented_lseek_def, rule_format, OF this]
  show "off' = off"
    and "content (kernel_of w') (raw_fd_value (raw_descriptor (file_fd f))) =
      content (kernel_of w) (raw_fd_value (raw_descriptor (file_fd f)))"
    and "position (kernel_of w') (raw_fd_value (raw_descriptor (file_fd f))) = unat off"
    by simp_all
qed

lemma file_read_content:
  assumes "documented_file_read sys content position"
    and "run_state (file_read sys f dst) w = (Value m, w')"
    and "bs = take (unat (byte_span_length dst))
      (drop (position (kernel_of w) (raw_fd_value (raw_descriptor (file_fd f))))
        (content (kernel_of w) (raw_fd_value (raw_descriptor (file_fd f)))))"
  shows "unat m = length bs" and "mem_of w' = store_bytes (byte_span_data dst) bs (mem_of w)"
proof -
  obtain r where run: "run_state (sys_read sys (raw_fd_value (raw_descriptor (file_fd f)))
      (byte_span_data dst) (byte_span_length dst)) w = (r, w')"
    and r: "r \<noteq> -1" "r = m"
    using assms(2) unfolding file_read_def descriptor_deref_eq
    by (elim common_result_callE) (auto split: if_splits)
  from assms(1) [unfolded documented_file_read_def, rule_format, OF run r(1)]
  show "unat m = length bs" and "mem_of w' = store_bytes (byte_span_data dst) bs (mem_of w)"
    by (simp_all add: Let_def assms(3) r(2))
qed

section \<open>A concrete system\<close>

text \<open>
  The kernel is the contents and the offset of every descriptor; descriptor 4 is one that appends.
\<close>

type_synonym demo_disk = "(c_int \<Rightarrow> byte list) \<times> (c_int \<Rightarrow> nat)"

definition demo_append :: "demo_disk \<Rightarrow> c_int \<Rightarrow> bool" where
  "demo_append k fd \<longleftrightarrow> fd = 4"

definition demo_disk_posix :: "demo_disk posix" where
  "demo_disk_posix = stub_posix
     \<lparr>sys_write := (\<lambda>fd p n. do {
        w \<leftarrow> State_Monad.get;
        let (c, pos) = kernel_of w;
        let start = write_start demo_append fst snd (kernel_of w) fd;
        if n = 0 then State_Monad.return 0
        else do {
          State_Monad.set (w\<lparr>kernel_of :=
            (c(fd := overwrite start (load_bytes p (unat n) (mem_of w)) (c fd)),
             pos(fd := start + unat n))\<rparr>);
          State_Monad.return n
        } }),
      sys_lseek := (\<lambda>fd off wh. do {
        w \<leftarrow> State_Monad.get;
        let (c, pos) = kernel_of w;
        State_Monad.set (w\<lparr>kernel_of := (c, pos(fd := unat off))\<rparr>);
        State_Monad.return off }),
      sys_read := (\<lambda>fd p n. do {
        w \<leftarrow> State_Monad.get;
        let (c, pos) = kernel_of w;
        let bs = take (unat n) (drop (pos fd) (c fd));
        State_Monad.set (w\<lparr>mem_of := store_bytes p bs (mem_of w),
          kernel_of := (c, pos(fd := pos fd + length bs))\<rparr>);
        State_Monad.return (of_nat (length bs)) })\<rparr>"

lemma demo_disk_documented:
  "documented_write demo_disk_posix demo_append fst snd"
  "documented_lseek demo_disk_posix whence fst snd"
  "documented_file_read demo_disk_posix fst snd"
proof -
  show "documented_write demo_disk_posix demo_append fst snd"
    by (auto simp: documented_write_def demo_disk_posix_def case_prod_beta Let_def split: if_splits)
  show "documented_lseek demo_disk_posix whence fst snd"
    by (auto simp: documented_lseek_def demo_disk_posix_def case_prod_beta Let_def)
  have "unat (of_nat (min k (unat n)) :: ssize_t) = min k (unat n)" for k and n :: size_t
  proof -
    have "min k (unat n) < 2 ^ LENGTH(64)"
      using unat_lt_64 [of n] by (simp add: min_less_iff_disj)
    then show ?thesis
      by (simp only: unat_of_nat mod_less)
  qed
  then show "documented_file_read demo_disk_posix fst snd"
    by (auto simp: documented_file_read_def demo_disk_posix_def case_prod_beta Let_def)
qed

section \<open>Properties\<close>



end
