(* ===== verification/Mman.thy ===== *)
theory Mman
  imports Opening
begin

text \<open>
  \<^verbatim>\<open>mman.hpp\<close> and \<^verbatim>\<open>mman.cpp\<close>: memory mappings.  \<open>MAP_FAILED\<close> is a pointer macro of
  \<^verbatim>\<open>sys/mman.h\<close> and a parameter.  A mapping's handle is its address and length.
\<close>

section \<open>Handles, protections and flags\<close>

record mmap_d =
  mmap_address :: addr
  mmap_length :: size_t

definition mmap_d_null :: "addr \<Rightarrow> mmap_d" where
  "mmap_d_null MAP_FAILED = \<lparr>mmap_address = MAP_FAILED, mmap_length = 0\<rparr>"

definition mmap_d_make :: "addr \<Rightarrow> size_t \<Rightarrow> mmap_d" where
  "mmap_d_make address n = \<lparr>mmap_address = address, mmap_length = n\<rparr>"

definition mmap_d_eq :: "mmap_d \<Rightarrow> mmap_d \<Rightarrow> bool" where
  "mmap_d_eq lhs rhs \<longleftrightarrow>
     mmap_address lhs = mmap_address rhs \<and> mmap_length lhs = mmap_length rhs"

lemma mmap_d_eq_iff [simp]: "mmap_d_eq a b \<longleftrightarrow> a = b"
  by (cases a; cases b) (simp add: mmap_d_eq_def)

datatype mmap_protection = Mmap_protection (mmap_protection_bits: c_int)

definition mmap_protection_table :: enum_table where
  "mmap_protection_table =
     [(''read'', Macro ''PROT_READ''), (''write'', Macro ''PROT_WRITE''),
      (''exec'', Macro ''PROT_EXEC''), (''none'', Macro ''PROT_NONE'')]"

datatype mmap_flag = Mmap_flag (mmap_flag_bits: c_int)

definition mmap_flag_table :: enum_table where
  "mmap_flag_table =
     [(''fixed'', Macro ''MAP_FIXED''), (''private_'', Macro ''MAP_PRIVATE''),
      (''shared'', Macro ''MAP_SHARED'')]"

definition mmap_protection_constant :: "headers \<Rightarrow> string \<Rightarrow> mmap_protection enum_flag" where
  "mmap_protection_constant hdr name =
     Enum_flag (Mmap_protection (the (enumerator hdr mmap_protection_table name)))"

definition mmap_flag_constant :: "headers \<Rightarrow> string \<Rightarrow> mmap_flag enum_flag" where
  "mmap_flag_constant hdr name = Enum_flag (Mmap_flag (the (enumerator hdr mmap_flag_table name)))"

definition mmap_protection_or ::
  "mmap_protection enum_flag \<Rightarrow> mmap_protection enum_flag \<Rightarrow> mmap_protection enum_flag" where
  "mmap_protection_or = enum_flag_or mmap_protection_bits Mmap_protection"

section \<open>Calls\<close>

text \<open>The close policy of the header, which no class uses, and the one of \<open>unique_mmap_d\<close>.\<close>

definition mmap_default_close_policy :: "'k posix \<Rightarrow> ('k, mmap_d) close_policy" where
  "mmap_default_close_policy sys d = common_call (sys_munmap sys (mmap_address d) (mmap_length d))"

definition close_mmap :: "'k posix \<Rightarrow> ('k, mmap_d) close_policy" where
  "close_mmap sys m = common_call (sys_munmap sys (mmap_address m) (mmap_length m))"

definition capi_mmap_map ::
  "'k posix \<Rightarrow> addr \<Rightarrow> addr \<Rightarrow> size_t \<Rightarrow> mmap_protection \<Rightarrow> mmap_flag \<Rightarrow> raw_fd \<Rightarrow> off_t \<Rightarrow>
   ('k, mmap_d result) io" where
  "capi_mmap_map sys MAP_FAILED addr len prot flags fildes off = do {
     ptr \<leftarrow> sys_mmap sys addr len (mmap_protection_bits prot) (mmap_flag_bits flags)
       (raw_fd_value fildes) off;
     if ptr = MAP_FAILED
     then do { ec \<leftarrow> current_errno_code; State_Monad.return (Error ec) }
     else State_Monad.return (Value (mmap_d_make ptr len))
   }"

definition capi_mmap_protect ::
  "'k posix \<Rightarrow> mmap_d \<Rightarrow> mmap_protection \<Rightarrow> ('k, error_code) io" where
  "capi_mmap_protect sys d prot =
     common_call (sys_mprotect sys (mmap_address d) (mmap_length d) (mmap_protection_bits prot))"

section \<open>The class\<close>

record mmap_object =
  mmap_descriptor :: "mmap_d descriptor"

definition mmap_of :: "mmap_d \<Rightarrow> mmap_object" where
  "mmap_of d = \<lparr>mmap_descriptor = descriptor_of d\<rparr>"

text \<open>
  The default constructor leaves the member empty, the defaulted move constructor moves it; the
  implicit destructor destroys it.
\<close>

definition mmap_default :: "addr \<Rightarrow> mmap_object" where
  "mmap_default MAP_FAILED = \<lparr>mmap_descriptor = descriptor_default (mmap_d_null MAP_FAILED)\<rparr>"

definition mmap_move :: "addr \<Rightarrow> mmap_object \<Rightarrow> mmap_object \<times> mmap_object" where
  "mmap_move MAP_FAILED other =
     (let (member, other') = descriptor_move (mmap_d_null MAP_FAILED) (mmap_descriptor other)
      in (\<lparr>mmap_descriptor = member\<rparr>, \<lparr>mmap_descriptor = other'\<rparr>))"

text \<open>The defaulted move assignment, undefined like \<open>descriptor_move_assign\<close> of the member.\<close>

definition mmap_move_assign :: "mmap_object \<Rightarrow> mmap_object \<Rightarrow> (mmap_object \<times> mmap_object) \<times> mmap_object option" where
  "mmap_move_assign this other =
     (let ((member, member'), returned) = descriptor_move_assign (mmap_descriptor this) (mmap_descriptor other);
          this' = this\<lparr>mmap_descriptor := member\<rparr>
      in ((this', other\<lparr>mmap_descriptor := member'\<rparr>), map_option (\<lambda>_. this') returned))"

lemma mmap_move_assign_eq: "mmap_move_assign this other = ((other, this), None)"
  by (cases this; cases other) (simp add: mmap_move_assign_def descriptor_move_assign_eq)

definition mmap_destroy :: "'k posix \<Rightarrow> addr \<Rightarrow> mmap_object \<Rightarrow> ('k, unit) io" where
  "mmap_destroy sys MAP_FAILED this =
     descriptor_destroy (close_mmap sys) (mmap_d_null MAP_FAILED) (mmap_descriptor this)"

text \<open>The static assertions of \<open>map\<close>.\<close>

definition mmap_protection_accepts :: "headers \<Rightarrow> mmap_protection enum_flag \<Rightarrow> bool" where
  "mmap_protection_accepts hdr prot \<longleftrightarrow>
     \<not> (enum_flag_has_flag mmap_protection_bits prot (mmap_protection_constant hdr ''none'') \<and>
        (enum_flag_has_flag mmap_protection_bits prot (mmap_protection_constant hdr ''read'') \<or>
         enum_flag_has_flag mmap_protection_bits prot (mmap_protection_constant hdr ''write'') \<or>
         enum_flag_has_flag mmap_protection_bits prot (mmap_protection_constant hdr ''exec'')))"

definition mmap_map_accepts ::
  "headers \<Rightarrow> mmap_protection enum_flag \<Rightarrow> mmap_flag enum_flag \<Rightarrow> bool" where
  "mmap_map_accepts hdr prot flags \<longleftrightarrow>
     mmap_protection_accepts hdr prot \<and>
     \<not> (enum_flag_has_flag mmap_flag_bits flags (mmap_flag_constant hdr ''private_'') \<and>
        enum_flag_has_flag mmap_flag_bits flags (mmap_flag_constant hdr ''shared''))"

definition mmap_map ::
  "'k posix \<Rightarrow> addr \<Rightarrow> addr \<Rightarrow> size_t \<Rightarrow> mmap_protection enum_flag \<Rightarrow> mmap_flag enum_flag \<Rightarrow>
   raw_fd \<Rightarrow> off_t \<Rightarrow> ('k, mmap_object result) io" where
  "mmap_map sys MAP_FAILED addr len prot flags fildes off = do {
     res \<leftarrow> capi_mmap_map sys MAP_FAILED addr len (enum_flag_value prot) (enum_flag_value flags)
       fildes off;
     result_map_owner (close_mmap sys) (mmap_d_null MAP_FAILED) (\<lambda>d. \<lparr>mmap_descriptor = d\<rparr>) res
   }"

text \<open>\<open>unmap\<close> calls the system directly: the member keeps its handle.\<close>

definition mmap_unmap :: "'k posix \<Rightarrow> mmap_object \<Rightarrow> ('k, error_code) io" where
  "mmap_unmap sys this =
     common_call (sys_munmap sys (mmap_address (raw_descriptor (mmap_descriptor this)))
       (mmap_length (raw_descriptor (mmap_descriptor this))))"

text \<open>
  \<open>protect\<close> passes the flags, and neither the address nor the length, to an overload of
  \<open>capi::mmap_protect\<close> that is declared in the header and defined nowhere: a parameter here.
\<close>

definition mmap_protect ::
  "headers \<Rightarrow> (mmap_protection \<Rightarrow> ('k, error_code) io) \<Rightarrow> mmap_object \<Rightarrow> mmap_protection enum_flag \<Rightarrow>
   ('k, error_code) io option" where
  "mmap_protect hdr declared_mmap_protect this prot =
     (if mmap_protection_accepts hdr prot then Some (declared_mmap_protect (enum_flag_value prot))
      else None)"

text \<open>The class \<open>shm\<close> has the members of an owner, but nothing creates one with a descriptor.\<close>

record shm =
  shm_fd :: file_descriptor

definition shm_default :: shm where
  "shm_default = \<lparr>shm_fd = descriptor_default file_descriptor_null\<rparr>"

definition shm_move :: "shm \<Rightarrow> shm \<times> shm" where
  "shm_move other =
     (let (member, other') = descriptor_move file_descriptor_null (shm_fd other)
      in (\<lparr>shm_fd = member\<rparr>, \<lparr>shm_fd = other'\<rparr>))"

definition shm_move_assign :: "shm \<Rightarrow> shm \<Rightarrow> (shm \<times> shm) \<times> shm option" where
  "shm_move_assign this other =
     (let ((member, member'), returned) = descriptor_move_assign (shm_fd this) (shm_fd other);
          this' = this\<lparr>shm_fd := member\<rparr>
      in ((this', other\<lparr>shm_fd := member'\<rparr>), map_option (\<lambda>_. this') returned))"

definition shm_destroy :: "'k posix \<Rightarrow> shm \<Rightarrow> ('k, unit) io" where
  "shm_destroy sys this = descriptor_destroy (close_fd sys) file_descriptor_null (shm_fd this)"

text \<open>\<open>shm::unsafe_open\<close> is a stub: its call is commented out, it returns an empty error code.\<close>

definition shm_unsafe_open :: "string \<Rightarrow> ('k, shm result) io" where
  "shm_unsafe_open name = State_Monad.return (Error no_error)"

section \<open>Effects\<close>

interpretation mmap_policy: close_policy "mmap_d_null MAP_FAILED" "close_mmap sys"
    "\<lambda>m. sys_munmap sys (mmap_address m) (mmap_length m)" for sys MAP_FAILED
  by unfold_locales (rule close_mmap_def)

lemma mmap_default_close_policy_eq: "mmap_default_close_policy sys = close_mmap sys"
  by (rule ext) (simp add: mmap_default_close_policy_def close_mmap_def)

lemma mmap_protect_ignores_mapping:
  "mmap_protect hdr declared m prot = mmap_protect hdr declared m' prot"
  by (simp add: mmap_protect_def)

interpretation mmap_protection: flag_enum mmap_protection_bits Mmap_protection
    "\<lambda>a b. enum_flag_value (mmap_protection_or (Enum_flag a) (Enum_flag b))"
  by unfold_locales (simp_all add: mmap_protection_or_def enum_flag_or_def)

lemma run_capi_mmap_map [run_simps]:
  "run_state (capi_mmap_map sys MAP_FAILED addr len prot flags fd off) w =
     (let (ptr, w') = run_state (sys_mmap sys addr len (mmap_protection_bits prot)
            (mmap_flag_bits flags) (raw_fd_value fd) off) w
      in (if ptr = MAP_FAILED then Error (make_errno_code (errno_of w'))
          else Value (mmap_d_make ptr len), w'))"
  by (simp add: capi_mmap_map_def case_prod_beta Let_def)

lemma run_mmap_unmap [run_simps]:
  "run_state (mmap_unmap sys m) w = run_state (close_mmap sys (raw_descriptor (mmap_descriptor m))) w"
  by (simp add: mmap_unmap_def close_mmap_def)

lemma run_mmap_destroy [run_simps]:
  "run_state (mmap_destroy sys MAP_FAILED m) w =
     ((), snd (run_state (close_mmap sys (raw_descriptor (mmap_descriptor m))) w))"
  by (simp add: mmap_destroy_def run_simps)

interpretation mmap_opening: owner_open "mmap_d_null MAP_FAILED" "close_mmap sys"
    "\<lambda>m. sys_munmap sys (mmap_address m) (mmap_length m)" 1
    "handle_unless MAP_FAILED (\<lambda>ptr. mmap_d_make ptr len)" "\<lambda>d. \<lparr>mmap_descriptor = d\<rparr>"
    "\<lambda>(addr, prot, flags, fildes, off). sys_mmap sys addr len
       (mmap_protection_bits (enum_flag_value prot)) (mmap_flag_bits (enum_flag_value flags))
       (raw_fd_value fildes) off"
    "\<lambda>(addr, prot, flags, fildes, off). mmap_map sys MAP_FAILED addr len prot flags fildes off"
    for sys MAP_FAILED len
  by unfold_locales (auto simp: mmap_map_def run_simps handle_unless_def)

section \<open>What the documentation says of pages\<close>

text \<open>
  The system maps whole pages of \<open>page\<close> bytes.  \<open>mapped\<close> gives the numbers of the pages that are
  mapped in a state of the system, and \<open>pages_of\<close> those that contain a part of a region.
\<close>

definition pages_of :: "addr \<Rightarrow> addr \<Rightarrow> size_t \<Rightarrow> addr set" where
  "pages_of page a n = {(a + k) div page | k. k < n}"

text \<open>
  \<open>munmap\<close> removes every page that contains a part of the region, whichever call mapped it; if it
  fails it sets \<open>errno\<close>, and what becomes of the pages of the region is not said.
\<close>

definition documented_munmap :: "addr \<Rightarrow> ('k \<Rightarrow> addr set) \<Rightarrow> 'k posix \<Rightarrow> bool" where
  "documented_munmap page mapped sys \<longleftrightarrow>
     (\<forall>a n w r w'. run_state (sys_munmap sys a n) w = (r, w') \<longrightarrow>
        (if r = -1
         then errno_of w' \<noteq> 0 \<and> mapped (kernel_of w') \<subseteq> mapped (kernel_of w) \<and>
           mapped (kernel_of w) - mapped (kernel_of w') \<subseteq> pages_of page a n
         else mapped (kernel_of w') = mapped (kernel_of w) - pages_of page a n))"

text \<open>
  \<open>mmap\<close> maps the pages of the region at the address it returns.  With \<open>MAP_FIXED\<close> that is the
  address asked for, and what was mapped there is replaced; without it the address is one of a
  page, and none of the pages was mapped.  If it fails it sets \<open>errno\<close> and maps nothing, but pages
  of the region asked for may have been unmapped.
\<close>

definition documented_mmap :: "addr \<Rightarrow> headers \<Rightarrow> addr \<Rightarrow> ('k \<Rightarrow> addr set) \<Rightarrow> 'k posix \<Rightarrow> bool" where
  "documented_mmap page hdr MAP_FAILED mapped sys \<longleftrightarrow>
     (\<forall>a n prot flags fd off w r w'. run_state (sys_mmap sys a n prot flags fd off) w = (r, w') \<longrightarrow>
        (if r = MAP_FAILED
         then errno_of w' \<noteq> 0 \<and> mapped (kernel_of w') \<subseteq> mapped (kernel_of w) \<and>
           mapped (kernel_of w) - mapped (kernel_of w') \<subseteq> pages_of page a n
         else mapped (kernel_of w') = mapped (kernel_of w) \<union> pages_of page r n \<and>
           (if flags AND hdr ''MAP_FIXED'' \<noteq> 0 then r = a
            else r mod page = 0 \<and> pages_of page r n \<inter> mapped (kernel_of w) = {})))"

text \<open>A system whose \<open>munmap\<close> does not fail on whole pages that are mapped.\<close>

definition reliable_munmap :: "addr \<Rightarrow> ('k \<Rightarrow> addr set) \<Rightarrow> 'k posix \<Rightarrow> bool" where
  "reliable_munmap page mapped sys \<longleftrightarrow>
     (\<forall>a n w. a mod page = 0 \<longrightarrow> n \<noteq> 0 \<longrightarrow> pages_of page a n \<subseteq> mapped (kernel_of w) \<longrightarrow>
        fst (run_state (sys_munmap sys a n) w) \<noteq> -1)"

lemma pages_of_none [simp]: "pages_of page a 0 = {}"
  by (simp add: pages_of_def)

lemma documented_munmapD:
  assumes "documented_munmap page mapped sys" and "run_state (sys_munmap sys a n) w = (r, w')"
  shows "r = -1 \<Longrightarrow> mapped (kernel_of w') \<subseteq> mapped (kernel_of w) \<and>
      mapped (kernel_of w) - mapped (kernel_of w') \<subseteq> pages_of page a n"
    and "r \<noteq> -1 \<Longrightarrow> mapped (kernel_of w') = mapped (kernel_of w) - pages_of page a n"
  using assms(1) [unfolded documented_munmap_def, rule_format, OF assms(2)] by simp_all

lemma documented_mmapD:
  assumes "documented_mmap page hdr MAP_FAILED mapped sys"
    and "run_state (sys_mmap sys a n prot flags fd off) w = (r, w')"
  shows "r = MAP_FAILED \<Longrightarrow> errno_of w' \<noteq> 0 \<and> mapped (kernel_of w') \<subseteq> mapped (kernel_of w) \<and>
      mapped (kernel_of w) - mapped (kernel_of w') \<subseteq> pages_of page a n"
    and "r \<noteq> MAP_FAILED \<Longrightarrow> mapped (kernel_of w') = mapped (kernel_of w) \<union> pages_of page r n \<and>
      (if flags AND hdr ''MAP_FIXED'' \<noteq> 0 then r = a
       else r mod page = 0 \<and> pages_of page r n \<inter> mapped (kernel_of w) = {})"
  using assms(1) [unfolded documented_mmap_def, rule_format, OF assms(2)] by simp_all

text \<open>The policy on the null mapping, whose length is 0, unmaps nothing.\<close>

lemma close_mmap_null:
  assumes "documented_munmap page mapped sys"
  shows "mapped (kernel_of (snd (run_state (close_mmap sys (mmap_d_null MAP_FAILED)) w))) =
    mapped (kernel_of w)"
proof -
  obtain r w' where "run_state (sys_munmap sys MAP_FAILED 0) w = (r, w')"
    by (cases "run_state (sys_munmap sys MAP_FAILED 0) w")
  with documented_munmapD [OF assms this] show ?thesis
    by (cases "r = -1") (auto simp: close_mmap_def mmap_d_null_def)
qed

text \<open>A mapping of pages that were not mapped is given back by the destructor.\<close>

lemma mmap_destroy_restores:
  assumes munmap: "documented_munmap page mapped sys" "reliable_munmap page mapped sys"
    and m: "m = mmap_of (mmap_d_make ptr n)" "ptr mod page = 0"
    and more: "mapped (kernel_of w1) = M \<union> pages_of page ptr n" "pages_of page ptr n \<inter> M = {}"
  shows "mapped (kernel_of (snd (run_state (mmap_destroy sys MAP_FAILED m) w1))) = M"
proof -
  obtain r w2 where run: "run_state (sys_munmap sys ptr n) w1 = (r, w2)"
    by (cases "run_state (sys_munmap sys ptr n) w1")
  have "r \<noteq> -1" if "n \<noteq> 0"
    using munmap(2) m(2) more(1) that run unfolding reliable_munmap_def
    by (metis Un_upper2 fst_conv)
  moreover have "mapped (kernel_of w2) = M"
    if "r \<noteq> -1"
    using documented_munmapD(2) [OF munmap(1) run that] more by blast
  moreover have "mapped (kernel_of w2) = M" if "n = 0" "r = -1"
    using documented_munmapD(1) [OF munmap(1) run \<open>r = -1\<close>] more \<open>n = 0\<close> by auto
  ultimately have "mapped (kernel_of w2) = M"
    by blast
  with run show ?thesis
    by (simp add: run_simps m(1) mmap_of_def close_mmap_def mmap_d_make_def)
qed

lemma mmap_map_spec:
  assumes "documented_munmap page mapped sys"
    and "documented_mmap page hdr MAP_FAILED mapped sys"
    and "run_state (mmap_map sys MAP_FAILED a len prot flags fd off) w = (res, w')"
  shows "case res of
      Value m \<Rightarrow> \<exists>ptr. m = mmap_of (mmap_d_make ptr len) \<and> ptr \<noteq> MAP_FAILED \<and>
        mapped (kernel_of w') = mapped (kernel_of w) \<union> pages_of page ptr len \<and>
        (if mmap_flag_bits (enum_flag_value flags) AND hdr ''MAP_FIXED'' \<noteq> 0 then ptr = a
         else ptr mod page = 0 \<and> pages_of page ptr len \<inter> mapped (kernel_of w) = {})
    | Error ec \<Rightarrow> is_error ec \<and> ec_value ec = errno_of w' \<and>
        mapped (kernel_of w') \<subseteq> mapped (kernel_of w) \<and>
        mapped (kernel_of w) - mapped (kernel_of w') \<subseteq> pages_of page a len"
proof -
  let ?call = "sys_mmap sys a len (mmap_protection_bits (enum_flag_value prot))
    (mmap_flag_bits (enum_flag_value flags)) (raw_fd_value fd) off"
  obtain r w1 where run: "run_state ?call w = (r, w1)"
    by (cases "run_state ?call w")
  note doc = documented_mmapD [OF assms(2) run]
  show ?thesis
  proof (cases "r = MAP_FAILED")
    case True
    have "res = Error (make_errno_code (errno_of w1))" "w' = w1"
      using assms(3) run True by (auto simp: mmap_map_def run_simps)
    with doc(1) [OF True] show ?thesis
      by simp
  next
    case False
    have "res = Value (mmap_of (mmap_d_make r len))"
      "w' = snd (run_state (close_mmap sys (mmap_d_null MAP_FAILED)) w1)"
      using assms(3) run False by (auto simp: mmap_map_def run_simps mmap_of_def)
    with doc(2) [OF False] close_mmap_null [OF assms(1), of MAP_FAILED w1] False show ?thesis
      by (simp only: result.case) (rule exI [of _ r], simp)
  qed
qed

text \<open>Without \<open>MAP_FIXED\<close>, destroying the object gives back what \<open>map\<close> took.\<close>

lemma mmap_open_then_destroy:
  assumes "documented_munmap page mapped sys" and "reliable_munmap page mapped sys"
    and "documented_mmap page hdr MAP_FAILED mapped sys"
    and "mmap_flag_bits (enum_flag_value flags) AND hdr ''MAP_FIXED'' = 0"
  shows "destroy_restores mapped (mmap_map sys MAP_FAILED a len prot flags fd off)
    (mmap_destroy sys MAP_FAILED)"
  unfolding destroy_restores_def
proof (intro allI impI)
  fix w m w1
  assume "run_state (mmap_map sys MAP_FAILED a len prot flags fd off) w = (Value m, w1)"
  from mmap_map_spec [OF assms(1,3) this]
  obtain ptr where m: "m = mmap_of (mmap_d_make ptr len)"
    and more: "mapped (kernel_of w1) = mapped (kernel_of w) \<union> pages_of page ptr len"
    and target: "if mmap_flag_bits (enum_flag_value flags) AND hdr ''MAP_FIXED'' \<noteq> 0 then ptr = a
      else ptr mod page = 0 \<and> pages_of page ptr len \<inter> mapped (kernel_of w) = {}"
    unfolding result.case by blast
  have free: "ptr mod page = 0 \<and> pages_of page ptr len \<inter> mapped (kernel_of w) = {}"
    using target by (simp only: assms(4) simp_thms if_False)
  show "mapped (kernel_of (snd (run_state (mmap_destroy sys MAP_FAILED m) w1))) =
      mapped (kernel_of w)"
    by (rule mmap_destroy_restores [OF assms(1,2) m free [THEN conjunct1] more free [THEN conjunct2]])
qed

section \<open>A concrete system\<close>

text \<open>\<open>mmap\<close> gives the address 4096; \<open>MAP_FAILED\<close> is the largest address.\<close>

definition demo_mmap_posix :: "mmap_d set posix" where
  "demo_mmap_posix = stub_posix
     \<lparr>sys_munmap := (\<lambda>p n. table_close (mmap_d_make p n)),
      sys_mmap := (\<lambda>_ n _ _ _ _. table_open (mmap_d_make 4096 n) 4096 (-1))\<rparr>"

lemma mmap_d_make_collapse [simp]: "mmap_d_make (mmap_address m) (mmap_length m) = m"
  by (simp add: mmap_d_make_def)

lemma demo_mmap_posix_sel [simp]:
  "sys_munmap demo_mmap_posix p n = table_close (mmap_d_make p n)"
  "sys_mmap demo_mmap_posix q n a b c e = table_open (mmap_d_make 4096 n) 4096 (-1)"
  by (simp_all add: demo_mmap_posix_def)

lemma demo_mmap_table:
  "handle_table (\<lambda>m. sys_munmap demo_mmap_posix (mmap_address m) (mmap_length m))
     (\<lambda>k. k - {mmap_d_null (-1)}) (mmap_d_null (-1))"
  using handle_table_close [of "mmap_d_null (-1)"] by simp

lemma demo_mmap_reliable:
  "reliable_close (\<lambda>m. sys_munmap demo_mmap_posix (mmap_address m) (mmap_length m))
     (\<lambda>k. k - {mmap_d_null (-1)})"
  using reliable_table_close [of "mmap_d_null (-1)"] by simp

text \<open>
  A system of pages of 4096 bytes, for the documentation at that level: without \<open>MAP_FIXED\<close>, which is
  16, \<open>mmap\<close> maps at the address 4096 if the pages there are free.
\<close>

definition demo_page_headers :: headers where
  "demo_page_headers name = (if name = ''MAP_FIXED'' then 16 else 0)"

definition demo_page_munmap :: "addr \<Rightarrow> size_t \<Rightarrow> (addr set, c_int) io" where
  "demo_page_munmap a n = do {
     w \<leftarrow> State_Monad.get;
     if n = 0 then fail_with 22 (-1)
     else do {
       State_Monad.set (w\<lparr>kernel_of := kernel_of w - pages_of 4096 a n\<rparr>);
       State_Monad.return 0
     }
   }"

definition demo_page_target :: "addr \<Rightarrow> c_int \<Rightarrow> addr" where
  "demo_page_target a flags = (if flags AND 16 \<noteq> 0 then a else 4096)"

definition demo_page_mmap :: "addr \<Rightarrow> size_t \<Rightarrow> c_int \<Rightarrow> (addr set, addr) io" where
  "demo_page_mmap a n flags = do {
     w \<leftarrow> State_Monad.get;
     let r = demo_page_target a flags;
     if r mod 4096 = 0 \<and> (flags AND 16 \<noteq> 0 \<or> pages_of 4096 r n \<inter> kernel_of w = {})
     then do {
       State_Monad.set (w\<lparr>kernel_of := kernel_of w \<union> pages_of 4096 r n\<rparr>);
       State_Monad.return r
     }
     else fail_with 22 (-1)
   }"

definition demo_page_posix :: "addr set posix" where
  "demo_page_posix = stub_posix
     \<lparr>sys_munmap := demo_page_munmap, sys_mmap := (\<lambda>a n _ flags _ _. demo_page_mmap a n flags)\<rparr>"

lemma demo_page_posix_sel [simp]:
  "sys_munmap demo_page_posix = demo_page_munmap"
  "sys_mmap demo_page_posix a n prot flags fd off = demo_page_mmap a n flags"
  by (simp_all add: demo_page_posix_def)

lemma run_demo_page_munmap [simp]:
  "run_state (demo_page_munmap a n) w =
     (if n = 0 then (-1, w\<lparr>errno_of := 22\<rparr>)
      else (0, w\<lparr>kernel_of := kernel_of w - pages_of 4096 a n\<rparr>))"
  by (simp add: demo_page_munmap_def fail_with_def)

lemma run_demo_page_mmap:
  "run_state (demo_page_mmap a n flags) w =
     (if demo_page_target a flags mod 4096 = 0 \<and>
         (flags AND 16 \<noteq> 0 \<or> pages_of 4096 (demo_page_target a flags) n \<inter> kernel_of w = {})
      then (demo_page_target a flags,
        w\<lparr>kernel_of := kernel_of w \<union> pages_of 4096 (demo_page_target a flags) n\<rparr>)
      else (-1, w\<lparr>errno_of := 22\<rparr>))"
  unfolding demo_page_mmap_def fail_with_def Let_def by auto

lemma demo_page_munmaps:
  "documented_munmap 4096 id demo_page_posix" "reliable_munmap 4096 id demo_page_posix"
proof -
  show "documented_munmap 4096 id demo_page_posix"
    unfolding documented_munmap_def demo_page_posix_sel run_demo_page_munmap
    by (intro allI impI) (auto split: if_splits)
  show "reliable_munmap 4096 id demo_page_posix"
    unfolding reliable_munmap_def demo_page_posix_sel run_demo_page_munmap by simp
qed

lemma minus_1_mod_page: "(-1 :: addr) mod 4096 \<noteq> 0"
  by (simp add: word_mod_def unsigned_minus_1_eq_mask mask_eq_exp_minus_1)

lemma demo_page_mmaps: "documented_mmap 4096 demo_page_headers (-1) id demo_page_posix"
  unfolding documented_mmap_def demo_page_posix_sel
proof (intro allI impI)
  fix a n flags w r w'
  assume run: "run_state (demo_page_mmap a n flags) w = (r, w')"
  show "if r = -1
      then errno_of w' \<noteq> 0 \<and> id (kernel_of w') \<subseteq> id (kernel_of w) \<and>
        id (kernel_of w) - id (kernel_of w') \<subseteq> pages_of 4096 a n
      else id (kernel_of w') = id (kernel_of w) \<union> pages_of 4096 r n \<and>
        (if flags AND demo_page_headers ''MAP_FIXED'' \<noteq> 0 then r = a
         else r mod 4096 = 0 \<and> pages_of 4096 r n \<inter> id (kernel_of w) = {})"
  proof (cases "demo_page_target a flags mod 4096 = 0 \<and>
      (flags AND 16 \<noteq> 0 \<or> pages_of 4096 (demo_page_target a flags) n \<inter> kernel_of w = {})")
    case True
    then have "demo_page_target a flags \<noteq> -1"
      using minus_1_mod_page by metis
    with True run show ?thesis
      by (auto simp: run_demo_page_mmap demo_page_headers_def demo_page_target_def)
  next
    case False
    with run have "r = -1 \<and> w\<lparr>errno_of := 22\<rparr> = w'"
      unfolding run_demo_page_mmap by (simp only: if_False prod.inject)
    then show ?thesis
      by auto
  qed
qed

section \<open>Properties\<close>

lemma demo_page_map:
  "run_state (mmap_map demo_page_posix (-1) 0 512 (Enum_flag (Mmap_protection 1))
     (Enum_flag (Mmap_flag 2)) (Raw_fd (-1)) 0) (table_world {}) =
   (Value (mmap_of (mmap_d_make 4096 512)),
    (table_world (pages_of 4096 4096 512))\<lparr>errno_of := 22\<rparr>)"
  by (simp add: mmap_map_def run_simps mmap_of_def close_mmap_def table_world_def mmap_d_null_def
      mmap_d_make_def run_demo_page_mmap demo_page_target_def)

text \<open>
  C7.  If the system's \<open>mmap\<close> and \<open>munmap\<close> behave as documented, \<open>mmap::map\<close> either returns an object that owns
  exactly the region of the requested length at the system's address, with the pages of the
  region mapped besides those that were, at the requested address if the flags contain
  \<open>mmap_fixed\<close> and in pages that were free otherwise; or it returns an error code with \<open>errno\<close>, and
  then nothing new is mapped and at most pages of the requested region have been unmapped.
\<close>

theorem mmap_map_opens:
  assumes "documented_munmap page mapped sys"
    and "documented_mmap page hdr MAP_FAILED mapped sys"
    and "run_state (mmap_map sys MAP_FAILED a len prot flags fd off) w = (res, w')"
  shows "case res of
      Value m \<Rightarrow> \<exists>ptr. m = mmap_of (mmap_d_make ptr len) \<and> ptr \<noteq> MAP_FAILED \<and>
        mapped (kernel_of w') = mapped (kernel_of w) \<union> pages_of page ptr len \<and>
        (if mmap_flag_bits (enum_flag_value flags) AND hdr ''MAP_FIXED'' \<noteq> 0 then ptr = a
         else ptr mod page = 0 \<and> pages_of page ptr len \<inter> mapped (kernel_of w) = {})
    | Error ec \<Rightarrow> is_error ec \<and> ec_value ec = errno_of w' \<and>
        mapped (kernel_of w') \<subseteq> mapped (kernel_of w) \<and>
        mapped (kernel_of w) - mapped (kernel_of w') \<subseteq> pages_of page a len"
  by (rule mmap_map_spec [OF assms])

theorem mmap_map_opens_witness:
  "pages_of 4096 4096 512 \<inter> kernel_of (table_world {}) = {} \<and>
   kernel_of (table_world (pages_of 4096 4096 512)) =
     kernel_of (table_world {}) \<union> pages_of 4096 (mmap_address (mmap_d_make 4096 512)) 512"
  using mmap_map_opens [OF demo_page_munmaps(1) demo_page_mmaps demo_page_map]
  by (auto simp: mmap_of_def descriptor_of_def mmap_d_make_def)



text \<open>
  The static assertion against combining \<open>PROT_NONE\<close> with other protections rejects nothing
  where \<open>PROT_NONE\<close> is 0, as it is on every supported platform.
\<close>

lemma mmap_protection_none_vacuous:
  assumes "hdr ''PROT_NONE'' = 0"
  shows "mmap_protection_accepts hdr
    (mmap_protection_or (mmap_protection_constant hdr ''none'') prot)"
  using assms
  by (simp add: mmap_protection_accepts_def mmap_protection_constant_def enum_flag_has_flag_def
      mmap_protection_table_def enumerator_def)

end
