(* ===== verification/Dirent.thy ===== *)
theory Dirent
  imports Opening
begin

text \<open>
  \<^verbatim>\<open>dirent.hpp\<close> and \<^verbatim>\<open>dirent.cpp\<close>: directory streams.  A \<open>DIR *\<close> is an address; the null handle of
  \<open>unique_dirent\<close> is the null pointer.
\<close>

definition close_dir :: "'k posix \<Rightarrow> ('k, addr) close_policy" where
  "close_dir sys dir = common_call (sys_closedir sys dir)"

datatype dir_fd = Dir_fd (dir_fd_value: c_int)

definition unique_dirent_null :: addr where
  "unique_dirent_null = nullptr"

type_synonym unique_dirent = "addr descriptor"

text \<open>
  Both overloads return \<open>unique_dirent{dir}\<close> as a \<open>result\<close>, which moves the temporary and
  then destroys it.
\<close>

definition opendir_fd :: "'k posix \<Rightarrow> dir_fd \<Rightarrow> ('k, unique_dirent result) io" where
  "opendir_fd sys fd = do {
     dir \<leftarrow> sys_fdopendir sys (dir_fd_value fd);
     if dir = nullptr
     then do { ec \<leftarrow> current_errno_code; State_Monad.return (Error ec) }
     else do {
       d \<leftarrow> descriptor_into_result (close_dir sys) unique_dirent_null (descriptor_of dir);
       State_Monad.return (Value d)
     }
   }"

definition opendir_path :: "'k posix \<Rightarrow> string \<Rightarrow> ('k, unique_dirent result) io" where
  "opendir_path sys path = do {
     dir \<leftarrow> sys_opendir sys path;
     if dir = nullptr
     then do { ec \<leftarrow> current_errno_code; State_Monad.return (Error ec) }
     else do {
       d \<leftarrow> descriptor_into_result (close_dir sys) unique_dirent_null (descriptor_of dir);
       State_Monad.return (Value d)
     }
   }"

interpretation dir_policy: close_policy unique_dirent_null "close_dir sys" "sys_closedir sys" for sys
  by unfold_locales (rule close_dir_def)

lemma run_opendir_path [run_simps]:
  "run_state (opendir_path sys path) w =
     (let (dir, w1) = run_state (sys_opendir sys path) w
      in if dir = nullptr then (Error (make_errno_code (errno_of w1)), w1)
         else (Value (descriptor_of dir), snd (run_state (sys_closedir sys nullptr) w1)))"
  by (simp add: opendir_path_def run_simps close_dir_def unique_dirent_null_def)

lemma run_opendir_fd [run_simps]:
  "run_state (opendir_fd sys fd) w =
     (let (dir, w1) = run_state (sys_fdopendir sys (dir_fd_value fd)) w
      in if dir = nullptr then (Error (make_errno_code (errno_of w1)), w1)
         else (Value (descriptor_of dir), snd (run_state (sys_closedir sys nullptr) w1)))"
  by (simp add: opendir_fd_def run_simps close_dir_def unique_dirent_null_def)

text \<open>The owner is the descriptor itself.\<close>

interpretation dir_opening: owner_open unique_dirent_null "close_dir sys" "sys_closedir sys" 1
    "handle_unless nullptr (\<lambda>d. d)" "\<lambda>d. d" "sys_opendir sys" "opendir_path sys" for sys
  by unfold_locales
    (auto simp: run_simps close_dir_def unique_dirent_null_def handle_unless_def)

interpretation dir_fd_opening: owner_open unique_dirent_null "close_dir sys" "sys_closedir sys" 1
    "handle_unless nullptr (\<lambda>d. d)" "\<lambda>d. d" "\<lambda>fd. sys_fdopendir sys (dir_fd_value fd)"
    "opendir_fd sys" for sys
  by unfold_locales
    (auto simp: run_simps close_dir_def unique_dirent_null_def handle_unless_def)

section \<open>Properties\<close>

text \<open>\<open>opendir\<close> gives the stream at address 16.\<close>

definition demo_dir_posix :: "addr set posix" where
  "demo_dir_posix = stub_posix
     \<lparr>sys_closedir := table_close, sys_opendir := (\<lambda>_. table_open 16 16 nullptr),
      sys_fdopendir := (\<lambda>_. table_open 16 16 nullptr)\<rparr>"

lemma demo_dir_posix_sel [simp]:
  "sys_closedir demo_dir_posix = table_close"
  "sys_opendir demo_dir_posix path = table_open 16 16 nullptr"
  "sys_fdopendir demo_dir_posix fd = table_open 16 16 nullptr"
  by (simp_all add: demo_dir_posix_def)

lemma demo_dir_open:
  "documented_open (table_open 16 16 nullptr) (handle_unless nullptr (\<lambda>d. d))
     (\<lambda>k. k - {nullptr :: addr})"
  by (rule documented_table_open) simp_all

text \<open>
  What a caller of \<open>opendir\<close> gets of the system's call \<open>call\<close>: the owner of the new stream that it
  opened, after exactly one more call, \<open>closedir\<close> of the null pointer; or an error code with the
  \<open>errno\<close> of the call and no change to the open streams.
\<close>

definition opens_stream ::
  "'k posix \<Rightarrow> ('k \<Rightarrow> addr set) \<Rightarrow> ('k, addr) io \<Rightarrow> 'k world \<Rightarrow> unique_dirent result \<times> 'k world \<Rightarrow> bool"
  where
  "opens_stream sys opened call w outcome \<longleftrightarrow>
     (case outcome of
        (Value d, w') \<Rightarrow> \<exists>stream w1. run_state call w = (stream, w1) \<and> d = descriptor_of stream \<and>
          stream \<noteq> nullptr \<and> stream \<notin> opened (kernel_of w) \<and>
          opened (kernel_of w1) = insert stream (opened (kernel_of w)) \<and>
          w' = snd (run_state (sys_closedir sys nullptr) w1)
      | (Error ec, w') \<Rightarrow> is_error ec \<and> ec_value ec = errno_of w' \<and>
          opened (kernel_of w') = opened (kernel_of w))"

lemma opens_streamI:
  assumes doc: "documented_open call (handle_unless nullptr (\<lambda>d. d)) opened"
    and op: "run_state m w =
      (let (dir, w1) = run_state call w
       in if dir = nullptr then (Error (make_errno_code (errno_of w1)), w1)
          else (Value (descriptor_of dir), snd (run_state (sys_closedir sys nullptr) w1)))"
  shows "opens_stream sys opened call w (run_state m w)"
proof -
  obtain dir w1 where run: "run_state call w = (dir, w1)"
    by (cases "run_state call w")
  note opn = documented_openD [OF doc run]
  show ?thesis
  proof (cases "dir = nullptr")
    case True
    with opn(1) run op show ?thesis
      by (simp add: opens_stream_def)
  next
    case False
    with opn(2) [of dir] run op show ?thesis
      by (simp add: opens_stream_def)
  qed
qed

text \<open>
  C8.  Both overloads of \<open>opendir\<close> return an error code with the \<open>errno\<close> of the system's call and no
  change to the open streams, or the owner of exactly the new stream that the call opened.  In the
  second case they make one more call, \<open>closedir\<close> of the null pointer, for the temporary that was
  moved from: the state they leave is the one which that call leaves, and what it does POSIX does
  not say.
\<close>

theorem opendir_opens:
  assumes "documented_open (sys_opendir sys path) (handle_unless nullptr (\<lambda>d. d)) opened"
    and "documented_open (sys_fdopendir sys (dir_fd_value fd)) (handle_unless nullptr (\<lambda>d. d)) opened"
  shows "opens_stream sys opened (sys_opendir sys path) w (run_state (opendir_path sys path) w) \<and>
    opens_stream sys opened (sys_fdopendir sys (dir_fd_value fd)) w (run_state (opendir_fd sys fd) w)"
  using opens_streamI [OF assms(1) run_opendir_path] opens_streamI [OF assms(2) run_opendir_fd]
  by blast

theorem opendir_opens_witness:
  "opens_stream demo_dir_posix (\<lambda>k. k - {nullptr}) (table_open 16 16 nullptr) (table_world {})
     (Value (descriptor_of 16), (table_world {16})\<lparr>errno_of := 9\<rparr>)"
  using opendir_opens [of demo_dir_posix "''/tmp''" "\<lambda>k. k - {nullptr}" "Dir_fd 3" "table_world {}"]
    demo_dir_open
  by (simp add: run_simps table_world_def)

text \<open>
  A successful \<open>opendir\<close> always hands the null pointer to \<open>closedir\<close>, and \<open>errno\<close> is what that
  call leaves: the temporary owner that was moved from closes its null handle.
\<close>

lemma opendir_closes_null:
  assumes "run_state (sys_opendir sys path) w = (dir, wa)" and "dir \<noteq> nullptr"
    and "run_state (sys_closedir sys nullptr) wa = (r, wb)"
  shows "run_state (opendir_path sys path) w = (Value (descriptor_of dir), wb)"
  using assms by (simp add: run_simps)

end
