(* ===== verification/Mqueue.thy ===== *)
theory Mqueue
  imports Object_Program Span Signal Time
begin

text \<open>
  \<^verbatim>\<open>rt/mqueue.hpp\<close> and \<^verbatim>\<open>rt/mqueue.cpp\<close>: POSIX message queues.  An \<open>mqd_t\<close> is an \<open>int\<close>.
\<close>

section \<open>Enumerations and small types\<close>

definition NULL_MQD_T :: c_int where
  "NULL_MQD_T = -1"

datatype mq_mode = Mq_mode (mq_mode_bits: c_int)

definition mq_mode_table :: enum_table where
  "mq_mode_table =
     [(''read_only'', Macro ''O_RDONLY''), (''write_only'', Macro ''O_WRONLY''),
      (''read_write'', Macro ''O_RDWR'')]"

datatype mq_option = Mq_option (mq_option_bits: c_int)

definition mq_option_table :: enum_table where
  "mq_option_table =
     [(''create'', Macro ''O_CREAT''), (''excl'', Macro ''O_EXCL''),
      (''non_blocking'', Macro ''O_NONBLOCK'')]"

definition mq_option_value :: "headers \<Rightarrow> string \<Rightarrow> mq_option" where
  "mq_option_value hdr name = Mq_option (the (enumerator hdr mq_option_table name))"

definition mq_mode_constant :: "headers \<Rightarrow> string \<Rightarrow> mq_mode exclusive_enum_flag" where
  "mq_mode_constant hdr name =
     Exclusive_enum_flag (Mq_mode (the (enumerator hdr mq_mode_table name)))"

definition mq_excl :: "headers \<Rightarrow> mq_option enum_flag" where
  "mq_excl hdr = Enum_flag (mq_option_value hdr ''excl'')"

definition mq_non_blocking :: "headers \<Rightarrow> mq_option enum_flag" where
  "mq_non_blocking hdr = Enum_flag (mq_option_value hdr ''non_blocking'')"

definition mq_option_or :: "mq_option enum_flag \<Rightarrow> mq_option enum_flag \<Rightarrow> mq_option enum_flag" where
  "mq_option_or = enum_flag_or mq_option_bits Mq_option"

interpretation mq_option: flag_enum mq_option_bits Mq_option
    "\<lambda>a b. enum_flag_value (mq_option_or (Enum_flag a) (Enum_flag b))"
  by unfold_locales (simp_all add: mq_option_or_def enum_flag_or_def)

record mq_current_attr =
  current_attributes :: c_mq_attr

definition mq_current_message_count :: "mq_current_attr \<Rightarrow> c_long" where
  "mq_current_message_count this = mq_curmsgs (current_attributes this)"

definition mq_max_message_count :: "mq_current_attr \<Rightarrow> c_long" where
  "mq_max_message_count this = mq_maxmsg (current_attributes this)"

definition mq_max_message_size :: "mq_current_attr \<Rightarrow> c_long" where
  "mq_max_message_size this = mq_msgsize (current_attributes this)"

record mq_create_queue =
  create_attributes :: c_mq_attr

definition mq_create_queue_make :: "c_long \<Rightarrow> c_long \<Rightarrow> mq_create_queue" where
  "mq_create_queue_make max_message_count max_message_size =
     \<lparr>create_attributes =
        zero_mq_attr\<lparr>mq_maxmsg := max_message_count, mq_msgsize := max_message_size\<rparr>\<rparr>"

datatype mq_message_priority = Mq_message_priority (mq_message_priority_value: c_uint)

definition mq_message_priority_max :: "headers \<Rightarrow> mq_message_priority" where
  "mq_message_priority_max hdr = Mq_message_priority (hdr ''_POSIX_MQ_PRIO_MAX'')"

text \<open>Values of the enumeration compare as their underlying integers.\<close>

instantiation mq_message_priority :: linorder
begin

definition less_eq_mq_message_priority :: "mq_message_priority \<Rightarrow> mq_message_priority \<Rightarrow> bool" where
  "less_eq_mq_message_priority a b \<longleftrightarrow> mq_message_priority_value a \<le> mq_message_priority_value b"

definition less_mq_message_priority :: "mq_message_priority \<Rightarrow> mq_message_priority \<Rightarrow> bool" where
  "less_mq_message_priority a b \<longleftrightarrow> mq_message_priority_value a < mq_message_priority_value b"

instance
  by standard
    (auto simp: less_eq_mq_message_priority_def less_mq_message_priority_def mq_message_priority.expand)

end

text \<open>
  \<open>mq_static_message_priority\<close> carries a priority in its type, here as a value; it compares
  equal to a dynamic priority from both sides.
\<close>

definition mq_static_priority_eq :: "mq_message_priority \<Rightarrow> mq_message_priority \<Rightarrow> bool" where
  "mq_static_priority_eq Priority rhs \<longleftrightarrow> Priority = rhs"

definition mq_priority_eq_static :: "mq_message_priority \<Rightarrow> mq_message_priority \<Rightarrow> bool" where
  "mq_priority_eq_static lhs Priority \<longleftrightarrow> Priority = lhs"

definition mq_make_static_message_priority :: "c_uint \<Rightarrow> mq_message_priority" where
  "mq_make_static_message_priority Priority = Mq_message_priority Priority"

record mq_message =
  message_priority :: mq_message_priority
  message_bytes :: byte_span

record mq_notify_signal =
  notify_event :: c_sigevent

definition mq_notify_signal_int ::
  "headers \<Rightarrow> sig_number \<Rightarrow> addr \<Rightarrow> c_int \<Rightarrow> mq_notify_signal" where
  "mq_notify_signal_int hdr number handler value =
     \<lparr>notify_event = sigevent_int (sig_notify_value hdr ''signal'') number handler value\<rparr>"

definition mq_notify_signal_ptr ::
  "headers \<Rightarrow> sig_number \<Rightarrow> addr \<Rightarrow> addr \<Rightarrow> mq_notify_signal" where
  "mq_notify_signal_ptr hdr number handler value =
     \<lparr>notify_event = sigevent_ptr (sig_notify_value hdr ''signal'') number handler value\<rparr>"

section \<open>The class\<close>

definition close_mq_d :: "'k posix \<Rightarrow> ('k, c_int) close_policy" where
  "close_mq_d sys mq_descriptor = common_call (sys_mq_close sys mq_descriptor)"

record mq =
  mq_d :: "c_int descriptor"

definition mq_of :: "c_int \<Rightarrow> mq" where
  "mq_of d = \<lparr>mq_d = descriptor_of d\<rparr>"

text \<open>
  The default constructor leaves the member empty, the defaulted move constructor moves it; the
  implicit destructor destroys it.
\<close>

definition mq_default :: mq where
  "mq_default = \<lparr>mq_d = descriptor_default NULL_MQD_T\<rparr>"

definition mq_move :: "mq \<Rightarrow> mq \<times> mq" where
  "mq_move other =
     (let (member, other') = descriptor_move NULL_MQD_T (mq_d other)
      in (\<lparr>mq_d = member\<rparr>, \<lparr>mq_d = other'\<rparr>))"

text \<open>The defaulted move assignment, undefined like \<open>descriptor_move_assign\<close> of the member.\<close>

definition mq_move_assign :: "mq \<Rightarrow> mq \<Rightarrow> (mq \<times> mq) \<times> mq option" where
  "mq_move_assign this other =
     (let ((member, member'), returned) = descriptor_move_assign (mq_d this) (mq_d other);
          this' = this\<lparr>mq_d := member\<rparr>
      in ((this', other\<lparr>mq_d := member'\<rparr>), map_option (\<lambda>_. this') returned))"

lemma mq_move_assign_eq: "mq_move_assign this other = ((other, this), None)"
  by (cases this; cases other) (simp add: mq_move_assign_def descriptor_move_assign_eq)

definition mq_destroy :: "'k posix \<Rightarrow> mq \<Rightarrow> ('k, unit) io" where
  "mq_destroy sys this = descriptor_destroy (close_mq_d sys) NULL_MQD_T (mq_d this)"

text \<open>\<open>return mq{res};\<close> moves the temporary \<open>mq\<close> into the \<open>result\<close> and destroys it.\<close>

definition mq_into_result :: "'k posix \<Rightarrow> mq \<Rightarrow> ('k, mq result) io" where
  "mq_into_result sys tmp = do {
     d \<leftarrow> descriptor_into_result (close_mq_d sys) NULL_MQD_T (mq_d tmp);
     State_Monad.return (Value \<lparr>mq_d = d\<rparr>)
   }"

subsection \<open>Opening\<close>

definition mq_unsafe_open ::
  "'k posix \<Rightarrow> string \<Rightarrow> mq_mode \<Rightarrow> mq_option \<Rightarrow> ('k, mq result) io" where
  "mq_unsafe_open sys name mode option = do {
     mq_descriptor \<leftarrow> sys_mq_open sys name (mq_mode_bits mode OR mq_option_bits option) [];
     if mq_descriptor = NULL_MQD_T
     then do { ec \<leftarrow> current_errno_code; State_Monad.return (Error ec) }
     else mq_into_result sys (mq_of mq_descriptor)
   }"

definition mq_open_mode ::
  "'k posix \<Rightarrow> string \<Rightarrow> mq_mode exclusive_enum_flag \<Rightarrow> ('k, mq result) io" where
  "mq_open_mode sys name Mode = do {
     res \<leftarrow> sys_mq_open sys name (mq_mode_bits (exclusive_enum_flag_value Mode)) [];
     if res = NULL_MQD_T
     then do { ec \<leftarrow> current_errno_code; State_Monad.return (Error ec) }
     else mq_into_result sys (mq_of res)
   }"

text \<open>The static assertion compares the flag with \<open>excl\<close>; it does not test for the bit.\<close>

definition mq_open_flag_accepts :: "headers \<Rightarrow> mq_option enum_flag \<Rightarrow> bool" where
  "mq_open_flag_accepts hdr Flag \<longleftrightarrow> enum_flag_value Flag \<noteq> mq_option_value hdr ''excl''"

definition mq_open_flag ::
  "'k posix \<Rightarrow> string \<Rightarrow> mq_mode exclusive_enum_flag \<Rightarrow> mq_option enum_flag \<Rightarrow>
   ('k, mq result) io" where
  "mq_open_flag sys name Mode Flag = do {
     res \<leftarrow> sys_mq_open sys name
       (mq_mode_bits (exclusive_enum_flag_value Mode) OR mq_option_bits (enum_flag_value Flag)) [];
     if res = NULL_MQD_T
     then do { ec \<leftarrow> current_errno_code; State_Monad.return (Error ec) }
     else mq_into_result sys (mq_of res)
   }"

text \<open>
  The overloads with \<open>mq_create_queue\<close> pass the address of the attributes as the first optional
  argument, and no mode.
\<close>

definition mq_open_create ::
  "'k posix \<Rightarrow> string \<Rightarrow> mq_mode exclusive_enum_flag \<Rightarrow> mq_create_queue \<Rightarrow> ('k, mq result) io" where
  "mq_open_create sys name Mode attributes = do {
     res \<leftarrow> sys_mq_open sys name (mq_mode_bits (exclusive_enum_flag_value Mode))
       [Attr_arg (create_attributes attributes)];
     if res = NULL_MQD_T
     then do { ec \<leftarrow> current_errno_code; State_Monad.return (Error ec) }
     else mq_into_result sys (mq_of res)
   }"

definition mq_open_create_flags ::
  "'k posix \<Rightarrow> string \<Rightarrow> mq_mode exclusive_enum_flag \<Rightarrow> mq_option enum_flag \<Rightarrow> mq_create_queue \<Rightarrow>
   ('k, mq result) io" where
  "mq_open_create_flags sys name Mode Flags create_queue = do {
     res \<leftarrow> sys_mq_open sys name
       (mq_mode_bits (exclusive_enum_flag_value Mode) OR mq_option_bits (enum_flag_value Flags))
       [Attr_arg (create_attributes create_queue)];
     if res = NULL_MQD_T
     then do { ec \<leftarrow> current_errno_code; State_Monad.return (Error ec) }
     else mq_into_result sys (mq_of res)
   }"

definition mq_unlink :: "'k posix \<Rightarrow> string \<Rightarrow> ('k, error_code) io" where
  "mq_unlink sys name = common_call (sys_mq_unlink sys name)"

subsection \<open>Attributes\<close>

definition mq_getattr :: "'k posix \<Rightarrow> mq \<Rightarrow> ('k, mq_current_attr result) io" where
  "mq_getattr sys this = do {
     (res, attributes) \<leftarrow> sys_mq_getattr sys (descriptor_deref (mq_d this));
     if res = -1
     then do { ec \<leftarrow> current_errno_code; State_Monad.return (Error ec) }
     else State_Monad.return (Value \<lparr>current_attributes = attributes\<rparr>)
   }"

definition mq_setattr_accepts :: "headers \<Rightarrow> mq_option enum_flag \<Rightarrow> bool" where
  "mq_setattr_accepts hdr Option \<longleftrightarrow> \<not> enum_flag_has_flag mq_option_bits Option (mq_excl hdr)"

text \<open>The flags are an \<open>int\<close>, stored in a member of type \<open>long\<close>.\<close>

definition mq_setattr ::
  "'k posix \<Rightarrow> mq \<Rightarrow> mq_option enum_flag \<Rightarrow> ('k, mq_current_attr result) io" where
  "mq_setattr sys this Option = do {
     let new_attributes = zero_mq_attr\<lparr>mq_flags := scast (mq_option_bits (enum_flag_value Option))\<rparr>;
     (res, attributes) \<leftarrow> sys_mq_setattr sys (descriptor_deref (mq_d this)) new_attributes;
     if res = -1
     then do { ec \<leftarrow> current_errno_code; State_Monad.return (Error ec) }
     else State_Monad.return (Value \<lparr>current_attributes = attributes\<rparr>)
   }"

subsection \<open>Messages\<close>

definition mq_unsafe_send ::
  "'k posix \<Rightarrow> mq \<Rightarrow> byte_cspan \<Rightarrow> mq_message_priority \<Rightarrow> ('k, error_code) io" where
  "mq_unsafe_send sys this message priority =
     common_call (sys_mq_send sys (descriptor_deref (mq_d this)) (byte_cspan_data message)
       (byte_cspan_length message) (mq_message_priority_value priority))"

text \<open>The static assertion of \<open>send\<close> and \<open>timed_send\<close>; \<open>None\<close> is a call that is rejected.\<close>

definition mq_priority_accepts :: "headers \<Rightarrow> mq_message_priority \<Rightarrow> bool" where
  "mq_priority_accepts hdr Priority \<longleftrightarrow>
     Priority < mq_message_priority_max hdr"

definition mq_send ::
  "headers \<Rightarrow> 'k posix \<Rightarrow> mq \<Rightarrow> byte_cspan \<Rightarrow> mq_message_priority \<Rightarrow> ('k, error_code) io option" where
  "mq_send hdr sys this message Priority =
     (if mq_priority_accepts hdr Priority then Some (mq_unsafe_send sys this message Priority)
      else None)"

definition mq_receive :: "'k posix \<Rightarrow> mq \<Rightarrow> byte_span \<Rightarrow> ('k, mq_message result) io" where
  "mq_receive sys this message_buffer = do {
     (num_message_bytes, priority) \<leftarrow> sys_mq_receive sys (descriptor_deref (mq_d this))
       (byte_span_data message_buffer) (byte_span_length message_buffer);
     if num_message_bytes = -1
     then do { ec \<leftarrow> current_errno_code; State_Monad.return (Error ec) }
     else State_Monad.return (Value
       \<lparr>message_priority = Mq_message_priority priority,
        message_bytes = byte_span_make (byte_span_data message_buffer) num_message_bytes\<rparr>)
   }"

definition mq_timed_receive ::
  "'k posix \<Rightarrow> mq \<Rightarrow> byte_span \<Rightarrow> c_timespec \<Rightarrow> ('k, mq_message result) io" where
  "mq_timed_receive sys this message absolute_time = do {
     (res, priority) \<leftarrow> sys_mq_timedreceive sys (descriptor_deref (mq_d this))
       (byte_span_data message) (byte_span_length message) absolute_time;
     if res = -1
     then do { ec \<leftarrow> current_errno_code; State_Monad.return (Error ec) }
     else State_Monad.return (Value
       \<lparr>message_priority = Mq_message_priority priority,
        message_bytes = byte_span_make (byte_span_data message) res\<rparr>)
   }"

definition mq_unsafe_timed_send ::
  "'k posix \<Rightarrow> mq \<Rightarrow> byte_cspan \<Rightarrow> mq_message_priority \<Rightarrow> c_timespec \<Rightarrow> ('k, error_code) io" where
  "mq_unsafe_timed_send sys this message priority absolute_time =
     common_call (sys_mq_timedsend sys (descriptor_deref (mq_d this)) (byte_cspan_data message)
       (byte_cspan_length message) (mq_message_priority_value priority) absolute_time)"

definition mq_timed_send ::
  "headers \<Rightarrow> 'k posix \<Rightarrow> mq \<Rightarrow> byte_cspan \<Rightarrow> mq_message_priority \<Rightarrow> c_timespec \<Rightarrow>
   ('k, error_code) io option" where
  "mq_timed_send hdr sys this message Priority absolute_time =
     (if mq_priority_accepts hdr Priority
      then Some (mq_unsafe_timed_send sys this message Priority absolute_time) else None)"

subsection \<open>Notification\<close>

definition mq_deregister_notification :: "'k posix \<Rightarrow> mq \<Rightarrow> ('k, error_code) io" where
  "mq_deregister_notification sys this =
     common_call (sys_mq_notify sys (descriptor_deref (mq_d this)) None)"

definition mq_unsafe_notify :: "'k posix \<Rightarrow> mq \<Rightarrow> c_sigevent \<Rightarrow> ('k, error_code) io" where
  "mq_unsafe_notify sys this event =
     common_call (sys_mq_notify sys (descriptor_deref (mq_d this)) (Some event))"

definition mq_notify_none :: "headers \<Rightarrow> 'k posix \<Rightarrow> mq \<Rightarrow> ('k, error_code) io" where
  "mq_notify_none hdr sys this =
     mq_unsafe_notify sys this
       (sigevent_ptr (sig_notify_value hdr ''none'') (Sig_number 0) nullptr nullptr)"

definition mq_notify_with_signal :: "'k posix \<Rightarrow> mq \<Rightarrow> mq_notify_signal \<Rightarrow> ('k, error_code) io" where
  "mq_notify_with_signal sys this notify_signal =
     mq_unsafe_notify sys this (notify_event notify_signal)"

section \<open>Effects\<close>

interpretation mq_policy: close_policy NULL_MQD_T "close_mq_d sys" "sys_mq_close sys" for sys
  by unfold_locales (rule close_mq_d_def)

lemma mq_option_value_simps [simp]:
  "mq_option_value hdr ''create'' = Mq_option (hdr ''O_CREAT'')"
  "mq_option_value hdr ''excl'' = Mq_option (hdr ''O_EXCL'')"
  "mq_option_value hdr ''non_blocking'' = Mq_option (hdr ''O_NONBLOCK'')"
  by (simp_all add: mq_option_value_def mq_option_table_def enumerator_def)

lemma run_mq_into_result [run_simps]:
  "run_state (mq_into_result sys q) w =
     (Value q, snd (run_state (close_mq_d sys NULL_MQD_T) w))"
  by (cases q) (simp add: mq_into_result_def run_simps)

text \<open>All five ways to open make one call, and on success one more: the close of the null handle.\<close>

definition mq_opened :: "'k posix \<Rightarrow> ('k, c_int) io \<Rightarrow> ('k, mq result) io" where
  "mq_opened sys call = do {
     r \<leftarrow> call;
     if r = -1 then do { ec \<leftarrow> current_errno_code; State_Monad.return (Error ec) }
     else mq_into_result sys (mq_of r)
   }"

lemma mq_open_eqs:
  "mq_unsafe_open sys name mode option =
     mq_opened sys (sys_mq_open sys name (mq_mode_bits mode OR mq_option_bits option) [])"
  "mq_open_mode sys name md =
     mq_opened sys (sys_mq_open sys name (mq_mode_bits (exclusive_enum_flag_value md)) [])"
  "mq_open_flag sys name md fl =
     mq_opened sys (sys_mq_open sys name
       (mq_mode_bits (exclusive_enum_flag_value md) OR mq_option_bits (enum_flag_value fl)) [])"
  "mq_open_create sys name md cq =
     mq_opened sys (sys_mq_open sys name (mq_mode_bits (exclusive_enum_flag_value md))
       [Attr_arg (create_attributes cq)])"
  "mq_open_create_flags sys name md fl cq =
     mq_opened sys (sys_mq_open sys name
       (mq_mode_bits (exclusive_enum_flag_value md) OR mq_option_bits (enum_flag_value fl))
       [Attr_arg (create_attributes cq)])"
  by (simp_all add: mq_opened_def mq_unsafe_open_def mq_open_mode_def mq_open_flag_def
      mq_open_create_def mq_open_create_flags_def NULL_MQD_T_def)

lemma run_mq_opened [run_simps]:
  "run_state (mq_opened sys call) w =
     (let (r, w1) = run_state call w
      in if r = -1 then (Error (make_errno_code (errno_of w1)), w1)
         else (Value (mq_of r), snd (run_state (close_mq_d sys NULL_MQD_T) w1)))"
  by (simp add: mq_opened_def run_simps)

lemma run_mq_receive [run_simps]:
  "run_state (mq_receive sys q buf) w =
     (let ((n, prio), w') = run_state (sys_mq_receive sys (raw_descriptor (mq_d q))
            (byte_span_data buf) (byte_span_length buf)) w
      in (if n = -1 then Error (make_errno_code (errno_of w'))
          else Value \<lparr>message_priority = Mq_message_priority prio,
            message_bytes = byte_span_make (byte_span_data buf) n\<rparr>, w'))"
  by (simp add: mq_receive_def run_simps)

lemma run_mq_timed_receive [run_simps]:
  "run_state (mq_timed_receive sys q buf t) w =
     (let ((n, prio), w') = run_state (sys_mq_timedreceive sys (raw_descriptor (mq_d q))
            (byte_span_data buf) (byte_span_length buf) t) w
      in (if n = -1 then Error (make_errno_code (errno_of w'))
          else Value \<lparr>message_priority = Mq_message_priority prio,
            message_bytes = byte_span_make (byte_span_data buf) n\<rparr>, w'))"
  by (simp add: mq_timed_receive_def run_simps)

lemma run_mq_getattr [run_simps]:
  "run_state (mq_getattr sys q) w =
     (let ((r, a), w') = run_state (sys_mq_getattr sys (raw_descriptor (mq_d q))) w
      in (if r = -1 then Error (make_errno_code (errno_of w'))
          else Value \<lparr>current_attributes = a\<rparr>, w'))"
  by (simp add: mq_getattr_def run_simps)

lemma run_mq_setattr [run_simps]:
  "run_state (mq_setattr sys q opt) w =
     (let ((r, a), w') = run_state (sys_mq_setattr sys (raw_descriptor (mq_d q))
            (zero_mq_attr\<lparr>mq_flags := scast (mq_option_bits (enum_flag_value opt))\<rparr>)) w
      in (if r = -1 then Error (make_errno_code (errno_of w'))
          else Value \<lparr>current_attributes = a\<rparr>, w'))"
  by (simp add: mq_setattr_def run_simps)

text \<open>The five ways to open share one interpretation, for the call that each makes.\<close>

interpretation mq_opening: owner_open NULL_MQD_T "close_mq_d sys" "sys_mq_close sys" 1
    "handle_unless (-1) (\<lambda>d. d)" "\<lambda>d. \<lparr>mq_d = d\<rparr>" "\<lambda>call. call" "mq_opened sys" for sys
  by unfold_locales (auto simp: run_simps mq_of_def handle_unless_def)

section \<open>The class as a class of owners\<close>

text \<open>
  What \<open>mq_open\<close> does with \<open>O_CREAT\<close> depends on further arguments, which the class never passes as they
  are documented.  Without \<open>O_CREAT\<close> it takes none (one that is passed is ignored), and it opens a
  descriptor or fails.  The class is considered with the flags that do not contain that bit; the
  exported constants are such flags.
\<close>

definition documented_mq_open :: "headers \<Rightarrow> 'k posix \<Rightarrow> ('k \<Rightarrow> c_int set) \<Rightarrow> bool" where
  "documented_mq_open hdr sys opened \<longleftrightarrow>
     (\<forall>name bits args. bits AND hdr ''O_CREAT'' = 0 \<longrightarrow>
        documented_open (sys_mq_open sys name bits args) (handle_unless (-1) (\<lambda>d. d)) opened)"

lemma documented_mq_openD:
  "documented_mq_open hdr sys opened \<Longrightarrow> a AND hdr ''O_CREAT'' = 0 \<Longrightarrow>
     documented_open (sys_mq_open sys name a args) (handle_unless (-1) (\<lambda>d. d)) opened"
  "documented_mq_open hdr sys opened \<Longrightarrow> a AND hdr ''O_CREAT'' = 0 \<Longrightarrow> b AND hdr ''O_CREAT'' = 0 \<Longrightarrow>
     documented_open (sys_mq_open sys name (a OR b) args) (handle_unless (-1) (\<lambda>d. d)) opened"
  by (simp_all add: documented_mq_open_def bit.conj_disj_distrib2)

inductive mq_opens :: "headers \<Rightarrow> 'k posix \<Rightarrow> ('k, mq result) io \<Rightarrow> bool"
  for hdr :: headers and sys :: "'k posix" where
  "mq_mode_bits mode AND hdr ''O_CREAT'' = 0 \<Longrightarrow> mq_option_bits option AND hdr ''O_CREAT'' = 0 \<Longrightarrow>
     mq_opens hdr sys (mq_unsafe_open sys name mode option)"
| "mq_mode_bits (exclusive_enum_flag_value md) AND hdr ''O_CREAT'' = 0 \<Longrightarrow>
     mq_opens hdr sys (mq_open_mode sys name md)"
| "mq_mode_bits (exclusive_enum_flag_value md) AND hdr ''O_CREAT'' = 0 \<Longrightarrow>
     mq_option_bits (enum_flag_value fl) AND hdr ''O_CREAT'' = 0 \<Longrightarrow>
     mq_opens hdr sys (mq_open_flag sys name md fl)"
| "mq_mode_bits (exclusive_enum_flag_value md) AND hdr ''O_CREAT'' = 0 \<Longrightarrow>
     mq_opens hdr sys (mq_open_create sys name md cq)"
| "mq_mode_bits (exclusive_enum_flag_value md) AND hdr ''O_CREAT'' = 0 \<Longrightarrow>
     mq_option_bits (enum_flag_value fl) AND hdr ''O_CREAT'' = 0 \<Longrightarrow>
     mq_opens hdr sys (mq_open_create_flags sys name md fl cq)"

inductive mq_uses :: "headers \<Rightarrow> 'k posix \<Rightarrow> mq \<Rightarrow> ('k, unit) io \<Rightarrow> bool"
  for hdr :: headers and sys :: "'k posix" and q :: mq where
  "mq_uses hdr sys q (discard (mq_getattr sys q))"
| "mq_uses hdr sys q (discard (mq_setattr sys q option))"
| "mq_uses hdr sys q (discard (mq_unsafe_send sys q msg prio))"
| "mq_uses hdr sys q (discard (mq_unsafe_timed_send sys q msg prio t))"
| "mq_send hdr sys q msg prio = Some m \<Longrightarrow> mq_uses hdr sys q (discard m)"
| "mq_timed_send hdr sys q msg prio t = Some m \<Longrightarrow> mq_uses hdr sys q (discard m)"
| "mq_uses hdr sys q (discard (mq_receive sys q buf))"
| "mq_uses hdr sys q (discard (mq_timed_receive sys q buf t))"
| "mq_uses hdr sys q (discard (mq_deregister_notification sys q))"
| "mq_uses hdr sys q (discard (mq_unsafe_notify sys q event))"
| "mq_uses hdr sys q (discard (mq_notify_none hdr sys q))"
| "mq_uses hdr sys q (discard (mq_notify_with_signal sys q sig))"

definition mq_class :: "headers \<Rightarrow> 'k posix \<Rightarrow> ('k, mq) object_class" where
  "mq_class hdr sys =
     \<lparr>class_empty = (\<lambda>q. q = mq_default), class_opens = mq_opens hdr sys,
      class_uses = mq_uses hdr sys, class_move = mq_move, class_destroy = mq_destroy sys\<rparr>"

definition documented_mq_calls :: "headers \<Rightarrow> 'k posix \<Rightarrow> ('k \<Rightarrow> c_int set) \<Rightarrow> bool" where
  "documented_mq_calls hdr sys opened \<longleftrightarrow>
     handle_table (sys_mq_close sys) opened NULL_MQD_T \<and>
     documented_mq_open hdr sys opened \<and>
     (\<forall>d. keeps_handles (sys_mq_getattr sys d) opened) \<and>
     (\<forall>d a. keeps_handles (sys_mq_setattr sys d a) opened) \<and>
     (\<forall>d p n prio. keeps_handles (sys_mq_send sys d p n prio) opened) \<and>
     (\<forall>d p n prio t. keeps_handles (sys_mq_timedsend sys d p n prio t) opened) \<and>
     (\<forall>d p n. keeps_handles (sys_mq_receive sys d p n) opened) \<and>
     (\<forall>d p n t. keeps_handles (sys_mq_timedreceive sys d p n t) opened) \<and>
     (\<forall>d ev. keeps_handles (sys_mq_notify sys d ev) opened)"

lemma mq_opens_handle:
  assumes "documented_mq_calls hdr sys opened" and "mq_opens hdr sys m"
  shows "opens_handle opened mq_d m"
proof -
  have doc: "documented_mq_open hdr sys opened" and table: "handle_table (sys_mq_close sys) opened NULL_MQD_T"
    using assms(1) by (simp_all add: documented_mq_calls_def)
  have "\<exists>call. m = mq_opened sys call \<and> documented_open call (handle_unless (-1) (\<lambda>d. d)) opened"
    using assms(2) by cases (use documented_mq_openD [OF doc] in \<open>auto simp: mq_open_eqs\<close>)
  then show ?thesis
    by (auto intro!: mq_opening.open_handle table)
qed

lemma mq_uses_keep:
  assumes "documented_mq_calls hdr sys opened" and "mq_uses hdr sys q u"
  shows "keeps_handles u opened"
  using assms(2,1)
  by (cases rule: mq_uses.cases)
    (auto simp: documented_mq_calls_def keeps_handles_def run_simps mq_unsafe_send_def
      mq_unsafe_timed_send_def mq_send_def mq_timed_send_def mq_deregister_notification_def
      mq_unsafe_notify_def mq_notify_none_def mq_notify_with_signal_def case_prod_beta Let_def
      split: if_splits)

interpretation mq_owner: owner_class NULL_MQD_T "close_mq_d sys" "sys_mq_close sys"
    "documented_mq_calls hdr sys" "mq_class hdr sys" mq_d for hdr sys
  by unfold_locales
    (auto simp: mq_class_def mq_destroy_def mq_default_def mq_move_def documented_mq_calls_def
      intro: mq_opens_handle mq_uses_keep)

section \<open>Properties\<close>

text \<open>\<open>mq_open\<close> gives descriptor 5; \<open>mq_receive\<close> delivers an empty message of priority 2.\<close>

definition demo_mq_posix :: "c_int set posix" where
  "demo_mq_posix = stub_posix
     \<lparr>sys_mq_close := table_close,
      sys_mq_open := (\<lambda>_ _ _. table_open 5 5 (-1)),
      sys_mq_receive := (\<lambda>_ _ _. State_Monad.return (0, 2)),
      sys_mq_timedreceive := (\<lambda>_ _ _ _. State_Monad.return (0, 2))\<rparr>"

lemma demo_mq_table:
  "handle_table (sys_mq_close demo_mq_posix) (\<lambda>k. k - {NULL_MQD_T}) NULL_MQD_T"
  using handle_table_close [of NULL_MQD_T] by (simp add: demo_mq_posix_def)

lemma demo_mq_open:
  "documented_open (sys_mq_open demo_mq_posix name bits args) (handle_unless (-1) (\<lambda>d. d))
     (\<lambda>k. k - {NULL_MQD_T})"
  using documented_table_open [of "5 :: c_int" "-1" "\<lambda>d. d" 5 NULL_MQD_T]
  by (simp add: demo_mq_posix_def NULL_MQD_T_def)

lemma demo_mq_opens: "documented_mq_open hdr demo_mq_posix (\<lambda>k. k - {NULL_MQD_T})"
  by (simp add: documented_mq_open_def demo_mq_open)

text \<open>
  C10.  Every way to open a message queue returns, for modes and options without \<open>O_CREAT\<close>, an \<open>mq\<close>
  that owns a new descriptor, or an error code with \<open>errno\<close> of the call and no change to the open
  descriptors.
\<close>

theorem mq_open_opens:
  assumes "handle_table (sys_mq_close sys) opened NULL_MQD_T"
    and "documented_mq_open hdr sys opened"
    and "mq_mode_bits mode AND hdr ''O_CREAT'' = 0" and "mq_option_bits option AND hdr ''O_CREAT'' = 0"
    and "mq_mode_bits (exclusive_enum_flag_value md) AND hdr ''O_CREAT'' = 0"
    and "mq_option_bits (enum_flag_value fl) AND hdr ''O_CREAT'' = 0"
  shows "\<forall>m \<in> {mq_unsafe_open sys name mode option, mq_open_mode sys name md,
      mq_open_flag sys name md fl, mq_open_create sys name md cq,
      mq_open_create_flags sys name md fl cq}.
    opens_owner opened (\<lambda>d. \<lparr>mq_d = d\<rparr>) w (fst (run_state m w)) (snd (run_state m w))"
proof -
  have "opens_owner opened (\<lambda>d. \<lparr>mq_d = d\<rparr>) w
      (fst (run_state (mq_opened sys call) w)) (snd (run_state (mq_opened sys call) w))"
    if "documented_open call (handle_unless (-1) (\<lambda>d. d)) opened" for call
    by (rule mq_opening.open_spec [OF assms(1) that prod.collapse [symmetric]])
  with assms(3-6) show ?thesis
    by (simp add: mq_open_eqs documented_mq_openD [OF assms(2)])
qed

theorem mq_open_opens_witness:
  "opens_owner (\<lambda>k. k - {NULL_MQD_T}) (\<lambda>d. \<lparr>mq_d = d\<rparr>) (table_world {})
    (fst (run_state (mq_open_mode demo_mq_posix ''/queue'' (Exclusive_enum_flag (Mq_mode 2)))
      (table_world {})))
    (snd (run_state (mq_open_mode demo_mq_posix ''/queue'' (Exclusive_enum_flag (Mq_mode 2)))
      (table_world {})))"
  using mq_open_opens [OF demo_mq_table demo_mq_opens, of "Mq_mode 0" "\<lambda>_. 64" "Mq_option 0"
      "Exclusive_enum_flag (Mq_mode 2)" "Enum_flag (Mq_option 0)" "''/queue''"]
  by simp

text \<open>
  The documentation of \<open>mq_receive\<close>: it fails, or the size of the message is at most the size of
  the buffer, and it writes only into the buffer.
\<close>

definition documented_receive :: "addr \<Rightarrow> size_t \<Rightarrow> ('k, ssize_t \<times> c_uint) io \<Rightarrow> bool" where
  "documented_receive p n m \<longleftrightarrow>
     (\<forall>w r prio w'. run_state m w = ((r, prio), w') \<longrightarrow>
        (r = -1 \<longrightarrow> errno_of w' \<noteq> 0) \<and> (r \<noteq> -1 \<longrightarrow> r \<le> n) \<and>
        (\<forall>a. a \<notin> set (region 1 p n) \<longrightarrow> mem_of w' a = mem_of w a))"

definition received_ok :: "byte_span \<Rightarrow> 'k world \<Rightarrow> mq_message result \<Rightarrow> 'k world \<Rightarrow> bool" where
  "received_ok buf w res w' \<longleftrightarrow>
     (case res of
        Value msg \<Rightarrow>
          set (region 1 (byte_span_data (message_bytes msg)) (byte_span_length (message_bytes msg)))
            \<subseteq> set (region 1 (byte_span_data buf) (byte_span_length buf))
      | Error ec \<Rightarrow> is_error ec \<and> ec_value ec = errno_of w') \<and>
     (\<forall>a. a \<notin> set (region 1 (byte_span_data buf) (byte_span_length buf)) \<longrightarrow>
        mem_of w' a = mem_of w a)"



text \<open>
  The static assertion that should keep \<open>mq_excl\<close> out of the overload without a queue to
  create lets it through in any combination: \<open>mq_excl | mq_non_blocking\<close> is accepted and
  \<open>O_EXCL\<close> reaches the system.
\<close>

lemma mq_open_accepts_excl:
  assumes "\<not> (\<forall>n. bit (hdr ''O_NONBLOCK'') n \<longrightarrow> bit (hdr ''O_EXCL'') n)"
  shows "mq_open_flag_accepts hdr (mq_option_or (mq_excl hdr) (mq_non_blocking hdr)) \<and>
    mq_open_flag sys name md (mq_option_or (mq_excl hdr) (mq_non_blocking hdr)) =
      mq_opened sys (sys_mq_open sys name (mq_mode_bits (exclusive_enum_flag_value md) OR
        hdr ''O_EXCL'' OR hdr ''O_NONBLOCK'') [])"
proof -
  have "hdr ''O_EXCL'' OR hdr ''O_NONBLOCK'' \<noteq> hdr ''O_EXCL''"
    using assms by (metis bit_or_iff)
  then show ?thesis
    by (simp add: mq_open_flag_accepts_def mq_option_or_def enum_flag_or_def mq_excl_def
        mq_non_blocking_def mq_open_eqs or.assoc)
qed

text \<open>
  The modes and the flags that a caller can form: the exported constants and their combinations by
  \<open>operator|\<close>.
\<close>

inductive mq_exported_mode :: "headers \<Rightarrow> mq_mode exclusive_enum_flag \<Rightarrow> bool" for hdr :: headers where
  "mq_exported_mode hdr (mq_mode_constant hdr ''read_only'')"
| "mq_exported_mode hdr (mq_mode_constant hdr ''write_only'')"
| "mq_exported_mode hdr (mq_mode_constant hdr ''read_write'')"

inductive mq_exported_flag :: "headers \<Rightarrow> mq_option enum_flag \<Rightarrow> bool" for hdr :: headers where
  "mq_exported_flag hdr (mq_excl hdr)"
| "mq_exported_flag hdr (mq_non_blocking hdr)"
| "mq_exported_flag hdr f \<Longrightarrow> mq_exported_flag hdr g \<Longrightarrow> mq_exported_flag hdr (mq_option_or f g)"

text \<open>The flags of \<^verbatim>\<open>fcntl.h\<close> are bitwise distinct from \<open>O_CREAT\<close>.\<close>

definition creat_bits_distinct :: "headers \<Rightarrow> bool" where
  "creat_bits_distinct hdr \<longleftrightarrow>
     (\<forall>m \<in> {''O_RDONLY'', ''O_WRONLY'', ''O_RDWR'', ''O_EXCL'', ''O_NONBLOCK''}.
        hdr m AND hdr ''O_CREAT'' = 0)"

lemma mq_exported_mode_bits:
  assumes "creat_bits_distinct hdr" and "mq_exported_mode hdr md"
  shows "mq_mode_bits (exclusive_enum_flag_value md) AND hdr ''O_CREAT'' = 0"
  using assms(2,1)
  by cases (simp_all add: mq_mode_constant_def mq_mode_table_def enumerator_def creat_bits_distinct_def)

lemma mq_exported_flag_bits:
  assumes "creat_bits_distinct hdr" and "mq_exported_flag hdr fl"
  shows "mq_option_bits (enum_flag_value fl) AND hdr ''O_CREAT'' = 0"
  using assms(2)
proof induction
  case (3 f g)
  then show ?case
    by (simp add: mq_option_or_def enum_flag_or_def bit.conj_disj_distrib2)
qed (use assms(1) in \<open>simp_all add: mq_excl_def mq_non_blocking_def creat_bits_distinct_def\<close>)

text \<open>
  The documentation of \<open>mq_open\<close> without \<open>O_CREAT\<close>, of the names of the queues that exist: it creates
  none, and fails if there is none of the name.
\<close>

definition documented_mq_names :: "headers \<Rightarrow> 'k posix \<Rightarrow> ('k \<Rightarrow> string set) \<Rightarrow> bool" where
  "documented_mq_names hdr sys names \<longleftrightarrow>
     (\<forall>name bits args w r w'. bits AND hdr ''O_CREAT'' = 0 \<longrightarrow>
        run_state (sys_mq_open sys name bits args) w = (r, w') \<longrightarrow>
        names (kernel_of w') = names (kernel_of w) \<and>
        (name \<notin> names (kernel_of w) \<longrightarrow> r = -1 \<and> errno_of w' \<noteq> 0))"

text \<open>
  C35.  The two overloads that take an \<open>mq_create_queue\<close> cannot create a queue: with every exported
  mode and every combination of the exported flags, they fail with the \<open>errno\<close> of \<open>mq_open\<close> if no queue of
  the name exists, and leave the set of queues as it is.
\<close>

theorem mq_create_never_creates:
  assumes "documented_mq_names hdr sys names" and "creat_bits_distinct hdr"
    and "mq_exported_mode hdr md" and "mq_exported_flag hdr fl"
    and "name \<notin> names (kernel_of w)"
  shows "\<forall>m \<in> {mq_open_create sys name md cq, mq_open_create_flags sys name md fl cq}.
    \<exists>ec w'. run_state m w = (Error ec, w') \<and> is_error ec \<and> ec_value ec = errno_of w' \<and>
      names (kernel_of w') = names (kernel_of w)"
proof -
  have "\<exists>ec w'. run_state (mq_opened sys (sys_mq_open sys name bits args)) w = (Error ec, w') \<and>
      is_error ec \<and> ec_value ec = errno_of w' \<and> names (kernel_of w') = names (kernel_of w)"
    if "bits AND hdr ''O_CREAT'' = 0" for bits args
  proof -
    obtain r w' where run: "run_state (sys_mq_open sys name bits args) w = (r, w')"
      by (cases "run_state (sys_mq_open sys name bits args) w")
    from assms(1) [unfolded documented_mq_names_def, rule_format, OF that run] assms(5) run
    show ?thesis
      by (simp add: run_simps)
  qed
  with mq_exported_mode_bits [OF assms(2,3)] mq_exported_flag_bits [OF assms(2,4)] show ?thesis
    by (simp add: mq_open_eqs bit.conj_disj_distrib2)
qed

text \<open>Linux's values of the flags, and a system with the one queue \<^verbatim>\<open>/a\<close>.\<close>

definition demo_mq_headers :: headers where
  "demo_mq_headers name =
     (if name = ''O_CREAT'' then 64 else if name = ''O_EXCL'' then 128
      else if name = ''O_NONBLOCK'' then 2048 else if name = ''O_RDWR'' then 2
      else if name = ''O_WRONLY'' then 1 else 0)"

definition demo_names_posix :: "string set posix" where
  "demo_names_posix = stub_posix
     \<lparr>sys_mq_open := (\<lambda>name bits _. do {
        w \<leftarrow> State_Monad.get;
        if name \<in> kernel_of w then State_Monad.return 5
        else if bits AND 64 \<noteq> 0
        then do { State_Monad.set (w\<lparr>kernel_of := insert name (kernel_of w)\<rparr>); State_Monad.return 5 }
        else fail_with 2 (-1) })\<rparr>"

lemma demo_names_run:
  "run_state (mq_open_create_flags demo_names_posix ''/b'' (mq_mode_constant demo_mq_headers ''read_write'')
     (mq_option_or (mq_excl demo_mq_headers) (mq_non_blocking demo_mq_headers))
     (mq_create_queue_make 10 100)) (table_world {''/a''}) =
   (Error (make_errno_code 2), (table_world {''/a''})\<lparr>errno_of := 2\<rparr>)"
  by (simp add: mq_open_eqs run_simps demo_names_posix_def mq_mode_constant_def mq_mode_table_def
      enumerator_def mq_option_or_def enum_flag_or_def mq_excl_def mq_non_blocking_def
      demo_mq_headers_def fail_with_def)

theorem mq_create_never_creates_witness:
  "is_error (make_errno_code 2) \<and> kernel_of ((table_world {''/a''})\<lparr>errno_of := 2\<rparr>) = {''/a''}"
proof -
  have "documented_mq_names demo_mq_headers demo_names_posix id"
    by (auto simp: documented_mq_names_def demo_names_posix_def demo_mq_headers_def fail_with_def
        split: if_splits)
  moreover have "creat_bits_distinct demo_mq_headers"
    by (simp add: creat_bits_distinct_def demo_mq_headers_def)
  moreover have "''/b'' \<notin> id (kernel_of (table_world {''/a''}))"
    by simp
  ultimately show ?thesis
    using mq_create_never_creates [OF _ _ mq_exported_mode.intros(3)
        mq_exported_flag.intros(3) [OF mq_exported_flag.intros(1,2)],
        of demo_mq_headers demo_names_posix id "''/b''" "table_world {''/a''}" "mq_create_queue_make 10 100"]
      demo_names_run
    by simp
qed

end
