(* ===== verification/Mq_Queue.thy ===== *)
theory Mq_Queue
  imports Mqueue Memory
begin

text \<open>
  The data path of the class \<open>mq\<close>: sending and receiving over a system that keeps, for each
  descriptor, the queued messages in the order in which they will be delivered.
\<close>

section \<open>Documented behaviour of message queues\<close>

type_synonym queued = "c_uint \<times> byte list"

text \<open>A message is queued behind those of at least its priority, and before the others.\<close>

fun enqueue :: "queued \<Rightarrow> queued list \<Rightarrow> queued list" where
  "enqueue m [] = [m]"
| "enqueue m (x # q) = (if fst m \<le> fst x then x # enqueue m q else m # x # q)"

definition sends :: "('k \<Rightarrow> c_int \<Rightarrow> queued list) \<Rightarrow> c_int \<Rightarrow> addr \<Rightarrow> size_t \<Rightarrow> c_uint \<Rightarrow> ('k, c_int) io \<Rightarrow> bool" where
  "sends queue d p n prio m \<longleftrightarrow>
     (\<forall>w r w'. run_state m w = (r, w') \<longrightarrow>
        (if r = -1 then errno_of w' \<noteq> 0 \<and> queue (kernel_of w') = queue (kernel_of w)
         else queue (kernel_of w') = (queue (kernel_of w))
           (d := enqueue (prio, load_bytes p (unat n) (mem_of w)) (queue (kernel_of w) d))))"

definition receives ::
  "('k \<Rightarrow> c_int \<Rightarrow> queued list) \<Rightarrow> c_int \<Rightarrow> addr \<Rightarrow> size_t \<Rightarrow> ('k, ssize_t \<times> c_uint) io \<Rightarrow> bool" where
  "receives queue d p n m \<longleftrightarrow>
     (\<forall>w r prio w'. run_state m w = ((r, prio), w') \<longrightarrow>
        (if r = -1 then errno_of w' \<noteq> 0 \<and> queue (kernel_of w') = queue (kernel_of w)
         else \<exists>bs rest. queue (kernel_of w) d = (prio, bs) # rest \<and> unat r = length bs \<and>
           length bs \<le> unat n \<and> mem_of w' = store_bytes p bs (mem_of w) \<and>
           queue (kernel_of w') = (queue (kernel_of w))(d := rest)))"

definition documented_queue :: "'k posix \<Rightarrow> ('k \<Rightarrow> c_int \<Rightarrow> queued list) \<Rightarrow> bool" where
  "documented_queue sys queue \<longleftrightarrow>
     (\<forall>d p n prio. sends queue d p n prio (sys_mq_send sys d p n prio)) \<and>
     (\<forall>d p n prio t. sends queue d p n prio (sys_mq_timedsend sys d p n prio t)) \<and>
     (\<forall>d p n. receives queue d p n (sys_mq_receive sys d p n)) \<and>
     (\<forall>d p n t. receives queue d p n (sys_mq_timedreceive sys d p n t))"

text \<open>The queue stays ordered by priority, and messages of one priority keep their order.\<close>

definition queue_ordered :: "queued list \<Rightarrow> bool" where
  "queue_ordered q \<longleftrightarrow> sorted_wrt (\<lambda>a b. fst b \<le> fst a) q"

lemma set_enqueue [simp]: "set (enqueue m q) = insert m (set q)"
  by (induction q) auto

lemma enqueue_ordered: "queue_ordered q \<Longrightarrow> queue_ordered (enqueue m q)"
  unfolding queue_ordered_def by (induction q) (auto simp: not_le intro: order_trans less_imp_le)

lemma enqueue_same_priority:
  "queue_ordered q \<Longrightarrow> filter (\<lambda>x. fst x = fst m) (enqueue m q) = filter (\<lambda>x. fst x = fst m) q @ [m]"
proof (induction q)
  case (Cons x q)
  show ?case
  proof (cases "fst m \<le> fst x")
    case True
    with Cons show ?thesis by (simp add: queue_ordered_def)
  next
    case False
    with Cons.prems have "\<forall>y \<in> set (x # q). fst y \<noteq> fst m"
      by (auto simp: queue_ordered_def)
    then have "filter (\<lambda>y. fst y = fst m) (x # q) = []"
      by (simp only: filter_empty_conv)
    with False show ?thesis by simp
  qed
qed simp

lemma enqueue_first: "\<forall>x \<in> set q. fst x < fst m \<Longrightarrow> enqueue m q = m # q"
  by (cases q) (auto simp: not_le)

lemma queue_ordered_tl: "queue_ordered q \<Longrightarrow> queue_ordered (tl q)"
  unfolding queue_ordered_def by (cases q) simp_all

section \<open>What the operations of the class do\<close>

lemma mq_send_enqueues:
  assumes "documented_queue sys queue"
    and "mq_send hdr sys this msg prio = Some m \<or> mq_timed_send hdr sys this msg prio t = Some m"
    and "run_state m w = (ec, w')" and "\<not> is_error ec"
  shows "queue (kernel_of w') = (queue (kernel_of w))(raw_descriptor (mq_d this) :=
    enqueue (mq_message_priority_value prio,
        load_bytes (byte_cspan_data msg) (unat (byte_cspan_length msg)) (mem_of w))
      (queue (kernel_of w) (raw_descriptor (mq_d this))))"
proof -
  let ?call = "\<lambda>c. sends queue (raw_descriptor (mq_d this)) (byte_cspan_data msg) (byte_cspan_length msg)
    (mq_message_priority_value prio) c"
  obtain c where c: "m = common_call c" "?call c"
    using assms(1,2)
    by (auto simp: mq_send_def mq_timed_send_def mq_unsafe_send_def mq_unsafe_timed_send_def
        documented_queue_def split: if_splits)
  obtain r where run: "run_state c w = (r, w')"
    and ec: "ec = (if r = -1 then make_errno_code (errno_of w') else no_error)"
    using assms(3) unfolding c(1) by (rule common_callE)
  note doc = c(2) [unfolded sends_def, rule_format, OF run]
  then have "r \<noteq> -1"
    using ec assms(4) by (auto split: if_splits)
  with doc show ?thesis
    by simp
qed

text \<open>Both ways to receive interpret one call of the system in the same way.\<close>

definition mq_received :: "byte_span \<Rightarrow> ('k, ssize_t \<times> c_uint) io \<Rightarrow> ('k, mq_message result) io" where
  "mq_received buf c = do {
     (n, prio) \<leftarrow> c;
     if n = -1
     then do { ec \<leftarrow> current_errno_code; State_Monad.return (Error ec) }
     else State_Monad.return (Value
       \<lparr>message_priority = Mq_message_priority prio,
        message_bytes = byte_span_make (byte_span_data buf) n\<rparr>)
   }"

lemma mq_receive_eqs:
  "mq_receive sys this buf = mq_received buf (sys_mq_receive sys (raw_descriptor (mq_d this))
     (byte_span_data buf) (byte_span_length buf))"
  "mq_timed_receive sys this buf t = mq_received buf (sys_mq_timedreceive sys (raw_descriptor (mq_d this))
     (byte_span_data buf) (byte_span_length buf) t)"
  by (simp_all add: mq_receive_def mq_timed_receive_def mq_received_def)

lemma mq_receivedE:
  assumes "run_state (mq_received buf c) w = (Value got, w')"
  obtains r prio where "run_state c w = ((r, prio), w')" and "r \<noteq> -1"
    and "got = \<lparr>message_priority = Mq_message_priority prio,
      message_bytes = byte_span_make (byte_span_data buf) r\<rparr>"
proof -
  obtain r prio w2 where "run_state c w = ((r, prio), w2)"
    by (metis prod.collapse)
  with assms that show thesis
    by (auto simp: mq_received_def split: if_splits)
qed

lemma mq_receive_dequeues:
  assumes "documented_queue sys queue"
    and "m \<in> {mq_receive sys this buf, mq_timed_receive sys this buf t}"
    and "run_state m w = (Value got, w')" and "byte_span_data buf \<noteq> nullptr"
  shows "queue (kernel_of w) (raw_descriptor (mq_d this)) =
      (mq_message_priority_value (message_priority got),
       load_bytes (byte_span_data (message_bytes got)) (unat (byte_span_length (message_bytes got)))
         (mem_of w')) # queue (kernel_of w') (raw_descriptor (mq_d this))"
    and "d \<noteq> raw_descriptor (mq_d this) \<Longrightarrow> queue (kernel_of w') d = queue (kernel_of w) d"
proof -
  obtain c where c: "m = mq_received buf c"
    and doc: "receives queue (raw_descriptor (mq_d this)) (byte_span_data buf) (byte_span_length buf) c"
    using assms(1,2) unfolding documented_queue_def by (auto simp: mq_receive_eqs)
  obtain r prio where run: "run_state c w = ((r, prio), w')" and r: "r \<noteq> -1"
    and got: "got = \<lparr>message_priority = Mq_message_priority prio,
      message_bytes = byte_span_make (byte_span_data buf) r\<rparr>"
    using assms(3) unfolding c by (rule mq_receivedE)
  from doc [unfolded receives_def, rule_format, OF run] r
  obtain bs rest where bs: "queue (kernel_of w) (raw_descriptor (mq_d this)) = (prio, bs) # rest"
    "unat r = length bs" "mem_of w' = store_bytes (byte_span_data buf) bs (mem_of w)"
    "queue (kernel_of w') = (queue (kernel_of w))(raw_descriptor (mq_d this) := rest)"
    by auto
  have "length bs < 2 ^ 64"
    by (metis bs(2) unat_lt_64)
  then have "load_bytes (byte_span_data buf) (length bs) (mem_of w') = bs"
    by (simp add: bs(3) load_store_bytes)
  with bs assms(4) show "queue (kernel_of w) (raw_descriptor (mq_d this)) =
      (mq_message_priority_value (message_priority got),
       load_bytes (byte_span_data (message_bytes got)) (unat (byte_span_length (message_bytes got)))
         (mem_of w')) # queue (kernel_of w') (raw_descriptor (mq_d this))"
    by (simp add: got byte_span_defs)
  show "queue (kernel_of w') d = queue (kernel_of w) d" if "d \<noteq> raw_descriptor (mq_d this)"
    using that by (simp add: bs(4))
qed

section \<open>A concrete system\<close>

text \<open>The kernel is the queue of every descriptor; an empty queue does not block but fails.\<close>

definition demo_send :: "c_int \<Rightarrow> addr \<Rightarrow> size_t \<Rightarrow> c_uint \<Rightarrow> (c_int \<Rightarrow> queued list, c_int) io" where
  "demo_send d p n prio = do {
     w \<leftarrow> State_Monad.get;
     State_Monad.set (w\<lparr>kernel_of := (kernel_of w)
       (d := enqueue (prio, load_bytes p (unat n) (mem_of w)) (kernel_of w d))\<rparr>);
     State_Monad.return 0
   }"

definition demo_receive :: "c_int \<Rightarrow> addr \<Rightarrow> size_t \<Rightarrow> (c_int \<Rightarrow> queued list, ssize_t \<times> c_uint) io" where
  "demo_receive d p n = do {
     w \<leftarrow> State_Monad.get;
     (case kernel_of w d of
        [] \<Rightarrow> fail_with 11 (-1, 0)
      | (prio, bs) # rest \<Rightarrow>
          if length bs \<le> unat n \<and> length bs < 2 ^ 63
          then do {
            State_Monad.set (w\<lparr>mem_of := store_bytes p bs (mem_of w), kernel_of := (kernel_of w)(d := rest)\<rparr>);
            State_Monad.return (of_nat (length bs), prio)
          }
          else fail_with 90 (-1, 0))
   }"

definition demo_queue_posix :: "(c_int \<Rightarrow> queued list) posix" where
  "demo_queue_posix = stub_posix
     \<lparr>sys_mq_send := demo_send, sys_mq_timedsend := (\<lambda>d p n prio _. demo_send d p n prio),
      sys_mq_receive := demo_receive, sys_mq_timedreceive := (\<lambda>d p n _. demo_receive d p n)\<rparr>"

lemma demo_queue_documented: "documented_queue demo_queue_posix (\<lambda>k. k)"
proof -
  have "sends (\<lambda>k. k) d p n prio (demo_send d p n prio)" for d p n prio
    by (auto simp: sends_def demo_send_def)
  moreover have "receives (\<lambda>k. k) d p n (demo_receive d p n)" for d p n
  proof -
    have "unat (of_nat (length bs) :: ssize_t) = length bs"
      "(of_nat (length bs) :: ssize_t) \<noteq> -1" if "length bs < 2 ^ 63" for bs :: "byte list"
    proof -
      have "length bs < 2 ^ LENGTH(64)"
        using that by simp
      then show len: "unat (of_nat (length bs) :: ssize_t) = length bs"
        by (simp only: unat_of_nat mod_less)
      show "(of_nat (length bs) :: ssize_t) \<noteq> -1"
      proof
        assume "(of_nat (length bs) :: ssize_t) = -1"
        with len have "length bs = unat (-1 :: ssize_t)"
          by metis
        with that show False
          by (simp add: unsigned_minus_1_eq_mask mask_eq_exp_minus_1)
      qed
    qed
    then show ?thesis
      by (auto simp: receives_def demo_receive_def fail_with_def split: list.splits if_splits)
  qed
  ultimately show ?thesis
    by (simp add: documented_queue_def demo_queue_posix_def)
qed

section \<open>Properties\<close>

text \<open>
  C34.  A message that \<open>send\<close> or \<open>timed_send\<close> has accepted is queued by its priority, and \<open>receive\<close> or
  \<open>timed_receive\<close> then returns the first message of the queue, with its priority and exactly its
  bytes in the caller's buffer, and leaves the others, in order.  If the queue held only messages of
  lower priority, the message received is the one that was sent.
\<close>

theorem mq_send_receive:
  fixes queue :: "'k \<Rightarrow> c_int \<Rightarrow> queued list"
  assumes "documented_queue sys queue"
    and "mq_send hdr sys this msg prio = Some snd_op \<or> mq_timed_send hdr sys this msg prio t = Some snd_op"
    and "run_state snd_op w = (ec, w1)" and "\<not> is_error ec"
    and "rcv_op \<in> {mq_receive sys this buf, mq_timed_receive sys this buf t'}"
    and "run_state rcv_op w1 = (Value got, w2)" and "byte_span_data buf \<noteq> nullptr"
  defines "q \<equiv> queue (kernel_of w) (raw_descriptor (mq_d this))"
    and "sent \<equiv> (mq_message_priority_value prio,
      load_bytes (byte_cspan_data msg) (unat (byte_cspan_length msg)) (mem_of w))"
    and "received \<equiv> (mq_message_priority_value (message_priority got),
      load_bytes (byte_span_data (message_bytes got)) (unat (byte_span_length (message_bytes got)))
        (mem_of w2))"
  shows "received # queue (kernel_of w2) (raw_descriptor (mq_d this)) = enqueue sent q \<and>
    (queue_ordered q \<longrightarrow> queue_ordered (queue (kernel_of w2) (raw_descriptor (mq_d this)))) \<and>
    ((\<forall>x \<in> set q. fst x < mq_message_priority_value prio) \<longrightarrow>
       received = sent \<and> queue (kernel_of w2) (raw_descriptor (mq_d this)) = q)"
proof -
  have all: "received # queue (kernel_of w2) (raw_descriptor (mq_d this)) = enqueue sent q"
    using mq_receive_dequeues(1) [OF assms(1,5,6,7)] mq_send_enqueues [OF assms(1-4)]
    by (simp add: q_def sent_def received_def)
  moreover have "queue_ordered (queue (kernel_of w2) (raw_descriptor (mq_d this)))" if "queue_ordered q"
    using queue_ordered_tl [OF enqueue_ordered [OF that, of sent]] by (simp flip: all)
  moreover have "enqueue sent q = sent # q" if "\<forall>x \<in> set q. fst x < mq_message_priority_value prio"
    using that by (intro enqueue_first) (simp add: sent_def)
  ultimately show ?thesis
    by auto
qed

theorem mq_send_receive_witness:
  "[(2 :: c_uint, [7, 9 :: byte]), (1, [5])] = enqueue (2, [7, 9]) [(1, [5])] \<and>
   load_bytes 200 2 (store_bytes 200 [7, 9] (\<lambda>a. if a = 100 then 7 else if a = 101 then 9 else 0)) = [7, 9]"
proof -
  define mem :: "addr \<Rightarrow> byte" where "mem = (\<lambda>a. if a = 100 then 7 else if a = 101 then 9 else 0)"
  have src: "load_bytes 100 2 mem = [7, 9]"
    by (simp add: mem_def load_bytes_def upt_rec numeral_eq_Suc)
  let ?w = "\<lambda>q mem. \<lparr>errno_of = 0, mem_of = mem, kernel_of = (\<lambda>_. [])(5 := q)\<rparr> :: (c_int \<Rightarrow> queued list) world"
  let ?msg = "byte_cspan_make 100 2"
  let ?got = "\<lparr>message_priority = Mq_message_priority 2, message_bytes = byte_span_make 200 2\<rparr>"
  define mem' where "mem' = store_bytes 200 [7, 9] mem"
  have "mq_send (\<lambda>_. 32) demo_queue_posix (mq_of 5) ?msg (Mq_message_priority 2) =
      Some (mq_unsafe_send demo_queue_posix (mq_of 5) ?msg (Mq_message_priority 2))"
    by (simp add: mq_send_def mq_priority_accepts_def less_mq_message_priority_def
        mq_message_priority_max_def)
  moreover have "run_state (mq_unsafe_send demo_queue_posix (mq_of 5) ?msg (Mq_message_priority 2))
      (?w [(1, [5])] mem) = (no_error, ?w [(2, [7, 9]), (1, [5])] mem)"
    by (simp add: mq_unsafe_send_def run_simps demo_queue_posix_def demo_send_def byte_cspan_defs
        mq_of_def src word_le_nat_alt)
  moreover have "run_state (mq_receive demo_queue_posix (mq_of 5) (byte_span_make 200 8))
      (?w [(2, [7, 9]), (1, [5])] mem) = (Value ?got, ?w [(1, [5])] mem')"
    by (simp add: run_simps demo_queue_posix_def demo_receive_def byte_span_defs mq_of_def mem'_def
        del: store_bytes.simps)
  ultimately have "(2, load_bytes 200 2 mem') # [(1, [5])] = enqueue (2, [7, 9]) [(1, [5])]"
    using mq_send_receive [OF demo_queue_documented disjI1 _ is_error_no_error,
        where this = "mq_of 5" and buf = "byte_span_make 200 8" and t' = timespec_default, THEN conjunct1]
    by (fastforce simp: byte_span_defs byte_cspan_defs mq_of_def src)
  then show ?thesis
    by (simp add: mem'_def mem_def word_le_nat_alt del: store_bytes.simps)
qed

end
