(* ===== verification/Ioctl.thy ===== *)
theory Ioctl
  imports Descriptor View
begin

text \<open>
  \<^verbatim>\<open>ioctl.hpp\<close> and \<^verbatim>\<open>ioctl.cpp\<close>: the six overloads of \<open>ioctl\<close>.  Each promises a
  \<open>result<ioctl_int>\<close> and returns the \<open>std::error_code\<close> of \<open>PPOSIX_COMMON_CALL\<close>, which converts
  through the constructor \<open>result(std::error_code)\<close>.
\<close>

datatype ioctl_request = Ioctl_request (ioctl_request_bits: c_int)

definition ioctl_int ::
  "'k posix \<Rightarrow> raw_fd \<Rightarrow> ioctl_request \<Rightarrow> c_int \<Rightarrow> ('k, c_int result) io" where
  "ioctl_int sys fd r i = do {
     ec \<leftarrow> common_call (sys_ioctl sys (raw_fd_value fd) (ioctl_request_bits r) (Int_arg i));
     State_Monad.return (Error ec)
   }"

definition ioctl_ptr ::
  "'k posix \<Rightarrow> raw_fd \<Rightarrow> ioctl_request \<Rightarrow> addr \<Rightarrow> ('k, c_int result) io" where
  "ioctl_ptr sys fd r ptr = do {
     ec \<leftarrow> common_call (sys_ioctl sys (raw_fd_value fd) (ioctl_request_bits r) (Ptr_arg ptr));
     State_Monad.return (Error ec)
   }"

definition ioctl_cptr ::
  "'k posix \<Rightarrow> raw_fd \<Rightarrow> ioctl_request \<Rightarrow> addr \<Rightarrow> ('k, c_int result) io" where
  "ioctl_cptr sys fd r ptr = do {
     ec \<leftarrow> common_call (sys_ioctl sys (raw_fd_value fd) (ioctl_request_bits r) (Ptr_arg ptr));
     State_Monad.return (Error ec)
   }"

definition ioctl_nullptr :: "'k posix \<Rightarrow> raw_fd \<Rightarrow> ioctl_request \<Rightarrow> ('k, c_int result) io" where
  "ioctl_nullptr sys fd r = ioctl_ptr sys fd r nullptr"

definition ioctl_view ::
  "'k posix \<Rightarrow> raw_fd \<Rightarrow> ioctl_request \<Rightarrow> any_view \<Rightarrow> ('k, c_int result) io" where
  "ioctl_view sys fd r val = ioctl_ptr sys fd r (any_view_data val)"

definition ioctl_cview ::
  "'k posix \<Rightarrow> raw_fd \<Rightarrow> ioctl_request \<Rightarrow> any_cview \<Rightarrow> ('k, c_int result) io" where
  "ioctl_cview sys fd r val = ioctl_cptr sys fd r (any_cview_data val)"

lemma run_ioctl [run_simps]:
  "run_state (ioctl_int sys fd r i) w =
     (let (x, w') = run_state (sys_ioctl sys (raw_fd_value fd) (ioctl_request_bits r) (Int_arg i)) w
      in (Error (if x = -1 then make_errno_code (errno_of w') else no_error), w'))"
  "run_state (ioctl_ptr sys fd r p) w =
     (let (x, w') = run_state (sys_ioctl sys (raw_fd_value fd) (ioctl_request_bits r) (Ptr_arg p)) w
      in (Error (if x = -1 then make_errno_code (errno_of w') else no_error), w'))"
  by (simp_all add: ioctl_int_def ioctl_ptr_def run_simps)

lemma ioctl_cptr_eq: "ioctl_cptr sys fd r p = ioctl_ptr sys fd r p"
  by (simp add: ioctl_ptr_def ioctl_cptr_def)

section \<open>Properties\<close>

text \<open>
  No overload of \<open>ioctl\<close> ever returns a value: what the request answered is lost even when
  the call succeeds.  The four overloads that take an address make the same call for the same
  address.
\<close>

lemma ioctl_never_value:
  "\<forall>m \<in> {ioctl_int sys fd r i, ioctl_ptr sys fd r p, ioctl_cptr sys fd r p, ioctl_nullptr sys fd r,
      ioctl_view sys fd r v, ioctl_cview sys fd r cv}.
    \<not> result_has_value (fst (run_state m w))"
  by (simp add: run_simps ioctl_cptr_eq ioctl_nullptr_def ioctl_view_def ioctl_cview_def)

end
