(* ===== verification/Config.thy ===== *)
theory Config
  imports Util Span Platform
begin

text \<open>
  \<^verbatim>\<open>sysconf.hpp\<close>, \<^verbatim>\<open>sysconf.cpp\<close>, \<^verbatim>\<open>confstr.hpp\<close>, \<^verbatim>\<open>confstr.cpp\<close>: the configuration queries.  Both C functions
  report failure only through \<open>errno\<close>, so the wrappers run them inside an \<open>errno_context\<close>.
\<close>

section \<open>Configuration limits\<close>

datatype system_config_name = System_config_name (system_config_bits: c_int)

definition system_config_table :: "platform \<Rightarrow> enum_table" where
  "system_config_table p =
     [(''aio_listio_max'', Macro ''_SC_AIO_LISTIO_MAX''), (''aio_max'', Macro ''_SC_AIO_MAX''),
      (''aio_prio_delta_max'', Macro ''_SC_AIO_PRIO_DELTA_MAX''),
      (''arg_max'', Macro ''_SC_ARG_MAX''), (''atexit_max'', Macro ''_SC_ATEXIT_MAX''),
      (''bc_base_max'', Macro ''_SC_BC_BASE_MAX''), (''bc_dim_max'', Macro ''_SC_BC_DIM_MAX''),
      (''bc_scale_max'', Macro ''_SC_BC_SCALE_MAX''),
      (''bc_string_max'', Macro ''_SC_BC_STRING_MAX''), (''hild_max'', Macro ''_SC_CHILD_MAX''),
      (''lk_tck'', Macro ''_SC_CLK_TCK''), (''oll_weights_max'', Macro ''_SC_COLL_WEIGHTS_MAX''),
      (''delaytimer_max'', Macro ''_SC_DELAYTIMER_MAX''),
      (''expr_nest_max'', Macro ''_SC_EXPR_NEST_MAX''),
      (''host_name_max'', Macro ''_SC_HOST_NAME_MAX''), (''iov_max'', Macro ''_SC_IOV_MAX''),
      (''line_max'', Macro ''_SC_LINE_MAX''), (''login_name_max'', Macro ''_SC_LOGIN_NAME_MAX''),
      (''ngroups_max'', Macro ''_SC_NGROUPS_MAX''),
      (''getgr_r_size_max'', Macro ''_SC_GETGR_R_SIZE_MAX''),
      (''getpw_r_size_max'', Macro ''_SC_GETPW_R_SIZE_MAX''),
      (''mq_open_max'', Macro ''_SC_MQ_OPEN_MAX''), (''mq_prio_max'', Macro ''_SC_MQ_PRIO_MAX''),
      (''open_max'', Macro ''_SC_OPEN_MAX''), (''advisory_info'', Macro ''_SC_ADVISORY_INFO''),
      (''barriers'', Macro ''_SC_BARRIERS''), (''asynchronous_io'', Macro ''_SC_ASYNCHRONOUS_IO''),
      (''lock_selection'', Macro ''_SC_CLOCK_SELECTION''), (''putime'', Macro ''_SC_CPUTIME''),
      (''fsync'', Macro ''_SC_FSYNC''), (''ipv6'', Macro ''_SC_IPV6''),
      (''job_control'', Macro ''_SC_JOB_CONTROL''), (''mapped_files'', Macro ''_SC_MAPPED_FILES''),
      (''memlock'', Macro ''_SC_MEMLOCK''), (''memlock_range'', Macro ''_SC_MEMLOCK_RANGE''),
      (''memory_protection'', Macro ''_SC_MEMORY_PROTECTION''),
      (''message_passing'', Macro ''_SC_MESSAGE_PASSING''),
      (''monotonic_clock'', Macro ''_SC_MONOTONIC_CLOCK''),
      (''prioritized_io'', Macro ''_SC_PRIORITIZED_IO''),
      (''priority_scheduling'', Macro ''_SC_PRIORITY_SCHEDULING''),
      (''raw_sockets'', Macro ''_SC_RAW_SOCKETS''),
      (''reader_writer_locks'', Macro ''_SC_READER_WRITER_LOCKS''),
      (''realtime_signals'', Macro ''_SC_REALTIME_SIGNALS''), (''regexp'', Macro ''_SC_REGEXP''),
      (''saved_ids'', Macro ''_SC_SAVED_IDS''), (''semaphores'', Macro ''_SC_SEMAPHORES''),
      (''shared_memory_objects'', Macro ''_SC_SHARED_MEMORY_OBJECTS''),
      (''shell'', Macro ''_SC_SHELL''), (''spawn'', Macro ''_SC_SPAWN''),
      (''spin_locks'', Macro ''_SC_SPIN_LOCKS''),
      (''sporadic_server'', Macro ''_SC_SPORADIC_SERVER'')] @
     (if p \<noteq> Freebsd then [(''repl_max'', Macro ''_SC_SS_REPL_MAX'')] else []) @
     [(''ynchronized_io'', Macro ''_SC_SYNCHRONIZED_IO''),
      (''thread_attr_stackaddr'', Macro ''_SC_THREAD_ATTR_STACKADDR''),
      (''thread_attr_stacksize'', Macro ''_SC_THREAD_ATTR_STACKSIZE''),
      (''thread_cputime'', Macro ''_SC_THREAD_CPUTIME''),
      (''thread_prio_inherit'', Macro ''_SC_THREAD_PRIO_INHERIT''),
      (''thread_prio_protect'', Macro ''_SC_THREAD_PRIO_PROTECT''),
      (''thread_priority_scheduling'', Macro ''_SC_THREAD_PRIORITY_SCHEDULING''),
      (''thread_process_shared'', Macro ''_SC_THREAD_PROCESS_SHARED'')] @
     (if p \<noteq> Macos \<and> p \<noteq> Freebsd then
     [(''thread_robust_prio_inherit'', Macro ''_SC_THREAD_ROBUST_PRIO_INHERIT''),
      (''thread_robust_prio_protect'', Macro ''_SC_THREAD_ROBUST_PRIO_PROTECT'')] else []) @
     [(''thread_safe_functions'', Macro ''_SC_THREAD_SAFE_FUNCTIONS''),
      (''thread_sporadic_server'', Macro ''_SC_THREAD_SPORADIC_SERVER''),
      (''threads'', Macro ''_SC_THREADS''), (''timeouts'', Macro ''_SC_TIMEOUTS''),
      (''timers'', Macro ''_SC_TIMERS''), (''trace'', Macro ''_SC_TRACE''),
      (''trace_event_filter'', Macro ''_SC_TRACE_EVENT_FILTER'')] @
     (if p \<noteq> Freebsd then [(''trace_event_name_max'', Macro ''_SC_TRACE_EVENT_NAME_MAX'')] else []) @
     [(''trace_inherit'', Macro ''_SC_TRACE_INHERIT''), (''trace_log'', Macro ''_SC_TRACE_LOG'')] @
     (if p \<noteq> Freebsd then
     [(''trace_name_max'', Macro ''_SC_TRACE_NAME_MAX''),
      (''trace_sys_max'', Macro ''_SC_TRACE_SYS_MAX''),
      (''trace_user_event_max'', Macro ''_SC_TRACE_USER_EVENT_MAX'')] else []) @
     [(''typed_memory_objects'', Macro ''_SC_TYPED_MEMORY_OBJECTS''),
      (''version'', Macro ''_SC_VERSION'')] @
     (if p \<noteq> Macos \<and> p \<noteq> Freebsd then [(''v7_ilp32_off32'', Macro ''_SC_V7_ILP32_OFF32'')] else []) @
     (if p \<noteq> Macos \<and> p \<noteq> Freebsd then
     [(''v7_ilp32_offbig'', Macro ''_SC_V7_ILP32_OFFBIG''),
      (''v7_lp64_off64'', Macro ''_SC_V7_LP64_OFF64''),
      (''v7_lpbig_offbig'', Macro ''_SC_V7_LPBIG_OFFBIG'')] else []) @
     [(''v6_ilp32_off32'', Macro ''_SC_V6_ILP32_OFF32''),
      (''v6_ilp32_offbig'', Macro ''_SC_V6_ILP32_OFFBIG''),
      (''v6_lp64_off64'', Macro ''_SC_V6_LP64_OFF64''),
      (''v6_lpbig_offbig'', Macro ''_SC_V6_LPBIG_OFFBIG''), (''c_bind_2'', Macro ''_SC_2_C_BIND''),
      (''c_dev_2'', Macro ''_SC_2_C_DEV''), (''char_term_2'', Macro ''_SC_2_CHAR_TERM''),
      (''fort_dev_2'', Macro ''_SC_2_FORT_DEV''), (''fort_run_2'', Macro ''_SC_2_FORT_RUN''),
      (''localedef_2'', Macro ''_SC_2_LOCALEDEF''), (''pbs_2'', Macro ''_SC_2_PBS''),
      (''pbs_accounting_2'', Macro ''_SC_2_PBS_ACCOUNTING''),
      (''pbs_checkpoint_2'', Macro ''_SC_2_PBS_CHECKPOINT''),
      (''pbs_locate_2'', Macro ''_SC_2_PBS_LOCATE''),
      (''pbs_message_2'', Macro ''_SC_2_PBS_MESSAGE''),
      (''pbs_track_2'', Macro ''_SC_2_PBS_TRACK''), (''sw_dev_2'', Macro ''_SC_2_SW_DEV''),
      (''upe_2'', Macro ''_SC_2_UPE''), (''version_2'', Macro ''_SC_2_VERSION''),
      (''page_size'', Macro ''_SC_PAGE_SIZE''), (''pagesize'', Macro ''_SC_PAGESIZE''),
      (''thread_destructor_iterations'', Macro ''_SC_THREAD_DESTRUCTOR_ITERATIONS''),
      (''thread_keys_max'', Macro ''_SC_THREAD_KEYS_MAX''),
      (''thread_stack_min'', Macro ''_SC_THREAD_STACK_MIN''),
      (''thread_threads_max'', Macro ''_SC_THREAD_THREADS_MAX''),
      (''re_dup_max'', Macro ''_SC_RE_DUP_MAX''), (''rtsig_max'', Macro ''_SC_RTSIG_MAX''),
      (''em_nsems_max'', Macro ''_SC_SEM_NSEMS_MAX''),
      (''em_value_max'', Macro ''_SC_SEM_VALUE_MAX''),
      (''igqueue_max'', Macro ''_SC_SIGQUEUE_MAX''), (''tream_max'', Macro ''_SC_STREAM_MAX''),
      (''ymloop_max'', Macro ''_SC_SYMLOOP_MAX''), (''timer_max'', Macro ''_SC_TIMER_MAX''),
      (''tty_name_max'', Macro ''_SC_TTY_NAME_MAX''), (''tzname_max'', Macro ''_SC_TZNAME_MAX''),
      (''xopen_crypt'', Macro ''_SC_XOPEN_CRYPT''),
      (''xopen_enh_i18n'', Macro ''_SC_XOPEN_ENH_I18N''),
      (''xopen_realtime'', Macro ''_SC_XOPEN_REALTIME''),
      (''xopen_realtime_threads'', Macro ''_SC_XOPEN_REALTIME_THREADS''),
      (''xopen_shm'', Macro ''_SC_XOPEN_SHM''), (''xopen_streams'', Macro ''_SC_XOPEN_STREAMS''),
      (''xopen_unix'', Macro ''_SC_XOPEN_UNIX''), (''xopen_version'', Macro ''_SC_XOPEN_VERSION'')]"

type_synonym system_config_value = c_long

definition pposix_sysconf ::
  "'k posix \<Rightarrow> system_config_name \<Rightarrow> ('k, system_config_value result) io" where
  "pposix_sysconf sys config_name = with_errno_context (\<lambda>errno_ctx. do {
     value \<leftarrow> sys_sysconf sys (system_config_bits config_name);
     if value \<noteq> -1 then State_Monad.return (Value value)
     else do {
       error \<leftarrow> current_errno_code;
       if is_error error then State_Monad.return (Error error)
       else State_Monad.return (Value value)
     }
   })"

section \<open>Configuration strings\<close>

datatype confstr_name = Confstr_name (confstr_bits: c_int)

definition confstr_table :: "platform \<Rightarrow> enum_table" where
  "confstr_table p =
     [(''path'', Macro ''_CS_PATH'')] @
     (if p \<noteq> Macos \<and> p \<noteq> Freebsd then
     [(''v7_ilp32_off32_cflags'', Macro ''_CS_POSIX_V7_ILP32_OFF32_CFLAGS''),
      (''v7_ilp32_off32_ldflags'', Macro ''_CS_POSIX_V7_ILP32_OFF32_LDFLAGS''),
      (''v7_ilp32_off32_libs'', Macro ''_CS_POSIX_V7_ILP32_OFF32_LIBS''),
      (''v7_ilp32_offbig_cflags'', Macro ''_CS_POSIX_V7_ILP32_OFFBIG_CFLAGS''),
      (''v7_ilp32_offbig_ldflags'', Macro ''_CS_POSIX_V7_ILP32_OFFBIG_LDFLAGS''),
      (''v7_ilp32_offbig_libs'', Macro ''_CS_POSIX_V7_ILP32_OFFBIG_LIBS''),
      (''v7_lp64_off64_cflags'', Macro ''_CS_POSIX_V7_LP64_OFF64_CFLAGS''),
      (''v7_lp64_off64_ldflags'', Macro ''_CS_POSIX_V7_LP64_OFF64_LDFLAGS''),
      (''v7_lp64_off64_libs'', Macro ''_CS_POSIX_V7_LP64_OFF64_LIBS''),
      (''v7_lpbig_offbig_cflags'', Macro ''_CS_POSIX_V7_LPBIG_OFFBIG_CFLAGS''),
      (''v7_lpbig_offbig_ldflags'', Macro ''_CS_POSIX_V7_LPBIG_OFFBIG_LDFLAGS''),
      (''v7_lpbig_offbig_libs'', Macro ''_CS_POSIX_V7_LPBIG_OFFBIG_LIBS'')] else []) @
     (if p \<noteq> Linux \<and> p \<noteq> Macos \<and> p \<noteq> Freebsd then
     [(''v7_threads_cflags'', Macro ''_CS_POSIX_V7_THREADS_CFLAGS''),
      (''v7_threads_ldflags'', Macro ''_CS_POSIX_V7_THREADS_LDFLAGS'')] else []) @
     (if p \<noteq> Macos \<and> p \<noteq> Freebsd then
     [(''v7_width_restricted_envs'', Macro ''_CS_POSIX_V7_WIDTH_RESTRICTED_ENVS''),
      (''v7_env'', Macro ''_CS_V7_ENV'')] else []) @
     [(''v6_ilp32_off32_cflags'', Macro ''_CS_POSIX_V6_ILP32_OFF32_CFLAGS''),
      (''v6_ilp32_off32_ldflags'', Macro ''_CS_POSIX_V6_ILP32_OFF32_LDFLAGS''),
      (''v6_ilp32_off32_libs'', Macro ''_CS_POSIX_V6_ILP32_OFF32_LIBS''),
      (''v6_ilp32_offbig_cflags'', Macro ''_CS_POSIX_V6_ILP32_OFFBIG_CFLAGS''),
      (''v6_ilp32_offbig_ldflags'', Macro ''_CS_POSIX_V6_ILP32_OFFBIG_LDFLAGS''),
      (''v6_ilp32_offbig_libs'', Macro ''_CS_POSIX_V6_ILP32_OFFBIG_LIBS''),
      (''v6_lp64_off64_cflags'', Macro ''_CS_POSIX_V6_LP64_OFF64_CFLAGS''),
      (''v6_lp64_off64_ldflags'', Macro ''_CS_POSIX_V6_LP64_OFF64_LDFLAGS''),
      (''v6_lp64_off64_libs'', Macro ''_CS_POSIX_V6_LP64_OFF64_LIBS''),
      (''v6_lpbig_offbig_cflags'', Macro ''_CS_POSIX_V6_LPBIG_OFFBIG_CFLAGS''),
      (''v6_lpbig_offbig_ldflags'', Macro ''_CS_POSIX_V6_LPBIG_OFFBIG_LDFLAGS''),
      (''v6_lpbig_offbig_libs'', Macro ''_CS_POSIX_V6_LPBIG_OFFBIG_LIBS''),
      (''v6_width_restricted_envs'', Macro ''_CS_POSIX_V6_WIDTH_RESTRICTED_ENVS'')] @
     (if p \<noteq> Macos \<and> p \<noteq> Freebsd then [(''v6_env'', Macro ''_CS_V6_ENV'')] else [])"

definition confstr_length :: "'k posix \<Rightarrow> confstr_name \<Rightarrow> ('k, size_t result) io" where
  "confstr_length sys name = with_errno_context (\<lambda>context. do {
     n \<leftarrow> sys_confstr sys (confstr_bits name) nullptr 0;
     error \<leftarrow> current_errno_code;
     if is_error error then State_Monad.return (Error error)
     else State_Monad.return (Value n)
   })"

definition pposix_confstr ::
  "'k posix \<Rightarrow> confstr_name \<Rightarrow> char_span \<Rightarrow> ('k, char_span result) io" where
  "pposix_confstr sys name name_buffer = with_errno_context (\<lambda>context. do {
     n \<leftarrow> sys_confstr sys (confstr_bits name) (char_span_data name_buffer)
       (char_span_length name_buffer);
     error \<leftarrow> current_errno_code;
     if is_error error then State_Monad.return (Error error)
     else State_Monad.return (Value (char_span_make (char_span_data name_buffer) n))
   })"

section \<open>Effects\<close>

lemma run_pposix_sysconf [run_simps]:
  "run_state (pposix_sysconf sys name) w =
     (let (v, w') = run_state (sys_sysconf sys (system_config_bits name)) (w\<lparr>errno_of := 0\<rparr>)
      in (if v = -1 \<and> errno_of w' \<noteq> 0 then Error (make_errno_code (errno_of w')) else Value v,
          w'\<lparr>errno_of := errno_of w\<rparr>))"
  by (simp add: pposix_sysconf_def run_simps)

lemma run_confstr_length [run_simps]:
  "run_state (confstr_length sys name) w =
     (let (n, w') = run_state (sys_confstr sys (confstr_bits name) nullptr 0) (w\<lparr>errno_of := 0\<rparr>)
      in (if errno_of w' \<noteq> 0 then Error (make_errno_code (errno_of w')) else Value n,
          w'\<lparr>errno_of := errno_of w\<rparr>))"
  by (simp add: confstr_length_def run_simps)

lemma run_pposix_confstr [run_simps]:
  "run_state (pposix_confstr sys name buf) w =
     (let (n, w') = run_state (sys_confstr sys (confstr_bits name) (char_span_data buf)
            (char_span_length buf)) (w\<lparr>errno_of := 0\<rparr>)
      in (if errno_of w' \<noteq> 0 then Error (make_errno_code (errno_of w'))
          else Value (char_span_make (char_span_data buf) n),
          w'\<lparr>errno_of := errno_of w\<rparr>))"
  by (simp add: pposix_confstr_def run_simps)

section \<open>Documented behaviour of confstr\<close>

text \<open>
  \<open>confstr(name, buf, len)\<close> returns the size of the buffer that the whole value needs, whatever
  \<open>len\<close> is; a value that does not fit is cut off.  It writes nothing outside the buffer.  For a
  name that is not valid it returns 0 and sets \<open>errno\<close>, for a name without a value it returns 0
  and leaves \<open>errno\<close>.  \<open>needed k name\<close> is the size in state \<open>k\<close> of the system, \<open>None\<close> for a name
  that is not valid.
\<close>

definition documented_confstr :: "'k posix \<Rightarrow> ('k \<Rightarrow> c_int \<Rightarrow> size_t option) \<Rightarrow> bool" where
  "documented_confstr sys needed \<longleftrightarrow>
     (\<forall>name p n w r w'. run_state (sys_confstr sys name p n) w = (r, w') \<longrightarrow>
        kernel_of w' = kernel_of w \<and>
        (\<forall>a. a \<notin> set (region 1 p n) \<longrightarrow> mem_of w' a = mem_of w a) \<and>
        (case needed (kernel_of w) name of
           None \<Rightarrow> r = 0 \<and> errno_of w' \<noteq> 0
         | Some k \<Rightarrow> r = k \<and> errno_of w' = errno_of w))"

lemma documented_confstrD:
  assumes "documented_confstr sys needed"
    and "run_state (sys_confstr sys name p n) w = (r, w')"
  shows "kernel_of w' = kernel_of w"
    and "a \<notin> set (region 1 p n) \<Longrightarrow> mem_of w' a = mem_of w a"
    and "needed (kernel_of w) name = None \<Longrightarrow> r = 0 \<and> errno_of w' \<noteq> 0"
    and "needed (kernel_of w) name = Some k \<Longrightarrow> r = k \<and> errno_of w' = errno_of w"
  using assms(1) [unfolded documented_confstr_def, rule_format, OF assms(2)] by auto

text \<open>What both queries return, in terms of the size that the system reports.\<close>

lemma confstr_length_documented:
  assumes "documented_confstr sys needed"
    and "run_state (confstr_length sys name) w = (res, w')"
  shows "needed (kernel_of w) (confstr_bits name) = Some n \<Longrightarrow> res = Value n"
    and "needed (kernel_of w) (confstr_bits name) = None \<Longrightarrow> \<exists>ec. res = Error ec \<and> is_error ec"
    and "kernel_of w' = kernel_of w"
proof -
  obtain r w1 where run:
    "run_state (sys_confstr sys (confstr_bits name) 0 0) (w\<lparr>errno_of := 0\<rparr>) = (r, w1)"
    by (cases "run_state (sys_confstr sys (confstr_bits name) 0 0) (w\<lparr>errno_of := 0\<rparr>)")
  note doc = documented_confstrD [OF assms(1) run]
  show "needed (kernel_of w) (confstr_bits name) = Some n \<Longrightarrow> res = Value n"
    and "needed (kernel_of w) (confstr_bits name) = None \<Longrightarrow> \<exists>ec. res = Error ec \<and> is_error ec"
    and "kernel_of w' = kernel_of w"
    using doc assms(2) by (auto simp: run_simps run)
qed

lemma confstr_documented:
  assumes "documented_confstr sys needed"
    and "run_state (pposix_confstr sys name buf) w = (res, w')"
  shows "needed (kernel_of w) (confstr_bits name) = Some n \<Longrightarrow>
      res = Value (char_span_make (char_span_data buf) n)"
    and "needed (kernel_of w) (confstr_bits name) = None \<Longrightarrow> \<exists>ec. res = Error ec \<and> is_error ec"
    and "kernel_of w' = kernel_of w"
    and "a \<notin> set (region 1 (char_span_data buf) (char_span_length buf)) \<Longrightarrow>
      mem_of w' a = mem_of w a"
proof -
  let ?call = "sys_confstr sys (confstr_bits name) (char_span_data buf) (char_span_length buf)"
  obtain r w1 where run: "run_state ?call (w\<lparr>errno_of := 0\<rparr>) = (r, w1)"
    by (cases "run_state ?call (w\<lparr>errno_of := 0\<rparr>)")
  note doc = documented_confstrD [OF assms(1) run]
  show "needed (kernel_of w) (confstr_bits name) = Some n \<Longrightarrow>
      res = Value (char_span_make (char_span_data buf) n)"
    and "needed (kernel_of w) (confstr_bits name) = None \<Longrightarrow> \<exists>ec. res = Error ec \<and> is_error ec"
    and "kernel_of w' = kernel_of w"
    and "a \<notin> set (region 1 (char_span_data buf) (char_span_length buf)) \<Longrightarrow>
      mem_of w' a = mem_of w a"
    using doc assms(2) by (auto simp: run_simps run)
qed

section \<open>Documented behaviour of sysconf\<close>

text \<open>
  A limit has a value, or none is imposed, or its name is not supported.  \<open>sysconf\<close> returns the
  value; it returns \<open>-1\<close> and leaves \<open>errno\<close> alone if there is no limit, and returns \<open>-1\<close> and sets
  \<open>errno\<close> if the name is not supported.
\<close>

datatype config_limit = Limit c_long | Indeterminate | Unsupported errc

definition documented_sysconf :: "'k posix \<Rightarrow> ('k \<Rightarrow> c_int \<Rightarrow> config_limit) \<Rightarrow> bool" where
  "documented_sysconf sys limits \<longleftrightarrow>
     (\<forall>name w r w'. run_state (sys_sysconf sys name) w = (r, w') \<longrightarrow>
        (case limits (kernel_of w) name of
           Limit v \<Rightarrow> v \<noteq> -1 \<and> r = v
         | Indeterminate \<Rightarrow> r = -1 \<and> errno_of w' = errno_of w
         | Unsupported e \<Rightarrow> r = -1 \<and> errno_of w' = e \<and> e \<noteq> 0))"

section \<open>Properties\<close>


text \<open>A system where every string needs ten bytes and no limit is imposed.\<close>

definition demo_config_posix :: "unit posix" where
  "demo_config_posix = stub_posix
     \<lparr>sys_confstr := (\<lambda>_ p n. State_Monad.return 10),
      sys_sysconf := (\<lambda>_. State_Monad.return (-1))\<rparr>"

definition demo_config_world :: "c_int \<Rightarrow> unit world" where
  "demo_config_world e = \<lparr>errno_of = e, mem_of = (\<lambda>_. 0), kernel_of = ()\<rparr>"

lemma demo_confstr: "documented_confstr demo_config_posix (\<lambda>_ _. Some 10)"
  by (simp add: documented_confstr_def demo_config_posix_def)

lemma run_demo_confstr:
  "run_state (pposix_confstr demo_config_posix name buf) w = (Value (char_span_make (char_span_data buf) 10), w)"
  "run_state (confstr_length demo_config_posix name) w = (Value 10, w)"
  by (simp_all add: run_simps demo_config_posix_def)


text \<open>
  C17.  \<open>sysconf\<close> tells the three kinds of limits apart for every \<open>errno\<close> that the thread had before
  the call, and leaves that \<open>errno\<close> in place.
\<close>

theorem sysconf_classifies:
  assumes "documented_sysconf sys limits"
  shows "run_state (pposix_sysconf sys name) w =
    (case limits (kernel_of w) (system_config_bits name) of
       Limit v \<Rightarrow> Value v
     | Indeterminate \<Rightarrow> Value (-1)
     | Unsupported e \<Rightarrow> Error (make_errno_code e),
     (snd (run_state (sys_sysconf sys (system_config_bits name)) (w\<lparr>errno_of := 0\<rparr>)))
       \<lparr>errno_of := errno_of w\<rparr>)"
proof -
  let ?call = "sys_sysconf sys (system_config_bits name)"
  obtain r w' where run: "run_state ?call (w\<lparr>errno_of := 0\<rparr>) = (r, w')"
    by (cases "run_state ?call (w\<lparr>errno_of := 0\<rparr>)")
  from assms [unfolded documented_sysconf_def, rule_format, OF run] show ?thesis
    by (auto simp: run_simps run split: config_limit.splits)
qed

theorem sysconf_classifies_witness:
  "fst (run_state (pposix_sysconf demo_config_posix (System_config_name 4)) (demo_config_world 22)) =
     Value (-1)"
proof -
  have "documented_sysconf demo_config_posix (\<lambda>_ _. Indeterminate)"
    by (simp add: documented_sysconf_def demo_config_posix_def)
  then show ?thesis
    unfolding sysconf_classifies [OF \<open>documented_sysconf demo_config_posix (\<lambda>_ _. Indeterminate)\<close>]
    by simp
qed

text \<open>
  C18.  When the string does not fit, \<open>confstr\<close> still returns a span of the length that the string
  needs: the result lies within the caller's buffer exactly if the string fits.
\<close>

theorem confstr_result_in_bounds_iff:
  assumes "documented_confstr sys needed"
    and "needed (kernel_of w) (confstr_bits name) = Some n"
    and "run_state (pposix_confstr sys name buf) w = (res, w')"
    and "region_ok 1 (char_span_data buf) n"
    and "region_ok 1 (char_span_data buf) (char_span_length buf)"
  shows "\<exists>s. res = Value s \<and>
    (set (region 1 (char_span_data s) (char_span_length s)) \<subseteq>
       set (region 1 (char_span_data buf) (char_span_length buf)) \<longleftrightarrow> n \<le> char_span_length buf)"
proof -
  have "res = Value (char_span_make (char_span_data buf) n)"
    by (rule confstr_documented(1) [OF assms(1,3,2)])
  moreover have "char_span_data (char_span_make (char_span_data buf) n) = char_span_data buf"
    "char_span_length (char_span_make (char_span_data buf) n) = n"
    using char_span.make_region_ok [OF assms(4)] by simp_all
  ultimately show ?thesis
    using region_subset_iff [OF assms(4,5)] by simp
qed

theorem confstr_result_in_bounds_iff_witness:
  "\<exists>s. run_state (pposix_confstr demo_config_posix (Confstr_name 0) (char_span_make 100 4))
      (demo_config_world 0) = (Value s, demo_config_world 0) \<and>
    \<not> set (region 1 (char_span_data s) (char_span_length s)) \<subseteq> set (region 1 100 4)"
proof -
  have "region_ok 1 100 10" "region_ok 1 100 4"
    by (simp_all add: region_ok_def)
  then show ?thesis
    using confstr_result_in_bounds_iff [where sys = demo_config_posix and n = 10 and
        name = "Confstr_name 0" and buf = "char_span_make 100 4" and w = "demo_config_world 0",
        OF demo_confstr _ run_demo_confstr(1)]
    by (simp add: run_demo_confstr char_span_defs)
qed

text \<open>OpenBSD is the platform with every name; the other platforms have a part of its names.\<close>

lemma system_config_table_part: "subseq (system_config_table p) (system_config_table Openbsd)"
  unfolding system_config_table_def
  by (simp only: platform.distinct not_False_eq_True simp_thms if_True)
    (intro list_emb_append_mono subseq_if subseq_order.order_refl)

lemma confstr_table_part: "subseq (confstr_table p) (confstr_table Openbsd)"
  unfolding confstr_table_def
  by (simp only: platform.distinct not_False_eq_True simp_thms if_True)
    (intro list_emb_append_mono subseq_if subseq_order.order_refl)

lemma system_config_names_once: "enum_table_ok (system_config_table Openbsd)"
  by (simp add: enum_table_ok_def system_config_table_def)

lemma system_config_macros_once: "enum_table_faithful (system_config_table Openbsd)"
  by (simp add: enum_table_faithful_def system_config_table_def)

lemma confstr_once: "enum_table_ok (confstr_table Openbsd) \<and> enum_table_faithful (confstr_table Openbsd)"
  by (simp add: enum_table_ok_def enum_table_faithful_def confstr_table_def)

text \<open>
  On every platform the names of \<open>sysconf\<close>'s limits and of \<open>confstr\<close>'s strings are declared
  once each, and no two come from the same macro of the system.
\<close>

lemma config_names_distinct:
  "enum_table_ok (system_config_table p) \<and> enum_table_faithful (system_config_table p) \<and>
   enum_table_ok (confstr_table p) \<and> enum_table_faithful (confstr_table p)"
  using enum_table_subseq [OF system_config_table_part [of p]] system_config_names_once
    system_config_macros_once enum_table_subseq [OF confstr_table_part [of p] confstr_once]
  by blast

end
