(* ===== verification/Syslog.thy ===== *)
theory Syslog
  imports Util Range_For
begin

text \<open>
  \<^verbatim>\<open>syslog.hpp\<close> and \<^verbatim>\<open>syslog.cpp\<close>: priorities, sets of priorities as log masks, facilities,
  options, and the calls.  \<open>LOG_MASK\<close> is a function-like macro of \<^verbatim>\<open>syslog.h\<close> and a parameter.
\<close>

section \<open>Enumerations\<close>

datatype syslog_priority = Syslog_priority (syslog_priority_bits: c_int)

definition syslog_priority_table :: enum_table where
  "syslog_priority_table =
     [(''emergency'', Macro ''LOG_EMERG''), (''alert'', Macro ''LOG_ALERT''),
      (''critical'', Macro ''LOG_CRIT''), (''error'', Macro ''LOG_ERR''),
      (''warning'', Macro ''LOG_WARNING''), (''notice'', Macro ''LOG_NOTICE''),
      (''info'', Macro ''LOG_INFO''), (''debug'', Macro ''LOG_DEBUG'')]"

datatype syslog_facility = Syslog_facility (syslog_facility_bits: c_int)

definition syslog_facility_table :: enum_table where
  "syslog_facility_table =
     [(''kernel'', Macro ''LOG_KERN''), (''user'', Macro ''LOG_USER''),
      (''mail'', Macro ''LOG_MAIL''), (''news'', Macro ''LOG_NEWS''),
      (''uucp'', Macro ''LOG_UUCP''), (''daemon'', Macro ''LOG_DAEMON''),
      (''auth'', Macro ''LOG_AUTH''), (''cron'', Macro ''LOG_CRON''),
      (''printer'', Macro ''LOG_LPR''), (''local0'', Macro ''LOG_LOCAL0''),
      (''local1'', Macro ''LOG_LOCAL1''), (''local2'', Macro ''LOG_LOCAL2''),
      (''local3'', Macro ''LOG_LOCAL3''), (''local4'', Macro ''LOG_LOCAL4''),
      (''local5'', Macro ''LOG_LOCAL5''), (''local6'', Macro ''LOG_LOCAL6''),
      (''local7'', Macro ''LOG_LOCAL7'')]"

datatype syslog_option = Syslog_option (syslog_option_bits: c_int)

definition syslog_option_table :: enum_table where
  "syslog_option_table =
     [(''log_pid'', Macro ''LOG_PID''), (''log_to_console'', Macro ''LOG_CONS''),
      (''open_immediately'', Macro ''LOG_NDELAY''), (''open_on_first_log'', Macro ''LOG_ODELAY''),
      (''no_wait'', Macro ''LOG_NOWAIT'')]"

definition syslog_option_or :: "syslog_option \<Rightarrow> syslog_option \<Rightarrow> syslog_option" where
  "syslog_option_or lhs rhs = Syslog_option (syslog_option_bits lhs OR syslog_option_bits rhs)"

interpretation syslog_option: flag_enum syslog_option_bits Syslog_option syslog_option_or
  by unfold_locales (simp_all add: syslog_option_or_def)

section \<open>Sets of priorities\<close>

type_synonym log_mask = "c_int \<Rightarrow> c_int"

record syslog_priority_set =
  priority_mask :: c_int

definition priority_set_default :: syslog_priority_set where
  "priority_set_default = \<lparr>priority_mask = 0\<rparr>"

definition priority_set_set ::
  "log_mask \<Rightarrow> syslog_priority_set \<Rightarrow> syslog_priority \<Rightarrow> syslog_priority_set" where
  "priority_set_set LOG_MASK this priority =
     this\<lparr>priority_mask := priority_mask this OR LOG_MASK (syslog_priority_bits priority)\<rparr>"

text \<open>The constructor from an initialiser list loops over its elements.\<close>

definition priority_set_of :: "log_mask \<Rightarrow> syslog_priority list \<Rightarrow> syslog_priority_set" where
  "priority_set_of LOG_MASK priorities =
     foldl (priority_set_set LOG_MASK) priority_set_default priorities"

text \<open>
  The same loop over memory: the array of the list starts at \<open>first\<close> and has \<open>n\<close> elements of four
  bytes, the size of the enumeration.
\<close>

definition priority_set_of_loop ::
  "log_mask \<Rightarrow> (addr \<Rightarrow> byte) \<Rightarrow> addr \<Rightarrow> size_t \<Rightarrow> syslog_priority_set option" where
  "priority_set_of_loop LOG_MASK mem first n =
     range_for 4 first (first + n * 4)
       (\<lambda>this it. priority_set_set LOG_MASK this (Syslog_priority (bytes_value (load_bytes it 4 mem))))
       priority_set_default"

definition priority_set_test :: "log_mask \<Rightarrow> syslog_priority_set \<Rightarrow> syslog_priority \<Rightarrow> bool" where
  "priority_set_test LOG_MASK this priority \<longleftrightarrow>
     priority_mask this AND LOG_MASK (syslog_priority_bits priority) \<noteq> 0"

definition priority_set_of_mask :: "c_int \<Rightarrow> syslog_priority_set" where
  "priority_set_of_mask m = \<lparr>priority_mask = m\<rparr>"

definition priority_set_to_mask :: "syslog_priority_set \<Rightarrow> c_int" where
  "priority_set_to_mask this = priority_mask this"

section \<open>Calls\<close>

definition pposix_openlog ::
  "'k posix \<Rightarrow> string \<Rightarrow> syslog_option \<Rightarrow> syslog_facility \<Rightarrow> ('k, unit) io" where
  "pposix_openlog sys identifier options facility =
     sys_openlog sys identifier (syslog_option_bits options) (syslog_facility_bits facility)"

text \<open>
  The overload for \<open>std::string\<close> passes \<open>c_str()\<close>: the C function sees the characters before
  the first null character.
\<close>

definition c_str :: "string \<Rightarrow> string" where
  "c_str s = takeWhile (\<lambda>c. c \<noteq> CHR 0x00) s"

definition pposix_openlog_string ::
  "'k posix \<Rightarrow> string \<Rightarrow> syslog_option \<Rightarrow> syslog_facility \<Rightarrow> ('k, unit) io" where
  "pposix_openlog_string sys identifier options facility =
     pposix_openlog sys (c_str identifier) options facility"

definition pposix_setlogmask ::
  "'k posix \<Rightarrow> syslog_priority_set \<Rightarrow> ('k, syslog_priority_set) io" where
  "pposix_setlogmask sys priorities = do {
     m \<leftarrow> sys_setlogmask sys (priority_set_to_mask priorities);
     State_Monad.return (priority_set_of_mask m)
   }"

definition pposix_closelog :: "'k posix \<Rightarrow> ('k, unit) io" where
  "pposix_closelog sys = sys_closelog sys"

definition pposix_syslog_facility ::
  "'k posix \<Rightarrow> syslog_priority \<Rightarrow> syslog_facility \<Rightarrow> string \<Rightarrow> vararg list \<Rightarrow> ('k, unit) io" where
  "pposix_syslog_facility sys priority facility format args =
     sys_syslog sys (syslog_priority_bits priority OR syslog_facility_bits facility) format args"

text \<open>
  The overload without a facility calls the one with \<open>user\<close>.  It is modelled as it is written; its
  qualified call stands before the declaration of the other overload and finds only itself, so
  no instance compiles.
\<close>

definition pposix_syslog ::
  "headers \<Rightarrow> 'k posix \<Rightarrow> syslog_priority \<Rightarrow> string \<Rightarrow> vararg list \<Rightarrow> ('k, unit) io" where
  "pposix_syslog hdr sys priority format args =
     pposix_syslog_facility sys priority
       (Syslog_facility (the (enumerator hdr syslog_facility_table ''user''))) format args"

lemma pposix_syslog_user:
  "pposix_syslog hdr sys priority format args =
     sys_syslog sys (syslog_priority_bits priority OR hdr ''LOG_USER'') format args"
  by (simp add: pposix_syslog_def pposix_syslog_facility_def syslog_facility_table_def
      enumerator_def)

section \<open>Sets of priorities as sets\<close>

text \<open>
  The documentation of \<open>LOG_MASK\<close>: each priority has a bit of its own.  Over such masks a
  \<open>syslog_priority_set\<close> is a set of priorities.
\<close>

definition log_mask_ok :: "log_mask \<Rightarrow> syslog_priority set \<Rightarrow> bool" where
  "log_mask_ok LOG_MASK P \<longleftrightarrow>
     (\<forall>p \<in> P. LOG_MASK (syslog_priority_bits p) \<noteq> 0) \<and>
     (\<forall>p \<in> P. \<forall>q \<in> P. p \<noteq> q \<longrightarrow>
        LOG_MASK (syslog_priority_bits p) AND LOG_MASK (syslog_priority_bits q) = 0)"

definition priorities_of ::
  "log_mask \<Rightarrow> syslog_priority set \<Rightarrow> syslog_priority_set \<Rightarrow> syslog_priority set" where
  "priorities_of LOG_MASK P s = {p \<in> P. priority_set_test LOG_MASK s p}"

lemma priorities_of_default [simp]: "priorities_of LOG_MASK P priority_set_default = {}"
  by (simp add: priorities_of_def priority_set_test_def priority_set_default_def)

lemma test_set:
  "priority_set_test LOG_MASK (priority_set_set LOG_MASK s q) p \<longleftrightarrow>
     priority_set_test LOG_MASK s p \<or>
     LOG_MASK (syslog_priority_bits q) AND LOG_MASK (syslog_priority_bits p) \<noteq> 0"
  by (auto simp: priority_set_test_def priority_set_set_def and_neq_0_iff_bit bit_simps)

lemma priorities_of_set:
  assumes "log_mask_ok LOG_MASK P" and "q \<in> P"
  shows "priorities_of LOG_MASK P (priority_set_set LOG_MASK s q) =
     insert q (priorities_of LOG_MASK P s)"
  using assms by (auto simp: priorities_of_def test_set log_mask_ok_def)

lemma priorities_of_foldl:
  assumes "log_mask_ok LOG_MASK P" and "set ps \<subseteq> P"
  shows "priorities_of LOG_MASK P (foldl (priority_set_set LOG_MASK) s ps) =
     set ps \<union> priorities_of LOG_MASK P s"
  using assms(2) by (induction ps arbitrary: s) (auto simp: priorities_of_set [OF assms(1)])

text \<open>
  \<open>setlogmask\<close> is documented to return the mask that was in force and to install the new one,
  unless the new one is 0, which only asks.
\<close>

definition documented_setlogmask :: "'k posix \<Rightarrow> ('k \<Rightarrow> c_int) \<Rightarrow> bool" where
  "documented_setlogmask sys current \<longleftrightarrow>
     (\<forall>m w r w'. run_state (sys_setlogmask sys m) w = (r, w') \<longrightarrow>
        r = current (kernel_of w) \<and>
        current (kernel_of w') = (if m = 0 then current (kernel_of w) else m))"

lemma setlogmask_spec:
  assumes "documented_setlogmask sys current"
    and "run_state (pposix_setlogmask sys s) w = (old, w')"
  shows "old = priority_set_of_mask (current (kernel_of w))"
    and "current (kernel_of w') =
      (if priority_set_to_mask s = 0 then current (kernel_of w) else priority_set_to_mask s)"
proof -
  obtain r where "run_state (sys_setlogmask sys (priority_set_to_mask s)) w = (r, w')"
    and "old = priority_set_of_mask r"
    using assms(2) by (cases "run_state (sys_setlogmask sys (priority_set_to_mask s)) w")
      (auto simp: pposix_setlogmask_def)
  with assms(1) show "old = priority_set_of_mask (current (kernel_of w))"
    and "current (kernel_of w') =
      (if priority_set_to_mask s = 0 then current (kernel_of w) else priority_set_to_mask s)"
    unfolding documented_setlogmask_def by blast+
qed

text \<open>
  The constructor's loop ends for every list that fits the address space, with the set of the
  priorities in it.
\<close>

lemma priority_set_of_loop_ends:
  assumes "unat n < 2 ^ 62"
  shows "priority_set_of_loop LOG_MASK mem first n =
    Some (priority_set_of LOG_MASK
      (map (\<lambda>i. Syslog_priority (bytes_value (load_bytes (first + of_nat i * 4) 4 mem))) [0..<unat n]))"
  by (simp add: priority_set_of_loop_def range_for_words [OF assms] priority_set_of_def foldl_map)

section \<open>Properties\<close>

text \<open>
  C28.  A \<open>syslog_priority_set\<close> is the set of the priorities it was built from: for a \<open>LOG_MASK\<close> that
  gives each priority of \<open>P\<close> a bit of its own, the constructor from a list holds exactly the
  elements of the list, \<open>set\<close> adds its argument, and \<open>test\<close> is membership.
\<close>

theorem priority_set_refines_set:
  assumes "log_mask_ok LOG_MASK P" and "set ps \<subseteq> P" and "q \<in> P"
  shows "priorities_of LOG_MASK P (priority_set_of LOG_MASK ps) = set ps \<and>
    priorities_of LOG_MASK P (priority_set_set LOG_MASK s q) = insert q (priorities_of LOG_MASK P s) \<and>
    (priority_set_test LOG_MASK (priority_set_of LOG_MASK ps) q \<longleftrightarrow> q \<in> set ps)"
proof -
  have of: "priorities_of LOG_MASK P (priority_set_of LOG_MASK ps) = set ps"
    using priorities_of_foldl [OF assms(1,2)] by (simp add: priority_set_of_def)
  moreover have "priority_set_test LOG_MASK (priority_set_of LOG_MASK ps) q \<longleftrightarrow> q \<in> set ps"
    using of assms(3) unfolding priorities_of_def by blast
  ultimately show ?thesis
    using priorities_of_set [OF assms(1,3)] by simp
qed

theorem priority_set_refines_set_witness:
  "priority_set_test (\<lambda>p. push_bit (unat p) 1)
     (priority_set_of (\<lambda>p. push_bit (unat p) 1) [Syslog_priority 0, Syslog_priority 3])
     (Syslog_priority 3)"
proof -
  let ?P = "{Syslog_priority 0, Syslog_priority 3, Syslog_priority 7}"
  have "log_mask_ok (\<lambda>p. push_bit (unat p) 1) ?P"
    by (simp add: log_mask_ok_def push_bit_eq_mult)
  from priority_set_refines_set [OF this, of "[Syslog_priority 0, Syslog_priority 3]" "Syslog_priority 3"]
  show ?thesis
    by simp
qed

text \<open>
  C29.  \<open>setlogmask\<close> exchanges masks: it returns the mask that was in force, and installing what it
  returned restores it, for masks that are not empty (an empty mask only asks).
\<close>

theorem setlogmask_exchange:
  assumes "documented_setlogmask sys current"
    and "run_state (pposix_setlogmask sys new) w = (old, wa)"
    and "run_state (pposix_setlogmask sys old) wa = (res, wb)"
    and "priority_set_to_mask new \<noteq> 0" and "priority_set_to_mask old \<noteq> 0"
  shows "priority_set_to_mask old = current (kernel_of w) \<and> res = new \<and>
    current (kernel_of wb) = current (kernel_of w)"
  using setlogmask_spec [OF assms(1,2)] setlogmask_spec [OF assms(1,3)] assms(4,5)
  by (simp add: priority_set_of_mask_def priority_set_to_mask_def)

text \<open>A system whose kernel is the mask in force.\<close>

definition demo_log_posix :: "c_int posix" where
  "demo_log_posix = stub_posix\<lparr>sys_setlogmask := (\<lambda>m. do {
     w \<leftarrow> State_Monad.get;
     State_Monad.set (if m = 0 then w else w\<lparr>kernel_of := m\<rparr>);
     State_Monad.return (kernel_of w) })\<rparr>"

definition demo_log_world :: "c_int \<Rightarrow> c_int world" where
  "demo_log_world m = \<lparr>errno_of = 0, mem_of = (\<lambda>_. 0), kernel_of = m\<rparr>"

theorem setlogmask_exchange_witness:
  "kernel_of (snd (run_state (pposix_setlogmask demo_log_posix \<lparr>priority_mask = 255\<rparr>)
     (demo_log_world 3))) = 255"
proof -
  have doc: "documented_setlogmask demo_log_posix (\<lambda>k. k)"
    by (simp add: documented_setlogmask_def demo_log_posix_def)
  have swap: "n \<noteq> 0 \<Longrightarrow> run_state (pposix_setlogmask demo_log_posix \<lparr>priority_mask = n\<rparr>) (demo_log_world m) =
      (\<lparr>priority_mask = m\<rparr>, demo_log_world n)" for m n
    by (simp add: pposix_setlogmask_def demo_log_posix_def priority_set_to_mask_def
        priority_set_of_mask_def demo_log_world_def)
  from setlogmask_exchange [OF doc swap swap, of 3 255] show ?thesis
    unfolding swap [of 255 3, simplified] by (simp add: demo_log_world_def)
qed

end
