(* ===== verification/Spec2Isabelle.thy ===== *)
theory Spec2Isabelle
  imports Fd_Program File_Io Mman Dirent Sockopt Epoll Mq_Queue Ioctl Config Syslog
begin

text \<open>
  Verification of pposix, a C++17 library that wraps the POSIX C interface in types: owners of
  handles that close themselves, a \<open>result<T>\<close> that holds a value or an error code, views and spans
  of memory, and enumerations and compile-time flags instead of integer constants.

  \<^bold>\<open>The program and its parts.\<close>  Everything rests on three layers.  At the bottom, \<^verbatim>\<open>errno.hpp\<close> and
  \<^verbatim>\<open>result.hpp\<close> turn the C convention of -1 and \<open>errno\<close> into values, and the macros of \<^verbatim>\<open>util.hpp\<close> apply
  that to one call.  In the middle, \<^verbatim>\<open>descriptor.hpp\<close> owns a handle, \<^verbatim>\<open>byte_span.hpp\<close>, \<^verbatim>\<open>char_span.hpp\<close>,
  \<^verbatim>\<open>span.hpp\<close> and \<^verbatim>\<open>any_view.hpp\<close> describe memory, and \<^verbatim>\<open>platform.hpp\<close> selects code.  On top, one pair
  of files per part of POSIX makes the calls: files, configuration, system log, directories,
  \<open>ioctl\<close>, mappings, sockets, epoll and message queues.

  \<^bold>\<open>Theories.\<close>
  \<^item> \<open>Prelude\<close>: machine types, words, the state monad, subsequences.
  \<^item> \<open>World\<close>: the state a program runs in (\<open>errno\<close>, memory, the kernel as a value of any type), the
    structures of the system headers, and the record \<open>posix\<close> of all external functions.
  \<^item> \<open>Errno\<close>, \<open>Result\<close>, \<open>Util\<close>: \<^verbatim>\<open>errno.cpp\<close>, \<^verbatim>\<open>result.hpp\<close>, \<^verbatim>\<open>util.hpp\<close>; the locale \<open>flag_enum\<close> is the contract of a
    flag enumeration, interpreted for each one.
  \<^item> \<open>Span\<close>, \<open>View\<close>: the six span classes, all interpretations of the locale \<open>span_class\<close>, and the
    views; \<open>Memory\<close>: objects as bytes; \<open>Range_For\<close>: the range-based \<open>for\<close> over pointers.
  \<^item> \<open>Descriptor\<close>: \<^verbatim>\<open>descriptor.hpp\<close> and \<^verbatim>\<open>file_descriptor.cpp\<close>; the locale \<open>close_policy\<close> is the contract between an
    owner and the function that closes its handles, interpreted for file descriptors, sockets,
    directory streams, mappings and message queues.
  \<^item> \<open>Ownership\<close>: a program that uses owners, as a step relation with its invariant; \<open>Opening\<close>: the
    locale \<open>owner_open\<close>, which extends \<open>close_policy\<close>, for every operation that opens a handle and
    returns its owner, and a small concrete system for instances.
  \<^item> \<open>Object_Program\<close>: programs over any class whose objects wrap an owner, as a step relation over its
    operations; the locale \<open>owner_class\<close> is what a class must satisfy to be simulated by the state
    machine of \<open>Ownership\<close>, interpreted for \<open>file\<close>, \<open>socket\<close>, \<open>epoll\<close>, \<open>mq\<close> and for objects of the first
    three together.
  \<^item> \<open>File_Program\<close>: programs that use the class \<open>file\<close>, rule by rule; \<open>Fd_Program\<close>: programs that use
    files, sockets and epoll instances together, over one table of descriptors.
  \<^item> \<open>File_Io\<close> and \<open>Mq_Queue\<close>: the data path of \<open>file\<close> over regular files and of \<open>mq\<close> over queues of
    messages.
  \<^item> \<open>Platform\<close>, \<open>Stat\<close>, \<open>Fcntl\<close>, \<open>File\<close>, \<open>Config\<close>, \<open>Syslog\<close>, \<open>Dirent\<close>, \<open>Ioctl\<close>, \<open>Mman\<close>, \<open>Time\<close>, \<open>Signal\<close>, \<open>Epoll\<close>,
    \<open>Mqueue\<close>: the files of those names (\<open>Config\<close> is \<^verbatim>\<open>sysconf.cpp\<close> and \<^verbatim>\<open>confstr.cpp\<close>); \<open>Socket\<close> and \<open>Sockopt\<close>: \<^verbatim>\<open>socket.hpp\<close>
    and \<^verbatim>\<open>socket.cpp\<close>.

  \<^bold>\<open>How the model reads.\<close>  An operation of the code is a state transformer on \<open>world\<close>; a C function is a
  field of the parameter \<open>sys\<close> and the values of header macros come from the parameter \<open>hdr\<close>.  A
  member function takes the object first and returns it when it changes it.  Integers have their
  width on LP64; pointers are 64-bit addresses.  A template argument that is a flag becomes a
  value, and a static assertion a predicate \<open>..._accepts\<close> on it.  Undefined behaviour, a throw and a
  rejected compilation are values (\<open>None\<close>, \<open>Inl\<close>).  Destructors of temporaries run where the code
  destroys them: returning an owner through a \<open>result\<close> destroys the temporary it was moved from,
  and so calls the close policy on the null handle.  A scoped enumeration is its underlying
  integer in a constructor, with a table of its enumerators for each platform.

  \<^bold>\<open>What is shown.\<close>  Owners: no double close, no leak, one owner for a handle (C1 to C4, C39), up to
  the stale handles, whose explicit \<open>close()\<close> failed although the system had released them: what
  they lead to is C21.  Every operation that opens returns the owner of exactly what it opened or
  an error (C5 to C10), and destroying the owner gives back what was taken (C37).  Programs
  over the classes are simulated by the machine of owners, so they leak nothing (C16), close
  nothing that is not theirs (C40) and can be wound down in every state (C30, C38); these programs
  use the operations of the classes without \<open>file::close\<close> (C13), move assignment, which is undefined, and
  the opening of queues with \<open>O_CREAT\<close>.  Errors: a read reports the failure of the call and its \<open>errno\<close>
  (C12); \<open>sysconf\<close> classifies limits whatever \<open>errno\<close> was (C17).  Memory: spans, reads, messages
  and configuration strings stay in their buffers, or exactly when they do (C12, C18 to C20,
  C33); lengths given to the system (C24).  Values: what a file or a queue was given it gives back
  (C25, C34), socket options, log masks and configuration strings read back as set (C11, C22, C23,
  C29), permission literals and priority
  sets denote what they say (C26, C28), the loop of the literals ends for every range of memory (C27), event accessors report the event word (C31), the platform
  macros are those of the detected platform (C36).  Static assertions accept what they should
  (C14, C32).  Some
  theorems state what the code does where it misses its purpose: C13, C15, C18, C21 and C35; so do the
  lemmas \<open>epoll_wait_never_value\<close>, \<open>opendir_closes_null\<close>, \<open>ioctl_never_value\<close>, \<open>mmap_protection_none_vacuous\<close>,
  \<open>fcntl_set_file_rw_hint\<close>, \<open>mq_open_accepts_excl\<close> and \<open>socket_unsafe_setsockopt_length\<close>.

  \<^bold>\<open>Assumptions.\<close>  The documented behaviour of the C functions enters only as named hypotheses:
  \<open>sets_errno\<close>, \<open>handle_table\<close>, \<open>reliable_close\<close>, \<open>documented_open\<close> and the other \<open>documented_\<close> predicates, those
  of the properties each with a concrete system that satisfies it.  They leave open what the
  documentation leaves open: whether a failed \<open>close\<close> has released its descriptor, which pages a
  failed \<open>mmap\<close> or \<open>munmap\<close> has unmapped in its region, what \<open>closedir\<close> does with a null pointer, and what
  \<open>mq_open\<close> with \<open>O_CREAT\<close> makes of missing arguments.  \<open>reliable_close\<close> and
  \<open>reliable_munmap\<close>, that closing what is open does not fail, are separate hypotheses of the theorems
  that need them.  All functions of the model are total, and no fuel is
  used.  The code has two loops, over a string and over an initialiser list; each is modelled
  both as a fold over its elements and as the loop over pointers that the language defines, with
  a proof that the loop ends and computes the fold (\<open>str_to_permission_terminates\<close>,
  \<open>priority_set_of_loop_ends\<close>).

  \<^bold>\<open>Not modelled.\<close>  \<open>operator->\<close> of \<open>result\<close>, which does not compile; \<open>getsockopt<T>\<close> and
  \<open>getsockopt_bool\<close>, of which no instance compiles; the
  callee of \<open>mmap::protect\<close>, which is declared and not defined and so a parameter; the headers
  without content (\<^verbatim>\<open>types.hpp\<close>, \<^verbatim>\<open>fd.hpp\<close>); other threads; exceptions of the standard library; deleted and trivially
  copying members.  What the map does not cover are declarations, whose definitions are mapped,
  and these members.
\<close>

section \<open>Owners of file descriptors\<close>

text \<open>
  C1.  No file descriptor that a \<open>file_descriptor\<close> owns is closed twice, or closed after it was
  released or moved away: in every program that uses the class through its constructors, moves,
  \<open>release\<close>, \<open>close\<close> and destructor, every close that is not of the null descriptor finds its
  descriptor open.  The one exception are the stale descriptors, those that an explicit \<open>close()\<close>
  reported as not closed although the system had released them (C21).
\<close>

theorem file_descriptor_no_double_close:
  assumes "handle_table (\<lambda>fd. sys_close sys (raw_fd_value fd)) opened file_descriptor_null"
    and "own_reachable (close_fd sys) file_descriptor_null opened s"
    and "(fd, was_open) \<in> set (close_log s)" and "fd \<noteq> file_descriptor_null" and "fd \<notin> stale s"
  shows "was_open"
  by (rule fd_policy.no_double_close [OF assms])

lemma demo_file_policy: "close_fd demo_file_posix fd = common_call (table_close fd)"
  by (simp add: close_fd_def)

lemma demo_file_reachable:
  assumes "fd \<noteq> file_descriptor_null"
  shows "own_reachable (close_fd demo_file_posix) file_descriptor_null
      (\<lambda>k. k - {file_descriptor_null}) (demo_owner fd)"
    and "own_reachable (close_fd demo_file_posix) file_descriptor_null
      (\<lambda>k. k - {file_descriptor_null}) (demo_closed fd file_descriptor_null)"
    and "own_reachable (close_fd demo_file_posix) file_descriptor_null
      (\<lambda>k. k - {file_descriptor_null}) (demo_destroyed fd)"
  using demo_reachable [OF demo_file_policy assms] by blast+

theorem file_descriptor_no_double_close_witness:
  "snd (hd (close_log (demo_closed (Raw_fd 3) file_descriptor_null)))"
proof -
  have "Raw_fd 3 \<noteq> file_descriptor_null"
    by simp
  from file_descriptor_no_double_close [OF demo_file_table demo_file_reachable(2) [OF this] _ this]
  show ?thesis
    by (simp add: demo_closed_def)
qed

text \<open>
  C2.  No file descriptor leaks: when all \<open>file_descriptor\<close> objects are gone and \<open>close\<close> does not fail
  on open descriptors, the open descriptors are exactly those that the client holds itself,
  having opened or released them.
\<close>

theorem file_descriptor_no_leak:
  assumes "handle_table (\<lambda>fd. sys_close sys (raw_fd_value fd)) opened file_descriptor_null"
    and "reliable_close (\<lambda>fd. sys_close sys (raw_fd_value fd)) opened"
    and "own_reachable (close_fd sys) file_descriptor_null opened s" and "objects s = Map.empty"
  shows "open_handles opened s = client s"
  by (rule fd_policy.no_leak [OF assms])

theorem file_descriptor_no_leak_witness:
  "open_handles (\<lambda>k. k - {file_descriptor_null}) (demo_destroyed (Raw_fd 3)) =
     client (demo_destroyed (Raw_fd 3))"
proof -
  have "Raw_fd 3 \<noteq> file_descriptor_null"
    by simp
  from file_descriptor_no_leak [OF demo_file_table demo_file_reliable demo_file_reachable(3) [OF this]]
  show ?thesis
    by (simp add: demo_destroyed_def)
qed

text \<open>
  C3.  At any time at most one \<open>file_descriptor\<close> object owns a descriptor, and the descriptor that an
  object owns is open and is not also in the hands of the client.  The one exception are the stale
  descriptors, those that an explicit \<open>close()\<close> reported as not closed although the system had
  released them (C21).
\<close>

theorem file_descriptor_unique_owner:
  assumes "handle_table (\<lambda>fd. sys_close sys (raw_fd_value fd)) opened file_descriptor_null"
    and "own_reachable (close_fd sys) file_descriptor_null opened s"
    and "objects s i = Some a" and "descriptor_bool file_descriptor_null a"
    and "raw_descriptor a \<notin> stale s"
  shows "(\<forall>j b. objects s j = Some b \<longrightarrow> raw_descriptor b = raw_descriptor a \<longrightarrow> j = i) \<and>
    raw_descriptor a \<in> open_handles opened s - client s"
proof -
  have a: "raw_descriptor a \<noteq> file_descriptor_null"
    using assms(4) by (simp add: descriptor_bool_def descriptor_empty_def)
  have inv: "own_inv file_descriptor_null opened s"
    by (rule fd_policy.reachable_inv [OF assms(1,2)])
  show ?thesis
    using own_inv_object(1,2) [OF inv assms(3) a assms(5)]
      fd_policy.owner_unique [OF assms(1,2) _ assms(3) _ a assms(5)] by blast
qed

theorem file_descriptor_unique_owner_witness:
  "raw_descriptor (descriptor_of (Raw_fd 3)) \<in>
     open_handles (\<lambda>k. k - {file_descriptor_null}) (demo_owner (Raw_fd 3)) - client (demo_owner (Raw_fd 3))"
proof -
  have "Raw_fd 3 \<noteq> file_descriptor_null"
    by simp
  from file_descriptor_unique_owner [OF demo_file_table demo_file_reachable(1) [OF this],
      where i = 0 and a = "descriptor_of (Raw_fd 3)"]
  show ?thesis
    by (simp add: demo_owner_def descriptor_bool_def descriptor_empty_def)
qed

text \<open>
  C4.  After a successful \<open>close()\<close> the object is empty and its destructor closes nothing: a file
  that has since been given the same number stays open.
\<close>

theorem file_descriptor_close_then_destroy:
  assumes "handle_table (\<lambda>fd. sys_close sys (raw_fd_value fd)) opened file_descriptor_null"
    and "run_state (descriptor_close (close_fd sys) file_descriptor_null a) w = ((ec, b), wa)"
    and "\<not> is_error ec"
    and "run_state (descriptor_destroy (close_fd sys) file_descriptor_null b) wb = ((), wc)"
  shows "raw_descriptor a \<notin> opened (kernel_of wa) \<and> descriptor_empty file_descriptor_null b \<and>
    opened (kernel_of wc) = opened (kernel_of wb)"
proof -
  have b: "b = descriptor_default file_descriptor_null"
    and closed: "opened (kernel_of wa) = opened (kernel_of w) - {raw_descriptor a}"
    using fd_policy.close_spec [OF assms(1,2)] assms(3) by simp_all
  then show ?thesis
    using fd_policy.destroy_spec [OF assms(1,4)] fd_policy.null_not_open [OF assms(1)]
    by (auto simp: descriptor_empty_def)
qed

theorem file_descriptor_close_then_destroy_witness:
  "kernel_of (table_world {Raw_fd 3}) - {file_descriptor_null} =
     kernel_of (table_world {Raw_fd 3}\<lparr>errno_of := 9\<rparr>) - {file_descriptor_null}"
proof -
  have "run_state (descriptor_close (close_fd demo_file_posix) file_descriptor_null
      (descriptor_of (Raw_fd 3))) (table_world {Raw_fd 3}) =
    ((no_error, descriptor_default file_descriptor_null), table_world {})"
    by (simp add: run_simps demo_file_policy table_world_def)
  moreover have "run_state (descriptor_destroy (close_fd demo_file_posix) file_descriptor_null
      (descriptor_default file_descriptor_null)) (table_world {Raw_fd 3}) =
    ((), (table_world {Raw_fd 3})\<lparr>errno_of := 9\<rparr>)"
    by (simp add: run_simps demo_file_policy table_world_def)
  ultimately show ?thesis
    using file_descriptor_close_then_destroy [OF demo_file_table _ is_error_no_error] by metis
qed

text \<open>
  C21.  After a \<open>close()\<close> that reports a failure the object keeps its number, also when the system has
  released it, as it may for \<open>EINTR\<close> and \<open>EIO\<close>, and as Linux always does.  When another file has been
  given the number in the meantime, the destructor closes that file.
\<close>

theorem file_descriptor_failed_close_closes_twice:
  assumes "handle_table (\<lambda>fd. sys_close sys (raw_fd_value fd)) opened file_descriptor_null"
    and "run_state (descriptor_close (close_fd sys) file_descriptor_null a) w = ((ec, b), wa)"
    and "is_error ec" and "raw_descriptor a \<notin> opened (kernel_of wa)"
    and "raw_descriptor a \<in> opened (kernel_of wb)"
    and "fst (run_state (sys_close sys (raw_fd_value (raw_descriptor a))) wb) \<noteq> -1"
    and "run_state (descriptor_destroy (close_fd sys) file_descriptor_null b) wb = ((), wc)"
  shows "b = a \<and> opened (kernel_of wc) = opened (kernel_of wb) - {raw_descriptor a}"
proof -
  have b: "b = a"
    using fd_policy.close_spec [OF assms(1,2)] assms(3) by simp
  obtain ec2 where run: "run_state (close_fd sys (raw_descriptor a)) wb = (ec2, wc)"
    using assms(7) b by (auto simp: run_simps prod_eq_iff)
  then have "\<not> is_error ec2"
    using assms(6) unfolding close_fd_def by (metis common_callE fst_conv is_error_no_error)
  with b show ?thesis
    by (cases rule: fd_policy.policy_cases [OF assms(1) run]) auto
qed

text \<open>
  A system whose \<open>close\<close> releases the descriptor and then fails with error 5 (\<open>EIO\<close>), as often as a
  counter in its state says.
\<close>

definition demo_failing_posix :: "(raw_fd set \<times> nat) posix" where
  "demo_failing_posix = stub_posix
     \<lparr>sys_close := (\<lambda>fd. do {
        w \<leftarrow> State_Monad.get;
        let (fds, failures) = kernel_of w;
        if Raw_fd fd \<notin> fds then fail_with 9 (-1)
        else do {
          State_Monad.set (w\<lparr>kernel_of := (fds - {Raw_fd fd}, failures - 1)\<rparr>);
          if failures = 0 then State_Monad.return 0 else fail_with 5 (-1)
        } })\<rparr>"

lemma run_demo_failing:
  "run_state (sys_close demo_failing_posix fd) w =
     (if Raw_fd fd \<notin> fst (kernel_of w) then (-1, w\<lparr>errno_of := 9\<rparr>)
      else if snd (kernel_of w) = 0
      then (0, w\<lparr>kernel_of := (fst (kernel_of w) - {Raw_fd fd}, 0)\<rparr>)
      else (-1, w\<lparr>kernel_of := (fst (kernel_of w) - {Raw_fd fd}, snd (kernel_of w) - 1), errno_of := 5\<rparr>))"
  by (simp add: demo_failing_posix_def fail_with_def case_prod_beta Let_def)

lemma demo_failing_table:
  "handle_table (\<lambda>fd. sys_close demo_failing_posix (raw_fd_value fd))
     (\<lambda>k. fst k - {file_descriptor_null}) file_descriptor_null"
  by (auto simp: handle_table_def run_demo_failing simp del: file_descriptor_null_eq split: if_splits)

theorem file_descriptor_failed_close_closes_twice_witness:
  "fst ({}, 0 :: nat) - {file_descriptor_null} =
     fst ({Raw_fd 3}, 0 :: nat) - {file_descriptor_null} - {Raw_fd 3}"
proof -
  let ?w = "\<lambda>e k. \<lparr>errno_of = e, mem_of = (\<lambda>_. 0), kernel_of = k\<rparr>"
  have "run_state (descriptor_close (close_fd demo_failing_posix) file_descriptor_null
      (descriptor_of (Raw_fd 3))) (?w 0 ({Raw_fd 3}, 1)) =
    ((make_errno_code 5, descriptor_of (Raw_fd 3)), ?w 5 ({}, 0))"
    by (simp add: run_simps close_fd_def run_demo_failing)
  moreover have "run_state (descriptor_destroy (close_fd demo_failing_posix) file_descriptor_null
      (descriptor_of (Raw_fd 3))) (?w 0 ({Raw_fd 3}, 0)) = ((), ?w 0 ({}, 0))"
    by (simp add: run_simps close_fd_def run_demo_failing)
  ultimately show ?thesis
    using file_descriptor_failed_close_closes_twice [OF demo_failing_table]
    by (fastforce simp: run_demo_failing)
qed

section \<open>Other owners\<close>

text \<open>
  C39.  The owners of sockets and of message queues keep the same invariant.  Stale handles apart,
  those that an explicit \<open>close()\<close> reported as not closed although the system had released them, what
  is open is what the objects own, what the client holds and what a failed destructor left behind,
  without overlap; no two objects own one handle; no handle is closed that is not open.
\<close>

theorem other_owners_invariant:
  assumes "handle_table (\<lambda>fd. sys_close sys_s (socket_fd_value fd)) opened_s unique_socket_fd_null"
    and "own_reachable (close_socket sys_s) unique_socket_fd_null opened_s s"
    and "handle_table (sys_mq_close sys_q) opened_q NULL_MQD_T"
    and "own_reachable (close_mq_d sys_q) NULL_MQD_T opened_q q"
  shows "own_inv unique_socket_fd_null opened_s s \<and> own_inv NULL_MQD_T opened_q q"
  using socket_policy.reachable_inv [OF assms(1,2)] mq_policy.reachable_inv [OF assms(3,4)] by blast

theorem other_owners_invariant_witness:
  "own_inv unique_socket_fd_null (\<lambda>k. k - {unique_socket_fd_null}) (demo_owner (Socket_fd 3)) \<and>
   own_inv NULL_MQD_T (\<lambda>k. k - {NULL_MQD_T}) (demo_closed 5 NULL_MQD_T)"
proof -
  have "own_reachable (close_socket demo_socket_posix) unique_socket_fd_null
      (\<lambda>k. k - {unique_socket_fd_null}) (demo_owner (Socket_fd 3))"
    by (rule demo_reachable(1))
      (simp_all add: close_socket_def demo_socket_posix_def unique_socket_fd_null_def)
  moreover have "own_reachable (close_mq_d demo_mq_posix) NULL_MQD_T (\<lambda>k. k - {NULL_MQD_T})
      (demo_closed 5 NULL_MQD_T)"
    by (rule demo_reachable(2)) (simp_all add: close_mq_d_def demo_mq_posix_def NULL_MQD_T_def)
  ultimately show ?thesis
    by (rule other_owners_invariant [OF demo_socket_table _ demo_mq_table])
qed


lemma demo_reliable:
  "reliable_close (\<lambda>fd. sys_close demo_socket_posix (socket_fd_value fd)) (\<lambda>k. k - {unique_socket_fd_null})"
  "reliable_close (sys_mq_close demo_mq_posix) (\<lambda>k. k - {NULL_MQD_T})"
  "reliable_close (\<lambda>fd. sys_close demo_epoll_posix (raw_fd_value fd)) (\<lambda>k. k - {file_descriptor_null})"
  using reliable_table_close [of unique_socket_fd_null] reliable_table_close [of NULL_MQD_T]
    reliable_table_close [of file_descriptor_null]
  by (simp_all add: demo_socket_posix_def demo_mq_posix_def demo_epoll_posix_def)


text \<open>
  C30.  Programs of message queues that are opened without \<open>O_CREAT\<close> can be wound down in every
  state they reach: they hold finitely many objects, and destroying these, in any order and
  whatever was opened, sent, received, moved or failed before, leaves no object and exactly the
  descriptors open that were open at the start, provided \<open>mq_close\<close> does not fail on open descriptors.
\<close>

theorem mq_programs_wind_down:
  assumes "documented_mq_calls hdr sys opened" and "reliable_close (sys_mq_close sys) opened"
    and "object_reachable (mq_class hdr sys) w s"
  shows "finite (dom (instances s)) \<and>
    (\<forall>is. dom (instances s) \<subseteq> set is \<longrightarrow>
       instances (destroy_objects (mq_class hdr sys) is s) = Map.empty \<and>
       opened (kernel_of (system (destroy_objects (mq_class hdr sys) is s))) = opened (kernel_of w))"
  using mq_owner.object_program_winds_down [OF assms] by (simp add: winds_down_def)

lemma demo_mq_calls: "documented_mq_calls hdr demo_mq_posix (\<lambda>k. k - {NULL_MQD_T})"
  using demo_mq_table demo_mq_opens
  by (simp add: documented_mq_calls_def keeps_handles_def demo_mq_posix_def stub_posix_def fail_with_def)

lemma demo_mq_run:
  "object_reachable (mq_class demo_mq_headers demo_mq_posix) (table_world {})
     \<lparr>instances = [0 \<mapsto> mq_of 5], system = (table_world {5})\<lparr>errno_of := 9\<rparr>\<rparr>"
proof (rule object_reachable.step [OF object_reachable.start])
  let ?m = "mq_open_mode demo_mq_posix ''/queue'' (Exclusive_enum_flag (Mq_mode 2))"
  have "run_state ?m (table_world {}) = (Value (mq_of 5), (table_world {5})\<lparr>errno_of := 9\<rparr>)"
    by (simp add: mq_open_eqs run_simps close_mq_d_def demo_mq_posix_def table_world_def NULL_MQD_T_def)
  moreover have "mq_opens demo_mq_headers demo_mq_posix ?m"
    by (rule mq_opens.intros(2)) (simp add: demo_mq_headers_def)
  ultimately show "object_step (mq_class demo_mq_headers demo_mq_posix) (object_start (table_world {}))
      \<lparr>instances = [0 \<mapsto> mq_of 5], system = (table_world {5})\<lparr>errno_of := 9\<rparr>\<rparr>"
    using object_step.opens [of "object_start (table_world {})" 0 "mq_class demo_mq_headers demo_mq_posix" ?m]
    by (simp add: object_start_def mq_class_def)
qed

theorem mq_programs_wind_down_witness:
  "instances (destroy_objects (mq_class demo_mq_headers demo_mq_posix) [0]
     \<lparr>instances = [0 \<mapsto> mq_of 5], system = (table_world {5})\<lparr>errno_of := 9\<rparr>\<rparr>) = Map.empty"
  using mq_programs_wind_down [OF demo_mq_calls demo_reliable(2) demo_mq_run] by simp

end
